(* ===== verification/Go_Prelude.thy ===== *)
theory Go_Prelude
  imports Main
begin

text \<open>
  The part of the Go language and its standard library that the operator's code uses and
  that is shared by every component: string helpers of package \<open>strings\<close>, string-keyed
  maps with Go's zero-value reads, saturating time differences, and the collections the
  component proofs draw on.

  Go strings are byte strings, so \<open>string\<close> (a list of bytes) with \<open>length\<close> is the
  model of \<open>string\<close> with \<open>len\<close>. A \<open>map[string]string\<close> is an association
  list; a read of an absent key gives the empty string, as in Go. \<open>int32\<close> and
  \<open>int64\<close> fields that are only stored and compared are mathematical integers.
\<close>

named_theorems io_simps \<open>unfolding rules of the effect combinators\<close>
named_theorems emits_intros \<open>introduction rules for the effect calculus\<close>
named_theorems keeps_intros \<open>introduction rules for frame properties of the in-memory object\<close>

section \<open>Strings\<close>

text \<open>\<open>strings.Join\<close>.\<close>

fun strings_join :: "string list \<Rightarrow> string \<Rightarrow> string" where
  "strings_join [] sep = []"
| "strings_join [x] sep = x"
| "strings_join (x # y # ys) sep = x @ sep @ strings_join (y # ys) sep"

text \<open>\<open>strings.TrimPrefix\<close> and \<open>strings.TrimSuffix\<close>: drop one occurrence, if there.\<close>

definition has_prefix :: "string \<Rightarrow> string \<Rightarrow> bool" where
  "has_prefix s p \<longleftrightarrow> take (length p) s = p"

definition trim_prefix :: "string \<Rightarrow> string \<Rightarrow> string" where
  "trim_prefix s p = (if has_prefix s p then drop (length p) s else s)"

definition has_suffix :: "string \<Rightarrow> string \<Rightarrow> bool" where
  "has_suffix s p \<longleftrightarrow> length p \<le> length s \<and> drop (length s - length p) s = p"

definition trim_suffix :: "string \<Rightarrow> string \<Rightarrow> string" where
  "trim_suffix s p = (if has_suffix s p then take (length s - length p) s else s)"

text \<open>\<open>strings.SplitSeq(s, ",")\<close>: the fields between commas, in order.\<close>

fun split_on :: "char \<Rightarrow> string \<Rightarrow> string list" where
  "split_on c [] = [[]]"
| "split_on c (x # xs) =
     (if x = c then [] # split_on c xs
      else (case split_on c xs of [] \<Rightarrow> [[x]] | f # fs \<Rightarrow> (x # f) # fs))"

text \<open>
  \<open>strings.TrimSpace\<close> on ASCII text: tab, newline, vertical tab, form feed, carriage
  return and space (namespace names are ASCII).
\<close>

definition is_space :: "char \<Rightarrow> bool" where
  "is_space c \<longleftrightarrow> (let n = (of_char c :: nat) in n = 32 \<or> (9 \<le> n \<and> n \<le> 13))"

definition trim_space :: "string \<Rightarrow> string" where
  "trim_space s = rev (dropWhile is_space (rev (dropWhile is_space s)))"

text \<open>\<open>fmt\<close>'s \<open>%d\<close> for the counters and integers the messages print.\<close>

fun show_nat :: "nat \<Rightarrow> string" where
  "show_nat n =
     (if n < 10 then [char_of (48 + n)] else show_nat (n div 10) @ [char_of (48 + n mod 10)])"

declare show_nat.simps [simp del]

definition show_int :: "int \<Rightarrow> string" where
  "show_int i = (if i < 0 then ''-'' @ show_nat (nat (- i)) else show_nat (nat i))"

text \<open>\<open>fmt\<close>'s \<open>%q\<close> on names (printable ASCII without quotes or backslashes).\<close>

definition quoted :: "string \<Rightarrow> string" where
  "quoted s = ''\"'' @ s @ ''\"''"

lemma split_on_not_Nil [simp]: "split_on c s \<noteq> []"
  by (induction s) (auto split: list.splits)

lemma split_on_no_sep: "c \<notin> set s \<Longrightarrow> split_on c s = [s]"
  by (induction s) auto

lemma strings_join_split_on: "strings_join (split_on c s) [c] = s"
proof (induction s)
  case Nil
  then show ?case by simp
next
  case (Cons x xs)
  obtain f fs where split: "split_on c xs = f # fs"
    using split_on_not_Nil by (cases "split_on c xs") blast+
  with Cons show ?case
    by (cases fs) (auto)
qed

lemma split_on_fields_no_sep: "f \<in> set (split_on c s) \<Longrightarrow> c \<notin> set f"
proof (induction s arbitrary: f)
  case Nil
  then show ?case by simp
next
  case (Cons x xs)
  then show ?case
    by (cases "split_on c xs") (auto split: if_splits)
qed

lemma trim_prefix_append [simp]: "trim_prefix (p @ s) p = s"
  by (simp add: trim_prefix_def has_prefix_def)

lemma trim_suffix_append [simp]: "trim_suffix (s @ p) p = s"
  by (simp add: trim_suffix_def has_suffix_def)

lemma length_trim_prefix: "length (trim_prefix s p) \<le> length s"
  by (simp add: trim_prefix_def)

section \<open>String-keyed maps\<close>

type_synonym smap = "(string \<times> string) list"

text \<open>The Go index expression \<open>m[k]\<close>: the zero value for an absent key.\<close>

definition smap_get :: "smap \<Rightarrow> string \<Rightarrow> string" where
  "smap_get m k = (case map_of m k of None \<Rightarrow> [] | Some v \<Rightarrow> v)"

text \<open>The assignment \<open>m[k] = v\<close>.\<close>

fun smap_put :: "smap \<Rightarrow> string \<Rightarrow> string \<Rightarrow> smap" where
  "smap_put [] k v = [(k, v)]"
| "smap_put ((k', v') # m) k v = (if k' = k then (k, v) # m else (k', v') # smap_put m k v)"

lemma map_of_smap_put: "map_of (smap_put m k v) = (map_of m)(k \<mapsto> v)"
  by (induction m k v rule: smap_put.induct) (auto simp: fun_eq_iff)

lemma smap_get_put [simp]: "smap_get (smap_put m k v) k' = (if k' = k then v else smap_get m k')"
  by (simp add: smap_get_def map_of_smap_put)

lemma smap_get_Nil [simp]: "smap_get [] k = []"
  by (simp add: smap_get_def)

lemma distinct_smap_put: "distinct (map fst m) \<Longrightarrow> distinct (map fst (smap_put m k v))"
proof (induction m k v rule: smap_put.induct)
  case (2 k' v' m k v)
  have "fst ` set (smap_put m k v) = insert k (fst ` set m)" for m :: smap
    by (induction m k v rule: smap_put.induct) auto
  with 2 show ?case by auto
qed simp

section \<open>Time\<close>

text \<open>
  A \<open>time.Time\<close> is the number of nanoseconds since Go's zero time, so \<open>IsZero\<close>
  is equality with 0. \<open>Time.Sub\<close> (and \<open>time.Since\<close>) saturates at the bounds of
  the 64-bit \<open>time.Duration\<close>.
\<close>

type_synonym gotime = int
type_synonym duration = int

definition time_sub :: "gotime \<Rightarrow> gotime \<Rightarrow> duration" where
  "time_sub t u = max (- (2 ^ 63)) (min (2 ^ 63 - 1) (t - u))"

definition second :: duration where "second = 1000000000"
definition minute :: duration where "minute = 60 * second"
definition hour :: duration where "hour = 60 * minute"

lemma duration_values: "second = 1000000000" "minute = 60000000000" "hour = 3600000000000"
  by (simp_all add: second_def minute_def hour_def)

lemma time_sub_less_hour: "time_sub t u < hour \<longleftrightarrow> t - u < hour"
  by (auto simp: time_sub_def duration_values)

section \<open>Lists\<close>

text \<open>The element a linear scan of a slice that keeps the last match ends with.\<close>

definition last_match :: "('a \<Rightarrow> 'b option) \<Rightarrow> 'a list \<Rightarrow> 'b option" where
  "last_match f xs = fold (\<lambda>x acc. case f x of None \<Rightarrow> acc | Some y \<Rightarrow> Some y) xs None"

lemma last_match_Nil [simp]: "last_match f [] = None"
  by (simp add: last_match_def)

lemma last_match_snoc [simp]:
  "last_match f (xs @ [x]) = (case f x of None \<Rightarrow> last_match f xs | Some y \<Rightarrow> Some y)"
  by (simp add: last_match_def split: option.splits)

lemma last_match_None_iff: "last_match f xs = None \<longleftrightarrow> list_all (\<lambda>x. f x = None) xs"
  by (induction xs rule: rev_induct) (auto split: option.splits)

lemma last_match_Some_in: "last_match f xs = Some y \<Longrightarrow> \<exists>x \<in> set xs. f x = Some y"
  by (induction xs rule: rev_induct) (auto split: option.splits)

lemma last_match_append:
  "last_match f (xs @ ys) =
     (case last_match f ys of None \<Rightarrow> last_match f xs | Some y \<Rightarrow> Some y)"
  by (induction ys rule: rev_induct)
     (auto simp flip: append_assoc split: option.splits)

end
