(* ===== verification/Json_Codec.thy ===== *)
theory Json_Codec
  imports Go_Prelude
begin

text \<open>
  The part of Go's \<open>encoding/json\<close> that \<open>akamaiobjstr/obj_storage.go\<close> uses: decoding a
  document of any shape into a struct of string fields, and encoding such a struct.
  \<open>json.Unmarshal\<close> first checks the whole document (\<open>parse_json\<close>), then assigns each
  member of the object to the field whose name it matches exactly or without regard to case;
  \<open>null\<close> assigns nothing, a value of another type is an error, unknown members are ignored.
  Strings are byte strings; bytes from 0x80 on are copied (the replacement of malformed UTF-8
  is not modelled, nor is the limit of 10000 on the nesting depth).
\<close>

section \<open>Documents\<close>

datatype json =
    JNull
  | JBool bool
  | JNumber string
  | JString string
  | JArray "json list"
  | JObject "(string \<times> json) list"

definition byte :: "char \<Rightarrow> nat" where
  "byte c = of_char c"

definition is_json_space :: "char \<Rightarrow> bool" where
  "is_json_space c \<longleftrightarrow> byte c \<in> {32, 9, 10, 13}"

definition skip_ws :: "string \<Rightarrow> string" where
  "skip_ws s = dropWhile is_json_space s"

definition is_digit :: "char \<Rightarrow> bool" where
  "is_digit c \<longleftrightarrow> 48 \<le> byte c \<and> byte c \<le> 57"

definition hex_value :: "char \<Rightarrow> nat option" where
  "hex_value c =
     (let n = byte c in
      if 48 \<le> n \<and> n \<le> 57 then Some (n - 48)
      else if 97 \<le> n \<and> n \<le> 102 then Some (n - 87)
      else if 65 \<le> n \<and> n \<le> 70 then Some (n - 55)
      else None)"

definition hex4 :: "char \<Rightarrow> char \<Rightarrow> char \<Rightarrow> char \<Rightarrow> nat option" where
  "hex4 a b c d =
     (case (hex_value a, hex_value b, hex_value c, hex_value d) of
        (Some w, Some x, Some y, Some z) \<Rightarrow> Some (((w * 16 + x) * 16 + y) * 16 + z)
      | _ \<Rightarrow> None)"

text \<open>UTF-8 encoding of a code point below 0x110000 (\<open>utf8.EncodeRune\<close>).\<close>

definition utf8 :: "nat \<Rightarrow> string" where
  "utf8 r =
     (if r < 128 then [char_of r]
      else if r < 2048 then [char_of (192 + r div 64), char_of (128 + r mod 64)]
      else if r < 65536 then
        [char_of (224 + r div 4096), char_of (128 + r div 64 mod 64), char_of (128 + r mod 64)]
      else [char_of (240 + r div 262144), char_of (128 + r div 4096 mod 64),
            char_of (128 + r div 64 mod 64), char_of (128 + r mod 64)])"

definition replacement_rune :: nat where "replacement_rune = 65533"
definition is_surrogate :: "nat \<Rightarrow> bool" where "is_surrogate r \<longleftrightarrow> 55296 \<le> r \<and> r < 57344"

definition decode_surrogates :: "nat \<Rightarrow> nat \<Rightarrow> nat option" where
  "decode_surrogates r1 r2 =
     (if 55296 \<le> r1 \<and> r1 < 56320 \<and> 56320 \<le> r2 \<and> r2 < 57344
      then Some ((r1 - 55296) * 1024 + (r2 - 56320) + 65536) else None)"

text \<open>The escape that starts a string, if it does: its code unit and what follows.\<close>

definition get_u4 :: "string \<Rightarrow> (nat \<times> string) option" where
  "get_u4 s =
     (case s of
        q # u # a # b # c # d # rest \<Rightarrow>
          if byte q = 92 \<and> byte u = 117 then map_option (\<lambda>r. (r, rest)) (hex4 a b c d) else None
      | _ \<Rightarrow> None)"

definition simple_escape :: "char \<Rightarrow> string option" where
  "simple_escape c =
     (let n = byte c in
      if n = 34 \<or> n = 92 \<or> n = 47 then Some [c]
      else if n = 98 then Some [char_of (8::nat)]
      else if n = 102 then Some [char_of (12::nat)]
      else if n = 110 then Some [char_of (10::nat)]
      else if n = 114 then Some [char_of (13::nat)]
      else if n = 116 then Some [char_of (9::nat)]
      else None)"

lemma get_u4_shorter: "get_u4 s = Some (r, rest) \<Longrightarrow> length rest < length s"
  by (auto simp: get_u4_def split: list.splits if_splits)

text \<open>The rest of a string literal after its opening quote: the value and what follows.\<close>

function parse_string :: "string \<Rightarrow> (string \<times> string) option" where
  "parse_string s =
     (case s of
        [] \<Rightarrow> None
      | c # cs \<Rightarrow>
          if byte c = 34 then Some ([], cs)
          else if byte c < 32 then None
          else if byte c = 92 then
            (case get_u4 s of
               Some (r, rest) \<Rightarrow>
                 if is_surrogate r then
                   (case get_u4 rest of
                      Some (r2, rest2) \<Rightarrow>
                        (case decode_surrogates r r2 of
                           Some p \<Rightarrow> map_option (\<lambda>(v, t). (utf8 p @ v, t)) (parse_string rest2)
                         | None \<Rightarrow> map_option (\<lambda>(v, t). (utf8 replacement_rune @ v, t)) (parse_string rest))
                    | None \<Rightarrow> map_option (\<lambda>(v, t). (utf8 replacement_rune @ v, t)) (parse_string rest))
                 else map_option (\<lambda>(v, t). (utf8 r @ v, t)) (parse_string rest)
             | None \<Rightarrow>
                 (case cs of
                    [] \<Rightarrow> None
                  | e # ds \<Rightarrow>
                      (case simple_escape e of
                         None \<Rightarrow> None
                       | Some x \<Rightarrow> map_option (\<lambda>(v, t). (x @ v, t)) (parse_string ds))))
          else map_option (\<lambda>(v, t). (c # v, t)) (parse_string cs))"
  by pat_completeness auto
termination
  by (relation "measure length") (auto dest!: get_u4_shorter)

declare parse_string.simps [simp del]

definition digits1 :: "string \<Rightarrow> (string \<times> string) option" where
  "digits1 s = (let d = takeWhile is_digit s in if d = [] then None else Some (d, dropWhile is_digit s))"

definition parse_int :: "string \<Rightarrow> (string \<times> string) option" where
  "parse_int s =
     (case s of
        [] \<Rightarrow> None
      | c # cs \<Rightarrow> if byte c = 48 then Some ([c], cs) else digits1 s)"

definition parse_frac :: "string \<Rightarrow> (string \<times> string) option" where
  "parse_frac s =
     (case s of
        c # cs \<Rightarrow> if byte c = 46 then map_option (\<lambda>(d, t). (c # d, t)) (digits1 cs) else Some ([], s)
      | [] \<Rightarrow> Some ([], []))"

definition parse_exp :: "string \<Rightarrow> (string \<times> string) option" where
  "parse_exp s =
     (case s of
        c # cs \<Rightarrow>
          if byte c = 101 \<or> byte c = 69 then
            (case cs of
               d # ds \<Rightarrow> if byte d = 43 \<or> byte d = 45
                 then map_option (\<lambda>(x, t). (c # d # x, t)) (digits1 ds)
                 else map_option (\<lambda>(x, t). (c # x, t)) (digits1 cs)
             | [] \<Rightarrow> None)
          else Some ([], s)
      | [] \<Rightarrow> Some ([], []))"

definition parse_number :: "string \<Rightarrow> (string \<times> string) option" where
  "parse_number s =
     (let (sign, s1) = (case s of c # cs \<Rightarrow> if byte c = 45 then ([c], cs) else ([], s) | [] \<Rightarrow> ([], []))
      in case parse_int s1 of
           None \<Rightarrow> None
         | Some (i, s2) \<Rightarrow>
             (case parse_frac s2 of
                None \<Rightarrow> None
              | Some (f, s3) \<Rightarrow> map_option (\<lambda>(e, t). (sign @ i @ f @ e, t)) (parse_exp s3)))"

definition parse_literal :: "string \<Rightarrow> (json \<times> string) option" where
  "parse_literal s =
     (if has_prefix s ''null'' then Some (JNull, drop 4 s)
      else if has_prefix s ''true'' then Some (JBool True, drop 4 s)
      else if has_prefix s ''false'' then Some (JBool False, drop 5 s)
      else map_option (\<lambda>(n, t). (JNumber n, t)) (parse_number s))"

text \<open>
  Values, elements and members; every recursive call is on a shorter input with one unit less
  of fuel, so fuel above the length of the input never runs out.
\<close>

fun parse_value :: "nat \<Rightarrow> string \<Rightarrow> (json \<times> string) option"
  and parse_elements :: "nat \<Rightarrow> string \<Rightarrow> (json list \<times> string) option"
  and parse_members :: "nat \<Rightarrow> string \<Rightarrow> ((string \<times> json) list \<times> string) option" where
  "parse_value 0 s = None"
| "parse_value (Suc n) s =
     (case skip_ws s of
        [] \<Rightarrow> None
      | c # cs \<Rightarrow>
          if byte c = 34 then map_option (\<lambda>(v, t). (JString v, t)) (parse_string cs)
          else if byte c = 123 then
            (case skip_ws cs of
               d # ds \<Rightarrow> if byte d = 125 then Some (JObject [], ds)
                 else map_option (\<lambda>(ms, t). (JObject ms, t)) (parse_members n (d # ds))
             | [] \<Rightarrow> None)
          else if byte c = 91 then
            (case skip_ws cs of
               d # ds \<Rightarrow> if byte d = 93 then Some (JArray [], ds)
                 else map_option (\<lambda>(vs, t). (JArray vs, t)) (parse_elements n (d # ds))
             | [] \<Rightarrow> None)
          else parse_literal (c # cs))"
| "parse_elements 0 s = None"
| "parse_elements (Suc n) s =
     (case parse_value n s of
        None \<Rightarrow> None
      | Some (v, t) \<Rightarrow>
          (case skip_ws t of
             [] \<Rightarrow> None
           | c # cs \<Rightarrow>
               if byte c = 93 then Some ([v], cs)
               else if byte c = 44 then map_option (\<lambda>(vs, u). (v # vs, u)) (parse_elements n cs)
               else None))"
| "parse_members 0 s = None"
| "parse_members (Suc n) s =
     (case skip_ws s of
        [] \<Rightarrow> None
      | q # qs \<Rightarrow>
          if byte q \<noteq> 34 then None
          else (case parse_string qs of
             None \<Rightarrow> None
           | Some (k, t) \<Rightarrow>
               (case skip_ws t of
                  [] \<Rightarrow> None
                | c # cs \<Rightarrow>
                    if byte c \<noteq> 58 then None
                    else (case parse_value n cs of
                       None \<Rightarrow> None
                     | Some (v, u) \<Rightarrow>
                         (case skip_ws u of
                            [] \<Rightarrow> None
                          | d # ds \<Rightarrow>
                              if byte d = 125 then Some ([(k, v)], ds)
                              else if byte d = 44 then
                                map_option (\<lambda>(ms, x). ((k, v) # ms, x)) (parse_members n ds)
                              else None)))))"

definition parse_json :: "string \<Rightarrow> json option" where
  "parse_json s =
     (case parse_value (2 * length s + 2) s of
        None \<Rightarrow> None
      | Some (v, t) \<Rightarrow> if skip_ws t = [] then Some v else None)"

section \<open>Decoding into a struct of strings\<close>

definition lower :: "char \<Rightarrow> char" where
  "lower c = (if 65 \<le> byte c \<and> byte c \<le> 90 then char_of (byte c + 32) else c)"

definition same_field :: "string \<Rightarrow> string \<Rightarrow> bool" where
  "same_field k f \<longleftrightarrow> map lower k = map lower f"

text \<open>The field a key names: an exact match before one that differs in case.\<close>

definition field_of :: "string list \<Rightarrow> string \<Rightarrow> string option" where
  "field_of fields k =
     (if k \<in> set fields then Some k else find (\<lambda>f. same_field k f) fields)"

text \<open>\<open>None\<close> is the error of a value of the wrong type; fields never named stay empty.\<close>

fun decode_members :: "string list \<Rightarrow> (string \<times> json) list \<Rightarrow> smap \<Rightarrow> smap option" where
  "decode_members fields [] acc = Some acc"
| "decode_members fields ((k, v) # ms) acc =
     (case field_of fields k of
        None \<Rightarrow> decode_members fields ms acc
      | Some f \<Rightarrow>
          (case v of
             JString x \<Rightarrow> decode_members fields ms (smap_put acc f x)
           | JNull \<Rightarrow> decode_members fields ms acc
           | _ \<Rightarrow> None))"

definition unmarshal_strings :: "string list \<Rightarrow> string \<Rightarrow> smap option" where
  "unmarshal_strings fields body =
     (case parse_json body of
        Some (JObject ms) \<Rightarrow> decode_members fields ms []
      | Some JNull \<Rightarrow> Some []
      | _ \<Rightarrow> None)"

section \<open>Encoding\<close>

definition hex_digit :: "nat \<Rightarrow> char" where
  "hex_digit n = char_of (if n < 10 then 48 + n else 87 + n)"

definition encode_char :: "char \<Rightarrow> string" where
  "encode_char c =
     (let n = byte c in
      if n = 34 \<or> n = 92 then [char_of (92::nat), c]
      else if n = 8 then [char_of (92::nat), char_of (98::nat)]
      else if n = 12 then [char_of (92::nat), char_of (102::nat)]
      else if n = 10 then [char_of (92::nat), char_of (110::nat)]
      else if n = 13 then [char_of (92::nat), char_of (114::nat)]
      else if n = 9 then [char_of (92::nat), char_of (116::nat)]
      else if n < 32 \<or> n = 60 \<or> n = 62 \<or> n = 38 then
        [char_of (92::nat), char_of (117::nat), char_of (48::nat), char_of (48::nat),
         hex_digit (n div 16), hex_digit (n mod 16)]
      else [c])"

definition encode_string :: "string \<Rightarrow> string" where
  "encode_string s = char_of (34::nat) # concat (map encode_char s) @ [char_of (34::nat)]"

definition marshal_strings :: "(string \<times> string) list \<Rightarrow> string" where
  "marshal_strings fs =
     char_of (123::nat) #
       strings_join (map (\<lambda>(k, v). encode_string k @ [char_of (58::nat)] @ encode_string v) fs) '','' @
       [char_of (125::nat)]"

section \<open>Round trip\<close>

lemma byte_char_of [simp]: "n < 256 \<Longrightarrow> byte (char_of n) = n"
  by (simp add: byte_def)

lemma char_of_byte [simp]: "char_of (byte c) = c"
  by (simp add: byte_def)

lemma byte_less [simp]: "byte c < 256"
  by (metis byte_def char_of_char of_char_of mod_less_divisor zero_less_numeral)

lemma hex_value_digit: "k < 16 \<Longrightarrow> hex_value (hex_digit k) = Some k"
  by (auto simp: hex_value_def hex_digit_def Let_def)

lemma parse_string_char:
  assumes "parse_string rest = Some (v, t)"
  shows "parse_string (encode_char c @ rest) = Some (c # v, t)"
proof -
  let ?n = "byte c"
  have u4: "get_u4 (char_of (92::nat) # e # ds) = None" if "byte e \<noteq> 117" for e ds
    using that by (auto simp: get_u4_def split: list.splits)
  have escaped: "parse_string (char_of (92::nat) # e # rest) = Some (x @ v, t)"
    if "simple_escape e = Some x" "byte e \<noteq> 117" for e x
    using that assms u4 by (subst parse_string.simps) simp
  have unicode: "parse_string ([char_of (92::nat), char_of (117::nat), char_of (48::nat), char_of (48::nat),
      hex_digit (?n div 16), hex_digit (?n mod 16)] @ rest) = Some (c # v, t)" if "?n < 128"
  proof -
    have zero: "hex_value (char_of (48::nat)) = Some 0" by (simp add: hex_value_def)
    have "hex4 (char_of (48::nat)) (char_of (48::nat)) (hex_digit (?n div 16)) (hex_digit (?n mod 16)) = Some ?n"
      using that zero by (simp add: hex4_def hex_value_digit)
    then have "get_u4 ([char_of (92::nat), char_of (117::nat), char_of (48::nat), char_of (48::nat),
        hex_digit (?n div 16), hex_digit (?n mod 16)] @ rest) = Some (?n, rest)"
      by (simp add: get_u4_def)
    moreover have "\<not> is_surrogate ?n" using that by (simp add: is_surrogate_def)
    moreover have "utf8 ?n = [c]" using that by (simp add: utf8_def)
    ultimately show ?thesis
      using assms by (subst parse_string.simps) simp
  qed
  have plain: "parse_string (c # rest) = Some (c # v, t)" if "?n \<noteq> 34" "\<not> ?n < 32" "?n \<noteq> 92"
    using that assms by (subst parse_string.simps) simp
  consider "?n = 34 \<or> ?n = 92" | "?n = 8" | "?n = 12" | "?n = 10" | "?n = 13" | "?n = 9"
    | "?n < 32 \<or> ?n = 60 \<or> ?n = 62 \<or> ?n = 38" "?n \<notin> {34, 92, 8, 12, 10, 13, 9}"
    | "\<not> ?n < 32" "?n \<notin> {34, 92, 60, 62, 38}" by auto
  then show ?thesis
  proof cases
    case 1
    then show ?thesis
      using escaped [of c "[c]"] by (auto simp: encode_char_def simple_escape_def Let_def)
  next
    case 2
    then have "char_of (8::nat) = c" by (metis char_of_byte)
    with 2 show ?thesis
      using escaped [of "char_of (98::nat)" "[c]"] by (simp add: encode_char_def simple_escape_def Let_def)
  next
    case 3
    then have "char_of (12::nat) = c" by (metis char_of_byte)
    with 3 show ?thesis
      using escaped [of "char_of (102::nat)" "[c]"] by (simp add: encode_char_def simple_escape_def Let_def)
  next
    case 4
    then have "char_of (10::nat) = c" by (metis char_of_byte)
    with 4 show ?thesis
      using escaped [of "char_of (110::nat)" "[c]"] by (simp add: encode_char_def simple_escape_def Let_def)
  next
    case 5
    then have "char_of (13::nat) = c" by (metis char_of_byte)
    with 5 show ?thesis
      using escaped [of "char_of (114::nat)" "[c]"] by (simp add: encode_char_def simple_escape_def Let_def)
  next
    case 6
    then have "char_of (9::nat) = c" by (metis char_of_byte)
    with 6 show ?thesis
      using escaped [of "char_of (116::nat)" "[c]"] by (simp add: encode_char_def simple_escape_def Let_def)
  next
    case 7
    then show ?thesis using unicode by (auto simp: encode_char_def Let_def)
  next
    case 8
    then show ?thesis using plain by (auto simp: encode_char_def Let_def)
  qed
qed

lemma parse_string_encode:
  "parse_string (concat (map encode_char s) @ char_of (34::nat) # t) = Some (s, t)"
proof (induction s)
  case Nil
  show ?case by (subst parse_string.simps) simp
next
  case (Cons c s)
  from parse_string_char [OF this] show ?case by simp
qed

lemma skip_ws_Cons: "\<not> is_json_space c \<Longrightarrow> skip_ws (c # s) = c # s"
  by (simp add: skip_ws_def)

lemma punctuation_not_space [simp]:
  "\<not> is_json_space (char_of (34::nat))" "\<not> is_json_space (char_of (58::nat))"
  "\<not> is_json_space (char_of (44::nat))" "\<not> is_json_space (char_of (123::nat))"
  "\<not> is_json_space (char_of (125::nat))"
  by (simp_all add: is_json_space_def)

lemma parse_value_string: "parse_value (Suc n) (encode_string v @ t) = Some (JString v, t)"
  by (simp add: encode_string_def skip_ws_Cons parse_string_encode)

definition member_text :: "string \<times> string \<Rightarrow> string" where
  "member_text kv = (case kv of (k, v) \<Rightarrow> encode_string k @ [char_of (58::nat)] @ encode_string v)"

lemma comma: "'','' = [char_of (44::nat)]"
proof -
  have "(of_char (CHR '','') :: nat) = 44" by simp
  then show ?thesis by (metis char_of_char)
qed

lemma parse_members_last:
  "parse_members (Suc (Suc n)) (member_text (k, v) @ char_of (125::nat) # t) = Some ([(k, JString v)], t)"
  using parse_value_string [of n v "char_of (125::nat) # t"]
  by (subst parse_members.simps)
     (simp add: member_text_def encode_string_def [of k] skip_ws_Cons parse_string_encode
        del: parse_value.simps parse_members.simps)

lemma parse_members_more:
  "parse_members (Suc n) rest = Some (ms, t) \<Longrightarrow>
     parse_members (Suc (Suc n)) (member_text (k, v) @ char_of (44::nat) # rest) = Some ((k, JString v) # ms, t)"
  using parse_value_string [of n v "char_of (44::nat) # rest"]
  by (subst parse_members.simps)
     (simp add: member_text_def encode_string_def [of k] skip_ws_Cons parse_string_encode
        del: parse_value.simps parse_members.simps)

lemma parse_members_encode:
  assumes "fs \<noteq> []"
  shows "parse_members (Suc (length fs + n)) (strings_join (map member_text fs) '','' @ char_of (125::nat) # t) =
    Some (map (\<lambda>(k, v). (k, JString v)) fs, t)"
  using assms
proof (induction fs)
  case (Cons kv fs)
  obtain k v where kv: "kv = (k, v)" by fastforce
  show ?case
  proof (cases fs)
    case Nil
    with kv parse_members_last show ?thesis by (simp del: parse_members.simps)
  next
    case (Cons x xs)
    with Cons.IH have IH: "parse_members (Suc (length fs + n))
        (strings_join (map member_text fs) '','' @ char_of (125::nat) # t) =
        Some (map (\<lambda>(k, v). (k, JString v)) fs, t)" by blast
    have split: "strings_join (map member_text (kv # fs)) '','' @ char_of (125::nat) # t =
        member_text kv @ char_of (44::nat) # (strings_join (map member_text fs) '','' @ char_of (125::nat) # t)"
      by (simp add: Cons comma)
    show ?thesis
      unfolding split using parse_members_more [OF IH, of k v] by (simp add: kv del: parse_members.simps)
  qed
qed simp

lemma length_member_text: "length fs \<le> length (strings_join (map member_text fs) '','')"
proof (induction fs)
  case (Cons kv fs)
  have "Suc 0 \<le> length (member_text kv)" by (cases kv) (simp add: member_text_def encode_string_def)
  with Cons show ?case by (cases fs) simp_all
qed simp

lemma member_text_start:
  "fs \<noteq> [] \<Longrightarrow> \<exists>rest. strings_join (map member_text fs) '','' = char_of (34::nat) # rest"
  by (cases fs; cases "tl fs"; cases "hd fs") (auto simp: member_text_def encode_string_def)

text \<open>A document that \<open>json.Marshal\<close> produced parses to the object of its members.\<close>

lemma parse_marshal:
  assumes "fs \<noteq> []"
  shows "parse_json (marshal_strings fs) = Some (JObject (map (\<lambda>(k, v). (k, JString v)) fs))"
proof -
  let ?body = "strings_join (map member_text fs) '','' @ [char_of (125::nat)]"
  have doc: "marshal_strings fs = char_of (123::nat) # ?body"
  proof -
    have "member_text = (\<lambda>(k, v). encode_string k @ [char_of (58::nat)] @ encode_string v)"
      by (simp add: fun_eq_iff member_text_def)
    then show ?thesis by (simp add: marshal_strings_def)
  qed
  have len: "length fs + 1 \<le> length ?body" using length_member_text [of fs] by simp
  define m where "m = 2 * length (marshal_strings fs) - length fs"
  have fuel: "2 * length (marshal_strings fs) + 2 = Suc (Suc (length fs + m))"
    using len unfolding m_def doc by simp
  have members: "parse_members (Suc (length fs + m)) ?body = Some (map (\<lambda>(k, v). (k, JString v)) fs, [])"
    using parse_members_encode [OF assms, of m "[]"] by simp
  obtain rest where start: "?body = char_of (34::nat) # rest"
    using member_text_start [OF assms] by auto
  have "parse_value (Suc (Suc (length fs + m))) (marshal_strings fs) =
      Some (JObject (map (\<lambda>(k, v). (k, JString v)) fs), [])"
    unfolding doc using members start
    by (subst parse_value.simps) (simp add: skip_ws_Cons del: parse_members.simps)
  then show ?thesis
    unfolding parse_json_def fuel by (simp add: skip_ws_def del: parse_value.simps)
qed

lemma decode_marshal:
  "fst ` set fs \<subseteq> set fields \<Longrightarrow> distinct (map fst fs) \<Longrightarrow>
     decode_members fields (map (\<lambda>(k, v). (k, JString v)) fs) acc =
       Some (fold (\<lambda>(k, v) m. smap_put m k v) fs acc)"
  by (induction fs arbitrary: acc) (auto simp: field_of_def)

end
