(* ===== verification/Go_Error.thy ===== *)
theory Go_Error
  imports Go_Prelude
begin

text \<open>
  Go errors as values. \<open>fmt.Errorf\<close> with one \<open>%w\<close> verb is \<open>Errorf pre e post\<close>
  (the text before and after the wrapped error), \<open>fmt.Errorf\<close> and \<open>errors.New\<close>
  without \<open>%w\<close> are \<open>ErrorText\<close>, the package-level sentinels of the \<open>s3\<close> and
  \<open>akamaiobjstr\<close> packages are \<open>Sentinel\<close>. An error that comes back from an SDK is
  opaque: \<open>SdkErr\<close> holds exactly what \<open>errors.As\<close> and \<open>errors.Is\<close> can find in
  its chain. A Kubernetes client error is \<open>KubeErr\<close> with the reason that
  \<open>apierrors.IsNotFound\<close> and \<open>apierrors.IsConflict\<close> read.
\<close>

section \<open>Error values\<close>

datatype sentinel =
    S3ErrBucketNotOwned
  | AkamaiErrBucketNotOwned
  | ErrCredentialsSecretNotFound
  | ErrTokenSecretNotFound

record sdk_error =
  sdk_text :: string
  sdk_http_status :: "int option" \<comment> \<open>\<open>*awshttp.ResponseError\<close> and its status code\<close>
  sdk_api_code :: "string option" \<comment> \<open>\<open>smithy.APIError\<close> and its \<open>ErrorCode()\<close>\<close>
  sdk_not_found :: bool \<comment> \<open>\<open>*s3types.NotFound\<close>\<close>
  sdk_no_such_bucket :: bool \<comment> \<open>\<open>*s3types.NoSuchBucket\<close>\<close>
  sdk_no_such_key :: bool \<comment> \<open>\<open>*s3types.NoSuchKey\<close>\<close>
  sdk_no_such_entity :: bool \<comment> \<open>\<open>*iamtypes.NoSuchEntityException\<close>\<close>
  sdk_linode_code :: "int option" \<comment> \<open>\<open>*linodego.Error\<close> and its \<open>Code\<close>\<close>
  sdk_deadline :: bool \<comment> \<open>\<open>context.DeadlineExceeded\<close> in the chain\<close>

datatype kube_reason = KNotFound | KConflict | KOther

record kube_error =
  ke_reason :: kube_reason
  ke_text :: string
  ke_deadline :: bool

datatype gerror =
    Errorf string gerror string
  | ErrorText string
  | Sentinel sentinel
  | SdkErr sdk_error
  | KubeErr kube_error

primrec sentinel_text :: "sentinel \<Rightarrow> string" where
  "sentinel_text S3ErrBucketNotOwned = ''bucket already exists and is not owned by forge-operator''"
| "sentinel_text AkamaiErrBucketNotOwned = ''bucket already exists and is not owned by forge-operator''"
| "sentinel_text ErrCredentialsSecretNotFound = ''credentials secret not found''"
| "sentinel_text ErrTokenSecretNotFound = ''token secret not found''"

text \<open>\<open>err.Error()\<close>.\<close>

primrec err_text :: "gerror \<Rightarrow> string" where
  "err_text (Errorf pre e post) = pre @ err_text e @ post"
| "err_text (ErrorText s) = s"
| "err_text (Sentinel s) = sentinel_text s"
| "err_text (SdkErr e) = sdk_text e"
| "err_text (KubeErr e) = ke_text e"

section \<open>Walking the chain: \<open>errors.Is\<close> and \<open>errors.As\<close>\<close>

text \<open>Every \<open>%w\<close> wraps one error, so the chain ends in one leaf.\<close>

primrec err_leaf :: "gerror \<Rightarrow> gerror" where
  "err_leaf (Errorf pre e post) = err_leaf e"
| "err_leaf (ErrorText s) = ErrorText s"
| "err_leaf (Sentinel s) = Sentinel s"
| "err_leaf (SdkErr e) = SdkErr e"
| "err_leaf (KubeErr e) = KubeErr e"

definition errors_is :: "gerror \<Rightarrow> sentinel \<Rightarrow> bool" where
  "errors_is e s \<longleftrightarrow> err_leaf e = Sentinel s"

definition as_sdk :: "gerror \<Rightarrow> sdk_error option" where
  "as_sdk e = (case err_leaf e of SdkErr s \<Rightarrow> Some s | _ \<Rightarrow> None)"

definition is_deadline :: "gerror \<Rightarrow> bool" where
  "is_deadline e = (case err_leaf e of SdkErr s \<Rightarrow> sdk_deadline s | KubeErr k \<Rightarrow> ke_deadline k | _ \<Rightarrow> False)"

definition response_status :: "gerror \<Rightarrow> int option" where
  "response_status e = (case as_sdk e of None \<Rightarrow> None | Some s \<Rightarrow> sdk_http_status s)"

definition api_error_code :: "gerror \<Rightarrow> string option" where
  "api_error_code e = (case as_sdk e of None \<Rightarrow> None | Some s \<Rightarrow> sdk_api_code s)"

definition linode_code :: "gerror \<Rightarrow> int option" where
  "linode_code e = (case as_sdk e of None \<Rightarrow> None | Some s \<Rightarrow> sdk_linode_code s)"

definition is_s3_not_found :: "gerror \<Rightarrow> bool" where
  "is_s3_not_found e = (case as_sdk e of None \<Rightarrow> False | Some s \<Rightarrow> sdk_not_found s)"

definition is_no_such_bucket :: "gerror \<Rightarrow> bool" where
  "is_no_such_bucket e = (case as_sdk e of None \<Rightarrow> False | Some s \<Rightarrow> sdk_no_such_bucket s)"

definition is_no_such_key :: "gerror \<Rightarrow> bool" where
  "is_no_such_key e = (case as_sdk e of None \<Rightarrow> False | Some s \<Rightarrow> sdk_no_such_key s)"

definition is_no_such_entity :: "gerror \<Rightarrow> bool" where
  "is_no_such_entity e = (case as_sdk e of None \<Rightarrow> False | Some s \<Rightarrow> sdk_no_such_entity s)"

definition kube_reason_of :: "gerror \<Rightarrow> kube_reason option" where
  "kube_reason_of e = (case err_leaf e of KubeErr k \<Rightarrow> Some (ke_reason k) | _ \<Rightarrow> None)"

definition kube_not_found :: "gerror \<Rightarrow> bool" where
  "kube_not_found e \<longleftrightarrow> kube_reason_of e = Some KNotFound"

definition kube_conflict :: "gerror \<Rightarrow> bool" where
  "kube_conflict e \<longleftrightarrow> kube_reason_of e = Some KConflict"

text \<open>Wrapping is transparent to every query on the chain.\<close>

lemma errors_is_simps [simp]:
  "errors_is (Errorf pre e post) s = errors_is e s"
  "errors_is (ErrorText t) s = False"
  "errors_is (Sentinel s') s = (s' = s)"
  "errors_is (SdkErr x) s = False"
  "errors_is (KubeErr k) s = False"
  by (simp_all add: errors_is_def)

lemma as_sdk_simps [simp]:
  "as_sdk (Errorf pre e post) = as_sdk e"
  "as_sdk (ErrorText t) = None"
  "as_sdk (Sentinel s) = None"
  "as_sdk (SdkErr x) = Some x"
  "as_sdk (KubeErr k) = None"
  by (simp_all add: as_sdk_def)

lemma is_deadline_simps [simp]:
  "is_deadline (Errorf pre e post) = is_deadline e"
  "is_deadline (ErrorText t) = False"
  "is_deadline (Sentinel s) = False"
  "is_deadline (SdkErr x) = sdk_deadline x"
  "is_deadline (KubeErr k) = ke_deadline k"
  by (simp_all add: is_deadline_def)

lemma kube_reason_of_simps [simp]:
  "kube_reason_of (Errorf pre e post) = kube_reason_of e"
  "kube_reason_of (ErrorText t) = None"
  "kube_reason_of (Sentinel s) = None"
  "kube_reason_of (SdkErr x) = None"
  "kube_reason_of (KubeErr k) = Some (ke_reason k)"
  by (simp_all add: kube_reason_of_def)

lemma wrap_transparent [simp]:
  "response_status (Errorf pre e post) = response_status e"
  "api_error_code (Errorf pre e post) = api_error_code e"
  "linode_code (Errorf pre e post) = linode_code e"
  "kube_not_found (Errorf pre e post) = kube_not_found e"
  "kube_conflict (Errorf pre e post) = kube_conflict e"
  by (simp_all add: response_status_def api_error_code_def linode_code_def
      kube_not_found_def kube_conflict_def)

lemma errors_is_unique: "errors_is e s \<Longrightarrow> errors_is e s' \<Longrightarrow> s = s'"
  by (simp add: errors_is_def)

lemma sentinel_not_sdk: "errors_is e s \<Longrightarrow> as_sdk e = None \<and> \<not> is_deadline e"
  by (simp add: errors_is_def as_sdk_def is_deadline_def)

end
