(* ===== verification/Crd_Types.thy ===== *)
theory Crd_Types
  imports Go_Prelude
begin

text \<open>
  The \<open>Application\<close> custom resource of \<open>api/v1alpha1/application_types.go\<close>: one
  record per Go struct, one field per Go field. A pointer field is an \<open>option\<close> (nil is
  \<open>None\<close>), a slice whose nil and empty values the code tells apart is an \<open>option\<close> of a
  list, a string-typed enum stays a string because the code has branches for other values.
  Values of Kubernetes API types that the code only carries from the spec to a child object
  (probes, security contexts, resource quantities, TLS entries) hold the fields the code sets
  itself and one text for the rest.
\<close>

section \<open>Kubernetes values carried by the spec\<close>

datatype env_source =
    EnvLiteral string
  | EnvSecretKeyRef string string
  | EnvOtherSource string

record env_var =
  ev_name :: string
  ev_source :: env_source

datatype probe_handler = TcpSocketPort int | OtherHandler string

record probe =
  pr_handler :: probe_handler
  pr_initial_delay :: int
  pr_period :: int
  pr_timeout :: int
  pr_failure_threshold :: int
  pr_rest :: string

record pod_security_context =
  psc_run_as_non_root :: "bool option"
  psc_seccomp_type :: "string option"
  psc_rest :: string

record container_security_context =
  csc_run_as_non_root :: "bool option"
  csc_allow_privilege_escalation :: "bool option"
  csc_drop_capabilities :: "string list"
  csc_rest :: string

record resource_requirements =
  rr_requests :: smap
  rr_limits :: smap

datatype int_or_string = IntVal int | StringVal string

record ingress_tls =
  tls_hosts :: "string list"
  tls_secret_name :: string

section \<open>Spec\<close>

type_synonym storage_provider = string
type_synonym deletion_policy = string

definition DeletionPolicyDelete :: deletion_policy where
  "DeletionPolicyDelete = ''Delete''"

definition DeletionPolicyRetain :: deletion_policy where
  "DeletionPolicyRetain = ''Retain''"

definition ProviderAWSS3 :: storage_provider where
  "ProviderAWSS3 = ''AWS''"

definition ProviderAkamaiObjectStorage :: storage_provider where
  "ProviderAkamaiObjectStorage = ''Akamai''"

lemma provider_values:
  "ProviderAWSS3 = ''AWS''" "ProviderAkamaiObjectStorage = ''Akamai''"
  "DeletionPolicyDelete = ''Delete''" "DeletionPolicyRetain = ''Retain''"
  by (simp_all add: ProviderAWSS3_def ProviderAkamaiObjectStorage_def
      DeletionPolicyDelete_def DeletionPolicyRetain_def)

lemma provider_distinct [simp]:
  "ProviderAWSS3 \<noteq> ProviderAkamaiObjectStorage" "ProviderAkamaiObjectStorage \<noteq> ProviderAWSS3"
  "ProviderAWSS3 \<noteq> []" "ProviderAkamaiObjectStorage \<noteq> []"
  "DeletionPolicyRetain \<noteq> []" "DeletionPolicyDelete \<noteq> DeletionPolicyRetain"
  by (simp_all add: provider_values)

record container_spec =
  co_port :: int
  co_config_map_name :: string
  co_secret_name :: string
  co_config_mount_path :: string
  co_secret_mount_path :: string
  co_security_context :: "container_security_context option"
  co_liveness_probe :: "probe option"
  co_readiness_probe :: "probe option"
  co_startup_probe :: "probe option"

record config_spec =
  cf_name :: string
  cf_data :: smap

record service_spec =
  sv_type :: string
  sv_port :: int
  sv_target_port :: "int option"

record ingress_spec =
  in_host :: string
  in_path :: string
  in_path_type :: "string option"
  in_class_name :: "string option"
  in_annotations :: smap
  in_tls :: "ingress_tls list"

record pdb_spec =
  pd_min_available :: "int_or_string option"
  pd_max_unavailable :: "int_or_string option"

record autoscaling_spec =
  as_min_replicas :: int
  as_max_replicas :: int
  as_cpu_utilization :: "int option"

record service_account_spec =
  sa_name :: string
  sa_create :: "bool option"

record lifecycle_transition =
  lt_days :: int
  lt_storage_class :: string

record lifecycle_rule =
  lr_id :: string
  lr_enabled :: "bool option"
  lr_prefix :: string
  lr_expiration_days :: "int option"
  lr_noncurrent_version_expiration_days :: "int option"
  lr_abort_incomplete_multipart_upload_days :: "int option"
  lr_transitions :: "lifecycle_transition list"

record aws_storage_spec =
  aws_credentials_secret_ref :: string
  aws_versioning_enabled :: "bool option"
  aws_lifecycle_rules :: "lifecycle_rule list option"

record akamai_storage_spec =
  ak_access_key_secret_ref :: string
  ak_endpoint :: string
  ak_inject_credentials :: bool

record storage_spec =
  ss_provider :: storage_provider
  ss_bucket :: string
  ss_deletion_policy :: deletion_policy
  ss_region :: string
  ss_endpoint :: string
  ss_secret_name :: string
  ss_aws :: "aws_storage_spec option"
  ss_akamai :: "akamai_storage_spec option"

record application_spec =
  sp_image :: string
  sp_replicas :: "int option"
  sp_container :: container_spec
  sp_config_map :: "config_spec option"
  sp_service :: service_spec
  sp_ingress :: "ingress_spec option"
  sp_autoscaling :: "autoscaling_spec option"
  sp_pdb :: "pdb_spec option"
  sp_storage :: "storage_spec option"
  sp_service_account :: "service_account_spec option"
  sp_env :: "env_var list"
  sp_resources :: resource_requirements
  sp_pod_security_context :: "pod_security_context option"

section \<open>Status\<close>

text \<open>\<open>metav1.Condition\<close>; a condition status is \<open>"True"\<close>, \<open>"False"\<close> or \<open>"Unknown"\<close>.\<close>

record condition =
  cd_type :: string
  cd_status :: string
  cd_reason :: string
  cd_message :: string
  cd_observed_generation :: int
  cd_last_transition_time :: gotime

record aws_storage_status =
  aws_role_arn :: string
  aws_status_credentials_secret_ref :: string

record akamai_storage_status =
  ak_status_endpoint :: string
  ak_status_access_key_secret_ref :: string

record storage_status =
  st_provider :: storage_provider
  st_bucket :: string
  st_created :: bool
  st_created_at :: gotime
  st_region :: string
  st_secret_name :: string
  st_deletion_policy :: deletion_policy
  st_aws :: "aws_storage_status option"
  st_akamai :: "akamai_storage_status option"

record application_status =
  as_conditions :: "condition list"
  as_observed_generation :: int
  as_storage :: "storage_status option"

section \<open>The resource\<close>

record object_meta =
  md_name :: string
  md_namespace :: string
  md_uid :: string
  md_generation :: int
  md_deletion_timestamp :: "gotime option"
  md_finalizers :: "string list"
  md_annotations :: smap

record application =
  app_meta :: object_meta
  app_spec :: application_spec
  app_status :: application_status

text \<open>The promoted fields of the embedded \<open>ObjectMeta\<close>, and the paths the code writes.\<close>

abbreviation app_name :: "application \<Rightarrow> string" where
  "app_name a \<equiv> md_name (app_meta a)"

abbreviation app_namespace :: "application \<Rightarrow> string" where
  "app_namespace a \<equiv> md_namespace (app_meta a)"

abbreviation app_uid :: "application \<Rightarrow> string" where
  "app_uid a \<equiv> md_uid (app_meta a)"

abbreviation app_generation :: "application \<Rightarrow> int" where
  "app_generation a \<equiv> md_generation (app_meta a)"

abbreviation app_annotation :: "application \<Rightarrow> string \<Rightarrow> string" where
  "app_annotation a k \<equiv> smap_get (md_annotations (app_meta a)) k"

abbreviation app_storage :: "application \<Rightarrow> storage_spec option" where
  "app_storage a \<equiv> sp_storage (app_spec a)"

abbreviation app_status_storage :: "application \<Rightarrow> storage_status option" where
  "app_status_storage a \<equiv> as_storage (app_status a)"

definition set_spec_storage :: "storage_spec option \<Rightarrow> application \<Rightarrow> application" where
  "set_spec_storage s a = a\<lparr>app_spec := (app_spec a)\<lparr>sp_storage := s\<rparr>\<rparr>"

definition set_status_storage :: "storage_status option \<Rightarrow> application \<Rightarrow> application" where
  "set_status_storage s a = a\<lparr>app_status := (app_status a)\<lparr>as_storage := s\<rparr>\<rparr>"

definition set_conditions :: "condition list \<Rightarrow> application \<Rightarrow> application" where
  "set_conditions cs a = a\<lparr>app_status := (app_status a)\<lparr>as_conditions := cs\<rparr>\<rparr>"

lemma set_spec_storage_simps [simp]:
  "app_meta (set_spec_storage s a) = app_meta a"
  "app_status (set_spec_storage s a) = app_status a"
  "app_storage (set_spec_storage s a) = s"
  by (simp_all add: set_spec_storage_def)

lemma set_status_storage_simps [simp]:
  "app_meta (set_status_storage s a) = app_meta a"
  "app_spec (set_status_storage s a) = app_spec a"
  "app_status_storage (set_status_storage s a) = s"
  "as_conditions (app_status (set_status_storage s a)) = as_conditions (app_status a)"
  by (simp_all add: set_status_storage_def)

lemma set_conditions_simps [simp]:
  "app_meta (set_conditions cs a) = app_meta a"
  "app_spec (set_conditions cs a) = app_spec a"
  "app_status_storage (set_conditions cs a) = app_status_storage a"
  "as_conditions (app_status (set_conditions cs a)) = cs"
  by (simp_all add: set_conditions_def)

end
