(* ===== verification/Kube_Objects.thy ===== *)
theory Kube_Objects
  imports Crd_Types
begin

text \<open>
  The Kubernetes objects the operator applies, with the fields its builders populate, and the
  views of live objects its readiness checks read. Every applied object carries the UID of
  its controller owner reference (\<open>controllerutil.SetControllerReference\<close>), \<open>None\<close>
  before that call.
\<close>

section \<open>Applied objects\<close>

datatype kind =
    ServiceAccountKind
  | ConfigMapKind
  | SecretKind
  | ServiceKind
  | DeploymentKind
  | IngressKind
  | PdbKind
  | HpaKind

record child_meta =
  ch_name :: string
  ch_namespace :: string
  ch_labels :: smap
  ch_annotations :: smap
  ch_controller :: "string option"

record volume_mount =
  vm_name :: string
  vm_mount_path :: string
  vm_read_only :: bool

datatype volume_source = ConfigMapVolume string | SecretVolume string

record volume =
  vo_name :: string
  vo_source :: volume_source

record container =
  ct_name :: string
  ct_image :: string
  ct_port :: int
  ct_env :: "env_var list"
  ct_resources :: resource_requirements
  ct_volume_mounts :: "volume_mount list"
  ct_security_context :: container_security_context
  ct_liveness_probe :: probe
  ct_readiness_probe :: probe
  ct_startup_probe :: "probe option"

record pod_spec =
  ps_security_context :: pod_security_context
  ps_containers :: "container list"
  ps_volumes :: "volume list"
  ps_service_account_name :: string

record service_port =
  spt_name :: string
  spt_port :: int
  spt_target_port :: int

record ingress_rule =
  ir_host :: string
  ir_path :: string
  ir_path_type :: "string option"
  ir_backend_service :: string
  ir_backend_port :: int

datatype child_body =
    ServiceAccountBody
  | ConfigMapBody smap
  | SecretBody string smap \<comment> \<open>type and string data\<close>
  | ServiceBody string smap "service_port list" \<comment> \<open>type, selector, ports\<close>
  | DeploymentBody "int option" smap smap pod_spec \<comment> \<open>replicas, selector, template labels, pod\<close>
  | IngressBody "string option" "ingress_rule list" "ingress_tls list"
  | PdbBody smap "int_or_string option" "int_or_string option"
  | HpaBody string "int option" int int \<comment> \<open>scale target, minimum, maximum, CPU utilization\<close>

record child =
  child_meta :: child_meta
  child_body :: child_body

fun child_kind :: "child_body \<Rightarrow> kind" where
  "child_kind ServiceAccountBody = ServiceAccountKind"
| "child_kind (ConfigMapBody d) = ConfigMapKind"
| "child_kind (SecretBody t d) = SecretKind"
| "child_kind (ServiceBody t s p) = ServiceKind"
| "child_kind (DeploymentBody r s l p) = DeploymentKind"
| "child_kind (IngressBody c r t) = IngressKind"
| "child_kind (PdbBody s m u) = PdbKind"
| "child_kind (HpaBody t m x u) = HpaKind"

definition set_controller :: "string \<Rightarrow> child \<Rightarrow> child" where
  "set_controller uid c = c\<lparr>child_meta := (child_meta c)\<lparr>ch_controller := Some uid\<rparr>\<rparr>"

lemma set_controller_simps [simp]:
  "child_body (set_controller uid c) = child_body c"
  "ch_name (child_meta (set_controller uid c)) = ch_name (child_meta c)"
  "ch_namespace (child_meta (set_controller uid c)) = ch_namespace (child_meta c)"
  "ch_labels (child_meta (set_controller uid c)) = ch_labels (child_meta c)"
  "ch_annotations (child_meta (set_controller uid c)) = ch_annotations (child_meta c)"
  "ch_controller (child_meta (set_controller uid c)) = Some uid"
  by (simp_all add: set_controller_def)

section \<open>Views of live objects\<close>

text \<open>What a \<open>List\<close> of owned objects returns: the name and the controller's UID.\<close>

record listed =
  li_name :: string
  li_controller :: "string option"

record status_condition =
  sc_type :: string
  sc_status :: string
  sc_message :: string

record deployment_view =
  dv_generation :: int
  dv_observed_generation :: int
  dv_conditions :: "status_condition list"
  dv_spec_replicas :: "int option"
  dv_updated_replicas :: int
  dv_available_replicas :: int
  dv_ready_replicas :: int

record lb_ingress =
  lb_ip :: string
  lb_hostname :: string

record hpa_view =
  hv_generation :: int
  hv_observed_generation :: "int option"
  hv_conditions :: "status_condition list"
  hv_current_replicas :: int

record pdb_view =
  pv_disruptions_allowed :: int
  pv_current_healthy :: int
  pv_desired_healthy :: int

section \<open>Object storage values\<close>

type_synonym tag = "string \<times> string"
type_synonym object_id = "string \<times> string" \<comment> \<open>key and version ID\<close>
type_synonym upload = "string \<times> string" \<comment> \<open>key and upload ID\<close>

record version_page =
  vp_versions :: "object_id list"
  vp_delete_markers :: "object_id list"

record s3_lifecycle_rule =
  s3r_id :: string
  s3r_enabled :: bool
  s3r_prefix :: string
  s3r_expiration_days :: "int option"
  s3r_noncurrent_days :: "int option"
  s3r_abort_days :: "int option"
  s3r_transitions :: "(int \<times> string) list"

record linode_key =
  lk_id :: int
  lk_label :: string
  lk_access_key :: string
  lk_secret_key :: string

end
