(* ===== verification/Forge_World.thy ===== *)
theory Forge_World
  imports Go_Error Kube_Objects
begin

text \<open>
  Effects. The services the operator talks to (the Kubernetes API server through the
  controller-runtime client, AWS S3 and IAM, the Linode API and its S3-compatible endpoint)
  are not part of the repository, so they are a parameter of the model: an \<open>env\<close> holds, for
  every call the code makes, the response as a function of the whole history of calls before
  it. Nothing else is assumed of an environment unless a theorem says so, so a theorem without
  such a hypothesis holds whatever the services answer, including concurrent changes by others.

  A computation maps a \<open>world\<close> to a result (\<open>Inl\<close> an error) and the next world. The
  world holds the history (\<open>w_trace\<close>, oldest event first, each with its response) and the
  in-memory \<open>Application\<close> that the Go code passes around by pointer and mutates
  (\<open>w_app\<close>). A \<open>DeepCopy\<close> that code works on instead is \<open>with_app\<close>.
\<close>

section \<open>Events\<close>

text \<open>Calls of the Go interface \<open>S3API\<close>, with the construction of the client.\<close>

datatype s3_event =
    ClientBuilt string string "string option" \<comment> \<open>region, endpoint, static credentials Secret\<close>
  | HeadBucket string "gerror + unit"
  | CreateBucket string "string option" "gerror + unit"
  | GetBucketTagging string "gerror + tag list"
  | PutBucketTagging string "tag list" "gerror + unit"
  | PutBucketVersioning string bool "gerror + unit"
  | PutBucketLifecycle string "s3_lifecycle_rule list" "gerror + unit"
  | DeleteBucketLifecycle string "gerror + unit"
  | ListObjectVersions string nat "gerror + version_page"
  | DeleteObjects string "object_id list" "gerror + string list"
  | ListMultipartUploads string "gerror + upload list"
  | AbortMultipartUpload string upload "gerror + unit"
  | DeleteBucket string "gerror + unit"

text \<open>Calls of the Go interface \<open>IAMAPI\<close>.\<close>

datatype iam_event =
    GetRole string "gerror + string"
  | CreateRole string string string "gerror + string"
  | UpdateAssumeRolePolicy string string "gerror + unit"
  | PutRolePolicy string string string "gerror + unit"
  | DeleteRolePolicy string string "gerror + unit"
  | DeleteRole string "gerror + unit"

text \<open>Calls of the Go interfaces \<open>AKAMAIAPI\<close> and \<open>s3ObjectAPI\<close>.\<close>

datatype linode_event =
    LinodeClientBuilt string \<comment> \<open>the token Secret\<close>
  | GetObjectStorageBucket string string "gerror + string"
  | CreateObjectStorageBucket string string "gerror + string"
  | DeleteObjectStorageBucket string string "gerror + unit"
  | ListObjectStorageKeys "gerror + linode_key list"
  | CreateObjectStorageKey string string string "gerror + linode_key"
  | DeleteObjectStorageKey int "gerror + unit"
  | GetObject string string "gerror + (gerror + string)" \<comment> \<open>response, then the body or its read error\<close>
  | PutObject string string string "gerror + unit"
  | ListObjectsV2 string nat "gerror + string list"
  | DeleteObjectKeys string "string list" "gerror + string list"

text \<open>Calls of \<open>client.Client\<close>, its status writer and the uncached \<open>client.Reader\<close>.\<close>

datatype kube_event =
    GetApplication string string "gerror + application"
  | ApiReaderGetApplication string string "gerror + application"
  | ListApplications "string option" "gerror + application list"
  | Update application "gerror + application"
  | StatusUpdate application "gerror + application"
  | ApplyOwnershipID string string string "gerror + unit"
  | GetSecret string string "gerror + smap"
  | GetNamespace string "gerror + smap"
  | Apply child "gerror + unit"
  | Delete kind string string "gerror + unit"
  | ListChildren kind string smap "gerror + listed list"

datatype view_event =
    GetService string string "gerror + unit"
  | GetDeployment string string "gerror + deployment_view"
  | GetIngress string string "gerror + lb_ingress list option"
  | GetHpa string string "gerror + hpa_view"
  | GetPdb string string "gerror + pdb_view"

text \<open>The Prometheus series of \<open>observability/metrics.go\<close> that the code sets, by label values; an
  observation of a histogram is recorded without the time that was measured.\<close>

datatype metric =
    StorageReconcileTotal string string
  | StorageReadySet string string string int
  | StorageReadyDelete string string string
  | StorageBucketAdoptedTotal string
  | StorageOwnershipReclaimedTotal string
  | FinalizerCleanupTotal string string
  | ApplicationReadySet string string int
  | ApplicationReadyDelete string string
  | StorageReconcileDuration string
  | FinalizerCleanupDuration string
  | RateLimitWaitDuration string

datatype event =
    S3 s3_event
  | Iam iam_event
  | Linode linode_event
  | Kube kube_event
  | View view_event
  | Recorder string string string \<comment> \<open>type, reason, message\<close>
  | Metric metric

record world =
  w_trace :: "event list"
  w_app :: application

type_synonym history = "event list"
type_synonym 'a io = "world \<Rightarrow> (gerror + 'a) \<times> world"

section \<open>The environment\<close>

text \<open>
  One record per Go interface, one field per call; \<open>lib_api\<close> holds the library functions
  whose code is outside the repository: \<open>set_condition\<close> and \<open>remove_condition\<close>
  (\<open>apimachinery\<close>'s condition helpers, given the clock), \<open>retry_on_conflict\<close>
  (\<open>client-go\<close>'s \<open>retry.RetryOnConflict\<close> with \<open>DefaultRetry\<close>),
  \<open>set_controller_reference\<close> (its error), \<open>jitter\<close> (\<open>wait.Jitter\<close> with the
  operator's factor), \<open>uuid\<close>, \<open>now\<close> and \<open>load_aws_config\<close>. A paginator of the
  AWS SDK yields \<open>Suc n\<close> pages, \<open>n\<close> given by \<open>more_version_pages\<close> when it starts,
  unless a page fails.
\<close>

record lib_api =
  now :: "history \<Rightarrow> gotime"
  uuid :: "history \<Rightarrow> string"
  load_aws_config :: "history \<Rightarrow> string \<Rightarrow> gerror + unit"
  set_condition :: "gotime \<Rightarrow> condition list \<Rightarrow> condition \<Rightarrow> condition list \<times> bool"
  remove_condition :: "condition list \<Rightarrow> string \<Rightarrow> condition list"
  retry_on_conflict :: "unit io \<Rightarrow> unit io"
  set_controller_reference :: "application \<Rightarrow> child \<Rightarrow> gerror + unit"
  jitter :: "history \<Rightarrow> duration \<Rightarrow> duration"

record s3_api =
  head_bucket :: "history \<Rightarrow> string \<Rightarrow> gerror + unit"
  create_bucket :: "history \<Rightarrow> string \<Rightarrow> string option \<Rightarrow> gerror + unit"
  get_bucket_tagging :: "history \<Rightarrow> string \<Rightarrow> gerror + tag list"
  put_bucket_tagging :: "history \<Rightarrow> string \<Rightarrow> tag list \<Rightarrow> gerror + unit"
  put_bucket_versioning :: "history \<Rightarrow> string \<Rightarrow> bool \<Rightarrow> gerror + unit"
  put_bucket_lifecycle :: "history \<Rightarrow> string \<Rightarrow> s3_lifecycle_rule list \<Rightarrow> gerror + unit"
  delete_bucket_lifecycle :: "history \<Rightarrow> string \<Rightarrow> gerror + unit"
  more_version_pages :: "history \<Rightarrow> string \<Rightarrow> nat"
  list_object_versions :: "history \<Rightarrow> string \<Rightarrow> nat \<Rightarrow> gerror + version_page"
  delete_objects :: "history \<Rightarrow> string \<Rightarrow> object_id list \<Rightarrow> gerror + string list"
  list_multipart_uploads :: "history \<Rightarrow> string \<Rightarrow> gerror + upload list"
  abort_multipart_upload :: "history \<Rightarrow> string \<Rightarrow> upload \<Rightarrow> gerror + unit"
  delete_s3_bucket :: "history \<Rightarrow> string \<Rightarrow> gerror + unit"

record iam_api =
  get_role :: "history \<Rightarrow> string \<Rightarrow> gerror + string"
  create_role :: "history \<Rightarrow> string \<Rightarrow> string \<Rightarrow> string \<Rightarrow> gerror + string"
  update_assume_role_policy :: "history \<Rightarrow> string \<Rightarrow> string \<Rightarrow> gerror + unit"
  put_role_policy :: "history \<Rightarrow> string \<Rightarrow> string \<Rightarrow> string \<Rightarrow> gerror + unit"
  delete_role_policy :: "history \<Rightarrow> string \<Rightarrow> string \<Rightarrow> gerror + unit"
  delete_role :: "history \<Rightarrow> string \<Rightarrow> gerror + unit"

record linode_api =
  get_object_storage_bucket :: "history \<Rightarrow> string \<Rightarrow> string \<Rightarrow> gerror + string"
  create_object_storage_bucket :: "history \<Rightarrow> string \<Rightarrow> string \<Rightarrow> gerror + string"
  delete_object_storage_bucket :: "history \<Rightarrow> string \<Rightarrow> string \<Rightarrow> gerror + unit"
  list_object_storage_keys :: "history \<Rightarrow> gerror + linode_key list"
  create_object_storage_key :: "history \<Rightarrow> string \<Rightarrow> string \<Rightarrow> string \<Rightarrow> gerror + linode_key"
  delete_object_storage_key :: "history \<Rightarrow> int \<Rightarrow> gerror + unit"
  get_object :: "history \<Rightarrow> string \<Rightarrow> string \<Rightarrow> gerror + (gerror + string)"
  put_object :: "history \<Rightarrow> string \<Rightarrow> string \<Rightarrow> string \<Rightarrow> gerror + unit"
  more_object_pages :: "history \<Rightarrow> string \<Rightarrow> nat"
  list_objects_v2 :: "history \<Rightarrow> string \<Rightarrow> nat \<Rightarrow> gerror + string list"
  delete_object_keys :: "history \<Rightarrow> string \<Rightarrow> string list \<Rightarrow> gerror + string list"

record kube_api =
  get_application :: "history \<Rightarrow> string \<Rightarrow> string \<Rightarrow> gerror + application"
  api_get_application :: "history \<Rightarrow> string \<Rightarrow> string \<Rightarrow> gerror + application"
  list_applications :: "history \<Rightarrow> string option \<Rightarrow> gerror + application list"
  update_application :: "history \<Rightarrow> application \<Rightarrow> gerror + application"
  update_application_status :: "history \<Rightarrow> application \<Rightarrow> gerror + application"
  apply_ownership_id :: "history \<Rightarrow> string \<Rightarrow> string \<Rightarrow> string \<Rightarrow> gerror + unit"
  get_secret :: "history \<Rightarrow> string \<Rightarrow> string \<Rightarrow> gerror + smap"
  get_namespace :: "history \<Rightarrow> string \<Rightarrow> gerror + smap"
  apply_child :: "history \<Rightarrow> child \<Rightarrow> gerror + unit"
  delete_child :: "history \<Rightarrow> kind \<Rightarrow> string \<Rightarrow> string \<Rightarrow> gerror + unit"
  list_children :: "history \<Rightarrow> kind \<Rightarrow> string \<Rightarrow> smap \<Rightarrow> gerror + listed list"

record view_api =
  get_service :: "history \<Rightarrow> string \<Rightarrow> string \<Rightarrow> gerror + unit"
  get_deployment :: "history \<Rightarrow> string \<Rightarrow> string \<Rightarrow> gerror + deployment_view"
  get_ingress :: "history \<Rightarrow> string \<Rightarrow> string \<Rightarrow> gerror + lb_ingress list option"
  get_hpa :: "history \<Rightarrow> string \<Rightarrow> string \<Rightarrow> gerror + hpa_view"
  get_pdb :: "history \<Rightarrow> string \<Rightarrow> string \<Rightarrow> gerror + pdb_view"

record env =
  e_lib :: lib_api
  e_s3 :: s3_api
  e_iam :: iam_api
  e_linode :: linode_api
  e_kube :: kube_api
  e_view :: view_api

end
