(* ===== verification/Forge_IO.thy ===== *)
theory Forge_IO
  imports Forge_World
begin

text \<open>
  The effect combinators the operator's functions are written with, and two calculi over them:
  \<open>emits P m\<close> (every event \<open>m\<close> appends satisfies \<open>P\<close>) and \<open>keeps_app m\<close>
  (\<open>m\<close> leaves the in-memory object alone). Both have one introduction rule per combinator,
  collected in \<open>emits_intros\<close> and \<open>keeps_intros\<close>, so that a frame property of a
  handler is proved by its own structure.
\<close>

section \<open>Combinators\<close>

definition ret :: "'a \<Rightarrow> 'a io" where
  "ret x w = (Inr x, w)"

definition fail :: "gerror \<Rightarrow> 'a io" where
  "fail e w = (Inl e, w)"

text \<open>\<open>x, err := m; if err != nil { h } ; k\<close>.\<close>

definition handleIO :: "'a io \<Rightarrow> (gerror \<Rightarrow> 'b io) \<Rightarrow> ('a \<Rightarrow> 'b io) \<Rightarrow> 'b io" where
  "handleIO m h k w =
     (case m w of (Inl e, w') \<Rightarrow> h e w' | (Inr x, w') \<Rightarrow> k x w')"

text \<open>\<open>if err != nil { return err }\<close>.\<close>

definition bindIO :: "'a io \<Rightarrow> ('a \<Rightarrow> 'b io) \<Rightarrow> 'b io" where
  "bindIO m k = handleIO m fail k"

text \<open>\<open>if err != nil { return fmt.Errorf(pre + "%w", err) }\<close>.\<close>

definition wrapIO :: "string \<Rightarrow> 'a io \<Rightarrow> 'a io" where
  "wrapIO pre m = handleIO m (\<lambda>e. fail (Errorf pre e [])) ret"

text \<open>A call whose error is dropped after it was made (logged, or ignored).\<close>

definition ignoreIO :: "'a io \<Rightarrow> unit io" where
  "ignoreIO m = handleIO m (\<lambda>_. ret ()) (\<lambda>_. ret ())"

text \<open>\<open>defer d()\<close> around the rest of a function, for a \<open>d\<close> that cannot fail.\<close>

definition deferIO :: "unit io \<Rightarrow> 'a io \<Rightarrow> 'a io" where
  "deferIO d m = handleIO m (\<lambda>e. bindIO d (\<lambda>_. fail e)) (\<lambda>x. bindIO d (\<lambda>_. ret x))"

text \<open>Both outcomes as a value, for the code that keeps an error and goes on.\<close>

definition tryIO :: "'a io \<Rightarrow> (gerror + 'a) io" where
  "tryIO m = handleIO m (\<lambda>e. ret (Inl e)) (\<lambda>x. ret (Inr x))"

definition getApp :: "application io" where
  "getApp w = (Inr (w_app w), w)"

definition putApp :: "application \<Rightarrow> unit io" where
  "putApp a w = (Inr (), w\<lparr>w_app := a\<rparr>)"

definition modifyApp :: "(application \<Rightarrow> application) \<Rightarrow> unit io" where
  "modifyApp f w = (Inr (), w\<lparr>w_app := f (w_app w)\<rparr>)"

text \<open>Run on a \<open>DeepCopy\<close>: what the copy becomes is dropped, the events remain.\<close>

definition with_app :: "application \<Rightarrow> 'a io \<Rightarrow> 'a io" where
  "with_app a m w = (case m (w\<lparr>w_app := a\<rparr>) of (r, w') \<Rightarrow> (r, w'\<lparr>w_app := w_app w\<rparr>))"

text \<open>Read the environment at the current point of the history, without a call.\<close>

definition askEnv :: "(history \<Rightarrow> 'a) \<Rightarrow> 'a io" where
  "askEnv f w = (Inr (f (w_trace w)), w)"

definition emit :: "event \<Rightarrow> unit io" where
  "emit ev w = (Inr (), w\<lparr>w_trace := w_trace w @ [ev]\<rparr>)"

text \<open>A call of a service: the environment answers, the call and its answer are recorded.\<close>

definition call :: "(history \<Rightarrow> gerror + 'a) \<Rightarrow> (gerror + 'a \<Rightarrow> event) \<Rightarrow> 'a io" where
  "call resp ev w =
     (let r = resp (w_trace w) in (r, w\<lparr>w_trace := w_trace w @ [ev r]\<rparr>))"

definition whenIO :: "bool \<Rightarrow> unit io \<Rightarrow> unit io" where
  "whenIO b m = (if b then m else ret ())"

lemmas io_defs = ret_def fail_def handleIO_def bindIO_def wrapIO_def ignoreIO_def tryIO_def deferIO_def
  getApp_def putApp_def modifyApp_def with_app_def askEnv_def emit_def call_def whenIO_def

declare io_defs [io_simps]

lemma bindIO_ret [simp]: "bindIO (ret x) k = k x"
  by (simp add: fun_eq_iff io_simps)

lemma bindIO_fail [simp]: "bindIO (fail e) k = fail e"
  by (simp add: fun_eq_iff io_simps)

lemma bindIO_assoc: "bindIO (bindIO m k) l = bindIO m (\<lambda>x. bindIO (k x) l)"
  by (simp add: fun_eq_iff io_simps split: prod.splits sum.splits)

lemma bindIO_step: "m w = (Inr x, w1) \<Longrightarrow> bindIO m k w = k x w1"
  by (simp add: bindIO_def handleIO_def)

lemma bindIO_ret_right: "bindIO m ret = m"
  by (auto simp: fun_eq_iff io_simps split: prod.splits sum.splits)

text \<open>Results of the combinators, for inverting a run that returned a given result.\<close>

lemma bindIO_Inr_iff:
  "bindIO m k w = (Inr y, w') \<longleftrightarrow> (\<exists>x w1. m w = (Inr x, w1) \<and> k x w1 = (Inr y, w'))"
  by (auto simp: bindIO_def handleIO_def fail_def split: prod.splits sum.splits)

lemma wrapIO_Inr_iff: "wrapIO p m w = (Inr y, w') \<longleftrightarrow> m w = (Inr y, w')"
  by (auto simp: wrapIO_def handleIO_def fail_def ret_def split: prod.splits sum.splits)

lemma wrapIO_Inl_iff:
  "wrapIO p m w = (Inl e, w') \<longleftrightarrow> (\<exists>e'. m w = (Inl e', w') \<and> e = Errorf p e' [])"
  by (auto simp: wrapIO_def handleIO_def fail_def ret_def split: prod.splits sum.splits)

lemma bindIO_Inl_iff:
  "bindIO m k w = (Inl e, w') \<longleftrightarrow>
     m w = (Inl e, w') \<or> (\<exists>x w1. m w = (Inr x, w1) \<and> k x w1 = (Inl e, w'))"
  by (auto simp: bindIO_def handleIO_def fail_def split: prod.splits sum.splits)

lemma handleIO_Inr_iff:
  "handleIO m h k w = (Inr y, w') \<longleftrightarrow>
     (\<exists>e w1. m w = (Inl e, w1) \<and> h e w1 = (Inr y, w')) \<or>
     (\<exists>x w1. m w = (Inr x, w1) \<and> k x w1 = (Inr y, w'))"
  by (auto simp: handleIO_def split: prod.splits sum.splits)

lemma snd_wrapIO [simp]: "snd (wrapIO p m w) = snd (m w)"
  by (simp add: wrapIO_def handleIO_def fail_def ret_def split: prod.splits sum.splits)

section \<open>What a computation appends\<close>

definition emits :: "(event \<Rightarrow> bool) \<Rightarrow> 'a io \<Rightarrow> bool" where
  "emits P m \<longleftrightarrow> (\<forall>w. \<exists>es. w_trace (snd (m w)) = w_trace w @ es \<and> list_all P es)"

text \<open>The events of a run, given the world before and after it.\<close>

definition new_events :: "world \<Rightarrow> world \<Rightarrow> event list" where
  "new_events w w' = drop (length (w_trace w)) (w_trace w')"

lemma emitsI: "(\<And>w. \<exists>es. w_trace (snd (m w)) = w_trace w @ es \<and> list_all P es) \<Longrightarrow> emits P m"
  by (simp add: emits_def)

lemma emits_new_events: "emits P m \<Longrightarrow> m w = (r, w') \<Longrightarrow> list_all P (new_events w w')"
  unfolding emits_def new_events_def by (metis append_eq_conv_conj snd_conv)

lemma emits_trace: "emits P m \<Longrightarrow> m w = (r, w') \<Longrightarrow> w_trace w' = w_trace w @ new_events w w'"
  unfolding emits_def new_events_def by (metis append_eq_conv_conj snd_conv)

lemma new_events_eq: "w_trace w' = w_trace w @ es \<Longrightarrow> new_events w w' = es"
  by (simp add: new_events_def)

lemma emits_mono: "emits P m \<Longrightarrow> (\<And>e. P e \<Longrightarrow> Q e) \<Longrightarrow> emits Q m"
  unfolding emits_def by (metis list_all_iff)

lemma emits_conj: "emits P m \<Longrightarrow> emits Q m \<Longrightarrow> emits (\<lambda>e. P e \<and> Q e) m"
  unfolding emits_def list_all_iff by (metis same_append_eq)

lemma emits_handleIO [emits_intros]:
  assumes "emits P m" and "\<And>e. emits P (h e)" and "\<And>x. emits P (k x)"
  shows "emits P (handleIO m h k)"
proof (rule emitsI)
  fix w
  obtain r w1 where m: "m w = (r, w1)" by fastforce
  with assms(1) obtain es where es: "w_trace w1 = w_trace w @ es" "list_all P es"
    unfolding emits_def by (metis snd_conv)
  have "\<exists>es'. w_trace (snd (handleIO m h k w)) = w_trace w1 @ es' \<and> list_all P es'"
    using assms(2,3) m unfolding emits_def by (cases r) (simp_all add: handleIO_def)
  with es show "\<exists>es. w_trace (snd (handleIO m h k w)) = w_trace w @ es \<and> list_all P es"
    by (metis append.assoc list_all_append)
qed

lemma emits_quiet [emits_intros]:
  "emits P (ret x)" "emits P (fail e)" "emits P getApp" "emits P (putApp a)"
  "emits P (modifyApp f)" "emits P (askEnv g)"
  by (simp_all add: emits_def io_simps)

lemma emits_bindIO [emits_intros]:
  "emits P m \<Longrightarrow> (\<And>x. emits P (k x)) \<Longrightarrow> emits P (bindIO m k)"
  by (auto simp: bindIO_def intro!: emits_intros)

lemma emits_wrapIO [emits_intros]: "emits P m \<Longrightarrow> emits P (wrapIO p m)"
  by (auto simp: wrapIO_def intro!: emits_intros)

lemma emits_ignoreIO [emits_intros]: "emits P m \<Longrightarrow> emits P (ignoreIO m)"
  by (auto simp: ignoreIO_def intro!: emits_intros)

lemma emits_deferIO [emits_intros]: "emits P d \<Longrightarrow> emits P m \<Longrightarrow> emits P (deferIO d m)"
  by (auto simp: deferIO_def intro!: emits_intros)

lemma emits_tryIO [emits_intros]: "emits P m \<Longrightarrow> emits P (tryIO m)"
  by (auto simp: tryIO_def intro!: emits_intros)

lemma emits_emit [emits_intros]: "P e \<Longrightarrow> emits P (emit e)"
  by (simp add: emits_def emit_def)

lemma emits_call [emits_intros]: "(\<And>r. P (ev r)) \<Longrightarrow> emits P (call resp ev)"
  by (simp add: emits_def call_def Let_def)

lemma emits_with_app [emits_intros]:
  assumes "emits P m"
  shows "emits P (with_app a m)"
proof (rule emitsI)
  fix w
  obtain r w1 where m: "m (w\<lparr>w_app := a\<rparr>) = (r, w1)" by fastforce
  with assms obtain es where "w_trace w1 = w_trace (w\<lparr>w_app := a\<rparr>) @ es" "list_all P es"
    unfolding emits_def by (metis snd_conv)
  with m show "\<exists>es. w_trace (snd (with_app a m w)) = w_trace w @ es \<and> list_all P es"
    by (simp add: with_app_def)
qed

lemma emits_whenIO [emits_intros]: "(b \<Longrightarrow> emits P m) \<Longrightarrow> emits P (whenIO b m)"
  by (simp add: whenIO_def emits_intros)

lemma emits_if [emits_intros]:
  "(b \<Longrightarrow> emits P m) \<Longrightarrow> (\<not> b \<Longrightarrow> emits P n) \<Longrightarrow> emits P (if b then m else n)"
  by simp

lemma emits_case_option [emits_intros]:
  "(x = None \<Longrightarrow> emits P m) \<Longrightarrow> (\<And>y. x = Some y \<Longrightarrow> emits P (k y)) \<Longrightarrow>
     emits P (case x of None \<Rightarrow> m | Some y \<Rightarrow> k y)"
  by (cases x) simp_all

lemma emits_case_sum [emits_intros]:
  "(\<And>e. emits P (h e)) \<Longrightarrow> (\<And>y. emits P (k y)) \<Longrightarrow>
     emits P (case x of Inl e \<Rightarrow> h e | Inr y \<Rightarrow> k y)"
  by (cases x) simp_all

lemma emits_case_prod [emits_intros]:
  "(\<And>a b. emits P (f a b)) \<Longrightarrow> emits P (case x of (a, b) \<Rightarrow> f a b)"
  by (cases x) simp

lemma emits_let [emits_intros]: "(\<And>x. emits P (f x)) \<Longrightarrow> emits P (let x = t in f x)"
  by (simp add: Let_def)

section \<open>Frame of the in-memory object\<close>

definition keeps_app :: "'a io \<Rightarrow> bool" where
  "keeps_app m \<longleftrightarrow> (\<forall>w. w_app (snd (m w)) = w_app w)"

lemma keeps_appD: "keeps_app m \<Longrightarrow> m w = (r, w') \<Longrightarrow> w_app w' = w_app w"
  unfolding keeps_app_def by (metis snd_conv)

lemma keeps_handleIO [keeps_intros]:
  "keeps_app m \<Longrightarrow> (\<And>e. keeps_app (h e)) \<Longrightarrow> (\<And>x. keeps_app (k x)) \<Longrightarrow> keeps_app (handleIO m h k)"
  by (auto simp: keeps_app_def handleIO_def split: prod.splits sum.splits) (metis snd_conv)+

lemma keeps_quiet [keeps_intros]:
  "keeps_app (ret x)" "keeps_app (fail e)" "keeps_app getApp" "keeps_app (askEnv g)"
  "keeps_app (emit ev)" "keeps_app (call resp mk)" "keeps_app (with_app a m)"
  by (simp_all add: keeps_app_def io_simps Let_def split: prod.splits)

lemma keeps_bindIO [keeps_intros]:
  "keeps_app m \<Longrightarrow> (\<And>x. keeps_app (k x)) \<Longrightarrow> keeps_app (bindIO m k)"
  by (auto simp: bindIO_def intro!: keeps_intros)

lemma keeps_wrapIO [keeps_intros]: "keeps_app m \<Longrightarrow> keeps_app (wrapIO p m)"
  by (auto simp: wrapIO_def intro!: keeps_intros)

lemma keeps_ignoreIO [keeps_intros]: "keeps_app m \<Longrightarrow> keeps_app (ignoreIO m)"
  by (auto simp: ignoreIO_def intro!: keeps_intros)

lemma keeps_tryIO [keeps_intros]: "keeps_app m \<Longrightarrow> keeps_app (tryIO m)"
  by (auto simp: tryIO_def intro!: keeps_intros)

lemma keeps_whenIO [keeps_intros]: "(b \<Longrightarrow> keeps_app m) \<Longrightarrow> keeps_app (whenIO b m)"
  by (simp add: whenIO_def keeps_intros)

lemma keeps_if [keeps_intros]:
  "(b \<Longrightarrow> keeps_app m) \<Longrightarrow> (\<not> b \<Longrightarrow> keeps_app n) \<Longrightarrow> keeps_app (if b then m else n)"
  by simp

lemma keeps_case_option [keeps_intros]:
  "(x = None \<Longrightarrow> keeps_app m) \<Longrightarrow> (\<And>y. x = Some y \<Longrightarrow> keeps_app (k y)) \<Longrightarrow>
     keeps_app (case x of None \<Rightarrow> m | Some y \<Rightarrow> k y)"
  by (cases x) simp_all

lemma keeps_case_sum [keeps_intros]:
  "(\<And>e. keeps_app (h e)) \<Longrightarrow> (\<And>y. keeps_app (k y)) \<Longrightarrow>
     keeps_app (case x of Inl e \<Rightarrow> h e | Inr y \<Rightarrow> k y)"
  by (cases x) simp_all

lemma keeps_let [keeps_intros]: "(\<And>x. keeps_app (f x)) \<Longrightarrow> keeps_app (let x = t in f x)"
  by (simp add: Let_def)

section \<open>Computations that cannot fail\<close>

definition never_fails :: "'a io \<Rightarrow> bool" where
  "never_fails m \<longleftrightarrow> (\<forall>w. \<exists>x. fst (m w) = Inr x)"

named_theorems never_fails_intros "computations that cannot fail"

lemma never_failsD: "never_fails m \<Longrightarrow> m w = (r, w') \<Longrightarrow> \<exists>x. r = Inr x"
  unfolding never_fails_def by (metis fst_conv)

lemma never_fails_handleIO [never_fails_intros]:
  "(\<And>e. never_fails (h e)) \<Longrightarrow> (\<And>x. never_fails (k x)) \<Longrightarrow> never_fails (handleIO m h k)"
  by (auto simp: never_fails_def handleIO_def split: prod.splits sum.splits)

lemma never_fails_bindIO [never_fails_intros]:
  assumes "never_fails m" and "\<And>x. never_fails (k x)"
  shows "never_fails (bindIO m k)"
  unfolding never_fails_def
proof
  fix w
  obtain x w1 where "m w = (Inr x, w1)"
    using assms(1) unfolding never_fails_def by (metis prod.collapse)
  with assms(2) show "\<exists>y. fst (bindIO m k w) = Inr y"
    by (simp add: never_fails_def bindIO_def handleIO_def)
qed

lemma never_fails_quiet [never_fails_intros]:
  "never_fails (ret x)" "never_fails getApp" "never_fails (putApp a)" "never_fails (modifyApp f)"
  "never_fails (askEnv g)" "never_fails (emit ev)" "never_fails (ignoreIO m)" "never_fails (tryIO m)"
  by (simp_all add: never_fails_def io_simps split: prod.splits sum.splits)

lemma never_fails_whenIO [never_fails_intros]: "never_fails m \<Longrightarrow> never_fails (whenIO b m)"
  by (simp add: whenIO_def never_fails_intros)

lemma never_fails_if [never_fails_intros]:
  "never_fails m \<Longrightarrow> never_fails n \<Longrightarrow> never_fails (if b then m else n)"
  by simp

lemma never_fails_case_option [never_fails_intros]:
  "never_fails m \<Longrightarrow> (\<And>y. never_fails (k y)) \<Longrightarrow> never_fails (case x of None \<Rightarrow> m | Some y \<Rightarrow> k y)"
  by (cases x) simp_all

section \<open>Computations that always fail, and continuations of known results\<close>

definition always_fails :: "'a io \<Rightarrow> bool" where
  "always_fails m \<longleftrightarrow> (\<forall>w. \<exists>e. fst (m w) = Inl e)"

lemma always_failsD: "always_fails m \<Longrightarrow> m w = (r, w') \<Longrightarrow> \<exists>e. r = Inl e"
  unfolding always_fails_def by (metis fst_conv)

lemma always_fails_fail: "always_fails (fail e)"
  by (simp add: always_fails_def fail_def)

lemma always_fails_handleIO:
  assumes "\<And>e. always_fails (h e)" and "\<And>w x w'. m w = (Inr x, w') \<Longrightarrow> always_fails (k x)"
  shows "always_fails (handleIO m h k)"
  unfolding always_fails_def
proof
  fix w
  obtain r w1 where "m w = (r, w1)" by fastforce
  with assms show "\<exists>e. fst (handleIO m h k w) = Inl e"
    by (cases r) (auto simp: handleIO_def always_fails_def)
qed

lemma always_fails_bindIO:
  "(\<And>w x w'. m w = (Inr x, w') \<Longrightarrow> always_fails (k x)) \<Longrightarrow> always_fails (bindIO m k)"
  unfolding bindIO_def by (intro always_fails_handleIO always_fails_fail)

lemma always_fails_first: "always_fails m \<Longrightarrow> always_fails (bindIO m k)"
  by (intro always_fails_bindIO) (auto dest: always_failsD)

lemma always_fails_wrapIO:
  assumes "always_fails m"
  shows "always_fails (wrapIO p m)"
  unfolding wrapIO_def using assms
  by (intro always_fails_handleIO always_fails_fail) (auto dest: always_failsD)

lemma emits_handleIO_run:
  assumes "emits P m" and "\<And>e. emits P (h e)" and "\<And>w x w'. m w = (Inr x, w') \<Longrightarrow> emits P (k x)"
  shows "emits P (handleIO m h k)"
proof (rule emitsI)
  fix w
  obtain r w1 where m: "m w = (r, w1)" by fastforce
  with assms(1) obtain es where es: "w_trace w1 = w_trace w @ es" "list_all P es"
    unfolding emits_def by (metis snd_conv)
  have "\<exists>es'. w_trace (snd (handleIO m h k w)) = w_trace w1 @ es' \<and> list_all P es'"
    using assms(2) assms(3) [of w _ w1] m unfolding emits_def by (cases r) (simp_all add: handleIO_def)
  with es show "\<exists>es. w_trace (snd (handleIO m h k w)) = w_trace w @ es \<and> list_all P es"
    by (metis append.assoc list_all_append)
qed

lemma emits_bindIO_run:
  "emits P m \<Longrightarrow> (\<And>w x w'. m w = (Inr x, w') \<Longrightarrow> emits P (k x)) \<Longrightarrow> emits P (bindIO m k)"
  unfolding bindIO_def by (intro emits_handleIO_run emits_quiet)

end
