(* ===== verification/Go_Sha256.thy ===== *)
theory Go_Sha256
  imports Go_Prelude "HOL-Library.Word"
begin

text \<open>
  \<open>crypto/sha256.Sum256\<close> and \<open>encoding/hex.EncodeToString\<close>, the two standard-library
  functions \<open>naming.CloudResourceName\<close> takes its content hash from: the FIPS 180-4
  compression function on 32-bit words, the padding, and the lower-case hexadecimal digits.
  The lemmas bound the length of the digest's text, which the naming component needs.
\<close>

unbundle bit_operations_syntax

type_synonym u32 = "32 word"

section \<open>The compression function\<close>

definition rotr :: "nat \<Rightarrow> u32 \<Rightarrow> u32" where
  "rotr n x = drop_bit n x OR push_bit (32 - n) x"

definition ch :: "u32 \<Rightarrow> u32 \<Rightarrow> u32 \<Rightarrow> u32" where
  "ch x y z = (x AND y) XOR (NOT x AND z)"

definition maj :: "u32 \<Rightarrow> u32 \<Rightarrow> u32 \<Rightarrow> u32" where
  "maj x y z = (x AND y) XOR (x AND z) XOR (y AND z)"

definition big_sigma0 :: "u32 \<Rightarrow> u32" where
  "big_sigma0 x = rotr 2 x XOR rotr 13 x XOR rotr 22 x"

definition big_sigma1 :: "u32 \<Rightarrow> u32" where
  "big_sigma1 x = rotr 6 x XOR rotr 11 x XOR rotr 25 x"

definition small_sigma0 :: "u32 \<Rightarrow> u32" where
  "small_sigma0 x = rotr 7 x XOR rotr 18 x XOR drop_bit 3 x"

definition small_sigma1 :: "u32 \<Rightarrow> u32" where
  "small_sigma1 x = rotr 17 x XOR rotr 19 x XOR drop_bit 10 x"

text \<open>The tables of the standard, eight words to a number, the first word in front.\<close>

definition octet :: "int \<Rightarrow> u32 list" where
  "octet n = map (\<lambda>i. word_of_int (n div 4294967296 ^ (7 - i))) [0..<8]"

definition round_constants :: "u32 list" where
  "round_constants = concat (map octet
     [0x428a2f9871374491b5c0fbcfe9b5dba53956c25b59f111f1923f82a4ab1c5ed5,
      0xd807aa9812835b01243185be550c7dc372be5d7480deb1fe9bdc06a7c19bf174,
      0xe49b69c1efbe47860fc19dc6240ca1cc2de92c6f4a7484aa5cb0a9dc76f988da,
      0x983e5152a831c66db00327c8bf597fc7c6e00bf3d5a7914706ca635114292967,
      0x27b70a852e1b21384d2c6dfc53380d13650a7354766a0abb81c2c92e92722c85,
      0xa2bfe8a1a81a664bc24b8b70c76c51a3d192e819d6990624f40e3585106aa070,
      0x19a4c1161e376c082748774c34b0bcb5391c0cb34ed8aa4a5b9cca4f682e6ff3,
      0x748f82ee78a5636f84c878148cc7020890befffaa4506cebbef9a3f7c67178f2])"

definition initial_hash :: "u32 list" where
  "initial_hash = octet 0x6a09e667bb67ae853c6ef372a54ff53a510e527f9b05688c1f83d9ab5be0cd19"

text \<open>The message schedule, as the list of words so far, newest first.\<close>

fun schedule :: "nat \<Rightarrow> u32 list \<Rightarrow> u32 list" where
  "schedule 0 ws = ws"
| "schedule (Suc n) ws =
     schedule n ((small_sigma1 (ws ! 1) + ws ! 6 + small_sigma0 (ws ! 14) + ws ! 15) # ws)"

datatype sha_state = ShaState u32 u32 u32 u32 u32 u32 u32 u32

fun sha_round :: "sha_state \<Rightarrow> u32 \<times> u32 \<Rightarrow> sha_state" where
  "sha_round (ShaState a b c d e f g h) (k, w) =
     (let t1 = h + big_sigma1 e + ch e f g + k + w;
          t2 = big_sigma0 a + maj a b c
      in ShaState (t1 + t2) a b c (d + t1) e f g)"

fun sha_words :: "sha_state \<Rightarrow> u32 list" where
  "sha_words (ShaState a b c d e f g h) = [a, b, c, d, e, f, g, h]"

definition sha_block :: "sha_state \<Rightarrow> u32 list \<Rightarrow> sha_state" where
  "sha_block s ws =
     (case (s, fold (\<lambda>kw s. sha_round s kw) (zip round_constants (rev (schedule 48 (rev ws)))) s) of
        (ShaState a b c d e f g h, ShaState a' b' c' d' e' f' g' h') \<Rightarrow>
          ShaState (a + a') (b + b') (c + c') (d + d') (e + e') (f + f') (g + g') (h + h'))"

section \<open>Padding, blocks and the digest\<close>

definition length_bytes :: "int \<Rightarrow> int list" where
  "length_bytes n = map (\<lambda>i. (n div 256 ^ (7 - i)) mod 256) [0..<8]"

definition pad :: "int list \<Rightarrow> int list" where
  "pad bs = bs @ [128] @ replicate ((119 - length bs mod 64) mod 64) 0 @ length_bytes (8 * int (length bs))"

fun be_words :: "int list \<Rightarrow> u32 list" where
  "be_words (a # b # c # d # bs) =
     word_of_int (a * 16777216 + b * 65536 + c * 256 + d) # be_words bs"
| "be_words bs = []"

fun sha_blocks :: "nat \<Rightarrow> u32 list \<Rightarrow> sha_state \<Rightarrow> sha_state" where
  "sha_blocks 0 ws s = s"
| "sha_blocks (Suc n) ws s = sha_blocks n (drop 16 ws) (sha_block s (take 16 ws))"

definition sha256_words :: "string \<Rightarrow> u32 list" where
  "sha256_words s =
     (let ws = be_words (pad (map of_char s))
      in sha_words (sha_blocks (length ws div 16) ws
           (ShaState (initial_hash ! 0) (initial_hash ! 1) (initial_hash ! 2) (initial_hash ! 3)
                     (initial_hash ! 4) (initial_hash ! 5) (initial_hash ! 6) (initial_hash ! 7))))"

definition hex_digit :: "nat \<Rightarrow> char" where
  "hex_digit n = ''0123456789abcdef'' ! n"

definition hex_word :: "u32 \<Rightarrow> string" where
  "hex_word w = map (\<lambda>i. hex_digit (nat ((uint w div 16 ^ (7 - i)) mod 16))) [0..<8]"

text \<open>\<open>hex.EncodeToString(sum[:])\<close> for \<open>sum := sha256.Sum256([]byte(s))\<close>.\<close>

definition sha256_hex :: "string \<Rightarrow> string" where
  "sha256_hex s = concat (map hex_word (sha256_words s))"

lemma length_hex_word [simp]: "length (hex_word w) = 8"
  by (simp add: hex_word_def)

lemma length_sha_words [simp]: "length (sha_words s) = 8"
  by (cases s) simp

lemma length_concat_hex: "length (concat (map hex_word ws)) = 8 * length ws"
  by (induction ws) simp_all

lemma length_sha256_hex [simp]: "length (sha256_hex s) = 64"
  by (simp add: sha256_hex_def length_concat_hex sha256_words_def Let_def)

lemma hex_digit_not_dash: "n < 16 \<Longrightarrow> hex_digit n \<noteq> CHR ''-''"
proof -
  assume "n < 16"
  then have "hex_digit n \<in> set ''0123456789abcdef''"
    unfolding hex_digit_def by (intro nth_mem) simp
  then show ?thesis by auto
qed

lemma hex_word_no_dash: "CHR ''-'' \<notin> set (hex_word w)"
proof -
  have "hex_digit (nat (n mod 16)) \<noteq> CHR ''-''" for n
    by (rule hex_digit_not_dash) (simp add: nat_less_iff)
  then show ?thesis
    by (fastforce simp: hex_word_def)
qed

lemma sha256_hex_no_dash: "CHR ''-'' \<notin> set (sha256_hex s)"
  by (simp add: sha256_hex_def hex_word_no_dash)

end
