(* ===== verification/Naming.thy ===== *)
theory Naming
  imports Forge_IO Go_Sha256
begin

text \<open>
  \<open>internal/controller/naming/naming.go\<close>: the names of every object the operator creates,
  the annotations that steer bucket adoption, and the decision whether a bucket recorded as
  someone else's may be taken over (\<open>EvaluateBucketAdoption\<close>). The lemmas give the
  decision's exact condition, its effects (it only reads), and the length and collision
  behaviour of cloud-account-wide names.
\<close>

section \<open>Annotation keys\<close>

definition AdoptBucketAnnotation :: string where
  "AdoptBucketAnnotation = ''forge-operator.ningendo7.github.io/adopt-bucket''"

definition StorageOwnershipIDAnnotation :: string where
  "StorageOwnershipIDAnnotation = ''forge-operator.ningendo7.github.io/storage-ownership-id''"

definition AdoptBucketAnnotationValue :: string where
  "AdoptBucketAnnotationValue = ''true''"

definition AllowBucketAdoptionFromAnnotation :: string where
  "AllowBucketAdoptionFromAnnotation = ''forge.ningendo7.github.io/allow-bucket-adoption-from''"

lemma annotation_keys_distinct [simp]:
  "AdoptBucketAnnotation \<noteq> StorageOwnershipIDAnnotation"
  "StorageOwnershipIDAnnotation \<noteq> AdoptBucketAnnotation"
  by (simp_all add: AdoptBucketAnnotation_def StorageOwnershipIDAnnotation_def)

section \<open>Reads of the cluster\<close>

definition kube_list_applications :: "env \<Rightarrow> string option \<Rightarrow> application list io" where
  "kube_list_applications env ns =
     call (\<lambda>h. list_applications (e_kube env) h ns) (\<lambda>r. Kube (ListApplications ns r))"

definition kube_get_namespace :: "env \<Rightarrow> string \<Rightarrow> smap io" where
  "kube_get_namespace env ns =
     call (\<lambda>h. get_namespace (e_kube env) h ns) (\<lambda>r. Kube (GetNamespace ns r))"

definition kube_get_secret :: "env \<Rightarrow> string \<Rightarrow> string \<Rightarrow> smap io" where
  "kube_get_secret env ns name =
     call (\<lambda>h. get_secret (e_kube env) h ns name) (\<lambda>r. Kube (GetSecret ns name r))"

section \<open>Bucket adoption\<close>

definition ApplicationExistsWithUID :: "env \<Rightarrow> string \<Rightarrow> bool io" where
  "ApplicationExistsWithUID env uid =
     (if uid = [] then ret False
      else bindIO
        (wrapIO (''failed to list Applications while checking for UID '' @ uid @ '': '')
          (kube_list_applications env None))
        (\<lambda>items. ret (list_ex (\<lambda>a. app_uid a = uid) items)))"

text \<open>The grant carried by the previous owner's namespace, read for one adopting namespace.\<close>

definition grant_allows :: "string \<Rightarrow> string \<Rightarrow> bool" where
  "grant_allows grant adopting =
     (if grant = [] then False
      else if grant = ''*'' then True
      else list_ex (\<lambda>allowed. trim_space allowed = adopting) (split_on (CHR '','') grant))"

definition CrossNamespaceAdoptionAllowed :: "env \<Rightarrow> string \<Rightarrow> string \<Rightarrow> bool io" where
  "CrossNamespaceAdoptionAllowed env ownerNamespace adoptingNamespace =
     handleIO (kube_get_namespace env ownerNamespace)
       (\<lambda>err. if kube_not_found err then ret False
              else fail (Errorf (''failed to get namespace '' @ quoted ownerNamespace @
                '' while checking cross-namespace bucket adoption grant: '') err []))
       (\<lambda>annotations. ret (grant_allows
          (smap_get annotations AllowBucketAdoptionFromAnnotation) adoptingNamespace))"

definition EvaluateBucketAdoption :: "env \<Rightarrow> string \<Rightarrow> string \<Rightarrow> string \<Rightarrow> unit io" where
  "EvaluateBucketAdoption env ownerUID ownerNamespace adoptingNamespace =
     bindIO
       (wrapIO ''could not confirm the previous owner no longer exists: ''
         (ApplicationExistsWithUID env ownerUID))
       (\<lambda>exists.
         if exists then
           fail (ErrorText ''the Application that currently owns this bucket still exists'')
         else if ownerNamespace = [] then
           fail (ErrorText (''this bucket's ownership was recorded before namespace-scoped '' @
             ''adoption shipped; re-tag it manually before adopting''))
         else if ownerNamespace = adoptingNamespace then ret ()
         else bindIO
           (wrapIO ''could not verify cross-namespace bucket adoption grant: ''
             (CrossNamespaceAdoptionAllowed env ownerNamespace adoptingNamespace))
           (\<lambda>allowed.
             if allowed then ret ()
             else fail (ErrorText (''cross-namespace adoption ('' @ ownerNamespace @ '' -> '' @
               adoptingNamespace @ '') requires namespace '' @ quoted ownerNamespace @
               '' to carry the '' @ AllowBucketAdoptionFromAnnotation @ '' annotation naming '' @
               quoted adoptingNamespace))))"

text \<open>
  What the decision promises: every Application in the cluster was seen and none has the
  recorded UID (a recorded empty UID names nobody), the recorded namespace is known, and it is
  the adopter's own or its Namespace object, which exists, grants the adopter.
\<close>

definition adoption_permitted :: "env \<Rightarrow> history \<Rightarrow> string \<Rightarrow> string \<Rightarrow> string \<Rightarrow> bool" where
  "adoption_permitted env h ownerUID ownerNs myNs =
     (let apps = list_applications (e_kube env) h None;
          h' = (if ownerUID = [] then h else h @ [Kube (ListApplications None apps)])
      in (ownerUID = [] \<or> (case apps of Inl e \<Rightarrow> False | Inr as \<Rightarrow> list_all (\<lambda>a. app_uid a \<noteq> ownerUID) as)) \<and>
         ownerNs \<noteq> [] \<and>
         (ownerNs = myNs \<or>
          (case get_namespace (e_kube env) h' ownerNs of
             Inl e \<Rightarrow> False
           | Inr ann \<Rightarrow> grant_allows (smap_get ann AllowBucketAdoptionFromAnnotation) myNs)))"

definition is_kube_read :: "event \<Rightarrow> bool" where
  "is_kube_read e = (case e of
     Kube (ListApplications ns r) \<Rightarrow> True
   | Kube (GetNamespace ns r) \<Rightarrow> True
   | Kube (GetSecret ns n r) \<Rightarrow> True
   | _ \<Rightarrow> False)"

lemma is_kube_read_simps [simp]:
  "is_kube_read (Kube (ListApplications ns ra))"
  "is_kube_read (Kube (GetNamespace n rn))"
  "is_kube_read (Kube (GetSecret n s rs))"
  "\<not> is_kube_read (S3 se)" "\<not> is_kube_read (Linode le)" "\<not> is_kube_read (Iam ie)"
  by (simp_all add: is_kube_read_def)

lemma EvaluateBucketAdoption_reads [emits_intros]:
  assumes "\<And>e. is_kube_read e \<Longrightarrow> P e"
  shows "emits P (EvaluateBucketAdoption env uid ns my)"
  unfolding EvaluateBucketAdoption_def ApplicationExistsWithUID_def CrossNamespaceAdoptionAllowed_def
    kube_list_applications_def kube_get_namespace_def
  by (intro emits_intros assms) simp_all

lemma EvaluateBucketAdoption_keeps [keeps_intros]: "keeps_app (EvaluateBucketAdoption env uid ns my)"
  unfolding EvaluateBucketAdoption_def ApplicationExistsWithUID_def CrossNamespaceAdoptionAllowed_def
    kube_list_applications_def kube_get_namespace_def
  by (intro keeps_intros)

lemma EvaluateBucketAdoption_iff:
  "fst (EvaluateBucketAdoption env uid ns my w) = Inr () \<longleftrightarrow>
     adoption_permitted env (w_trace w) uid ns my"
  by (auto simp: EvaluateBucketAdoption_def ApplicationExistsWithUID_def adoption_permitted_def
      CrossNamespaceAdoptionAllowed_def kube_list_applications_def kube_get_namespace_def
      list_ex_iff list_all_iff io_simps Let_def split: sum.splits)

section \<open>Names of Kubernetes objects\<close>

definition service_name :: "application \<Rightarrow> string" where
  "service_name application = app_name application"

definition deployment_name :: "application \<Rightarrow> string" where
  "deployment_name application = app_name application @ ''-deployment''"

definition ingress_name :: "application \<Rightarrow> string" where
  "ingress_name application = app_name application"

definition hpa_name :: "application \<Rightarrow> string" where
  "hpa_name application = app_name application @ ''-hpa''"

definition pdb_name :: "application \<Rightarrow> string" where
  "pdb_name application = app_name application @ ''-pdb''"

definition AppConfigMap :: "application \<Rightarrow> string" where
  "AppConfigMap application =
     (case sp_config_map (app_spec application) of
        Some c \<Rightarrow> if cf_name c \<noteq> [] then cf_name c else app_name application @ ''-config''
      | None \<Rightarrow> app_name application @ ''-config'')"

definition StorageSecret :: "application \<Rightarrow> string" where
  "StorageSecret application =
     (case app_storage application of
        Some s \<Rightarrow> if ss_secret_name s \<noteq> [] then ss_secret_name s else app_name application @ ''-storage''
      | None \<Rightarrow> app_name application @ ''-storage'')"

definition AkamaiTokenSecret :: "application \<Rightarrow> string" where
  "AkamaiTokenSecret application =
     (case app_storage application of
        None \<Rightarrow> app_name application @ ''-akamai-token''
      | Some s \<Rightarrow>
          (case ss_akamai s of
             None \<Rightarrow> app_name application @ ''-akamai-token''
           | Some ak \<Rightarrow>
               if ak_access_key_secret_ref ak \<noteq> [] then ak_access_key_secret_ref ak
               else app_name application @ ''-akamai-token''))"

section \<open>Names of cloud resources\<close>

definition CloudResourceName :: "string list \<Rightarrow> int \<Rightarrow> string" where
  "CloudResourceName parts maxLen =
     (let full = strings_join parts ''-''
      in if int (length full) \<le> maxLen then full
         else let suffix = ''-'' @ take 8 (sha256_hex full);
                  keep = min (max (maxLen - int (length suffix)) 0) (int (length full))
              in take (nat keep) full @ suffix)"

lemma CloudResourceName_short:
  "int (length (strings_join parts ''-'')) \<le> maxLen \<Longrightarrow>
     CloudResourceName parts maxLen = strings_join parts ''-''"
  by (simp add: CloudResourceName_def Let_def)

lemma CloudResourceName_long:
  assumes "maxLen < int (length (strings_join parts ''-''))"
  shows "CloudResourceName parts maxLen =
    take (nat (maxLen - 9)) (strings_join parts ''-'') @ ''-'' @
      take 8 (sha256_hex (strings_join parts ''-''))"
proof -
  let ?full = "strings_join parts ''-''"
  have "min (max (maxLen - 9) 0) (int (length ?full)) = max (maxLen - 9) 0"
    using assms by simp
  moreover have "nat (max (maxLen - 9) 0) = nat (maxLen - 9)" by simp
  ultimately show ?thesis
    using assms by (simp add: CloudResourceName_def Let_def)
qed

lemma length_CloudResourceName_long:
  assumes "maxLen < int (length (strings_join parts ''-''))"
  shows "int (length (CloudResourceName parts maxLen)) = max maxLen 9"
  using assms by (simp add: CloudResourceName_long)

end
