(* ===== verification/Ownership.thy ===== *)
theory Ownership
  imports Naming
begin

text \<open>
  The contract of bucket ownership that both storage packages implement, stated once and
  independent of how a provider records the owner (bucket tags on AWS, a marker object on
  Akamai): \<open>claim_decision\<close> says what is to be done about a bucket that already exists,
  given who the bucket says it belongs to, and \<open>claim_protocol\<close> runs that decision over a
  provider's read and write of the record. \<open>S3_Manager\<close> and \<open>Akamai_Manager\<close> prove that the
  code's \<open>claimOrVerifyOwnership\<close> is this protocol over their own reads and writes, and
  interpret the locale \<open>ownership_store\<close>, whose lemmas give its safety. The second half
  is the order of events: \<open>guarded_trace\<close> says that no destructive call comes before the
  evidence that allows it.
\<close>

section \<open>Calls that change the cloud\<close>

fun s3_write :: "s3_event \<Rightarrow> bool" where
  "s3_write (ClientBuilt r e c) = False"
| "s3_write (HeadBucket b r) = False"
| "s3_write (GetBucketTagging b r) = False"
| "s3_write (ListObjectVersions b n r) = False"
| "s3_write (ListMultipartUploads b r) = False"
| "s3_write _ = True"

fun linode_write :: "linode_event \<Rightarrow> bool" where
  "linode_write (LinodeClientBuilt s) = False"
| "linode_write (GetObjectStorageBucket r b x) = False"
| "linode_write (ListObjectStorageKeys r) = False"
| "linode_write (GetObject b k r) = False"
| "linode_write (ListObjectsV2 b n r) = False"
| "linode_write _ = True"

text \<open>A call that changes a bucket or what is in it (not an access key or a role).\<close>

fun bucket_write :: "event \<Rightarrow> bool" where
  "bucket_write (S3 e) = s3_write e"
| "bucket_write (Linode (CreateObjectStorageKey l r b x)) = False"
| "bucket_write (Linode (DeleteObjectStorageKey i x)) = False"
| "bucket_write (Linode e) = linode_write e"
| "bucket_write _ = False"

text \<open>A call that destroys stored data or the bucket itself.\<close>

fun destroys :: "event \<Rightarrow> bool" where
  "destroys (S3 (DeleteObjects b os r)) = True"
| "destroys (S3 (AbortMultipartUpload b u r)) = True"
| "destroys (S3 (DeleteBucket b r)) = True"
| "destroys (Linode (DeleteObjectStorageBucket rg b r)) = True"
| "destroys (Linode (DeleteObjectKeys b ks r)) = True"
| "destroys _ = False"

text \<open>The service accepted the ownership record that the call wrote.\<close>

fun write_succeeded :: "event \<Rightarrow> bool" where
  "write_succeeded (S3 (PutBucketTagging b ts r)) = (r = Inr ())"
| "write_succeeded (Linode (PutObject b k v r)) = (r = Inr ())"
| "write_succeeded _ = False"

lemma destroys_is_write: "destroys e \<Longrightarrow> bucket_write e"
  by (induction e rule: destroys.induct) simp_all

lemma kube_read_not_write: "is_kube_read e \<Longrightarrow> \<not> bucket_write e"
  by (auto simp: is_kube_read_def split: event.splits kube_event.splits)

section \<open>Who owns a bucket\<close>

text \<open>What the bucket records: nobody, or an owner with its UID, namespace and ownership ID.\<close>

record owner =
  ow_uid :: string
  ow_namespace :: string
  ow_ownership_id :: string
  ow_legacy :: bool \<comment> \<open>a record written before namespaces were recorded\<close>

type_synonym owner_view = "owner option"

datatype decision =
    Keep
  | Backfill
  | ClaimCreated
  | ClaimAdopted
  | Reclaim
  | AskAdoption string string \<comment> \<open>the recorded owner's UID and namespace\<close>
  | Deny

definition adopt_requested :: "application \<Rightarrow> bool" where
  "adopt_requested app \<longleftrightarrow> app_annotation app AdoptBucketAnnotation = AdoptBucketAnnotationValue"

abbreviation ownership_id :: "application \<Rightarrow> string" where
  "ownership_id app \<equiv> app_annotation app StorageOwnershipIDAnnotation"

definition claim_decision :: "bool \<Rightarrow> application \<Rightarrow> owner_view \<Rightarrow> decision" where
  "claim_decision recent app view =
     (case view of
        None \<Rightarrow> if recent then ClaimCreated else if adopt_requested app then ClaimAdopted else Deny
      | Some ow \<Rightarrow>
          if ow_uid ow = app_uid app then
            (if ow_legacy ow \<or> ow_namespace ow \<noteq> app_namespace app \<or>
                ow_ownership_id ow \<noteq> ownership_id app
             then Backfill else Keep)
          else if \<not> ow_legacy ow \<and> ownership_id app \<noteq> [] \<and> ow_ownership_id ow = ownership_id app
          then Reclaim
          else if adopt_requested app
          then AskAdoption (ow_uid ow) (if ow_legacy ow then [] else ow_namespace ow)
          else Deny)"

definition execute_decision ::
  "env \<Rightarrow> string \<Rightarrow> sentinel \<Rightarrow> string \<Rightarrow> unit io \<Rightarrow> decision \<Rightarrow> unit io" where
  "execute_decision env provider not_owned myNs write d =
     (case d of
        Keep \<Rightarrow> ret ()
      | Backfill \<Rightarrow> write
      | ClaimCreated \<Rightarrow> write
      | ClaimAdopted \<Rightarrow> bindIO (emit (Metric (StorageBucketAdoptedTotal provider))) (\<lambda>_. write)
      | Reclaim \<Rightarrow> bindIO (emit (Metric (StorageOwnershipReclaimedTotal provider))) (\<lambda>_. write)
      | AskAdoption uid ns \<Rightarrow>
          handleIO (EvaluateBucketAdoption env uid ns myNs)
            (\<lambda>err. fail (Errorf [] (Sentinel not_owned) ('': '' @ err_text err)))
            (\<lambda>_. bindIO (emit (Metric (StorageBucketAdoptedTotal provider))) (\<lambda>_. write))
      | Deny \<Rightarrow> fail (Sentinel not_owned))"

definition claim_protocol ::
  "env \<Rightarrow> string \<Rightarrow> sentinel \<Rightarrow> bool io \<Rightarrow> (owner_view \<times> 's) io \<Rightarrow> ('s \<Rightarrow> unit io) \<Rightarrow> unit io" where
  "claim_protocol env provider not_owned recent read write =
     bindIO read (\<lambda>(view, s).
     bindIO getApp (\<lambda>app.
     bindIO recent (\<lambda>rec.
       execute_decision env provider not_owned (app_namespace app) (write s)
         (claim_decision rec app view))))"

text \<open>The takeover of a bucket that records another owner, as the documentation promises it.\<close>

definition takeover_allowed :: "env \<Rightarrow> history \<Rightarrow> application \<Rightarrow> owner \<Rightarrow> bool" where
  "takeover_allowed env h app ow \<longleftrightarrow>
     (\<not> ow_legacy ow \<and> ownership_id app \<noteq> [] \<and> ow_ownership_id ow = ownership_id app) \<or>
     (adopt_requested app \<and>
      adoption_permitted env h (ow_uid ow) (if ow_legacy ow then [] else ow_namespace ow)
        (app_namespace app))"

text \<open>Who may claim a bucket, given what it records and whether its creation is on record.\<close>

definition entitled :: "env \<Rightarrow> history \<Rightarrow> bool \<Rightarrow> application \<Rightarrow> owner_view \<Rightarrow> bool" where
  "entitled env h rec app view \<longleftrightarrow>
     (case view of
        None \<Rightarrow> rec \<or> adopt_requested app
      | Some ow \<Rightarrow> ow_uid ow = app_uid app \<or> takeover_allowed env h app ow)"

lemma claim_decision_Deny_iff:
  "claim_decision recent app view = Deny \<longleftrightarrow>
     \<not> adopt_requested app \<and>
     (case view of
        None \<Rightarrow> \<not> recent
      | Some ow \<Rightarrow> ow_uid ow \<noteq> app_uid app \<and>
          (ow_legacy ow \<or> ownership_id app = [] \<or> ow_ownership_id ow \<noteq> ownership_id app))"
  by (auto simp: claim_decision_def split: option.splits)

lemma claim_decision_Keep_iff:
  "claim_decision recent app view = Keep \<longleftrightarrow>
     (\<exists>ow. view = Some ow \<and> ow_uid ow = app_uid app \<and> \<not> ow_legacy ow \<and>
        ow_namespace ow = app_namespace app \<and> ow_ownership_id ow = ownership_id app)"
  by (auto simp: claim_decision_def split: option.splits)

section \<open>What a computation appends, relative to the object it works on\<close>

definition emits_as :: "(application \<Rightarrow> event \<Rightarrow> bool) \<Rightarrow> 'a io \<Rightarrow> bool" where
  "emits_as P m \<longleftrightarrow> (\<forall>w. \<exists>es. w_trace (snd (m w)) = w_trace w @ es \<and> list_all (P (w_app w)) es)"

lemma emits_as_const: "(\<And>a. emits (P a) m) \<Longrightarrow> emits_as P m"
  by (simp add: emits_as_def emits_def)

lemma emits_as_run: "emits_as P m \<Longrightarrow> m w = (r, w') \<Longrightarrow> list_all (P (w_app w)) (new_events w w')"
  unfolding emits_as_def new_events_def by (metis append_eq_conv_conj snd_conv)

lemma emits_as_handleIO:
  assumes "emits_as P m" and "keeps_app m" and "\<And>e. emits_as P (h e)" and "\<And>x. emits_as P (k x)"
  shows "emits_as P (handleIO m h k)"
  unfolding emits_as_def
proof
  fix w
  obtain r w1 where m: "m w = (r, w1)" by fastforce
  with assms(1) obtain es where es: "w_trace w1 = w_trace w @ es" "list_all (P (w_app w)) es"
    unfolding emits_as_def by (metis snd_conv)
  have app: "w_app w1 = w_app w" using assms(2) m by (rule keeps_appD)
  have "\<exists>es'. w_trace (snd (handleIO m h k w)) = w_trace w1 @ es' \<and> list_all (P (w_app w1)) es'"
    using assms(3,4) m unfolding emits_as_def by (cases r) (simp_all add: handleIO_def)
  with es app show "\<exists>es. w_trace (snd (handleIO m h k w)) = w_trace w @ es \<and> list_all (P (w_app w)) es"
    by (metis append.assoc list_all_append)
qed

lemma emits_as_bindIO:
  "emits_as P m \<Longrightarrow> keeps_app m \<Longrightarrow> (\<And>x. emits_as P (k x)) \<Longrightarrow> emits_as P (bindIO m k)"
  unfolding bindIO_def
  by (rule emits_as_handleIO) (simp_all add: emits_as_const emits_quiet)

section \<open>The interface of an ownership record\<close>

text \<open>
  A provider's \<open>read\<close> looks and changes nothing, \<open>recent\<close> asks the status and the clock
  only, and every bucket write of \<open>put_owner\<close> is one that \<open>names\<close> the Application (its UID,
  namespace and ownership ID end up on the bucket); a \<open>put_owner\<close> that succeeds ends with one.
\<close>

locale ownership_store =
  fixes read :: "env \<Rightarrow> 'm \<Rightarrow> (owner_view \<times> 's) io"
    and put_owner :: "env \<Rightarrow> 'm \<Rightarrow> 's \<Rightarrow> unit io"
    and recent :: "env \<Rightarrow> 'm \<Rightarrow> bool io"
    and names :: "'m \<Rightarrow> application \<Rightarrow> event \<Rightarrow> bool"
    and provider :: string
    and not_owned :: sentinel
  assumes read_quiet: "emits (\<lambda>e. \<not> bucket_write e) (read env m)"
    and read_keeps: "keeps_app (read env m)"
    and recent_pure: "\<exists>b. recent env m w = (Inr b, w)"
    and record_names: "emits_as (\<lambda>a e. bucket_write e \<longrightarrow> names m a e) (put_owner env m s)"
    and record_done: "put_owner env m s w = (Inr (), w') \<Longrightarrow>
      w_app w' = w_app w \<and> (\<exists>h e. w_trace w' = h @ [e] \<and> write_succeeded e \<and> names m (w_app w) e)"
begin

abbreviation claim :: "env \<Rightarrow> 'm \<Rightarrow> unit io" where
  "claim env m \<equiv> claim_protocol env provider not_owned (recent env m) (read env m) (put_owner env m)"

text \<open>Whatever is written to the bucket names the Application.\<close>

lemma record_then:
  "emits_as (\<lambda>a e. bucket_write e \<longrightarrow> names m a e)
     (bindIO (emit (Metric x)) (\<lambda>_. put_owner env m s))"
  by (intro emits_as_bindIO emits_as_const record_names keeps_intros emits_intros) simp

lemma ask_quiet: "emits_as (\<lambda>a e. bucket_write e \<longrightarrow> names m a e) (EvaluateBucketAdoption env uid ns my)"
  using kube_read_not_write by (intro emits_as_const EvaluateBucketAdoption_reads) blast

lemma execute_names:
  "emits_as (\<lambda>a e. bucket_write e \<longrightarrow> names m a e)
     (execute_decision env provider not_owned my (put_owner env m s) d)"
proof (cases d)
  case (AskAdoption uid ns)
  have "emits_as (\<lambda>a e. bucket_write e \<longrightarrow> names m a e)
      (handleIO (EvaluateBucketAdoption env uid ns my)
         (\<lambda>err. fail (Errorf [] (Sentinel not_owned) ('': '' @ err_text err)))
         (\<lambda>_. bindIO (emit (Metric (StorageBucketAdoptedTotal provider))) (\<lambda>_. put_owner env m s)))"
    by (intro emits_as_handleIO ask_quiet record_then EvaluateBucketAdoption_keeps)
       (intro emits_as_const emits_intros)
  with AskAdoption show ?thesis by (simp add: execute_decision_def)
qed (simp_all add: execute_decision_def record_names record_then emits_as_const emits_intros)

lemma claim_names: "emits_as (\<lambda>a e. bucket_write e \<longrightarrow> names m a e) (claim env m)"
proof -
  have recent: "emits (P a) (recent env m)" "keeps_app (recent env m)" for P :: "application \<Rightarrow> event \<Rightarrow> bool" and a
  proof -
    show "emits (P a) (recent env m)"
      by (rule emitsI) (metis append_Nil2 list.pred_inject(1) recent_pure snd_conv)
    show "keeps_app (recent env m)"
      unfolding keeps_app_def by (metis recent_pure snd_conv)
  qed
  have rd: "emits_as (\<lambda>a e. bucket_write e \<longrightarrow> names m a e) (read env m)"
    by (rule emits_as_const, rule emits_mono, rule read_quiet) simp
  have rest: "emits_as (\<lambda>a e. bucket_write e \<longrightarrow> names m a e)
      (bindIO getApp (\<lambda>app. bindIO (recent env m) (\<lambda>rec.
         execute_decision env provider not_owned (app_namespace app) (put_owner env m s)
           (claim_decision rec app view))))" for view s
    by (rule emits_as_bindIO, rule emits_as_const, rule emits_quiet, rule keeps_quiet,
        rule emits_as_bindIO, rule emits_as_const, rule recent, rule recent, rule execute_names)
  show ?thesis
    unfolding claim_protocol_def
    by (rule emits_as_bindIO, rule rd, rule read_keeps) (auto simp: rest)
qed

text \<open>A denied claim stops at the read: nothing is written, the sentinel is returned.\<close>

lemma claim_denied:
  assumes "read env m w = (Inr (view, s), w1)" and "recent env m w1 = (Inr b, w1)"
    and "claim_decision b (w_app w1) view = Deny"
  shows "claim env m w = (Inl (Sentinel not_owned), w1)"
  using assms by (simp add: claim_protocol_def execute_decision_def bindIO_def handleIO_def
      getApp_def fail_def)

text \<open>An adoption that is not permitted writes nothing either.\<close>

lemma claim_not_permitted:
  assumes "read env m w = (Inr (view, s), w1)" and "recent env m w1 = (Inr b, w1)"
    and "claim_decision b (w_app w1) view = AskAdoption uid ns"
    and "\<not> adoption_permitted env (w_trace w1) uid ns (app_namespace (w_app w1))"
    and "claim env m w = (r, w')"
  shows "\<exists>e. r = Inl e \<and> errors_is e not_owned"
    and "list_all (\<lambda>e. \<not> bucket_write e) (new_events w1 w')"
proof -
  let ?ask = "EvaluateBucketAdoption env uid ns (app_namespace (w_app w1))"
  obtain x w2 where ask: "?ask w1 = (x, w2)" by fastforce
  with assms(4) EvaluateBucketAdoption_iff [of env uid ns "app_namespace (w_app w1)" w1]
  obtain e where x: "x = Inl e" by (cases x) auto
  have "claim env m w = (Inl (Errorf [] (Sentinel not_owned) ('': '' @ err_text e)), w2)"
    using assms(1-3) ask x
    by (simp add: claim_protocol_def execute_decision_def bindIO_def handleIO_def getApp_def fail_def)
  with assms(5) have r: "r = Inl (Errorf [] (Sentinel not_owned) ('': '' @ err_text e))" "w' = w2"
    by simp_all
  then show "\<exists>e. r = Inl e \<and> errors_is e not_owned" by simp
  have "emits (\<lambda>e. \<not> bucket_write e) ?ask"
    using kube_read_not_write by (intro EvaluateBucketAdoption_reads) blast
  from emits_new_events [OF this ask] show "list_all (\<lambda>e. \<not> bucket_write e) (new_events w1 w')"
    by (simp add: r)
qed

text \<open>
  A claim that succeeds found the Application recorded as the owner and left the bucket
  alone, or was entitled to the bucket and ends with a write that names the Application.
\<close>

lemma execute_succeeded:
  assumes "execute_decision env provider not_owned (app_namespace app) (put_owner env m s)
      (claim_decision b app view) w = (Inr (), w')" and "w_app w = app"
  shows "w_app w' = app \<and> entitled env (w_trace w) b app view \<and>
    (w' = w \<and> claim_decision b app view = Keep \<or>
     (\<exists>h e. w_trace w' = h @ [e] \<and> write_succeeded e \<and> names m app e))"
proof -
  have put: "put_owner env m s w1 = (Inr (), w') \<Longrightarrow> w_app w1 = app \<Longrightarrow>
      w_app w' = app \<and> (\<exists>h e. w_trace w' = h @ [e] \<and> write_succeeded e \<and> names m app e)" for w1
    using record_done by blast
  have metric: "bindIO (emit ev) (\<lambda>_. put_owner env m s) w1 = (Inr (), w') \<Longrightarrow> w_app w1 = app \<Longrightarrow>
      w_app w' = app \<and> (\<exists>h e. w_trace w' = h @ [e] \<and> write_succeeded e \<and> names m app e)" for ev w1
    using put [of "w1\<lparr>w_trace := w_trace w1 @ [ev]\<rparr>"] by (simp add: bindIO_def handleIO_def emit_def)
  consider (deny_case) "claim_decision b app view = Deny"
    | (keep_case) "claim_decision b app view = Keep"
    | (ask_case) uid ns where "claim_decision b app view = AskAdoption uid ns"
    | (back_case) "claim_decision b app view = Backfill" | (created_case) "claim_decision b app view = ClaimCreated"
    | (adopted_case) "claim_decision b app view = ClaimAdopted" | (reclaim_case) "claim_decision b app view = Reclaim"
    by (cases "claim_decision b app view") blast+
  then show ?thesis
  proof cases
    case deny_case
    with assms show ?thesis by (simp add: execute_decision_def fail_def)
  next
    case keep_case
    then obtain ow where "view = Some ow" "ow_uid ow = app_uid app"
      by (auto simp: claim_decision_Keep_iff)
    with keep_case assms show ?thesis by (simp add: execute_decision_def ret_def entitled_def)
  next
    case ask_case
    from ask_case obtain ow where ow: "view = Some ow" "adopt_requested app" "uid = ow_uid ow"
        "ns = (if ow_legacy ow then [] else ow_namespace ow)"
      by (auto simp: claim_decision_def split: option.splits if_splits)
    from assms(1) ask_case obtain w1 where ev: "EvaluateBucketAdoption env uid ns (app_namespace app) w = (Inr (), w1)"
      and fin: "bindIO (emit (Metric (StorageBucketAdoptedTotal provider))) (\<lambda>_. put_owner env m s) w1 = (Inr (), w')"
      by (auto simp: execute_decision_def handleIO_Inr_iff fail_def)
    have "w_app w1 = app"
      using keeps_appD [OF EvaluateBucketAdoption_keeps ev] assms(2) by simp
    moreover have "adoption_permitted env (w_trace w) uid ns (app_namespace app)"
      using EvaluateBucketAdoption_iff [of env uid ns "app_namespace app" w] ev by simp
    ultimately show ?thesis
      using metric [OF fin] ow by (simp add: entitled_def takeover_allowed_def)
  next
    case back_case
    then have "entitled env h b app view" for h
      by (auto simp: entitled_def claim_decision_def split: option.splits if_splits)
    with back_case assms put show ?thesis by (simp add: execute_decision_def)
  next
    case created_case
    then have "entitled env h b app view" for h
      by (auto simp: entitled_def claim_decision_def split: option.splits if_splits)
    with created_case assms put show ?thesis by (simp add: execute_decision_def)
  next
    case adopted_case
    then have "entitled env h b app view" for h
      by (auto simp: entitled_def claim_decision_def split: option.splits if_splits)
    with adopted_case assms metric show ?thesis by (simp add: execute_decision_def)
  next
    case reclaim_case
    then have "entitled env h b app view" for h
      by (auto simp: entitled_def claim_decision_def takeover_allowed_def split: option.splits if_splits)
    with reclaim_case assms metric show ?thesis by (simp add: execute_decision_def)
  qed
qed

lemma claim_succeeded:
  assumes "claim env m w = (Inr (), w')"
  obtains view s w1 b where "read env m w = (Inr (view, s), w1)" "recent env m w1 = (Inr b, w1)"
    "w_app w1 = w_app w" "w_app w' = w_app w" "entitled env (w_trace w1) b (w_app w) view"
    "w' = w1 \<and> claim_decision b (w_app w) view = Keep \<or>
     (\<exists>h e. w_trace w' = h @ [e] \<and> write_succeeded e \<and> names m (w_app w) e)"
proof -
  from assms obtain view s w1 where rd: "read env m w = (Inr (view, s), w1)"
    and rest: "bindIO getApp (\<lambda>app. bindIO (recent env m) (\<lambda>rec.
        execute_decision env provider not_owned (app_namespace app) (put_owner env m s)
          (claim_decision rec app view))) w1 = (Inr (), w')"
    by (auto simp: claim_protocol_def bindIO_Inr_iff)
  obtain b where b: "recent env m w1 = (Inr b, w1)" using recent_pure by blast
  have app: "w_app w1 = w_app w" using keeps_appD [OF read_keeps rd] .
  have "execute_decision env provider not_owned (app_namespace (w_app w)) (put_owner env m s)
      (claim_decision b (w_app w) view) w1 = (Inr (), w')"
    using rest b app by (simp add: bindIO_def handleIO_def getApp_def)
  from execute_succeeded [OF this app] rd b app show thesis by (intro that) blast+
qed

end

section \<open>Evidence before destruction\<close>

text \<open>
  Along a run that starts after history \<open>h\<close>, no event of \<open>D\<close> comes before an event
  that \<open>G\<close> accepts as the authorisation (judged with the history up to it).
\<close>

fun guarded_trace :: "(history \<Rightarrow> event \<Rightarrow> bool) \<Rightarrow> (event \<Rightarrow> bool) \<Rightarrow> history \<Rightarrow> event list \<Rightarrow> bool" where
  "guarded_trace G D h [] = True"
| "guarded_trace G D h (e # es) = (\<not> D e \<and> (G h e \<or> guarded_trace G D (h @ [e]) es))"

lemma guarded_none: "list_all (\<lambda>e. \<not> D e) es \<Longrightarrow> guarded_trace G D h es"
  by (induction es arbitrary: h) simp_all

lemma guarded_evidence:
  "list_all (\<lambda>e. \<not> D e) xs \<Longrightarrow> \<not> D e \<Longrightarrow> G (h @ xs) e \<Longrightarrow> guarded_trace G D h (xs @ e # ys)"
  by (induction xs arbitrary: h) simp_all

lemma guarded_prefix:
  "list_all (\<lambda>e. \<not> D e) xs \<Longrightarrow> guarded_trace G D (h @ xs) ys \<Longrightarrow> guarded_trace G D h (xs @ ys)"
  by (induction xs arbitrary: h) simp_all

lemma guarded_suffix:
  "guarded_trace G D h xs \<Longrightarrow> list_all (\<lambda>e. \<not> D e) ys \<Longrightarrow> guarded_trace G D h (xs @ ys)"
  by (induction xs arbitrary: h) (auto simp: guarded_none)

text \<open>Without any evidence a guarded run destroys nothing.\<close>

lemma guarded_no_evidence:
  "guarded_trace G D h es \<Longrightarrow> (\<And>h e. e \<in> set es \<Longrightarrow> \<not> G h e) \<Longrightarrow> list_all (\<lambda>e. \<not> D e) es"
proof (induction es arbitrary: h)
  case (Cons e es)
  then have "guarded_trace G D (h @ [e]) es" by auto
  with Cons show ?case by simp
qed simp

text \<open>Evidence anywhere in a guarded run covers whatever comes after the run.\<close>

fun has_evidence :: "(history \<Rightarrow> event \<Rightarrow> bool) \<Rightarrow> history \<Rightarrow> event list \<Rightarrow> bool" where
  "has_evidence G h [] = False"
| "has_evidence G h (e # es) = (G h e \<or> has_evidence G (h @ [e]) es)"

lemma has_evidence_append:
  "has_evidence G h (xs @ ys) \<longleftrightarrow> has_evidence G h xs \<or> has_evidence G (h @ xs) ys"
  by (induction xs arbitrary: h) auto

lemma guarded_covers:
  "guarded_trace G D h xs \<Longrightarrow> has_evidence G h xs \<Longrightarrow> guarded_trace G D h (xs @ ys)"
  by (induction xs arbitrary: h) auto

definition guarded_io ::
  "(application \<Rightarrow> history \<Rightarrow> event \<Rightarrow> bool) \<Rightarrow> (event \<Rightarrow> bool) \<Rightarrow> 'a io \<Rightarrow> bool" where
  "guarded_io G D m \<longleftrightarrow>
     (\<forall>w. \<exists>es. w_trace (snd (m w)) = w_trace w @ es \<and> guarded_trace (G (w_app w)) D (w_trace w) es)"

definition authorises :: "(application \<Rightarrow> history \<Rightarrow> event \<Rightarrow> bool) \<Rightarrow> 'a io \<Rightarrow> bool" where
  "authorises G m \<longleftrightarrow>
     (\<forall>w x w'. m w = (Inr x, w') \<longrightarrow>
        (\<exists>es. w_trace w' = w_trace w @ es \<and> has_evidence (G (w_app w)) (w_trace w) es))"

lemma guarded_quiet: "emits (\<lambda>e. \<not> D e) m \<Longrightarrow> guarded_io G D m"
  unfolding guarded_io_def emits_def using guarded_none by blast

lemma guarded_handle:
  assumes "emits (\<lambda>e. \<not> D e) m" and "keeps_app m"
    and "\<And>e. guarded_io G D (h e)" and "\<And>x. guarded_io G D (k x)"
  shows "guarded_io G D (handleIO m h k)"
  unfolding guarded_io_def
proof
  fix w
  obtain r w1 where m: "m w = (r, w1)" by fastforce
  obtain es where es: "w_trace w1 = w_trace w @ es" "list_all (\<lambda>e. \<not> D e) es"
    using emits_trace [OF assms(1) m] emits_new_events [OF assms(1) m] by blast
  have app: "w_app w1 = w_app w" using assms(2) m by (rule keeps_appD)
  have "\<exists>es'. w_trace (snd (handleIO m h k w)) = w_trace w1 @ es' \<and>
      guarded_trace (G (w_app w1)) D (w_trace w1) es'"
    using assms(3,4) m unfolding guarded_io_def by (cases r) (simp_all add: handleIO_def)
  with es app show "\<exists>es. w_trace (snd (handleIO m h k w)) = w_trace w @ es \<and>
      guarded_trace (G (w_app w)) D (w_trace w) es"
    by (metis append.assoc guarded_prefix)
qed

lemma guarded_after:
  assumes "guarded_io G D m" and "authorises G m"
    and "\<And>e. emits (\<lambda>e. \<not> D e) (h e)" and "\<And>x. emits (\<lambda>_. True) (k x)"
  shows "guarded_io G D (handleIO m h k)"
  unfolding guarded_io_def
proof
  fix w
  obtain r w1 where m: "m w = (r, w1)" by fastforce
  with assms(1) obtain es where es: "w_trace w1 = w_trace w @ es" "guarded_trace (G (w_app w)) D (w_trace w) es"
    unfolding guarded_io_def by (metis snd_conv)
  show "\<exists>es. w_trace (snd (handleIO m h k w)) = w_trace w @ es \<and> guarded_trace (G (w_app w)) D (w_trace w) es"
  proof (cases r)
    case (Inl e)
    with assms(3) m obtain es' where "w_trace (snd (handleIO m h k w)) = w_trace w1 @ es'" "list_all (\<lambda>e. \<not> D e) es'"
      unfolding emits_def by (fastforce simp: handleIO_def)
    with es show ?thesis by (metis append.assoc guarded_suffix)
  next
    case (Inr x)
    with assms(2) m obtain es1 where "w_trace w1 = w_trace w @ es1" "has_evidence (G (w_app w)) (w_trace w) es1"
      unfolding authorises_def by blast
    moreover from Inr assms(4) m obtain es' where "w_trace (snd (handleIO m h k w)) = w_trace w1 @ es'"
      unfolding emits_def by (fastforce simp: handleIO_def)
    ultimately show ?thesis using es by (metis append.assoc guarded_covers same_append_eq)
  qed
qed

lemma authorises_first:
  assumes "authorises G m" and "\<And>x. emits (\<lambda>_. True) (k x)"
  shows "authorises G (bindIO m k)"
  unfolding authorises_def
proof (intro allI impI)
  fix w y w'
  assume "bindIO m k w = (Inr y, w')"
  then obtain x w1 where run: "m w = (Inr x, w1)" "k x w1 = (Inr y, w')"
    by (auto simp: bindIO_Inr_iff)
  with assms(1) obtain es where "w_trace w1 = w_trace w @ es" "has_evidence (G (w_app w)) (w_trace w) es"
    unfolding authorises_def by blast
  with emits_trace [OF assms(2) run(2)]
  show "\<exists>es. w_trace w' = w_trace w @ es \<and> has_evidence (G (w_app w)) (w_trace w) es"
    by (metis append.assoc has_evidence_append)
qed

lemma authorises_then:
  assumes "emits (\<lambda>_. True) m" and "keeps_app m" and "\<And>x. authorises G (k x)"
  shows "authorises G (bindIO m k)"
  unfolding authorises_def
proof (intro allI impI)
  fix w y w'
  assume "bindIO m k w = (Inr y, w')"
  then obtain x w1 where run: "m w = (Inr x, w1)" "k x w1 = (Inr y, w')"
    by (auto simp: bindIO_Inr_iff)
  have app: "w_app w1 = w_app w" using assms(2) run(1) by (rule keeps_appD)
  from assms(3) run(2) obtain es where "w_trace w' = w_trace w1 @ es" "has_evidence (G (w_app w1)) (w_trace w1) es"
    unfolding authorises_def by blast
  with emits_trace [OF assms(1) run(1)] app
  show "\<exists>es. w_trace w' = w_trace w @ es \<and> has_evidence (G (w_app w)) (w_trace w) es"
    by (metis append.assoc has_evidence_append)
qed

text \<open>
  What the finalizer needs of a provider: cleaning up only the credentials leaves buckets
  alone, and cleaning up the bucket destroys nothing before it has seen the evidence.
\<close>

locale bucket_cleanup =
  fixes cleanup :: "env \<Rightarrow> 'm \<Rightarrow> (gerror option \<times> gerror option) io"
    and credentials_only :: "env \<Rightarrow> 'm \<Rightarrow> unit io"
    and evidence :: "env \<Rightarrow> 'm \<Rightarrow> application \<Rightarrow> history \<Rightarrow> event \<Rightarrow> bool"
  assumes cleanup_guarded: "cleanup env m w = (r, w') \<Longrightarrow>
      \<exists>es. w_trace w' = w_trace w @ es \<and> guarded_trace (evidence env m (w_app w)) destroys (w_trace w) es"
    and credentials_leave_bucket: "emits (\<lambda>e. \<not> bucket_write e) (credentials_only env m)"
    and cleanup_keeps: "keeps_app (cleanup env m)"
    and credentials_keep: "keeps_app (credentials_only env m)"

end
