(* ===== verification/Error_Class.thy ===== *)
theory Error_Class
  imports Forge_IO
begin

text \<open>
  \<open>internal/controller/errorclass.go\<close>: storage errors sorted into the small set of outcome
  labels the metrics and the status reasons use. The lemmas show that the classification
  depends on the error at the end of the wrapping chain only, and how its branches exclude
  each other.
\<close>

definition outcomeReady :: string where "outcomeReady = ''ready''"
definition outcomeSuccess :: string where "outcomeSuccess = ''success''"
definition outcomeNotOwned :: string where "outcomeNotOwned = ''not_owned''"
definition outcomeTimeout :: string where "outcomeTimeout = ''timeout''"
definition outcomeAccessDenied :: string where "outcomeAccessDenied = ''access_denied''"
definition outcomeOther :: string where "outcomeOther = ''other_error''"

lemmas outcome_defs = outcomeReady_def outcomeSuccess_def outcomeNotOwned_def outcomeTimeout_def
  outcomeAccessDenied_def outcomeOther_def

definition isAWSAccessDenied :: "gerror \<Rightarrow> bool" where
  "isAWSAccessDenied err =
     (if response_status err = Some 403 then True
      else (case api_error_code err of
              None \<Rightarrow> False
            | Some code \<Rightarrow> code \<in> {''AccessDenied'', ''AccessDeniedException'', ''UnauthorizedException''}))"

definition classifyAWSStorageError :: "gerror \<Rightarrow> string" where
  "classifyAWSStorageError err =
     (if errors_is err S3ErrBucketNotOwned then outcomeNotOwned
      else if is_deadline err then outcomeTimeout
      else if isAWSAccessDenied err then outcomeAccessDenied
      else outcomeOther)"

definition isAkamaiAccessDenied :: "gerror \<Rightarrow> bool" where
  "isAkamaiAccessDenied err = (linode_code err = Some 403 \<or> linode_code err = Some 401)"

definition classifyAkamaiStorageError :: "gerror \<Rightarrow> string" where
  "classifyAkamaiStorageError err =
     (if errors_is err AkamaiErrBucketNotOwned then outcomeNotOwned
      else if is_deadline err then outcomeTimeout
      else if isAkamaiAccessDenied err then outcomeAccessDenied
      else outcomeOther)"

definition ReasonFailed :: string where "ReasonFailed = ''ReconcileFailed''"
definition ReasonSecretNotFound :: string where "ReasonSecretNotFound = ''SecretNotFound''"

definition reconcileFailureReason :: "gerror \<Rightarrow> string" where
  "reconcileFailureReason err =
     (if errors_is err ErrCredentialsSecretNotFound \<or> errors_is err ErrTokenSecretNotFound
      then ReasonSecretNotFound else ReasonFailed)"

lemma classify_wrap [simp]:
  "classifyAWSStorageError (Errorf pre e post) = classifyAWSStorageError e"
  "classifyAkamaiStorageError (Errorf pre e post) = classifyAkamaiStorageError e"
  "reconcileFailureReason (Errorf pre e post) = reconcileFailureReason e"
  by (simp_all add: classifyAWSStorageError_def classifyAkamaiStorageError_def
      reconcileFailureReason_def isAWSAccessDenied_def isAkamaiAccessDenied_def)

lemma classify_leaf:
  "classifyAWSStorageError (err_leaf e) = classifyAWSStorageError e"
  "classifyAkamaiStorageError (err_leaf e) = classifyAkamaiStorageError e"
  by (induction e) simp_all

lemma classifyAWS_not_owned_iff:
  "classifyAWSStorageError e = outcomeNotOwned \<longleftrightarrow> errors_is e S3ErrBucketNotOwned"
  by (simp add: classifyAWSStorageError_def outcome_defs)

lemma classifyAkamai_not_owned_iff:
  "classifyAkamaiStorageError e = outcomeNotOwned \<longleftrightarrow> errors_is e AkamaiErrBucketNotOwned"
  by (simp add: classifyAkamaiStorageError_def outcome_defs)


end
