(* ===== verification/Akamai_Manager.thy ===== *)
theory Akamai_Manager
  imports Ownership Error_Class Json_Codec
begin

text \<open>
  \<open>internal/controller/akamaiobjstr\<close>: \<open>client.go\<close> and \<open>obj_storage.go\<close>, provisioning
  of a Linode Object Storage bucket, of the Application's access key, and of the marker object
  that records the owner. The S3-compatible client that \<open>s3ClientFor\<close> builds is the one
  the \<open>GetObject\<close>, \<open>PutObject\<close>, \<open>ListObjectsV2\<close> and \<open>DeleteObjectKeys\<close> calls
  of the environment stand for. As in \<open>S3_Manager\<close>, the Application is the \<open>w_app\<close> of
  the world.
\<close>

section \<open>API calls\<close>

definition linode_get_bucket :: "env \<Rightarrow> string \<Rightarrow> string \<Rightarrow> string io" where
  "linode_get_bucket env region b =
     call (\<lambda>h. get_object_storage_bucket (e_linode env) h region b)
       (\<lambda>r. Linode (GetObjectStorageBucket region b r))"

definition linode_create_bucket :: "env \<Rightarrow> string \<Rightarrow> string \<Rightarrow> string io" where
  "linode_create_bucket env region b =
     call (\<lambda>h. create_object_storage_bucket (e_linode env) h region b)
       (\<lambda>r. Linode (CreateObjectStorageBucket region b r))"

definition linode_list_keys :: "env \<Rightarrow> linode_key list io" where
  "linode_list_keys env =
     call (\<lambda>h. list_object_storage_keys (e_linode env) h) (\<lambda>r. Linode (ListObjectStorageKeys r))"

definition linode_create_key :: "env \<Rightarrow> string \<Rightarrow> string \<Rightarrow> string \<Rightarrow> linode_key io" where
  "linode_create_key env label region b =
     call (\<lambda>h. create_object_storage_key (e_linode env) h label region b)
       (\<lambda>r. Linode (CreateObjectStorageKey label region b r))"

definition linode_delete_key :: "env \<Rightarrow> int \<Rightarrow> unit io" where
  "linode_delete_key env i =
     call (\<lambda>h. delete_object_storage_key (e_linode env) h i) (\<lambda>r. Linode (DeleteObjectStorageKey i r))"

definition object_get :: "env \<Rightarrow> string \<Rightarrow> string \<Rightarrow> (gerror + string) io" where
  "object_get env b k =
     call (\<lambda>h. get_object (e_linode env) h b k) (\<lambda>r. Linode (GetObject b k r))"

definition object_put :: "env \<Rightarrow> string \<Rightarrow> string \<Rightarrow> string \<Rightarrow> unit io" where
  "object_put env b k v =
     call (\<lambda>h. put_object (e_linode env) h b k v) (\<lambda>r. Linode (PutObject b k v r))"

lemmas linode_call_defs = linode_get_bucket_def linode_create_bucket_def linode_list_keys_def
  linode_create_key_def linode_delete_key_def object_get_def object_put_def

text \<open>\<open>linodego.IsNotFound\<close>.\<close>

definition linode_not_found :: "gerror \<Rightarrow> bool" where
  "linode_not_found err \<longleftrightarrow> linode_code err = Some 404"

section \<open>The manager\<close>

record akamai_manager =
  k_storage :: storage_spec
  k_bucket :: string
  k_region :: string
  k_record_created :: "unit io option"

record akamai_result =
  ar_access_key :: string
  ar_secret_key :: string
  ar_endpoint :: string

definition NewAkamaiManager :: "env \<Rightarrow> string \<Rightarrow> unit io option \<Rightarrow> akamai_manager io" where
  "NewAkamaiManager env defaultRegion recordCreated =
     bindIO getApp (\<lambda>app.
     case app_storage app of
       None \<Rightarrow> fail (ErrorText (''storage spec is nil for application '' @ app_name app))
     | Some storage \<Rightarrow>
         let bucket = ss_bucket storage;
             region = (if ss_region storage = [] then defaultRegion else ss_region storage);
             secretName = AkamaiTokenSecret app
         in handleIO (kube_get_secret env (app_namespace app) secretName)
              (\<lambda>err. if kube_not_found err
                 then fail (Errorf [] (Sentinel ErrTokenSecretNotFound) ('': '' @ secretName))
                 else fail (Errorf (''failed to get secret '' @ secretName @ '': '') err []))
              (\<lambda>data. if smap_get data ''apiToken'' = []
                 then fail (ErrorText (''key 'apiToken' not found in secret '' @ secretName))
                 else bindIO (emit (Linode (LinodeClientBuilt secretName))) (\<lambda>_.
                   ret \<lparr>k_storage = storage, k_bucket = bucket, k_region = region,
                        k_record_created = recordCreated\<rparr>)))"

section \<open>The ownership marker\<close>

definition ownerMarkerKey :: string where "ownerMarkerKey = ''.forge-operator-owner''"

record owner_marker =
  om_uid :: string
  om_namespace :: string
  om_ownership_id :: string

definition marker_fields :: "string list" where
  "marker_fields = [''uid'', ''namespace'', ''ownershipId'']"

definition parseOwnerMarker :: "string \<Rightarrow> owner_marker \<times> bool" where
  "parseOwnerMarker body =
     (case unmarshal_strings marker_fields body of
        None \<Rightarrow> (\<lparr>om_uid = body, om_namespace = [], om_ownership_id = []\<rparr>, True)
      | Some owner \<Rightarrow>
          if smap_get owner ''uid'' = [] then (\<lparr>om_uid = body, om_namespace = [], om_ownership_id = []\<rparr>, True)
          else (\<lparr>om_uid = smap_get owner ''uid'', om_namespace = smap_get owner ''namespace'',
                 om_ownership_id = smap_get owner ''ownershipId''\<rparr>, False))"

text \<open>\<open>json.Marshal(ownerMarker{...})\<close>, with \<open>omitempty\<close> on the last field.\<close>

definition marker_body :: "application \<Rightarrow> string" where
  "marker_body app =
     marshal_strings ([(''uid'', app_uid app), (''namespace'', app_namespace app)] @
       (let ownershipID = app_annotation app StorageOwnershipIDAnnotation
        in if ownershipID = [] then [] else [(''ownershipId'', ownershipID)]))"

definition ak_claimOwnership :: "env \<Rightarrow> akamai_manager \<Rightarrow> unit io" where
  "ak_claimOwnership env m =
     bindIO getApp (\<lambda>app.
     wrapIO ''failed to write ownership marker: '' (object_put env (k_bucket m) ownerMarkerKey (marker_body app)))"

definition ak_bucketCreationClaimWindow :: duration where
  "ak_bucketCreationClaimWindow = hour"

definition ak_previouslyCreatedByUs :: "env \<Rightarrow> string \<Rightarrow> world \<Rightarrow> bool" where
  "ak_previouslyCreatedByUs env bucket w =
     (case app_status_storage (w_app w) of
        None \<Rightarrow> False
      | Some status \<Rightarrow> st_bucket status = bucket \<and> st_created status \<and>
          time_sub (now (e_lib env) (w_trace w)) (st_created_at status) < ak_bucketCreationClaimWindow)"

definition ak_ask_created :: "env \<Rightarrow> string \<Rightarrow> bool io" where
  "ak_ask_created env bucket w = (Inr (ak_previouslyCreatedByUs env bucket w), w)"

definition ak_adoptBucketRequested :: "application \<Rightarrow> bool" where
  "ak_adoptBucketRequested app \<longleftrightarrow> app_annotation app AdoptBucketAnnotation = AdoptBucketAnnotationValue"

definition ak_record_adopted :: "unit io" where
  "ak_record_adopted = emit (Metric (StorageBucketAdoptedTotal ProviderAkamaiObjectStorage))"

definition ak_record_reclaimed :: "unit io" where
  "ak_record_reclaimed = emit (Metric (StorageOwnershipReclaimedTotal ProviderAkamaiObjectStorage))"

definition ak_claimOrVerifyOwnership :: "env \<Rightarrow> akamai_manager \<Rightarrow> unit io" where
  "ak_claimOrVerifyOwnership env m =
     handleIO (object_get env (k_bucket m) ownerMarkerKey)
       (\<lambda>err.
         if is_no_such_key err then
           bindIO getApp (\<lambda>app.
           bindIO (ak_ask_created env (k_bucket m)) (\<lambda>created.
             if created then ak_claimOwnership env m
             else if ak_adoptBucketRequested app then
               bindIO ak_record_adopted (\<lambda>_. ak_claimOwnership env m)
             else fail (Sentinel AkamaiErrBucketNotOwned)))
         else fail (Errorf [] (Sentinel AkamaiErrBucketNotOwned)
                ('': could not verify ownership marker: '' @ err_text err)))
       (\<lambda>content. case content of
          Inl err \<Rightarrow> fail (Errorf ''failed to read ownership marker: '' err [])
        | Inr body \<Rightarrow>
            bindIO getApp (\<lambda>app.
            let myOwnershipID = app_annotation app StorageOwnershipIDAnnotation;
                (owner, legacy) = parseOwnerMarker body
            in if om_uid owner = app_uid app then
                 (if legacy \<or> om_namespace owner \<noteq> app_namespace app \<or>
                     om_ownership_id owner \<noteq> myOwnershipID
                  then ak_claimOwnership env m else ret ())
               else if \<not> legacy \<and> myOwnershipID \<noteq> [] \<and> om_ownership_id owner = myOwnershipID then
                 bindIO ak_record_reclaimed (\<lambda>_. ak_claimOwnership env m)
               else if \<not> ak_adoptBucketRequested app then fail (Sentinel AkamaiErrBucketNotOwned)
               else
                 let ownerNamespace = (if legacy then [] else om_namespace owner)
                 in handleIO
                      (EvaluateBucketAdoption env (om_uid owner) ownerNamespace (app_namespace app))
                      (\<lambda>err. fail (Errorf [] (Sentinel AkamaiErrBucketNotOwned) ('': '' @ err_text err)))
                      (\<lambda>_. bindIO ak_record_adopted (\<lambda>_. ak_claimOwnership env m))))"

section \<open>The access key\<close>

definition akamaiKeyLabelMaxLen :: int where "akamaiKeyLabelMaxLen = 50"

definition accessKeyLabel :: "application \<Rightarrow> string" where
  "accessKeyLabel app = CloudResourceName [app_namespace app, app_name app, ''key''] akamaiKeyLabelMaxLen"

definition recoverSecretKey :: "env \<Rightarrow> string io" where
  "recoverSecretKey env =
     bindIO getApp (\<lambda>app.
     handleIO (kube_get_secret env (app_namespace app) (StorageSecret app))
       (\<lambda>err. ret []) (\<lambda>data. ret (smap_get data ''secret_key'')))"

definition create_access_key :: "env \<Rightarrow> akamai_manager \<Rightarrow> string \<Rightarrow> (string \<times> string) io" where
  "create_access_key env m keyLabel =
     bindIO (wrapIO ''failed to create storage key: ''
              (linode_create_key env keyLabel (k_region m) (k_bucket m)))
       (\<lambda>key. ret (lk_access_key key, lk_secret_key key))"

text \<open>The loop skips other labels and stops at the first key with this one.\<close>

definition ensureAccessKey :: "env \<Rightarrow> akamai_manager \<Rightarrow> (string \<times> string) io" where
  "ensureAccessKey env m =
     bindIO getApp (\<lambda>app. let keyLabel = accessKeyLabel app in
     bindIO (wrapIO ''failed to list storage keys: '' (linode_list_keys env)) (\<lambda>keys.
       case find (\<lambda>key. lk_label key = keyLabel) keys of
         None \<Rightarrow> create_access_key env m keyLabel
       | Some key \<Rightarrow>
           bindIO (recoverSecretKey env) (\<lambda>secret.
             if secret \<noteq> [] then ret (lk_access_key key, secret)
             else bindIO
               (wrapIO (''failed to delete unusable access key ''  @ [CHR 0x27] @ show_int (lk_id key) @ [CHR 0x27] @ '': '')
                 (linode_delete_key env (lk_id key)))
               (\<lambda>_. create_access_key env m keyLabel))))"

definition findAccessKeyIDByLabel :: "env \<Rightarrow> string \<Rightarrow> int io" where
  "findAccessKeyIDByLabel env label =
     bindIO (linode_list_keys env) (\<lambda>keys.
       ret (case find (\<lambda>k. lk_label k = label) keys of None \<Rightarrow> 0 | Some k \<Rightarrow> lk_id k))"

definition deleteApplicationAccessKey :: "env \<Rightarrow> unit io" where
  "deleteApplicationAccessKey env =
     bindIO getApp (\<lambda>app. let keyLabel = accessKeyLabel app in
     bindIO (wrapIO (''failed to locate access key '' @ [CHR 0x27] @ keyLabel @ [CHR 0x27] @ '': '')
              (findAccessKeyIDByLabel env keyLabel)) (\<lambda>keyID.
       if keyID = 0 then ret ()
       else wrapIO (''failed to delete access key '' @ [CHR 0x27] @ show_int keyID @ [CHR 0x27] @ '': '')
              (linode_delete_key env keyID)))"

section \<open>Provisioning\<close>

definition validateStorageSpec :: "akamai_manager \<Rightarrow> gerror option" where
  "validateStorageSpec m =
     (if k_bucket m = [] then Some (ErrorText ''bucket name is empty'')
      else if k_region m = [] then Some (ErrorText ''region/cluster is empty'')
      else None)"

definition ak_recordBucketCreated :: "env \<Rightarrow> akamai_manager \<Rightarrow> unit io" where
  "ak_recordBucketCreated env m =
     (case k_record_created m of
        None \<Rightarrow> fail (ErrorText ''recordCreated callback not configured'')
      | Some cb \<Rightarrow> wrapIO (''failed to record bucket creation for '' @ k_bucket m @ '': '') cb)"

definition ak_ensureBucketExists :: "env \<Rightarrow> akamai_manager \<Rightarrow> string io" where
  "ak_ensureBucketExists env m =
     handleIO (linode_get_bucket env (k_region m) (k_bucket m))
       (\<lambda>err. if \<not> linode_not_found err then fail (Errorf ''failed to query bucket: '' err [])
          else bindIO (wrapIO ''failed to create bucket: ''
                        (linode_create_bucket env (k_region m) (k_bucket m))) (\<lambda>hostname.
               bindIO (ak_recordBucketCreated env m) (\<lambda>_. ret hostname)))
       ret"

definition resolveEndpoint :: "akamai_manager \<Rightarrow> string \<Rightarrow> string" where
  "resolveEndpoint m hostname =
     (if ss_endpoint (k_storage m) \<noteq> [] then ss_endpoint (k_storage m)
      else if hostname \<noteq> [] then hostname
      else k_region m @ ''.linodeobjects.com'')"

definition ak_ReconcileBucket :: "env \<Rightarrow> akamai_manager \<Rightarrow> akamai_result io" where
  "ak_ReconcileBucket env m =
     (case validateStorageSpec m of
        Some err \<Rightarrow> fail (Errorf ''invalid storage spec: '' err [])
      | None \<Rightarrow>
          bindIO (wrapIO ''failed to ensure bucket exists: '' (ak_ensureBucketExists env m)) (\<lambda>hostname.
          bindIO (wrapIO ''failed to ensure access key: '' (ensureAccessKey env m)) (\<lambda>(accessKey, secretKey).
          handleIO (ak_claimOrVerifyOwnership env m)
            (\<lambda>err. bindIO
               (if errors_is err AkamaiErrBucketNotOwned then ignoreIO (deleteApplicationAccessKey env)
                else ret ()) (\<lambda>_. fail err))
            (\<lambda>_. ret \<lparr>ar_access_key = accessKey, ar_secret_key = secretKey,
                 ar_endpoint = resolveEndpoint m hostname\<rparr>))))"

section \<open>The marker as an ownership store\<close>

definition marker_view :: "string \<Rightarrow> owner_view" where
  "marker_view body =
     (case parseOwnerMarker body of
        (owner, legacy) \<Rightarrow>
          Some \<lparr>ow_uid = om_uid owner, ow_namespace = om_namespace owner,
                ow_ownership_id = om_ownership_id owner, ow_legacy = legacy\<rparr>)"

definition marker_read :: "env \<Rightarrow> akamai_manager \<Rightarrow> (owner_view \<times> unit) io" where
  "marker_read env m =
     handleIO (object_get env (k_bucket m) ownerMarkerKey)
       (\<lambda>err. if is_no_such_key err then ret (None, ())
          else fail (Errorf [] (Sentinel AkamaiErrBucketNotOwned)
                 ('': could not verify ownership marker: '' @ err_text err)))
       (\<lambda>content. case content of
          Inl err \<Rightarrow> fail (Errorf ''failed to read ownership marker: '' err [])
        | Inr body \<Rightarrow> ret (marker_view body, ()))"

definition marker_names :: "akamai_manager \<Rightarrow> application \<Rightarrow> event \<Rightarrow> bool" where
  "marker_names m app e =
     (case e of
        Linode (PutObject b k v r) \<Rightarrow> b = k_bucket m \<and> k = ownerMarkerKey \<and> v = marker_body app
      | _ \<Rightarrow> False)"

lemma ak_adopt_eq: "ak_adoptBucketRequested app = adopt_requested app"
  by (simp add: ak_adoptBucketRequested_def adopt_requested_def)

lemma ak_claim_is_protocol:
  "ak_claimOrVerifyOwnership env m =
     claim_protocol env ProviderAkamaiObjectStorage AkamaiErrBucketNotOwned
       (ak_ask_created env (k_bucket m)) (marker_read env m) (\<lambda>_. ak_claimOwnership env m)"
proof
  fix w :: world
  let ?resp = "get_object (e_linode env) (w_trace w) (k_bucket m) ownerMarkerKey"
  show "ak_claimOrVerifyOwnership env m w = claim_protocol env ProviderAkamaiObjectStorage
      AkamaiErrBucketNotOwned (ak_ask_created env (k_bucket m)) (marker_read env m)
      (\<lambda>_. ak_claimOwnership env m) w"
  proof (cases ?resp)
    case (Inl err)
    then show ?thesis
      by (simp add: ak_claimOrVerifyOwnership_def claim_protocol_def marker_read_def object_get_def
          bindIO_def handleIO_def call_def Let_def fail_def ret_def getApp_def ak_ask_created_def
          ak_adopt_eq claim_decision_def execute_decision_def ak_record_adopted_def)
  next
    case (Inr content)
    show ?thesis
    proof (cases content)
      case (Inl err)
      with Inr show ?thesis
        by (simp add: ak_claimOrVerifyOwnership_def claim_protocol_def marker_read_def object_get_def
            bindIO_def handleIO_def call_def Let_def fail_def)
    next
      case (Inr body)
      obtain owner legacy where parsed: "parseOwnerMarker body = (owner, legacy)" by fastforce
      from Inr \<open>?resp = Inr content\<close> show ?thesis
        by (simp add: ak_claimOrVerifyOwnership_def claim_protocol_def marker_read_def object_get_def
            bindIO_def handleIO_def call_def Let_def fail_def ret_def getApp_def ak_ask_created_def
            ak_adopt_eq claim_decision_def execute_decision_def ak_record_adopted_def
            ak_record_reclaimed_def marker_view_def parsed)
    qed
  qed
qed

lemma ak_claimOwnership_run:
  "ak_claimOwnership env m w = (r, w') \<Longrightarrow>
     w_app w' = w_app w \<and>
     (\<exists>x. w_trace w' = w_trace w @ [Linode (PutObject (k_bucket m) ownerMarkerKey (marker_body (w_app w)) x)] \<and>
          (r = Inr () \<longleftrightarrow> x = Inr ()))"
  by (auto simp: ak_claimOwnership_def object_put_def bindIO_def handleIO_def wrapIO_def call_def
      getApp_def fail_def ret_def Let_def split: sum.splits)

interpretation marker_store: ownership_store marker_read "\<lambda>env m _. ak_claimOwnership env m"
  "\<lambda>env m. ak_ask_created env (k_bucket m)" marker_names ProviderAkamaiObjectStorage AkamaiErrBucketNotOwned
proof unfold_locales
  fix env and m :: akamai_manager and w w' and s :: unit
  show "emits (\<lambda>e. \<not> bucket_write e) (marker_read env m)"
    unfolding marker_read_def object_get_def by (intro emits_intros) simp
  show "keeps_app (marker_read env m)"
    unfolding marker_read_def object_get_def by (intro keeps_intros)
  show "\<exists>b. ak_ask_created env (k_bucket m) w = (Inr b, w)"
    by (simp add: ak_ask_created_def)
  show "emits_as (\<lambda>a e. bucket_write e \<longrightarrow> marker_names m a e) (ak_claimOwnership env m)"
    unfolding emits_as_def
  proof
    fix w
    show "\<exists>es. w_trace (snd (ak_claimOwnership env m w)) = w_trace w @ es \<and>
        list_all (\<lambda>e. bucket_write e \<longrightarrow> marker_names m (w_app w) e) es"
      using ak_claimOwnership_run [of env m w]
      by (cases "ak_claimOwnership env m w") (fastforce simp: marker_names_def)
  qed
  show "w_app w' = w_app w \<and>
      (\<exists>h e. w_trace w' = h @ [e] \<and> write_succeeded e \<and> marker_names m (w_app w) e)"
    if "ak_claimOwnership env m w = (Inr (), w')"
    using ak_claimOwnership_run [OF that] by (fastforce simp: marker_names_def)
qed

text \<open>What a claim writes is read back as this Application's record.\<close>

lemma unmarshal_marker_body:
  "unmarshal_strings marker_fields (marker_body app) =
     Some ([(''uid'', app_uid app), (''namespace'', app_namespace app)] @
       (if ownership_id app = [] then [] else [(''ownershipId'', ownership_id app)]))"
  by (simp add: unmarshal_strings_def marker_body_def parse_marshal decode_marshal Let_def
      marker_fields_def field_of_def del: parse_value.simps)

lemma parse_marker_body:
  assumes "app_uid app \<noteq> []"
  shows "parseOwnerMarker (marker_body app) =
    (\<lparr>om_uid = app_uid app, om_namespace = app_namespace app, om_ownership_id = ownership_id app\<rparr>, False)"
  using assms by (simp add: parseOwnerMarker_def unmarshal_marker_body) (simp add: smap_get_def)

end
