(* ===== verification/Akamai_Cleanup.thy ===== *)
theory Akamai_Cleanup
  imports Akamai_Manager
begin

text \<open>
  \<open>internal/controller/akamaiobjstr/cleanup.go\<close>: deletion of a Linode bucket, of what is
  in it, and of the access key. The marker is checked first; the paginator over the objects
  yields as many pages as \<open>more_object_pages\<close> says when it is built.
\<close>

definition linode_delete_bucket :: "env \<Rightarrow> string \<Rightarrow> string \<Rightarrow> unit io" where
  "linode_delete_bucket env region b =
     call (\<lambda>h. delete_object_storage_bucket (e_linode env) h region b)
       (\<lambda>r. Linode (DeleteObjectStorageBucket region b r))"

definition object_list :: "env \<Rightarrow> string \<Rightarrow> nat \<Rightarrow> string list io" where
  "object_list env b n =
     call (\<lambda>h. list_objects_v2 (e_linode env) h b n) (\<lambda>r. Linode (ListObjectsV2 b n r))"

definition object_delete :: "env \<Rightarrow> string \<Rightarrow> string list \<Rightarrow> string list io" where
  "object_delete env b ks =
     call (\<lambda>h. delete_object_keys (e_linode env) h b ks) (\<lambda>r. Linode (DeleteObjectKeys b ks r))"

definition delete_page :: "env \<Rightarrow> akamai_manager \<Rightarrow> string list \<Rightarrow> unit io" where
  "delete_page env m keys =
     bindIO (wrapIO (''failed batch delete call in bucket '' @ k_bucket m @ '': '')
              (object_delete env (k_bucket m) keys)) (\<lambda>errors.
       case errors of
         [] \<Rightarrow> ret ()
       | e # es \<Rightarrow> fail (ErrorText (''failed to delete '' @ show_nat (length errors) @
           '' objects in bucket '' @ k_bucket m @ '' (first error: '' @ e @ '')'')))"

primrec empty_pages :: "env \<Rightarrow> akamai_manager \<Rightarrow> nat \<Rightarrow> nat \<Rightarrow> unit io" where
  "empty_pages env m 0 n = ret ()"
| "empty_pages env m (Suc remaining) n =
     bindIO (wrapIO (''failed to list objects in bucket '' @ [CHR 0x27] @ k_bucket m @ [CHR 0x27] @ '': '')
              (object_list env (k_bucket m) n)) (\<lambda>keys.
       bindIO (if keys = [] then ret () else delete_page env m keys)
         (\<lambda>_. empty_pages env m remaining (Suc n)))"

definition emptyBucket :: "env \<Rightarrow> akamai_manager \<Rightarrow> unit io" where
  "emptyBucket env m =
     bindIO (askEnv (\<lambda>h. more_object_pages (e_linode env) h (k_bucket m))) (\<lambda>more.
       empty_pages env m (Suc more) 0)"

definition verify_marker :: "env \<Rightarrow> akamai_manager \<Rightarrow> unit io" where
  "verify_marker env m =
     handleIO (object_get env (k_bucket m) ownerMarkerKey)
       (\<lambda>err.
         if is_no_such_key err then
           bindIO getApp (\<lambda>app.
           bindIO (ak_ask_created env (k_bucket m)) (\<lambda>created.
             if \<not> created \<and> \<not> ak_adoptBucketRequested app
             then fail (Errorf [] (Sentinel AkamaiErrBucketNotOwned)
                    '': marker missing and this Application has no durable record of creating or adopting it'')
             else ret ()))
         else fail (Errorf [] (Sentinel AkamaiErrBucketNotOwned)
                ('': could not verify ownership marker before deletion: '' @ err_text err)))
       (\<lambda>content. case content of
          Inl readErr \<Rightarrow> fail (Errorf ''failed to read ownership marker: '' readErr [])
        | Inr body \<Rightarrow>
            bindIO getApp (\<lambda>app.
              if om_uid (fst (parseOwnerMarker body)) \<noteq> app_uid app
              then fail (Errorf [] (Sentinel AkamaiErrBucketNotOwned) '': marker names a different Application'')
              else ret ()))"

text \<open>The deferred clean-up of the key runs on a not-owned error raised after the key was obtained.\<close>

definition verifyOwnershipAndEmptyBucket :: "env \<Rightarrow> akamai_manager \<Rightarrow> unit io" where
  "verifyOwnershipAndEmptyBucket env m =
     handleIO (linode_get_bucket env (k_region m) (k_bucket m))
       (\<lambda>err. if linode_not_found err then ret ()
          else fail (Errorf (''failed to look up bucket '' @ k_bucket m @ '': '') err []))
       (\<lambda>hostname.
          bindIO (wrapIO (''failed to obtain access key to verify/empty bucket '' @ k_bucket m @ '': '')
                   (ensureAccessKey env m)) (\<lambda>_.
          handleIO (bindIO (verify_marker env m) (\<lambda>_. emptyBucket env m))
            (\<lambda>err. bindIO
               (if errors_is err AkamaiErrBucketNotOwned then ignoreIO (deleteApplicationAccessKey env)
                else ret ()) (\<lambda>_. fail err))
            ret))"

definition deleteStorageBucket :: "env \<Rightarrow> akamai_manager \<Rightarrow> unit io" where
  "deleteStorageBucket env m =
     handleIO (linode_delete_bucket env (k_region m) (k_bucket m))
       (\<lambda>err. if \<not> linode_not_found err
          then fail (Errorf (''failed to delete bucket '' @ [CHR 0x27] @ k_bucket m @ [CHR 0x27] @ '': '') err [])
          else ret ())
       ret"

text \<open>The two errors of the Go function: the access key's, then the bucket's.\<close>

definition ak_DeleteBucket :: "env \<Rightarrow> akamai_manager \<Rightarrow> (gerror option \<times> gerror option) io" where
  "ak_DeleteBucket env m =
     (if k_bucket m = [] then ret (None, None)
      else handleIO (verifyOwnershipAndEmptyBucket env m)
        (\<lambda>err. ret (None, Some (Errorf (''refusing to delete bucket '' @ k_bucket m @ '': '') err [])))
        (\<lambda>_. bindIO (tryIO (deleteApplicationAccessKey env)) (\<lambda>key.
           let accessKeyErr = (case key of Inl keyErr \<Rightarrow> Some keyErr | Inr _ \<Rightarrow> None)
           in handleIO (deleteStorageBucket env m)
                (\<lambda>err. ret (accessKeyErr, Some err))
                (\<lambda>_. ret (accessKeyErr, None)))))"

definition ak_CleanupCredentialsOnly :: "env \<Rightarrow> akamai_manager \<Rightarrow> unit io" where
  "ak_CleanupCredentialsOnly env m = deleteApplicationAccessKey env"

section \<open>What the steps call\<close>

lemma ak_ask_created_quiet [emits_intros, keeps_intros]:
  "emits P (ak_ask_created env b)" "keeps_app (ak_ask_created env b)"
  by (simp_all add: emits_def keeps_app_def ak_ask_created_def)

lemma ensureAccessKey_emits:
  "(\<And>e. is_kube_read e \<Longrightarrow> P e) \<Longrightarrow> (\<And>r. P (Linode (ListObjectStorageKeys r))) \<Longrightarrow>
   (\<And>l g b r. P (Linode (CreateObjectStorageKey l g b r))) \<Longrightarrow>
   (\<And>i r. P (Linode (DeleteObjectStorageKey i r))) \<Longrightarrow> emits P (ensureAccessKey env m)"
  unfolding ensureAccessKey_def create_access_key_def recoverSecretKey_def kube_get_secret_def
    linode_list_keys_def linode_create_key_def linode_delete_key_def Let_def
  by (intro emits_intros) simp_all

lemma ensureAccessKey_keeps: "keeps_app (ensureAccessKey env m)"
  unfolding ensureAccessKey_def create_access_key_def recoverSecretKey_def kube_get_secret_def
    linode_list_keys_def linode_create_key_def linode_delete_key_def Let_def
  by (intro keeps_intros)

lemma deleteApplicationAccessKey_emits:
  "(\<And>r. P (Linode (ListObjectStorageKeys r))) \<Longrightarrow> (\<And>i r. P (Linode (DeleteObjectStorageKey i r))) \<Longrightarrow>
   emits P (deleteApplicationAccessKey env)"
  unfolding deleteApplicationAccessKey_def findAccessKeyIDByLabel_def linode_list_keys_def
    linode_delete_key_def Let_def
  by (intro emits_intros) simp_all

lemma deleteApplicationAccessKey_keeps: "keeps_app (deleteApplicationAccessKey env)"
  unfolding deleteApplicationAccessKey_def findAccessKeyIDByLabel_def linode_list_keys_def
    linode_delete_key_def Let_def
  by (intro keeps_intros)

lemma verify_marker_quiet: "emits (\<lambda>e. \<not> bucket_write e) (verify_marker env m)"
  unfolding verify_marker_def object_get_def
  by (intro emits_intros ak_ask_created_quiet) simp_all

lemma verify_marker_keeps: "keeps_app (verify_marker env m)"
  unfolding verify_marker_def object_get_def
  by (intro keeps_intros ak_ask_created_quiet)

lemma emptyBucket_emits:
  "(\<And>n r. P (Linode (ListObjectsV2 (k_bucket m) n r))) \<Longrightarrow>
   (\<And>ks r. P (Linode (DeleteObjectKeys (k_bucket m) ks r))) \<Longrightarrow> emits P (emptyBucket env m)"
proof -
  assume P: "\<And>n r. P (Linode (ListObjectsV2 (k_bucket m) n r))"
    "\<And>ks r. P (Linode (DeleteObjectKeys (k_bucket m) ks r))"
  have page: "emits P (delete_page env m ks)" for ks
    unfolding delete_page_def object_delete_def
    by (intro emits_intros) (simp_all add: P emits_quiet split: list.splits)
  have "emits P (empty_pages env m k n)" for k n
  proof (induction k arbitrary: n)
    case (Suc k)
    show ?case
      unfolding empty_pages.simps object_list_def by (intro emits_intros page Suc.IH) (simp add: P)
  qed (simp add: emits_quiet)
  then show ?thesis unfolding emptyBucket_def by (intro emits_intros)
qed

lemma emptyBucket_keeps: "keeps_app (emptyBucket env m)"
proof -
  have page: "keeps_app (delete_page env m ks)" for ks
    unfolding delete_page_def object_delete_def
    by (intro keeps_intros) (simp add: keeps_quiet split: list.splits)
  have "keeps_app (empty_pages env m k n)" for k n
  proof (induction k arbitrary: n)
    case (Suc k)
    show ?case
      unfolding empty_pages.simps object_list_def by (intro keeps_intros page Suc.IH)
  qed (simp add: keeps_quiet)
  then show ?thesis unfolding emptyBucket_def by (intro keeps_intros)
qed

section \<open>Nothing is destroyed before the evidence\<close>

definition marker_evidence :: "env \<Rightarrow> akamai_manager \<Rightarrow> application \<Rightarrow> history \<Rightarrow> event \<Rightarrow> bool" where
  "marker_evidence env m app h e =
     (case e of
        Linode (GetObjectStorageBucket rg b (Inl err)) \<Rightarrow>
          rg = k_region m \<and> b = k_bucket m \<and> linode_not_found err
      | Linode (GetObject b k r) \<Rightarrow> b = k_bucket m \<and> k = ownerMarkerKey \<and>
          (case r of
             Inl err \<Rightarrow> is_no_such_key err \<and>
               (ak_previouslyCreatedByUs env b \<lparr>w_trace = h @ [e], w_app = app\<rparr> \<or> ak_adoptBucketRequested app)
           | Inr (Inl _) \<Rightarrow> False
           | Inr (Inr body) \<Rightarrow> om_uid (fst (parseOwnerMarker body)) = app_uid app)
      | _ \<Rightarrow> False)"

lemma verify_marker_authorises: "authorises (marker_evidence env m) (verify_marker env m)"
  unfolding authorises_def
proof (intro allI impI)
  fix w x w'
  assume run: "verify_marker env m w = (Inr x, w')"
  let ?e = "Linode (GetObject (k_bucket m) ownerMarkerKey
      (get_object (e_linode env) (w_trace w) (k_bucket m) ownerMarkerKey))"
  have "w_trace w' = w_trace w @ [?e] \<and> marker_evidence env m (w_app w) (w_trace w) ?e"
    using run
    by (auto simp: verify_marker_def object_get_def marker_evidence_def io_simps Let_def
        ak_ask_created_def ak_previouslyCreatedByUs_def split: sum.splits if_splits option.splits)
  then show "\<exists>es. w_trace w' = w_trace w @ es \<and> has_evidence (marker_evidence env m (w_app w)) (w_trace w) es"
    by (intro exI [of _ "[?e]"]) simp
qed

lemma not_write_not_destroy: "\<not> bucket_write e \<Longrightarrow> \<not> destroys e"
  using destroys_is_write by blast

lemma verify_and_empty_guarded:
  "guarded_io (marker_evidence env m) destroys (verifyOwnershipAndEmptyBucket env m)"
proof -
  let ?G = "marker_evidence env m"
  have empty: "guarded_io ?G destroys (bindIO (verify_marker env m) (\<lambda>_. emptyBucket env m))"
    unfolding bindIO_def
    by (intro guarded_after guarded_quiet verify_marker_authorises emptyBucket_emits emits_intros
        emits_mono [OF verify_marker_quiet] not_write_not_destroy) simp_all
  have auth: "authorises ?G (bindIO (verify_marker env m) (\<lambda>_. emptyBucket env m))"
    by (intro authorises_first verify_marker_authorises emptyBucket_emits) simp_all
  have inner: "guarded_io ?G destroys
      (handleIO (bindIO (verify_marker env m) (\<lambda>_. emptyBucket env m))
        (\<lambda>err. bindIO (if errors_is err AkamaiErrBucketNotOwned
           then ignoreIO (deleteApplicationAccessKey env) else ret ()) (\<lambda>_. fail err)) ret)"
    by (intro guarded_after empty auth emits_intros deleteApplicationAccessKey_emits) simp_all
  show ?thesis
    unfolding verifyOwnershipAndEmptyBucket_def linode_get_bucket_def bindIO_def
    by (intro guarded_handle guarded_quiet emits_intros keeps_intros ensureAccessKey_emits
        ensureAccessKey_keeps inner [unfolded bindIO_def])
       (auto simp: is_kube_read_def split: event.splits kube_event.splits)
qed

lemma verify_and_empty_authorises:
  "authorises (marker_evidence env m) (verifyOwnershipAndEmptyBucket env m)"
  unfolding authorises_def
proof (intro allI impI)
  fix w x w'
  assume run: "verifyOwnershipAndEmptyBucket env m w = (Inr x, w')"
  let ?G = "marker_evidence env m"
  let ?r = "get_object_storage_bucket (e_linode env) (w_trace w) (k_region m) (k_bucket m)"
  let ?e = "Linode (GetObjectStorageBucket (k_region m) (k_bucket m) ?r)"
  let ?w1 = "w\<lparr>w_trace := w_trace w @ [?e]\<rparr>"
  show "\<exists>es. w_trace w' = w_trace w @ es \<and> has_evidence (?G (w_app w)) (w_trace w) es"
  proof (cases ?r)
    case (Inl err)
    with run have "w_trace w' = w_trace w @ [?e]" "?G (w_app w) (w_trace w) ?e"
      by (auto simp: verifyOwnershipAndEmptyBucket_def linode_get_bucket_def handleIO_def call_def
          Let_def ret_def fail_def marker_evidence_def split: if_splits)
    then show ?thesis by (intro exI [of _ "[?e]"]) simp
  next
    case (Inr hostname)
    let ?rest = "bindIO (wrapIO (''failed to obtain access key to verify/empty bucket '' @ k_bucket m @ '': '')
                   (ensureAccessKey env m)) (\<lambda>_.
          handleIO (bindIO (verify_marker env m) (\<lambda>_. emptyBucket env m))
            (\<lambda>err. bindIO (if errors_is err AkamaiErrBucketNotOwned
               then ignoreIO (deleteApplicationAccessKey env) else ret ()) (\<lambda>_. fail err)) ret)"
    have "authorises ?G (handleIO (bindIO (verify_marker env m) (\<lambda>_. emptyBucket env m))
            (\<lambda>err. bindIO (if errors_is err AkamaiErrBucketNotOwned
               then ignoreIO (deleteApplicationAccessKey env) else ret ()) (\<lambda>_. fail err)) ret)"
    proof -
      have "authorises ?G (bindIO (verify_marker env m) (\<lambda>_. emptyBucket env m))"
        by (intro authorises_first verify_marker_authorises emptyBucket_emits) simp_all
      then show ?thesis
        unfolding authorises_def
        by (auto simp: handleIO_Inr_iff bindIO_Inr_iff fail_def ret_def)
    qed
    then have "authorises ?G ?rest"
      by (intro authorises_then emits_intros keeps_intros ensureAccessKey_emits ensureAccessKey_keeps) simp_all
    moreover have "?rest ?w1 = (Inr x, w')"
      using run Inr by (simp add: verifyOwnershipAndEmptyBucket_def linode_get_bucket_def handleIO_def
          call_def Let_def)
    ultimately obtain es where "w_trace w' = w_trace ?w1 @ es" "has_evidence (?G (w_app w)) (w_trace ?w1) es"
      unfolding authorises_def by fastforce
    then show ?thesis by (intro exI [of _ "?e # es"]) simp
  qed
qed

lemma ak_DeleteBucket_guarded: "guarded_io (marker_evidence env m) destroys (ak_DeleteBucket env m)"
proof (cases "k_bucket m = []")
  case True
  then show ?thesis by (simp add: ak_DeleteBucket_def guarded_quiet emits_quiet)
next
  case False
  then show ?thesis
    unfolding ak_DeleteBucket_def deleteStorageBucket_def linode_delete_bucket_def if_not_P [OF False]
    by (intro guarded_after verify_and_empty_guarded verify_and_empty_authorises emits_intros
        deleteApplicationAccessKey_emits) simp_all
qed

lemma ak_DeleteBucket_keeps: "keeps_app (ak_DeleteBucket env m)"
  unfolding ak_DeleteBucket_def verifyOwnershipAndEmptyBucket_def deleteStorageBucket_def
    linode_get_bucket_def linode_delete_bucket_def
  by (intro keeps_intros ensureAccessKey_keeps verify_marker_keeps emptyBucket_keeps
      deleteApplicationAccessKey_keeps)

interpretation ak_cleanup: bucket_cleanup ak_DeleteBucket ak_CleanupCredentialsOnly marker_evidence
proof unfold_locales
  fix env and m :: akamai_manager and w r w'
  show "\<exists>es. w_trace w' = w_trace w @ es \<and>
      guarded_trace (marker_evidence env m (w_app w)) destroys (w_trace w) es"
    if "ak_DeleteBucket env m w = (r, w')"
    using ak_DeleteBucket_guarded [of env m] that unfolding guarded_io_def by (metis snd_conv)
  show "emits (\<lambda>e. \<not> bucket_write e) (ak_CleanupCredentialsOnly env m)"
    unfolding ak_CleanupCredentialsOnly_def by (intro deleteApplicationAccessKey_emits) simp_all
  show "keeps_app (ak_DeleteBucket env m)" by (rule ak_DeleteBucket_keeps)
  show "keeps_app (ak_CleanupCredentialsOnly env m)"
    unfolding ak_CleanupCredentialsOnly_def by (rule deleteApplicationAccessKey_keeps)
qed

end
