(* ===== verification/S3_Manager.thy ===== *)
theory S3_Manager
  imports Ownership Error_Class
begin

text \<open>
  \<open>internal/controller/s3/client.go\<close> and \<open>s3/desireds3.go\<close>: construction of the AWS
  manager, provisioning of the bucket (creation, ownership tags, versioning, lifecycle rules)
  and of the Application's IAM role. The Go \<open>Manager\<close> holds a pointer to the
  \<open>Application\<close>; that object is the \<open>w_app\<close> of the world, so that what the
  \<open>recordCreated\<close> callback stores in its status is seen by \<open>previouslyCreatedByUs\<close>
  afterwards, as in the code.
\<close>

section \<open>SDK calls\<close>

definition s3_head_bucket :: "env \<Rightarrow> string \<Rightarrow> unit io" where
  "s3_head_bucket env b = call (\<lambda>h. head_bucket (e_s3 env) h b) (\<lambda>r. S3 (HeadBucket b r))"

definition s3_create_bucket :: "env \<Rightarrow> string \<Rightarrow> string option \<Rightarrow> unit io" where
  "s3_create_bucket env b loc =
     call (\<lambda>h. create_bucket (e_s3 env) h b loc) (\<lambda>r. S3 (CreateBucket b loc r))"

definition s3_get_bucket_tagging :: "env \<Rightarrow> string \<Rightarrow> tag list io" where
  "s3_get_bucket_tagging env b =
     call (\<lambda>h. get_bucket_tagging (e_s3 env) h b) (\<lambda>r. S3 (GetBucketTagging b r))"

definition s3_put_bucket_tagging :: "env \<Rightarrow> string \<Rightarrow> tag list \<Rightarrow> unit io" where
  "s3_put_bucket_tagging env b ts =
     call (\<lambda>h. put_bucket_tagging (e_s3 env) h b ts) (\<lambda>r. S3 (PutBucketTagging b ts r))"

definition s3_put_bucket_versioning :: "env \<Rightarrow> string \<Rightarrow> bool \<Rightarrow> unit io" where
  "s3_put_bucket_versioning env b on =
     call (\<lambda>h. put_bucket_versioning (e_s3 env) h b on) (\<lambda>r. S3 (PutBucketVersioning b on r))"

definition s3_put_bucket_lifecycle :: "env \<Rightarrow> string \<Rightarrow> s3_lifecycle_rule list \<Rightarrow> unit io" where
  "s3_put_bucket_lifecycle env b rs =
     call (\<lambda>h. put_bucket_lifecycle (e_s3 env) h b rs) (\<lambda>r. S3 (PutBucketLifecycle b rs r))"

definition s3_delete_bucket_lifecycle :: "env \<Rightarrow> string \<Rightarrow> unit io" where
  "s3_delete_bucket_lifecycle env b =
     call (\<lambda>h. delete_bucket_lifecycle (e_s3 env) h b) (\<lambda>r. S3 (DeleteBucketLifecycle b r))"

definition iam_get_role :: "env \<Rightarrow> string \<Rightarrow> string io" where
  "iam_get_role env role = call (\<lambda>h. get_role (e_iam env) h role) (\<lambda>r. Iam (GetRole role r))"

definition iam_create_role :: "env \<Rightarrow> string \<Rightarrow> string \<Rightarrow> string \<Rightarrow> string io" where
  "iam_create_role env role pol boundary =
     call (\<lambda>h. create_role (e_iam env) h role pol boundary) (\<lambda>r. Iam (CreateRole role pol boundary r))"

definition iam_update_trust :: "env \<Rightarrow> string \<Rightarrow> string \<Rightarrow> unit io" where
  "iam_update_trust env role pol =
     call (\<lambda>h. update_assume_role_policy (e_iam env) h role pol)
       (\<lambda>r. Iam (UpdateAssumeRolePolicy role pol r))"

definition iam_put_role_policy :: "env \<Rightarrow> string \<Rightarrow> string \<Rightarrow> string \<Rightarrow> unit io" where
  "iam_put_role_policy env role name pol =
     call (\<lambda>h. put_role_policy (e_iam env) h role name pol) (\<lambda>r. Iam (PutRolePolicy role name pol r))"

lemmas s3_call_defs = s3_head_bucket_def s3_create_bucket_def s3_get_bucket_tagging_def
  s3_put_bucket_tagging_def s3_put_bucket_versioning_def s3_put_bucket_lifecycle_def
  s3_delete_bucket_lifecycle_def iam_get_role_def iam_create_role_def iam_update_trust_def
  iam_put_role_policy_def

section \<open>The manager\<close>

definition defaultRegion :: string where
  "defaultRegion = ''us-east-1''"

record s3_manager =
  m_storage :: storage_spec
  m_bucket :: string
  m_region :: string
  m_service_account :: string
  m_oidc_arn :: string
  m_oidc_url :: string
  m_boundary_arn :: string
  m_record_created :: "unit io option"

text \<open>
  \<open>NewManager\<close>; the two rate limiters only delay calls and are left out. The client that is
  built is recorded with its region, its endpoint and the Secret its static credentials were
  read from.
\<close>

definition static_credentials :: "env \<Rightarrow> string \<Rightarrow> string \<Rightarrow> unit io" where
  "static_credentials env ns credentialsSecretRef =
     handleIO (kube_get_secret env ns credentialsSecretRef)
       (\<lambda>err. if kube_not_found err
              then fail (Errorf [] (Sentinel ErrCredentialsSecretNotFound) ('': '' @ credentialsSecretRef))
              else fail err)
       (\<lambda>data. if map_of data ''AWS_ACCESS_KEY_ID'' = None \<or> map_of data ''AWS_SECRET_ACCESS_KEY'' = None
              then fail (ErrorText (''AWS credentials not found in secret '' @ credentialsSecretRef))
              else ret ())"

definition build_s3_manager ::
  "env \<Rightarrow> application \<Rightarrow> storage_spec \<Rightarrow> string \<Rightarrow> string \<Rightarrow> string \<Rightarrow> string \<Rightarrow> unit io option \<Rightarrow> s3_manager io" where
  "build_s3_manager env app storage sa oidcARN oidcURL boundaryARN recordCreated =
     (let region = (if ss_region storage = [] then defaultRegion else ss_region storage);
          secretRef = (case ss_aws storage of
             Some aws \<Rightarrow> if aws_credentials_secret_ref aws \<noteq> []
                         then Some (aws_credentials_secret_ref aws) else None
           | None \<Rightarrow> None)
      in bindIO (case secretRef of None \<Rightarrow> ret () | Some s \<Rightarrow> static_credentials env (app_namespace app) s) (\<lambda>_.
         bindIO (wrapIO ''failed to load AWS config: ''
           (bindIO (askEnv (\<lambda>h. load_aws_config (e_lib env) h region))
             (\<lambda>r. case r of Inl e \<Rightarrow> fail e | Inr u \<Rightarrow> ret u))) (\<lambda>_.
         bindIO (emit (S3 (ClientBuilt region (ss_endpoint storage) secretRef))) (\<lambda>_.
         ret \<lparr>m_storage = storage, m_bucket = ss_bucket storage, m_region = region,
              m_service_account = sa, m_oidc_arn = oidcARN, m_oidc_url = oidcURL,
              m_boundary_arn = boundaryARN, m_record_created = recordCreated\<rparr>))))"

definition NewS3Manager ::
  "env \<Rightarrow> string \<Rightarrow> string \<Rightarrow> string \<Rightarrow> string \<Rightarrow> unit io option \<Rightarrow> s3_manager io" where
  "NewS3Manager env sa oidcARN oidcURL boundaryARN recordCreated =
     bindIO getApp (\<lambda>app.
     case app_storage app of
       None \<Rightarrow> fail (ErrorText (''storage spec is nil for application '' @ app_name app))
     | Some storage \<Rightarrow>
         if recordCreated \<noteq> None \<and> oidcARN = [] then
           fail (ErrorText (''OIDC_PROVIDER_ARN is not configured, required to create IRSA roles for application ''
             @ app_name app))
         else if recordCreated \<noteq> None \<and> oidcURL = [] then
           fail (ErrorText (''OIDC_PROVIDER_URL is not configured, required to create IRSA roles for application ''
             @ app_name app))
         else if recordCreated \<noteq> None \<and> boundaryARN = [] then
           fail (ErrorText (''APP_IRSA_PERMISSIONS_BOUNDARY_ARN is not configured, required to create IRSA roles for application ''
             @ app_name app))
         else build_s3_manager env app storage sa oidcARN oidcURL boundaryARN recordCreated)"

section \<open>Ownership tags\<close>

definition ownerTagKey :: string where
  "ownerTagKey = ''forge-operator.ningendo7.github.io/owner-uid''"

definition ownerNamespaceTagKey :: string where
  "ownerNamespaceTagKey = ''forge-operator.ningendo7.github.io/owner-namespace''"

definition ownershipIDTagKey :: string where
  "ownershipIDTagKey = ''forge-operator.ningendo7.github.io/ownership-id''"

definition noSuchTagSetErrorCode :: string where "noSuchTagSetErrorCode = ''NoSuchTagSet''"
definition noSuchBucketErrorCode :: string where "noSuchBucketErrorCode = ''NoSuchBucket''"

definition bucketCreationClaimWindow :: duration where
  "bucketCreationClaimWindow = hour"

lemma tag_keys_distinct [simp]:
  "ownerTagKey \<noteq> ownerNamespaceTagKey" "ownerNamespaceTagKey \<noteq> ownerTagKey"
  "ownerTagKey \<noteq> ownershipIDTagKey" "ownershipIDTagKey \<noteq> ownerTagKey"
  "ownerNamespaceTagKey \<noteq> ownershipIDTagKey" "ownershipIDTagKey \<noteq> ownerNamespaceTagKey"
  "noSuchTagSetErrorCode \<noteq> noSuchBucketErrorCode" "noSuchBucketErrorCode \<noteq> noSuchTagSetErrorCode"
  by (simp_all add: ownerTagKey_def ownerNamespaceTagKey_def ownershipIDTagKey_def
      noSuchTagSetErrorCode_def noSuchBucketErrorCode_def)

definition previouslyCreatedByUs :: "env \<Rightarrow> string \<Rightarrow> world \<Rightarrow> bool" where
  "previouslyCreatedByUs env bucket w =
     (case app_status_storage (w_app w) of
        None \<Rightarrow> False
      | Some status \<Rightarrow> st_bucket status = bucket \<and> st_created status \<and>
          time_sub (now (e_lib env) (w_trace w)) (st_created_at status) < bucketCreationClaimWindow)"

definition ask_previously_created :: "env \<Rightarrow> string \<Rightarrow> bool io" where
  "ask_previously_created env bucket w = (Inr (previouslyCreatedByUs env bucket w), w)"

definition adoptBucketRequested :: "application \<Rightarrow> bool" where
  "adoptBucketRequested app \<longleftrightarrow> app_annotation app AdoptBucketAnnotation = AdoptBucketAnnotationValue"

definition owner_tags :: "application \<Rightarrow> tag list" where
  "owner_tags app =
     [(ownerTagKey, app_uid app), (ownerNamespaceTagKey, app_namespace app)] @
     (let ownershipID = app_annotation app StorageOwnershipIDAnnotation
      in if ownershipID \<noteq> [] then [(ownershipIDTagKey, ownershipID)] else [])"

definition tagAsOwned :: "env \<Rightarrow> s3_manager \<Rightarrow> tag list \<Rightarrow> unit io" where
  "tagAsOwned env m otherTags =
     bindIO getApp (\<lambda>app.
     wrapIO (''failed to tag bucket '' @ m_bucket m @ '' as owned: '')
       (s3_put_bucket_tagging env (m_bucket m) (otherTags @ owner_tags app)))"

definition tagsExcludingOwner :: "tag list \<Rightarrow> tag list" where
  "tagsExcludingOwner tagSet =
     filter (\<lambda>(key, value). key \<noteq> ownerTagKey \<and> key \<noteq> ownerNamespaceTagKey \<and> key \<noteq> ownershipIDTagKey)
       tagSet"

text \<open>The scan of the tag set: the value of the last tag with a key, as the loop leaves it.\<close>

definition scan_tag :: "string \<Rightarrow> tag list \<Rightarrow> string option" where
  "scan_tag key tagSet = last_match (\<lambda>(k, v). if k = key then Some v else None) tagSet"

definition tag_or_empty :: "string \<Rightarrow> tag list \<Rightarrow> string" where
  "tag_or_empty key tagSet = (case scan_tag key tagSet of None \<Rightarrow> [] | Some v \<Rightarrow> v)"

definition record_adopted :: "string \<Rightarrow> unit io" where
  "record_adopted provider = emit (Metric (StorageBucketAdoptedTotal provider))"

definition record_reclaimed :: "string \<Rightarrow> unit io" where
  "record_reclaimed provider = emit (Metric (StorageOwnershipReclaimedTotal provider))"

definition claimUntagged :: "env \<Rightarrow> s3_manager \<Rightarrow> tag list \<Rightarrow> unit io" where
  "claimUntagged env m tags =
     bindIO getApp (\<lambda>app.
     bindIO (ask_previously_created env (m_bucket m)) (\<lambda>created.
       if created then tagAsOwned env m tags
       else if adoptBucketRequested app then
         bindIO (record_adopted ProviderAWSS3) (\<lambda>_. tagAsOwned env m tags)
       else fail (Sentinel S3ErrBucketNotOwned)))"

definition claimOrVerifyOwnership :: "env \<Rightarrow> s3_manager \<Rightarrow> unit io" where
  "claimOrVerifyOwnership env m =
     handleIO (s3_get_bucket_tagging env (m_bucket m))
       (\<lambda>err. if api_error_code err = Some noSuchTagSetErrorCode then claimUntagged env m []
              else fail (Errorf [] (Sentinel S3ErrBucketNotOwned)
                     ('': could not verify ownership tag: '' @ err_text err)))
       (\<lambda>tagSet. bindIO getApp (\<lambda>app.
          let ownerNamespace = tag_or_empty ownerNamespaceTagKey tagSet;
              ownerOwnershipID = tag_or_empty ownershipIDTagKey tagSet;
              myOwnershipID = app_annotation app StorageOwnershipIDAnnotation
          in case scan_tag ownerTagKey tagSet of
               None \<Rightarrow> claimUntagged env m tagSet
             | Some ownerUID \<Rightarrow>
                 if ownerUID = app_uid app then
                   (if ownerNamespace \<noteq> app_namespace app \<or> ownerOwnershipID \<noteq> myOwnershipID
                    then tagAsOwned env m (tagsExcludingOwner tagSet)
                    else ret ())
                 else if myOwnershipID \<noteq> [] \<and> ownerOwnershipID = myOwnershipID then
                   bindIO (record_reclaimed ProviderAWSS3)
                     (\<lambda>_. tagAsOwned env m (tagsExcludingOwner tagSet))
                 else if \<not> adoptBucketRequested app then fail (Sentinel S3ErrBucketNotOwned)
                 else handleIO
                   (EvaluateBucketAdoption env ownerUID ownerNamespace (app_namespace app))
                   (\<lambda>err. fail (Errorf [] (Sentinel S3ErrBucketNotOwned) ('': '' @ err_text err)))
                   (\<lambda>_. bindIO (record_adopted ProviderAWSS3)
                     (\<lambda>_. tagAsOwned env m (tagsExcludingOwner tagSet)))))"

section \<open>Bucket creation\<close>

definition recordBucketCreated :: "env \<Rightarrow> s3_manager \<Rightarrow> unit io" where
  "recordBucketCreated env m =
     (case m_record_created m of
        None \<Rightarrow> fail (ErrorText ''recordCreated callback not configured'')
      | Some cb \<Rightarrow> wrapIO (''failed to record bucket creation for '' @ m_bucket m @ '': '') cb)"

definition s3_CreateBucket :: "env \<Rightarrow> s3_manager \<Rightarrow> unit io" where
  "s3_CreateBucket env m =
     wrapIO (''failed to create bucket '' @ m_bucket m @ '': '')
       (s3_create_bucket env (m_bucket m)
         (if m_region m \<noteq> defaultRegion then Some (m_region m) else None))"

definition create_and_claim :: "env \<Rightarrow> s3_manager \<Rightarrow> unit io" where
  "create_and_claim env m =
     bindIO (s3_CreateBucket env m) (\<lambda>_.
     bindIO (recordBucketCreated env m) (\<lambda>_.
     claimOrVerifyOwnership env m))"

definition ensureBucketExists :: "env \<Rightarrow> s3_manager \<Rightarrow> unit io" where
  "ensureBucketExists env m =
     handleIO (s3_head_bucket env (m_bucket m))
       (\<lambda>err.
         if is_s3_not_found err then create_and_claim env m
         else case response_status err of
           Some status \<Rightarrow>
             if status = 404 then create_and_claim env m
             else if status = 403 then
               fail (Errorf (''access denied to bucket '' @ m_bucket m @ '': '') err [])
             else if status = 301 then
               fail (Errorf (''bucket '' @ m_bucket m @ '' is in a different region: '') err [])
             else fail (Errorf (''unexpected error checking bucket '' @ m_bucket m @ '': '') err [])
         | None \<Rightarrow> fail err)
       (\<lambda>_. claimOrVerifyOwnership env m)"

section \<open>Versioning and lifecycle rules\<close>

definition versioningEnabled :: "s3_manager \<Rightarrow> bool" where
  "versioningEnabled m =
     (case ss_aws (m_storage m) of
        None \<Rightarrow> True
      | Some aws \<Rightarrow> (case aws_versioning_enabled aws of None \<Rightarrow> True | Some b \<Rightarrow> b))"

definition ensureVersioning :: "env \<Rightarrow> s3_manager \<Rightarrow> unit io" where
  "ensureVersioning env m =
     (let on = versioningEnabled m;
          status = (if on then ''Enabled'' else ''Suspended'')
      in wrapIO (''failed to set versioning ('' @ status @ '') for bucket '' @ m_bucket m @ '': '')
           (s3_put_bucket_versioning env (m_bucket m) on))"

definition defaultLifecycleRuleID :: string where
  "defaultLifecycleRuleID = ''StandardLifecycleRule''"

definition defaultLifecycleRules :: "lifecycle_rule list" where
  "defaultLifecycleRules =
     [\<lparr>lr_id = defaultLifecycleRuleID, lr_enabled = None, lr_prefix = [], lr_expiration_days = None,
       lr_noncurrent_version_expiration_days = Some 30,
       lr_abort_incomplete_multipart_upload_days = Some 7,
       lr_transitions = [\<lparr>lt_days = 30, lt_storage_class = ''STANDARD_IA''\<rparr>]\<rparr>]"

definition desiredLifecycleRules :: "s3_manager \<Rightarrow> lifecycle_rule list" where
  "desiredLifecycleRules m =
     (case ss_aws (m_storage m) of
        None \<Rightarrow> defaultLifecycleRules
      | Some aws \<Rightarrow> (case aws_lifecycle_rules aws of None \<Rightarrow> defaultLifecycleRules | Some rs \<Rightarrow> rs))"

definition to_s3_rule :: "nat \<Rightarrow> lifecycle_rule \<Rightarrow> s3_lifecycle_rule" where
  "to_s3_rule i rule =
     \<lparr>s3r_id = (if lr_id rule = [] then ''rule-'' @ show_nat i else lr_id rule),
      s3r_enabled = (case lr_enabled rule of None \<Rightarrow> True | Some b \<Rightarrow> b),
      s3r_prefix = lr_prefix rule,
      s3r_expiration_days = lr_expiration_days rule,
      s3r_noncurrent_days = lr_noncurrent_version_expiration_days rule,
      s3r_abort_days = lr_abort_incomplete_multipart_upload_days rule,
      s3r_transitions = map (\<lambda>t. (lt_days t, lt_storage_class t)) (lr_transitions rule)\<rparr>"

text \<open>\<open>cleanup.go\<close>'s test for a missing bucket, shared with the lifecycle removal here.\<close>

definition isNotFoundError :: "gerror \<Rightarrow> bool" where
  "isNotFoundError err \<longleftrightarrow> is_no_such_bucket err \<or> response_status err = Some 404"

definition ensureLifecyclePolicy :: "env \<Rightarrow> s3_manager \<Rightarrow> unit io" where
  "ensureLifecyclePolicy env m =
     (let rules = desiredLifecycleRules m
      in if rules = [] then
           handleIO (s3_delete_bucket_lifecycle env (m_bucket m))
             (\<lambda>err. if \<not> isNotFoundError err
                then fail (Errorf (''failed to remove lifecycle policy for bucket '' @ m_bucket m @ '': '') err [])
                else ret ())
             ret
         else
           wrapIO (''failed to set lifecycle policy for bucket '' @ m_bucket m @ '': '')
             (s3_put_bucket_lifecycle env (m_bucket m)
               (map (\<lambda>(i, rule). to_s3_rule i rule) (enumerate 0 rules))))"

section \<open>The Application's IAM role\<close>

definition awsIAMRoleNameMaxLen :: int where "awsIAMRoleNameMaxLen = 64"
definition s3BucketAccessPolicyName :: string where "s3BucketAccessPolicyName = ''S3BucketAccessPolicy''"

definition irsaRoleName :: "application \<Rightarrow> string" where
  "irsaRoleName app =
     CloudResourceName [''app-irsa'', app_namespace app, app_name app] awsIAMRoleNameMaxLen"

text \<open>The two policy documents, line by line: the indentation (in tabs) and the text.\<close>

definition document_lines :: "(nat \<times> string) list \<Rightarrow> string" where
  "document_lines ls = strings_join (map (\<lambda>(n, t). replicate n (CHR 0x09) @ t) ls) [CHR 0x0A]"

definition oidc_host :: "string \<Rightarrow> string" where
  "oidc_host url = trim_suffix (trim_prefix url ''https://'') ''/''"

definition trust_policy :: "s3_manager \<Rightarrow> application \<Rightarrow> string" where
  "trust_policy m app =
     (let oidcHost = oidc_host (m_oidc_url m)
      in document_lines
        [(0, ''{''),
         (1, ''\"Version\": \"2012-10-17\",''),
         (1, ''\"Statement\": [''),
         (2, ''{''),
         (3, ''\"Effect\": \"Allow\",''),
         (3, ''\"Principal\": {''),
         (4, ''\"Federated\": \"'' @ m_oidc_arn m @ ''\"''),
         (3, ''},''),
         (3, ''\"Action\": \"sts:AssumeRoleWithWebIdentity\",''),
         (3, ''\"Condition\": {''),
         (4, ''\"StringEquals\": {''),
         (5, ''\"'' @ oidcHost @ '':sub\": \"system:serviceaccount:'' @ app_namespace app @ '':'' @
               m_service_account m @ ''\",''),
         (5, ''\"'' @ oidcHost @ '':aud\": \"sts.amazonaws.com\"''),
         (4, ''}''),
         (3, ''}''),
         (2, ''}]''),
         (1, ''}'')])"

definition bucket_policy :: "string \<Rightarrow> string" where
  "bucket_policy bucket =
     document_lines
       [(0, ''{''),
        (1, ''\"Version\": \"2012-10-17\",''),
        (1, ''\"Statement\": [''),
        (2, ''{''),
        (3, ''\"Effect\": \"Allow\",''),
        (3, ''\"Action\": [''),
        (4, ''\"s3:ListBucket\",''),
        (4, ''\"s3:GetObject\",''),
        (4, ''\"s3:PutObject\",''),
        (4, ''\"s3:DeleteObject\"''),
        (3, ''],''),
        (3, ''\"Resource\": [''),
        (4, ''\"arn:aws:s3:::'' @ bucket @ ''\",''),
        (4, ''\"arn:aws:s3:::'' @ bucket @ ''/*\"''),
        (3, '']''),
        (2, ''}]''),
        (1, ''}'')]"

definition ReconcileAppIRSA :: "env \<Rightarrow> s3_manager \<Rightarrow> string io" where
  "ReconcileAppIRSA env m =
     bindIO getApp (\<lambda>app.
     let roleName = irsaRoleName app;
         trustPolicy = trust_policy m app
     in bindIO
          (handleIO (iam_get_role env roleName)
            (\<lambda>err. if is_no_such_entity err
               then wrapIO (''failed to create app IRSA role '' @ roleName @ '': '')
                      (iam_create_role env roleName trustPolicy (m_boundary_arn m))
               else fail (Errorf (''failed to get app IRSA role '' @ roleName @ '': '') err []))
            (\<lambda>arn. bindIO
               (wrapIO (''failed to update trust policy for app IRSA role '' @ roleName @ '': '')
                 (iam_update_trust env roleName trustPolicy)) (\<lambda>_. ret arn)))
          (\<lambda>roleArn. bindIO
             (wrapIO (''failed to attach S3 bucket access policy to role '' @ roleName @ '': '')
               (iam_put_role_policy env roleName s3BucketAccessPolicyName (bucket_policy (m_bucket m))))
             (\<lambda>_. ret roleArn)))"

definition s3_ReconcileBucket :: "env \<Rightarrow> s3_manager \<Rightarrow> string io" where
  "s3_ReconcileBucket env m =
     bindIO (wrapIO ''failed to ensure bucket exists: '' (ensureBucketExists env m)) (\<lambda>_.
     bindIO (wrapIO ''failed to ensure versioning: '' (ensureVersioning env m)) (\<lambda>_.
     bindIO (wrapIO ''failed to ensure lifecycle policy: '' (ensureLifecyclePolicy env m)) (\<lambda>_.
     wrapIO ''failed to reconcile app IRSA: '' (ReconcileAppIRSA env m))))"

section \<open>The tag record as an ownership store\<close>

definition tag_view :: "tag list \<Rightarrow> owner_view" where
  "tag_view tagSet =
     (case scan_tag ownerTagKey tagSet of
        None \<Rightarrow> None
      | Some uid \<Rightarrow> Some \<lparr>ow_uid = uid, ow_namespace = tag_or_empty ownerNamespaceTagKey tagSet,
          ow_ownership_id = tag_or_empty ownershipIDTagKey tagSet, ow_legacy = False\<rparr>)"

definition tags_kept :: "tag list \<Rightarrow> tag list" where
  "tags_kept tagSet = (if scan_tag ownerTagKey tagSet = None then tagSet else tagsExcludingOwner tagSet)"

definition tag_read :: "env \<Rightarrow> s3_manager \<Rightarrow> (owner_view \<times> tag list) io" where
  "tag_read env m =
     handleIO (s3_get_bucket_tagging env (m_bucket m))
       (\<lambda>err. if api_error_code err = Some noSuchTagSetErrorCode then ret (None, [])
              else fail (Errorf [] (Sentinel S3ErrBucketNotOwned)
                     ('': could not verify ownership tag: '' @ err_text err)))
       (\<lambda>tagSet. ret (tag_view tagSet, tags_kept tagSet))"

text \<open>The bucket write that makes the Application the owner on record.\<close>

definition tags_name :: "s3_manager \<Rightarrow> application \<Rightarrow> event \<Rightarrow> bool" where
  "tags_name m app e =
     (case e of
        S3 (PutBucketTagging b ts r) \<Rightarrow> b = m_bucket m \<and>
          scan_tag ownerTagKey ts = Some (app_uid app) \<and>
          scan_tag ownerNamespaceTagKey ts = Some (app_namespace app) \<and>
          (ownership_id app \<noteq> [] \<longrightarrow> scan_tag ownershipIDTagKey ts = Some (ownership_id app))
      | _ \<Rightarrow> False)"

lemma adoptBucketRequested_eq: "adoptBucketRequested app = adopt_requested app"
  by (simp add: adoptBucketRequested_def adopt_requested_def)

lemma scan_tag_append:
  "scan_tag k (xs @ ys) = (case scan_tag k ys of None \<Rightarrow> scan_tag k xs | Some v \<Rightarrow> Some v)"
  unfolding scan_tag_def by (rule last_match_append)

lemma scan_tag_Nil [simp]: "scan_tag k [] = None"
  by (simp add: scan_tag_def)

lemma scan_tag_Cons:
  "scan_tag k ((k', v) # xs) = (case scan_tag k xs of None \<Rightarrow> if k' = k then Some v else None | Some u \<Rightarrow> Some u)"
  using scan_tag_append [of k "[(k', v)]" xs] by (simp add: scan_tag_def last_match_def split: option.splits)

lemma scan_owner_tags [simp]:
  "scan_tag ownerTagKey (owner_tags app) = Some (app_uid app)"
  "scan_tag ownerNamespaceTagKey (owner_tags app) = Some (app_namespace app)"
  "scan_tag ownershipIDTagKey (owner_tags app) =
     (if ownership_id app = [] then None else Some (ownership_id app))"
  by (simp_all add: owner_tags_def scan_tag_Cons Let_def)

text \<open>\<open>claimOrVerifyOwnership\<close> is the ownership protocol over the tag record.\<close>

lemma claim_is_protocol:
  "claimOrVerifyOwnership env m =
     claim_protocol env ProviderAWSS3 S3ErrBucketNotOwned
       (ask_previously_created env (m_bucket m)) (tag_read env m) (tagAsOwned env m)"
proof
  fix w :: world
  let ?resp = "get_bucket_tagging (e_s3 env) (w_trace w) (m_bucket m)"
  show "claimOrVerifyOwnership env m w = claim_protocol env ProviderAWSS3 S3ErrBucketNotOwned
      (ask_previously_created env (m_bucket m)) (tag_read env m) (tagAsOwned env m) w"
  proof (cases ?resp)
    case (Inl err)
    then show ?thesis
      by (simp add: claimOrVerifyOwnership_def claim_protocol_def tag_read_def claimUntagged_def
          s3_get_bucket_tagging_def bindIO_def handleIO_def call_def Let_def fail_def ret_def getApp_def
          ask_previously_created_def adoptBucketRequested_eq claim_decision_def execute_decision_def
          record_adopted_def)
  next
    case (Inr tagSet)
    then show ?thesis
      by (cases "scan_tag ownerTagKey tagSet")
         (simp_all add: claimOrVerifyOwnership_def claim_protocol_def tag_read_def claimUntagged_def
          s3_get_bucket_tagging_def bindIO_def handleIO_def call_def Let_def fail_def ret_def getApp_def
          ask_previously_created_def adoptBucketRequested_eq claim_decision_def execute_decision_def
          record_adopted_def record_reclaimed_def tag_view_def tags_kept_def)
  qed
qed

lemma tagAsOwned_run:
  "tagAsOwned env m ts w = (r, w') \<Longrightarrow>
     w_app w' = w_app w \<and> (\<exists>x. w_trace w' = w_trace w @ [S3 (PutBucketTagging (m_bucket m) (ts @ owner_tags (w_app w)) x)]
        \<and> (r = Inr () \<longleftrightarrow> x = Inr ()))"
  by (auto simp: tagAsOwned_def s3_put_bucket_tagging_def bindIO_def handleIO_def wrapIO_def call_def
      getApp_def fail_def ret_def Let_def split: sum.splits)

lemma tags_name_written: "tags_name m app (S3 (PutBucketTagging (m_bucket m) (ts @ owner_tags app) x))"
  by (simp add: tags_name_def scan_tag_append)

interpretation tag_store: ownership_store tag_read tagAsOwned "\<lambda>env m. ask_previously_created env (m_bucket m)"
  tags_name ProviderAWSS3 S3ErrBucketNotOwned
proof unfold_locales
  fix env and m :: s3_manager and s w r w'
  show "emits (\<lambda>e. \<not> bucket_write e) (tag_read env m)"
    unfolding tag_read_def s3_get_bucket_tagging_def by (intro emits_intros) simp
  show "keeps_app (tag_read env m)"
    unfolding tag_read_def s3_get_bucket_tagging_def by (intro keeps_intros)
  show "\<exists>b. ask_previously_created env (m_bucket m) w = (Inr b, w)"
    by (simp add: ask_previously_created_def)
  show "emits_as (\<lambda>a e. bucket_write e \<longrightarrow> tags_name m a e) (tagAsOwned env m s)"
    unfolding emits_as_def
  proof
    fix w
    show "\<exists>es. w_trace (snd (tagAsOwned env m s w)) = w_trace w @ es \<and>
        list_all (\<lambda>e. bucket_write e \<longrightarrow> tags_name m (w_app w) e) es"
      using tagAsOwned_run [of env m s w] tags_name_written
      by (cases "tagAsOwned env m s w") fastforce
  qed
  show "w_app w' = w_app w \<and> (\<exists>h e. w_trace w' = h @ [e] \<and> write_succeeded e \<and> tags_name m (w_app w) e)"
    if "tagAsOwned env m s w = (Inr (), w')"
    using tagAsOwned_run [OF that] tags_name_written by fastforce
qed

end
