(* ===== verification/S3_Cleanup.thy ===== *)
theory S3_Cleanup
  imports S3_Manager
begin

text \<open>
  \<open>internal/controller/s3/cleanup.go\<close>: deletion of a bucket with everything in it, and of
  the Application's IAM role. The object-version paginator yields as many pages as
  \<open>more_version_pages\<close> says when it is built, so the loop over pages is structural
  recursion; the loop that cuts a page into batches of 1000 recurses on the rest of the list.
\<close>

section \<open>SDK calls\<close>

definition s3_list_object_versions :: "env \<Rightarrow> string \<Rightarrow> nat \<Rightarrow> version_page io" where
  "s3_list_object_versions env b n =
     call (\<lambda>h. list_object_versions (e_s3 env) h b n) (\<lambda>r. S3 (ListObjectVersions b n r))"

definition s3_delete_objects :: "env \<Rightarrow> string \<Rightarrow> object_id list \<Rightarrow> string list io" where
  "s3_delete_objects env b os =
     call (\<lambda>h. delete_objects (e_s3 env) h b os) (\<lambda>r. S3 (DeleteObjects b os r))"

definition s3_list_multipart_uploads :: "env \<Rightarrow> string \<Rightarrow> upload list io" where
  "s3_list_multipart_uploads env b =
     call (\<lambda>h. list_multipart_uploads (e_s3 env) h b) (\<lambda>r. S3 (ListMultipartUploads b r))"

definition s3_abort_multipart_upload :: "env \<Rightarrow> string \<Rightarrow> upload \<Rightarrow> unit io" where
  "s3_abort_multipart_upload env b u =
     call (\<lambda>h. abort_multipart_upload (e_s3 env) h b u) (\<lambda>r. S3 (AbortMultipartUpload b u r))"

definition s3_delete_bucket :: "env \<Rightarrow> string \<Rightarrow> unit io" where
  "s3_delete_bucket env b = call (\<lambda>h. delete_s3_bucket (e_s3 env) h b) (\<lambda>r. S3 (DeleteBucket b r))"

definition iam_delete_role_policy :: "env \<Rightarrow> string \<Rightarrow> string \<Rightarrow> unit io" where
  "iam_delete_role_policy env role name =
     call (\<lambda>h. delete_role_policy (e_iam env) h role name) (\<lambda>r. Iam (DeleteRolePolicy role name r))"

definition iam_delete_role :: "env \<Rightarrow> string \<Rightarrow> unit io" where
  "iam_delete_role env role = call (\<lambda>h. delete_role (e_iam env) h role) (\<lambda>r. Iam (DeleteRole role r))"

lemmas s3_cleanup_call_defs = s3_list_object_versions_def s3_delete_objects_def
  s3_list_multipart_uploads_def s3_abort_multipart_upload_def s3_delete_bucket_def
  iam_delete_role_policy_def iam_delete_role_def

section \<open>Ownership before deletion\<close>

definition verifyOwnership :: "env \<Rightarrow> s3_manager \<Rightarrow> unit io" where
  "verifyOwnership env m =
     handleIO (s3_get_bucket_tagging env (m_bucket m))
       (\<lambda>err.
         if api_error_code err = Some noSuchBucketErrorCode then ret ()
         else if api_error_code err = Some noSuchTagSetErrorCode then
           bindIO getApp (\<lambda>app.
           bindIO (ask_previously_created env (m_bucket m)) (\<lambda>created.
             if created \<or> adoptBucketRequested app then ret ()
             else fail (Errorf [] (Sentinel S3ErrBucketNotOwned)
                    '': no ownership tag and no durable record of creating or adopting it'')))
         else fail (Errorf [] (Sentinel S3ErrBucketNotOwned)
                ('': could not verify ownership tag before deletion: '' @ err_text err)))
       (\<lambda>tagSet. bindIO getApp (\<lambda>app.
         case find (\<lambda>(key, value). key = ownerTagKey) tagSet of
           Some (key, value) \<Rightarrow>
             if value = app_uid app then ret ()
             else fail (Errorf [] (Sentinel S3ErrBucketNotOwned)
                    '': ownership tag names a different Application'')
         | None \<Rightarrow>
             bindIO (ask_previously_created env (m_bucket m)) (\<lambda>created.
               if created \<or> adoptBucketRequested app then ret ()
               else fail (Errorf [] (Sentinel S3ErrBucketNotOwned)
                      '': no ownership tag and no durable record of creating or adopting it''))))"

section \<open>Emptying the bucket\<close>

definition batchSize :: nat where "batchSize = 1000"

function batches :: "'a list \<Rightarrow> 'a list list" where
  "batches xs = (if xs = [] then [] else take batchSize xs # batches (drop batchSize xs))"
  by pat_completeness auto
termination
  by (relation "measure length") (auto simp: batchSize_def)

declare batches.simps [simp del]

definition delete_batch :: "env \<Rightarrow> s3_manager \<Rightarrow> object_id list \<Rightarrow> unit io" where
  "delete_batch env m batch =
     bindIO (wrapIO (''failed batch delete call in bucket '' @ m_bucket m @ '': '')
              (s3_delete_objects env (m_bucket m) batch)) (\<lambda>errors.
       case errors of
         [] \<Rightarrow> ret ()
       | e # es \<Rightarrow> fail (ErrorText (''failed to delete '' @ show_nat (length errors) @
           '' objects in bucket '' @ m_bucket m @ '' (first error: '' @ e @ '')'')))"

primrec delete_batches :: "env \<Rightarrow> s3_manager \<Rightarrow> object_id list list \<Rightarrow> unit io" where
  "delete_batches env m [] = ret ()"
| "delete_batches env m (b # bs) = bindIO (delete_batch env m b) (\<lambda>_. delete_batches env m bs)"

definition page_objects :: "version_page \<Rightarrow> object_id list" where
  "page_objects page = vp_versions page @ vp_delete_markers page"

text \<open>\<open>remaining\<close> counts the pages the paginator still has after page \<open>n\<close>.\<close>

primrec delete_pages :: "env \<Rightarrow> s3_manager \<Rightarrow> nat \<Rightarrow> nat \<Rightarrow> unit io" where
  "delete_pages env m 0 n = ret ()"
| "delete_pages env m (Suc remaining) n =
     handleIO (s3_list_object_versions env (m_bucket m) n)
       (\<lambda>err. if is_no_such_bucket err then ret ()
              else fail (Errorf (''failed to list object versions in bucket '' @ m_bucket m @ '': '') err []))
       (\<lambda>page. bindIO (delete_batches env m (batches (page_objects page)))
          (\<lambda>_. delete_pages env m remaining (Suc n)))"

definition deleteAllObjectVersions :: "env \<Rightarrow> s3_manager \<Rightarrow> unit io" where
  "deleteAllObjectVersions env m =
     bindIO (askEnv (\<lambda>h. more_version_pages (e_s3 env) h (m_bucket m))) (\<lambda>more.
       delete_pages env m (Suc more) 0)"

text \<open>The loop over uploads counts the failures and keeps the first one.\<close>

primrec abort_uploads ::
  "env \<Rightarrow> s3_manager \<Rightarrow> upload list \<Rightarrow> nat \<Rightarrow> gerror option \<Rightarrow> (nat \<times> gerror option) io" where
  "abort_uploads env m [] failed firstErr = ret (failed, firstErr)"
| "abort_uploads env m (u # us) failed firstErr =
     handleIO (s3_abort_multipart_upload env (m_bucket m) u)
       (\<lambda>err. if \<not> isNotFoundError err
          then abort_uploads env m us (Suc failed) (case firstErr of None \<Rightarrow> Some err | Some e \<Rightarrow> Some e)
          else abort_uploads env m us failed firstErr)
       (\<lambda>_. abort_uploads env m us failed firstErr)"

definition abortMultipartUploads :: "env \<Rightarrow> s3_manager \<Rightarrow> unit io" where
  "abortMultipartUploads env m =
     handleIO (s3_list_multipart_uploads env (m_bucket m))
       (\<lambda>err. if isNotFoundError err then ret ()
          else fail (Errorf (''failed to list multipart uploads in bucket '' @ m_bucket m @ '': '') err []))
       (\<lambda>uploads. bindIO (abort_uploads env m uploads 0 None) (\<lambda>(failed, firstErr).
          if 0 < failed then
            fail (case firstErr of
                Some e \<Rightarrow> Errorf (''failed to abort '' @ show_nat failed @
                  '' multipart upload(s) in bucket '' @ m_bucket m @ '' (first error: '') e '')''
              | None \<Rightarrow> ErrorText (''failed to abort '' @ show_nat failed @
                  '' multipart upload(s) in bucket '' @ m_bucket m @ '' (first error: %!w(<nil>))''))
          else ret ()))"

definition s3_deleteBucket :: "env \<Rightarrow> s3_manager \<Rightarrow> unit io" where
  "s3_deleteBucket env m =
     handleIO (s3_delete_bucket env (m_bucket m))
       (\<lambda>err. if isNotFoundError err then ret ()
          else fail (Errorf (''failed to delete bucket '' @ m_bucket m @ '': '') err []))
       ret"

section \<open>The IAM role\<close>

definition cleanupAppIRSA :: "env \<Rightarrow> unit io" where
  "cleanupAppIRSA env =
     bindIO getApp (\<lambda>app. let roleName = irsaRoleName app in
     bindIO
       (handleIO (iam_delete_role_policy env roleName s3BucketAccessPolicyName)
         (\<lambda>err. if \<not> is_no_such_entity err
            then fail (Errorf (''failed to delete inline policy for role '' @ roleName @ '': '') err [])
            else ret ())
         ret)
       (\<lambda>_. handleIO (iam_delete_role env roleName)
         (\<lambda>err. if is_no_such_entity err then ret ()
            else fail (Errorf (''failed to delete IAM role '' @ roleName @ '': '') err []))
         ret))"

section \<open>Entry points\<close>

text \<open>
  \<open>CleanupBucket\<close> returns two errors: the IAM one as the value of a run, whatever the
  other is (the pair of the Go function), the bucket one as its second component.
\<close>

definition empty_and_delete :: "env \<Rightarrow> s3_manager \<Rightarrow> unit io" where
  "empty_and_delete env m =
     bindIO (wrapIO (''failed to delete objects in bucket '' @ m_bucket m @ '': '')
              (deleteAllObjectVersions env m)) (\<lambda>_.
     bindIO (wrapIO (''failed to abort multipart uploads in bucket '' @ m_bucket m @ '': '')
              (abortMultipartUploads env m)) (\<lambda>_.
     wrapIO (''failed to delete bucket '' @ m_bucket m @ '': '') (s3_deleteBucket env m)))"

definition CleanupBucket :: "env \<Rightarrow> s3_manager \<Rightarrow> (gerror option \<times> gerror option) io" where
  "CleanupBucket env m =
     bindIO (tryIO (cleanupAppIRSA env)) (\<lambda>cleanup.
       let irsaErr = (case cleanup of
             Inl cleanupErr \<Rightarrow> Some (Errorf ''failed to cleanup IRSA: '' cleanupErr [])
           | Inr _ \<Rightarrow> None)
       in handleIO
            (bindIO (wrapIO (''refusing to delete bucket '' @ m_bucket m @ '': '') (verifyOwnership env m))
              (\<lambda>_. empty_and_delete env m))
            (\<lambda>err. ret (irsaErr, Some err))
            (\<lambda>_. ret (irsaErr, None)))"

definition s3_CleanupCredentialsOnly :: "env \<Rightarrow> s3_manager \<Rightarrow> unit io" where
  "s3_CleanupCredentialsOnly env m = cleanupAppIRSA env"

section \<open>What deletion touches\<close>

lemma emits_cleanupAppIRSA [emits_intros]:
  "(\<And>role name r. P (Iam (DeleteRolePolicy role name r))) \<Longrightarrow> (\<And>role r. P (Iam (DeleteRole role r))) \<Longrightarrow>
     emits P (cleanupAppIRSA env)"
  unfolding cleanupAppIRSA_def iam_delete_role_policy_def iam_delete_role_def
  by (intro emits_intros) simp_all

lemma keeps_cleanupAppIRSA [keeps_intros]: "keeps_app (cleanupAppIRSA env)"
  unfolding cleanupAppIRSA_def iam_delete_role_policy_def iam_delete_role_def
  by (intro keeps_intros)

lemma keeps_ask_previously_created [keeps_intros]: "keeps_app (ask_previously_created env b)"
  by (simp add: keeps_app_def ask_previously_created_def)

lemma emits_ask_previously_created [emits_intros]: "emits P (ask_previously_created env b)"
  by (simp add: emits_def ask_previously_created_def)

text \<open>The answer to \<open>GetBucketTagging\<close> after which \<open>verifyOwnership\<close> lets a deletion go on.\<close>

definition deletion_allowed :: "env \<Rightarrow> string \<Rightarrow> application \<Rightarrow> history \<Rightarrow> gerror + tag list \<Rightarrow> bool" where
  "deletion_allowed env bucket app h resp =
     (let mine = previouslyCreatedByUs env bucket \<lparr>w_trace = h, w_app = app\<rparr> \<or> adoptBucketRequested app
      in case resp of
           Inl err \<Rightarrow> api_error_code err = Some noSuchBucketErrorCode \<or>
             api_error_code err = Some noSuchTagSetErrorCode \<and> mine
         | Inr tagSet \<Rightarrow>
             (case find (\<lambda>(key, value). key = ownerTagKey) tagSet of
                Some (key, value) \<Rightarrow> value = app_uid app
              | None \<Rightarrow> mine))"

definition tag_evidence :: "env \<Rightarrow> s3_manager \<Rightarrow> application \<Rightarrow> history \<Rightarrow> event \<Rightarrow> bool" where
  "tag_evidence env m app h e =
     (case e of
        S3 (GetBucketTagging b r) \<Rightarrow> b = m_bucket m \<and> deletion_allowed env b app (h @ [e]) r
      | _ \<Rightarrow> False)"

lemma verifyOwnership_run:
  assumes "verifyOwnership env m w = (r, w')"
  defines "ev \<equiv> S3 (GetBucketTagging (m_bucket m) (get_bucket_tagging (e_s3 env) (w_trace w) (m_bucket m)))"
  shows "w' = w\<lparr>w_trace := w_trace w @ [ev]\<rparr>"
    and "r = Inr () \<longleftrightarrow> tag_evidence env m (w_app w) (w_trace w) ev"
proof -
  have "w' = w\<lparr>w_trace := w_trace w @ [ev]\<rparr> \<and> (r = Inr () \<longleftrightarrow> tag_evidence env m (w_app w) (w_trace w) ev)"
    using assms
    by (auto simp: verifyOwnership_def s3_get_bucket_tagging_def tag_evidence_def deletion_allowed_def
        io_simps Let_def ask_previously_created_def previouslyCreatedByUs_def
        split: sum.splits option.splits if_splits prod.splits)
  then show "w' = w\<lparr>w_trace := w_trace w @ [ev]\<rparr>"
    and "r = Inr () \<longleftrightarrow> tag_evidence env m (w_app w) (w_trace w) ev" by blast+
qed

text \<open>What the deletion after \<open>verifyOwnership\<close> does is confined to this manager's bucket.\<close>

definition in_bucket :: "string \<Rightarrow> event \<Rightarrow> bool" where
  "in_bucket bucket e =
     (case e of
        S3 (ListObjectVersions b n r) \<Rightarrow> b = bucket
      | S3 (DeleteObjects b os r) \<Rightarrow> b = bucket
      | S3 (ListMultipartUploads b r) \<Rightarrow> b = bucket
      | S3 (AbortMultipartUpload b u r) \<Rightarrow> b = bucket
      | S3 (DeleteBucket b r) \<Rightarrow> b = bucket
      | _ \<Rightarrow> False)"

lemma delete_batch_in_bucket: "emits (in_bucket (m_bucket m)) (delete_batch env m b)"
  unfolding delete_batch_def s3_delete_objects_def
  by (intro emits_intros) (simp_all add: in_bucket_def emits_quiet split: list.splits)

lemma delete_batches_in_bucket: "emits (in_bucket (m_bucket m)) (delete_batches env m bs)"
  by (induction bs) (simp_all add: emits_quiet emits_bindIO delete_batch_in_bucket)

lemma delete_pages_in_bucket: "emits (in_bucket (m_bucket m)) (delete_pages env m k n)"
proof (induction k arbitrary: n)
  case (Suc k)
  show ?case
    unfolding delete_pages.simps s3_list_object_versions_def
    by (intro emits_intros delete_batches_in_bucket Suc.IH) (simp add: in_bucket_def)
qed (simp add: emits_quiet)

lemma abort_uploads_in_bucket: "emits (in_bucket (m_bucket m)) (abort_uploads env m us n e)"
proof (induction us arbitrary: n e)
  case (Cons u us)
  show ?case
    unfolding abort_uploads.simps s3_abort_multipart_upload_def
    by (intro emits_intros Cons.IH) (simp add: in_bucket_def)
qed (simp add: emits_quiet)

lemma empty_and_delete_in_bucket: "emits (in_bucket (m_bucket m)) (empty_and_delete env m)"
  unfolding empty_and_delete_def deleteAllObjectVersions_def abortMultipartUploads_def
    s3_deleteBucket_def s3_list_multipart_uploads_def s3_delete_bucket_def
  by (intro emits_intros delete_pages_in_bucket abort_uploads_in_bucket) (simp_all add: in_bucket_def)

lemma keeps_delete_batches: "keeps_app (delete_batches env m bs)"
proof (induction bs)
  case (Cons b bs)
  have "keeps_app (delete_batch env m b)"
    unfolding delete_batch_def s3_delete_objects_def
    by (intro keeps_intros) (simp split: list.splits add: keeps_quiet)
  with Cons show ?case by (simp add: keeps_bindIO)
qed (simp add: keeps_quiet)

lemma keeps_delete_pages: "keeps_app (delete_pages env m k n)"
proof (induction k arbitrary: n)
  case (Suc k)
  show ?case
    unfolding delete_pages.simps s3_list_object_versions_def
    by (intro keeps_intros keeps_delete_batches Suc.IH)
qed (simp add: keeps_quiet)

lemma keeps_abort_uploads: "keeps_app (abort_uploads env m us n e)"
proof (induction us arbitrary: n e)
  case (Cons u us)
  show ?case
    unfolding abort_uploads.simps s3_abort_multipart_upload_def
    by (intro keeps_intros Cons.IH)
qed (simp add: keeps_quiet)

lemma keeps_case_prod [keeps_intros]:
  "(\<And>a b. keeps_app (f a b)) \<Longrightarrow> keeps_app (case x of (a, b) \<Rightarrow> f a b)"
  by (cases x) simp

lemma keeps_empty_and_delete: "keeps_app (empty_and_delete env m)"
  unfolding empty_and_delete_def deleteAllObjectVersions_def abortMultipartUploads_def
    s3_deleteBucket_def s3_list_multipart_uploads_def s3_delete_bucket_def
  by (intro keeps_intros keeps_delete_pages keeps_abort_uploads)

lemma keeps_CleanupBucket: "keeps_app (CleanupBucket env m)"
  unfolding CleanupBucket_def verifyOwnership_def s3_get_bucket_tagging_def
  by (intro keeps_intros keeps_empty_and_delete)

section \<open>Nothing is destroyed before the evidence\<close>

lemma CleanupBucket_run:
  assumes run: "CleanupBucket env m w = (r, w')"
  obtains irsa w1 ev rest where
    "cleanupAppIRSA env w = (irsa, w1)" "w_app w1 = w_app w"
    "ev = S3 (GetBucketTagging (m_bucket m) (get_bucket_tagging (e_s3 env) (w_trace w1) (m_bucket m)))"
    "w_trace w' = w_trace w1 @ ev # rest" "list_all (in_bucket (m_bucket m)) rest"
    "rest \<noteq> [] \<longrightarrow> tag_evidence env m (w_app w) (w_trace w1) ev"
    "\<exists>irsaErr bucketErr. r = Inr (irsaErr, bucketErr) \<and> (irsaErr = None \<longleftrightarrow> irsa = Inr ()) \<and>
       (bucketErr = None \<longrightarrow> tag_evidence env m (w_app w) (w_trace w1) ev)"
proof -
  obtain irsa w1 where irsa: "cleanupAppIRSA env w = (irsa, w1)" by fastforce
  have app: "w_app w1 = w_app w" using keeps_appD [OF keeps_cleanupAppIRSA irsa] .
  define ev where "ev = S3 (GetBucketTagging (m_bucket m)
      (get_bucket_tagging (e_s3 env) (w_trace w1) (m_bucket m)))"
  define w2 where "w2 = w1\<lparr>w_trace := w_trace w1 @ [ev]\<rparr>"
  obtain v where ver: "verifyOwnership env m w1 = (v, w2)"
    using verifyOwnership_run(1) [of env m w1] unfolding ev_def w2_def
    by (metis prod.collapse)
  have v: "v = Inr () \<longleftrightarrow> tag_evidence env m (w_app w) (w_trace w1) ev"
    using verifyOwnership_run(2) [OF ver] app ev_def by simp
  obtain d w3 where del: "empty_and_delete env m w2 = (d, w3)" by fastforce
  from emits_trace [OF empty_and_delete_in_bucket del] emits_new_events [OF empty_and_delete_in_bucket del]
  have rest: "w_trace w3 = w_trace w1 @ ev # new_events w2 w3"
      "list_all (in_bucket (m_bucket m)) (new_events w2 w3)"
    by (simp_all add: w2_def)
  show thesis
  proof (cases v)
    case (Inl e)
    then have "w' = w2" "\<exists>irsaErr bucketErr. r = Inr (irsaErr, bucketErr) \<and>
        (irsaErr = None \<longleftrightarrow> irsa = Inr ()) \<and> bucketErr \<noteq> None"
      using run irsa ver
      by (auto simp: CleanupBucket_def bindIO_def handleIO_def tryIO_def wrapIO_def ret_def fail_def
          Let_def split: sum.splits)
    with v Inl irsa app show thesis
      by (intro that [of irsa w1 ev "[]"]) (auto simp: ev_def w2_def)
  next
    case (Inr u)
    then have "w' = w3" "\<exists>irsaErr bucketErr. r = Inr (irsaErr, bucketErr) \<and>
        (irsaErr = None \<longleftrightarrow> irsa = Inr ())"
      using run irsa ver del
      by (auto simp: CleanupBucket_def bindIO_def handleIO_def tryIO_def wrapIO_def ret_def fail_def
          Let_def split: sum.splits)
    with v Inr irsa app rest show thesis
      by (intro that [of irsa w1 ev "new_events w2 w3"]) (auto simp: ev_def)
  qed
qed

lemma cleanupAppIRSA_quiet: "emits (\<lambda>e. \<not> bucket_write e \<and> \<not> destroys e) (cleanupAppIRSA env)"
  by (intro emits_intros) simp_all

lemma CleanupBucket_guarded:
  assumes "CleanupBucket env m w = (r, w')"
  shows "\<exists>es. w_trace w' = w_trace w @ es \<and>
    guarded_trace (tag_evidence env m (w_app w)) destroys (w_trace w) es"
  using assms
proof (rule CleanupBucket_run)
  fix irsa w1 ev rest
  assume irsa: "cleanupAppIRSA env w = (irsa, w1)"
    and ev: "ev = S3 (GetBucketTagging (m_bucket m) (get_bucket_tagging (e_s3 env) (w_trace w1) (m_bucket m)))"
    and tr: "w_trace w' = w_trace w1 @ ev # rest"
    and G: "rest \<noteq> [] \<longrightarrow> tag_evidence env m (w_app w) (w_trace w1) ev"
  let ?xs = "new_events w w1"
  have w1: "w_trace w1 = w_trace w @ ?xs" "list_all (\<lambda>e. \<not> destroys e) ?xs"
    using emits_trace [OF cleanupAppIRSA_quiet irsa] emits_new_events [OF cleanupAppIRSA_quiet irsa]
    by (simp_all add: list_all_iff)
  have "guarded_trace (tag_evidence env m (w_app w)) destroys (w_trace w) (?xs @ ev # rest)"
  proof (cases "rest = []")
    case True
    with w1 ev show ?thesis by (intro guarded_none) simp
  next
    case False
    with w1 ev G show ?thesis by (intro guarded_evidence) simp_all
  qed
  moreover have "w_trace w' = w_trace w @ ?xs @ ev # rest" using tr w1 by simp
  ultimately show ?thesis by blast
qed

interpretation s3_cleanup: bucket_cleanup CleanupBucket s3_CleanupCredentialsOnly tag_evidence
proof unfold_locales
  fix env and m :: s3_manager and w r w'
  show "\<exists>es. w_trace w' = w_trace w @ es \<and>
      guarded_trace (tag_evidence env m (w_app w)) destroys (w_trace w) es"
    if "CleanupBucket env m w = (r, w')"
    by (rule CleanupBucket_guarded [OF that])
  show "emits (\<lambda>e. \<not> bucket_write e) (s3_CleanupCredentialsOnly env m)"
    unfolding s3_CleanupCredentialsOnly_def by (intro emits_intros) simp_all
  show "keeps_app (CleanupBucket env m)" by (rule keeps_CleanupBucket)
  show "keeps_app (s3_CleanupCredentialsOnly env m)"
    unfolding s3_CleanupCredentialsOnly_def by (rule keeps_cleanupAppIRSA)
qed

section \<open>Everything listed is deleted, in batches the service accepts\<close>

lemma batches_Nil [simp]: "batches [] = []"
  by (simp add: batches.simps)

lemma concat_batches: "concat (batches xs) = xs"
  by (induction xs rule: batches.induct) (subst batches.simps, simp)

lemma batches_bounded: "list_all (\<lambda>b. b \<noteq> [] \<and> length b \<le> batchSize) (batches xs)"
proof (induction xs rule: batches.induct)
  case (1 xs)
  show ?case
  proof (cases "xs = []")
    case False
    moreover have "take batchSize xs \<noteq> []" using False by (simp add: batchSize_def)
    ultimately show ?thesis
      using 1 by (subst batches.simps) simp
  qed simp
qed

fun listed_ids :: "event list \<Rightarrow> object_id list" where
  "listed_ids [] = []"
| "listed_ids (S3 (ListObjectVersions b n (Inr page)) # es) = page_objects page @ listed_ids es"
| "listed_ids (e # es) = listed_ids es"

text \<open>The objects of the \<open>DeleteObjects\<close> calls that reported no error for any object.\<close>

fun deleted_ids :: "event list \<Rightarrow> object_id list" where
  "deleted_ids [] = []"
| "deleted_ids (S3 (DeleteObjects b os (Inr [])) # es) = os @ deleted_ids es"
| "deleted_ids (e # es) = deleted_ids es"

lemma listed_ids_append [simp]: "listed_ids (xs @ ys) = listed_ids xs @ listed_ids ys"
  by (induction xs rule: listed_ids.induct) simp_all

lemma deleted_ids_append [simp]: "deleted_ids (xs @ ys) = deleted_ids xs @ deleted_ids ys"
  by (induction xs rule: deleted_ids.induct) simp_all

lemma delete_batch_done:
  assumes "delete_batch env m b w = (Inr (), w')"
  shows "w_trace w' = w_trace w @ [S3 (DeleteObjects (m_bucket m) b (Inr []))]"
proof -
  from assms obtain errors w1 where "s3_delete_objects env (m_bucket m) b w = (Inr errors, w1)"
    and "(case errors of [] \<Rightarrow> ret () | e # es \<Rightarrow> fail (ErrorText (''failed to delete '' @
        show_nat (length errors) @ '' objects in bucket '' @ m_bucket m @ '' (first error: '' @ e @ '')''))) w1
      = (Inr (), w')"
    by (auto simp: delete_batch_def bindIO_Inr_iff wrapIO_Inr_iff)
  then show ?thesis
    by (cases errors) (auto simp: s3_delete_objects_def call_def fail_def ret_def Let_def)
qed

lemma delete_batches_done:
  "delete_batches env m bs w = (Inr (), w') \<Longrightarrow>
     \<exists>es. w_trace w' = w_trace w @ es \<and> listed_ids es = [] \<and> deleted_ids es = concat bs"
proof (induction bs arbitrary: w)
  case Nil
  then show ?case by (auto simp: ret_def)
next
  case (Cons b bs)
  then obtain w1 where b: "delete_batch env m b w = (Inr (), w1)"
    and bs: "delete_batches env m bs w1 = (Inr (), w')"
    by (auto simp: bindIO_Inr_iff)
  from Cons.IH [OF bs] obtain es where "w_trace w' = w_trace w1 @ es" "listed_ids es = []"
      "deleted_ids es = concat bs" by blast
  with delete_batch_done [OF b] show ?case
    by (intro exI [of _ "S3 (DeleteObjects (m_bucket m) b (Inr [])) # es"]) simp
qed

lemma delete_pages_done:
  "delete_pages env m k n w = (Inr (), w') \<Longrightarrow>
     \<exists>es. w_trace w' = w_trace w @ es \<and> deleted_ids es = listed_ids es"
proof (induction k arbitrary: n w)
  case 0
  then show ?case by (auto simp: ret_def)
next
  case (Suc k)
  let ?resp = "list_object_versions (e_s3 env) (w_trace w) (m_bucket m) n"
  let ?ev = "S3 (ListObjectVersions (m_bucket m) n ?resp)"
  let ?w1 = "w\<lparr>w_trace := w_trace w @ [?ev]\<rparr>"
  show ?case
  proof (cases ?resp)
    case (Inl err)
    with Suc.prems show ?thesis
      by (intro exI [of _ "[?ev]"])
         (auto simp: s3_list_object_versions_def handleIO_def call_def Let_def ret_def fail_def
            split: if_splits)
  next
    case (Inr page)
    with Suc.prems obtain w2 where b: "delete_batches env m (batches (page_objects page)) ?w1 = (Inr (), w2)"
      and r: "delete_pages env m k (Suc n) w2 = (Inr (), w')"
      by (auto simp: s3_list_object_versions_def handleIO_def call_def Let_def bindIO_Inr_iff
          simp del: bindIO_def)
    from delete_batches_done [OF b] obtain xs where xs: "w_trace w2 = w_trace ?w1 @ xs"
        "listed_ids xs = []" "deleted_ids xs = page_objects page"
      by (auto simp: concat_batches)
    from Suc.IH [OF r] obtain ys where ys: "w_trace w' = w_trace w2 @ ys" "deleted_ids ys = listed_ids ys"
      by blast
    show ?thesis
      using Inr xs ys by (intro exI [of _ "?ev # xs @ ys"]) simp
  qed
qed

end
