(* ===== verification/Conditions.thy ===== *)
theory Conditions
  imports Error_Class
begin

text \<open>
  Status conditions and status writes: the operator's use of \<open>apimachinery\<close>'s condition
  helpers, \<open>storage.go\<close>'s \<open>retryStatusUpdate\<close>, and
  \<open>storagestatus/storagestatus.go\<close>, the single writer of the \<open>StorageReady\<close>
  condition. The helpers' documented behaviour is \<open>condition_contract\<close>, that of
  \<open>retry.RetryOnConflict\<close> is \<open>retry_contract\<close>; theorems that need one name it.
\<close>

section \<open>Documented behaviour of the library\<close>

definition cond_of :: "condition list \<Rightarrow> string \<Rightarrow> condition option" where
  "cond_of cs t = find (\<lambda>c. cd_type c = t) cs"

definition same_condition :: "condition \<Rightarrow> condition \<Rightarrow> bool" where
  "same_condition c d \<longleftrightarrow>
     cd_type c = cd_type d \<and> cd_status c = cd_status d \<and> cd_reason c = cd_reason d \<and>
     cd_message c = cd_message d \<and> cd_observed_generation c = cd_observed_generation d"

text \<open>
  \<open>meta.SetStatusCondition\<close> updates or appends the condition of the new one's type, leaves
  the others, and reports whether anything changed; \<open>meta.RemoveStatusCondition\<close> removes
  the condition of a type and leaves the others.
\<close>

definition condition_contract :: "lib_api \<Rightarrow> bool" where
  "condition_contract lib \<longleftrightarrow>
     (\<forall>t cs new cs' ch. set_condition lib t cs new = (cs', ch) \<longrightarrow>
        (\<exists>c. cond_of cs' (cd_type new) = Some c \<and> same_condition c new) \<and>
        (\<forall>ty. ty \<noteq> cd_type new \<longrightarrow> cond_of cs' ty = cond_of cs ty) \<and>
        (\<not> ch \<longrightarrow> cs' = cs)) \<and>
     (\<forall>cs ty ty'. cond_of (remove_condition lib cs ty) ty' =
        (if ty' = ty then None else cond_of cs ty'))"

text \<open>
  \<open>retry.RetryOnConflict\<close> runs the function, repeats it while it returns a conflict, gives
  up after some number of attempts with the last error, and returns anything else at once.
\<close>

fun run_retries :: "nat \<Rightarrow> unit io \<Rightarrow> unit io" where
  "run_retries 0 f = f"
| "run_retries (Suc n) f = handleIO f (\<lambda>e. if kube_conflict e then run_retries n f else fail e) ret"

definition retry_contract :: "lib_api \<Rightarrow> bool" where
  "retry_contract lib \<longleftrightarrow> (\<forall>f w. \<exists>n. retry_on_conflict lib f w = run_retries n f w)"

lemma emits_run_retries: "emits P f \<Longrightarrow> emits P (run_retries n f)"
  by (induction n) (auto intro!: emits_intros)

lemma emits_retry [emits_intros]:
  assumes "retry_contract lib" and "emits P f"
  shows "emits P (retry_on_conflict lib f)"
proof (rule emitsI)
  fix w
  obtain n where "retry_on_conflict lib f w = run_retries n f w"
    using assms(1) by (auto simp: retry_contract_def)
  with emits_run_retries [OF assms(2), of n]
  show "\<exists>es. w_trace (snd (retry_on_conflict lib f w)) = w_trace w @ es \<and> list_all P es"
    by (simp add: emits_def)
qed

text \<open>A postcondition of every attempt, given an invariant that conflicts keep.\<close>

lemma run_retries_post:
  assumes inv: "I w"
    and step: "\<And>w r w'. I w \<Longrightarrow> f w = (r, w') \<Longrightarrow> Q r w' \<and> I w'"
    and run: "run_retries n f w = (r, w')"
  shows "Q r w' \<and> I w'"
  using inv run
proof (induction n arbitrary: w)
  case 0
  then show ?case using step by simp
next
  case (Suc n)
  obtain r1 w1 where f: "f w = (r1, w1)" by fastforce
  with step Suc.prems(1) have "Q r1 w1" "I w1" by blast+
  with Suc f show ?case
    by (cases r1) (auto simp: handleIO_def fail_def ret_def split: if_splits)
qed

lemma retry_post:
  assumes "retry_contract lib" and "I w"
    and "\<And>w r w'. I w \<Longrightarrow> f w = (r, w') \<Longrightarrow> Q r w' \<and> I w'"
    and "retry_on_conflict lib f w = (r, w')"
  shows "Q r w' \<and> I w'"
proof -
  obtain n where "run_retries n f w = (r, w')"
    using assms(1,4) unfolding retry_contract_def by metis
  with assms(2,3) show ?thesis by (rule run_retries_post [where f = f])
qed

section \<open>Setting a condition on the in-memory object\<close>

definition setStatusCondition :: "env \<Rightarrow> condition \<Rightarrow> bool io" where
  "setStatusCondition env c w =
     (case set_condition (e_lib env) (now (e_lib env) (w_trace w))
             (as_conditions (app_status (w_app w))) c of
        (cs, changed) \<Rightarrow> (Inr changed, w\<lparr>w_app := set_conditions cs (w_app w)\<rparr>))"

lemma emits_setStatusCondition [emits_intros]: "emits P (setStatusCondition env c)"
  by (simp add: emits_def setStatusCondition_def split: prod.splits)

definition condition_now :: "world \<Rightarrow> string \<Rightarrow> condition option" where
  "condition_now w t = cond_of (as_conditions (app_status (w_app w))) t"

lemma setStatusCondition_run:
  assumes "condition_contract (e_lib env)" and "setStatusCondition env c w = (r, w')"
  shows "\<exists>d. condition_now w' (cd_type c) = Some d \<and> same_condition d c"
    and "t \<noteq> cd_type c \<Longrightarrow> condition_now w' t = condition_now w t"
    and "r = Inr False \<Longrightarrow> w' = w"
    and "w_trace w' = w_trace w"
    and "app_status_storage (w_app w') = app_status_storage (w_app w)"
    and "app_spec (w_app w') = app_spec (w_app w)" and "app_meta (w_app w') = app_meta (w_app w)"
proof -
  obtain cs ch where sc: "set_condition (e_lib env) (now (e_lib env) (w_trace w))
      (as_conditions (app_status (w_app w))) c = (cs, ch)" by fastforce
  then have w': "w' = w\<lparr>w_app := set_conditions cs (w_app w)\<rparr>" "r = Inr ch"
    using assms(2) by (auto simp: setStatusCondition_def)
  note contract = assms(1) [unfolded condition_contract_def, THEN conjunct1, rule_format, OF sc]
  show "\<exists>d. condition_now w' (cd_type c) = Some d \<and> same_condition d c"
    using contract w' by (simp add: condition_now_def)
  show "t \<noteq> cd_type c \<Longrightarrow> condition_now w' t = condition_now w t"
    using contract w' by (simp add: condition_now_def)
  show "r = Inr False \<Longrightarrow> w' = w"
    using contract w' by (simp add: set_conditions_def)
qed (use assms(2) in \<open>auto simp: setStatusCondition_def split: prod.splits\<close>)

section \<open>Status writes\<close>

text \<open>
  \<open>c.Status().Update(ctx, application)\<close>: on success the server's object is decoded into
  the same pointer.
\<close>

definition kube_status_update :: "env \<Rightarrow> unit io" where
  "kube_status_update env =
     bindIO getApp (\<lambda>a.
     bindIO (call (\<lambda>h. update_application_status (e_kube env) h a) (\<lambda>r. Kube (StatusUpdate a r)))
       putApp)"

definition kube_get_application :: "env \<Rightarrow> string \<Rightarrow> string \<Rightarrow> application io" where
  "kube_get_application env ns name =
     call (\<lambda>h. get_application (e_kube env) h ns name) (\<lambda>r. Kube (GetApplication ns name r))"

definition retryStatusUpdate :: "env \<Rightarrow> unit io" where
  "retryStatusUpdate env =
     bindIO getApp (\<lambda>a0. let desiredStatus = app_status a0 in
       retry_on_conflict (e_lib env)
         (bindIO (modifyApp (\<lambda>a. a\<lparr>app_status := desiredStatus\<rparr>)) (\<lambda>_.
          handleIO (kube_status_update env)
            (\<lambda>updateErr.
               if \<not> kube_conflict updateErr then fail updateErr
               else bindIO getApp (\<lambda>a.
                    bindIO (kube_get_application env (app_namespace a) (app_name a)) (\<lambda>fresh.
                    bindIO (putApp fresh) (\<lambda>_. fail updateErr))))
            ret)))"

definition is_status_io :: "event \<Rightarrow> bool" where
  "is_status_io e = (case e of
     Kube (StatusUpdate a r) \<Rightarrow> True
   | Kube (GetApplication ns n r) \<Rightarrow> True
   | Kube (ApiReaderGetApplication ns n r) \<Rightarrow> True
   | _ \<Rightarrow> False)"

lemma is_status_io_simps [simp]:
  "is_status_io (Kube (StatusUpdate a r))" "is_status_io (Kube (GetApplication ns n ra))"
  "is_status_io (Kube (ApiReaderGetApplication ns n rb))" "\<not> is_status_io (S3 se)"
  "\<not> is_status_io (Iam ie)" "\<not> is_status_io (Linode le)" "\<not> is_status_io (Kube (Update a ru))"
  by (simp_all add: is_status_io_def)

lemma emits_kube_status_update [emits_intros]:
  "(\<And>e. is_status_io e \<Longrightarrow> P e) \<Longrightarrow> emits P (kube_status_update env)"
  unfolding kube_status_update_def by (intro emits_intros) simp_all

lemma emits_retryStatusUpdate [emits_intros]:
  assumes "retry_contract (e_lib env)" and "\<And>e. is_status_io e \<Longrightarrow> P e"
  shows "emits P (retryStatusUpdate env)"
  unfolding retryStatusUpdate_def kube_get_application_def
  by (intro emits_intros assms) simp_all

section \<open>The \<open>StorageReady\<close> condition\<close>

definition StorageReady :: string where "StorageReady = ''StorageReady''"
definition ReasonBucketConfigured :: string where "ReasonBucketConfigured = ''BucketConfigured''"
definition ReasonBucketConfigurationFailed :: string where
  "ReasonBucketConfigurationFailed = ''BucketConfigurationFailed''"
definition ReasonBucketNotOwned :: string where "ReasonBucketNotOwned = ''BucketNotOwned''"
definition ReasonBucketCleanup :: string where "ReasonBucketCleanup = ''BucketCleanup''"
definition ReasonBucketCleanupFailed :: string where "ReasonBucketCleanupFailed = ''BucketCleanupFailed''"
definition ReasonBucketRetained :: string where "ReasonBucketRetained = ''BucketRetained''"

lemmas storage_reason_defs = ReasonBucketConfigured_def ReasonBucketConfigurationFailed_def
  ReasonBucketNotOwned_def ReasonBucketCleanup_def ReasonBucketCleanupFailed_def ReasonBucketRetained_def

definition MaxErrorMessageLength :: nat where
  "MaxErrorMessageLength = 250"

text \<open>The only limit the code passes is \<open>MaxErrorMessageLength\<close>; below 3 Go's slice would panic.\<close>

definition truncateMessage :: "string \<Rightarrow> nat \<Rightarrow> string" where
  "truncateMessage message maxLength =
     (if maxLength < length message then take (maxLength - 3) message @ ''...'' else message)"

lemma length_truncateMessage: "3 \<le> n \<Longrightarrow> length (truncateMessage m n) \<le> n"
  unfolding truncateMessage_def by (cases "n < length m") auto

definition storage_condition :: "application \<Rightarrow> string \<Rightarrow> string \<Rightarrow> string \<Rightarrow> condition" where
  "storage_condition app status reason message =
     \<lparr>cd_type = StorageReady, cd_status = status, cd_reason = reason, cd_message = message,
      cd_observed_generation = app_generation app, cd_last_transition_time = 0\<rparr>"

definition set_storage_condition :: "env \<Rightarrow> string \<Rightarrow> string \<Rightarrow> string \<Rightarrow> unit io" where
  "set_storage_condition env status reason message =
     bindIO getApp (\<lambda>app.
     bindIO (setStatusCondition env (storage_condition app status reason message)) (\<lambda>_. ret ()))"

definition SetNotOwned :: "env \<Rightarrow> gerror option \<Rightarrow> unit io" where
  "SetNotOwned env err =
     set_storage_condition env ''False'' ReasonBucketNotOwned
       (case err of
          None \<Rightarrow> ''Bucket already exists and is not owned by forge-operator''
        | Some e \<Rightarrow> truncateMessage (err_text e) MaxErrorMessageLength)"

definition SetRetained :: "env \<Rightarrow> string \<Rightarrow> unit io" where
  "SetRetained env bucket =
     set_storage_condition env ''False'' ReasonBucketRetained
       (''Bucket '' @ quoted bucket @ '' retained per deletionPolicy: Retain (not deleted)'')"

definition SetReady :: "env \<Rightarrow> storage_status \<Rightarrow> string \<Rightarrow> unit io" where
  "SetReady env storageStatus message =
     bindIO (modifyApp (set_status_storage (Some storageStatus))) (\<lambda>_.
     set_storage_condition env ''True'' ReasonBucketConfigured message)"

definition SetNotReady :: "env \<Rightarrow> gerror option \<Rightarrow> unit io" where
  "SetNotReady env err =
     set_storage_condition env ''False'' ReasonBucketConfigurationFailed
       (case err of
          None \<Rightarrow> ''Storage configuration failed''
        | Some e \<Rightarrow> ''Storage configuration failed: '' @ truncateMessage (err_text e) MaxErrorMessageLength)"

definition SetCleanupInProgress :: "env \<Rightarrow> unit io" where
  "SetCleanupInProgress env =
     set_storage_condition env ''False'' ReasonBucketCleanup ''Storage cleanup in progress''"

definition SetCleanupFailed :: "env \<Rightarrow> gerror option \<Rightarrow> unit io" where
  "SetCleanupFailed env err =
     set_storage_condition env ''False'' ReasonBucketCleanupFailed
       (case err of
          None \<Rightarrow> ''Storage cleanup failed''
        | Some e \<Rightarrow> ''Storage cleanup failed: '' @ truncateMessage (err_text e) MaxErrorMessageLength)"

lemmas storage_setter_defs = SetNotOwned_def SetRetained_def SetReady_def SetNotReady_def
  SetCleanupInProgress_def SetCleanupFailed_def

lemma emits_set_storage_condition [emits_intros]: "emits P (set_storage_condition env s r m)"
  unfolding set_storage_condition_def by (intro emits_intros)

lemma never_fails_set_storage_condition [never_fails_intros]:
  "never_fails (set_storage_condition env s r m)"
proof -
  have "never_fails (setStatusCondition env c)" for c
    by (simp add: never_fails_def setStatusCondition_def split: prod.splits)
  then show ?thesis unfolding set_storage_condition_def by (intro never_fails_intros)
qed

lemma emits_storage_setters [emits_intros]:
  "emits P (SetNotOwned env e)" "emits P (SetRetained env b)" "emits P (SetReady env st m)"
  "emits P (SetNotReady env e)" "emits P (SetCleanupInProgress env)" "emits P (SetCleanupFailed env e)"
  unfolding storage_setter_defs by (intro emits_intros)+

lemma set_storage_condition_run:
  assumes "condition_contract (e_lib env)" and "set_storage_condition env s r m w = (x, w')"
  shows "\<exists>d. condition_now w' StorageReady = Some d \<and> cd_status d = s \<and> cd_reason d = r \<and>
      cd_message d = m \<and> cd_observed_generation d = app_generation (w_app w)"
    and "t \<noteq> StorageReady \<Longrightarrow> condition_now w' t = condition_now w t"
    and "w_trace w' = w_trace w" and "app_status_storage (w_app w') = app_status_storage (w_app w)"
    and "app_spec (w_app w') = app_spec (w_app w)" and "app_meta (w_app w') = app_meta (w_app w)"
proof -
  let ?c = "storage_condition (w_app w) s r m"
  obtain y where run: "setStatusCondition env ?c w = (y, w')"
    using assms(2)
    by (auto simp: set_storage_condition_def bindIO_def handleIO_def getApp_def ret_def fail_def
        split: prod.splits sum.splits)
  have ty: "cd_type ?c = StorageReady" by (simp add: storage_condition_def)
  note S = setStatusCondition_run [OF assms(1) run]
  show "\<exists>d. condition_now w' StorageReady = Some d \<and> cd_status d = s \<and> cd_reason d = r \<and>
      cd_message d = m \<and> cd_observed_generation d = app_generation (w_app w)"
    using S(1) by (auto simp: ty same_condition_def storage_condition_def)
  show "t \<noteq> StorageReady \<Longrightarrow> condition_now w' t = condition_now w t"
    using S(2) by (simp add: ty)
  show "w_trace w' = w_trace w" by (rule S(4))
  show "app_status_storage (w_app w') = app_status_storage (w_app w)" by (rule S(5))
  show "app_spec (w_app w') = app_spec (w_app w)" by (rule S(6))
  show "app_meta (w_app w') = app_meta (w_app w)" by (rule S(7))
qed

end
