(* ===== verification/Sample_Env.thy ===== *)
theory Sample_Env
  imports Conditions
begin

text \<open>
  A concrete environment and a concrete Application, at which the properties are applied.
  \<open>sample_lib\<close> implements the documented behaviour of the library functions, so the
  contracts that theorems name as hypotheses hold of it; in \<open>sample_env\<close> every service
  answers every call with success and the status writer returns the object it was given.
  The witnesses override single answers of it.
\<close>

fun upsert_condition :: "gotime \<Rightarrow> condition list \<Rightarrow> condition \<Rightarrow> condition list" where
  "upsert_condition t [] new = [new\<lparr>cd_last_transition_time := t\<rparr>]"
| "upsert_condition t (c # cs) new =
     (if cd_type c = cd_type new then
        new\<lparr>cd_last_transition_time :=
            (if cd_status c = cd_status new then cd_last_transition_time c else t)\<rparr> # cs
      else c # upsert_condition t cs new)"

definition set_condition_doc :: "gotime \<Rightarrow> condition list \<Rightarrow> condition \<Rightarrow> condition list \<times> bool" where
  "set_condition_doc t cs new =
     (case cond_of cs (cd_type new) of
        Some c \<Rightarrow> if same_condition c new then (cs, False) else (upsert_condition t cs new, True)
      | None \<Rightarrow> (upsert_condition t cs new, True))"

definition remove_condition_doc :: "condition list \<Rightarrow> string \<Rightarrow> condition list" where
  "remove_condition_doc cs ty = filter (\<lambda>c. cd_type c \<noteq> ty) cs"

lemma cond_of_upsert_same:
  "\<exists>c. cond_of (upsert_condition t cs new) (cd_type new) = Some c \<and> same_condition c new"
  by (induction t cs new rule: upsert_condition.induct)
     (auto simp: cond_of_def same_condition_def)

lemma cond_of_upsert_other:
  "ty \<noteq> cd_type new \<Longrightarrow> cond_of (upsert_condition t cs new) ty = cond_of cs ty"
  by (induction t cs new rule: upsert_condition.induct) (auto simp: cond_of_def)

lemma cond_of_remove:
  "cond_of (remove_condition_doc cs ty) ty' = (if ty' = ty then None else cond_of cs ty')"
  by (induction cs) (auto simp: cond_of_def remove_condition_doc_def)

definition sample_now :: gotime where
  "sample_now = 63900000000 * second"

definition sample_lib :: lib_api where
  "sample_lib = \<lparr>now = (\<lambda>h. sample_now), uuid = (\<lambda>h. ''id-1''),
     load_aws_config = (\<lambda>h region. Inr ()),
     set_condition = set_condition_doc, remove_condition = remove_condition_doc,
     retry_on_conflict = run_retries 4, set_controller_reference = (\<lambda>a c. Inr ()),
     jitter = (\<lambda>h d. d)\<rparr>"

lemma sample_condition_contract: "condition_contract sample_lib"
  unfolding condition_contract_def sample_lib_def
  by (auto simp: set_condition_doc_def cond_of_remove cond_of_upsert_other
      intro: cond_of_upsert_same split: option.splits if_splits)

lemma sample_retry_contract: "retry_contract sample_lib"
  by (auto simp: retry_contract_def sample_lib_def)

definition sample_s3 :: s3_api where
  "sample_s3 = \<lparr>head_bucket = (\<lambda>h b. Inr ()), create_bucket = (\<lambda>h b l. Inr ()),
     get_bucket_tagging = (\<lambda>h b. Inr []), put_bucket_tagging = (\<lambda>h b t. Inr ()),
     put_bucket_versioning = (\<lambda>h b v. Inr ()), put_bucket_lifecycle = (\<lambda>h b r. Inr ()),
     delete_bucket_lifecycle = (\<lambda>h b. Inr ()), more_version_pages = (\<lambda>h b. 0),
     list_object_versions = (\<lambda>h b n. Inr \<lparr>vp_versions = [(''a'', ''v1'')], vp_delete_markers = [(''b'', ''v2'')]\<rparr>),
     delete_objects = (\<lambda>h b os. Inr []), list_multipart_uploads = (\<lambda>h b. Inr [(''c'', ''u1'')]),
     abort_multipart_upload = (\<lambda>h b u. Inr ()), delete_s3_bucket = (\<lambda>h b. Inr ())\<rparr>"

definition sample_iam :: iam_api where
  "sample_iam = \<lparr>get_role = (\<lambda>h r. Inr ''arn''), create_role = (\<lambda>h r p b. Inr ''arn''),
     update_assume_role_policy = (\<lambda>h r p. Inr ()), put_role_policy = (\<lambda>h r n p. Inr ()),
     delete_role_policy = (\<lambda>h r n. Inr ()), delete_role = (\<lambda>h r. Inr ())\<rparr>"

definition sample_linode :: linode_api where
  "sample_linode = \<lparr>get_object_storage_bucket = (\<lambda>h r b. Inr ''host''),
     create_object_storage_bucket = (\<lambda>h r b. Inr ''host''),
     delete_object_storage_bucket = (\<lambda>h r b. Inr ()), list_object_storage_keys = (\<lambda>h. Inr []),
     create_object_storage_key = (\<lambda>h l r b. Inr \<lparr>lk_id = 7, lk_label = l, lk_access_key = ''AK'', lk_secret_key = ''SK''\<rparr>),
     delete_object_storage_key = (\<lambda>h i. Inr ()), get_object = (\<lambda>h b k. Inr (Inr [])),
     put_object = (\<lambda>h b k v. Inr ()), more_object_pages = (\<lambda>h b. 0),
     list_objects_v2 = (\<lambda>h b n. Inr [''k'']), delete_object_keys = (\<lambda>h b ks. Inr [])\<rparr>"

definition sample_meta :: object_meta where
  "sample_meta = \<lparr>md_name = ''app'', md_namespace = ''ns'', md_uid = ''uid-1'', md_generation = 1,
     md_deletion_timestamp = None, md_finalizers = [], md_annotations = []\<rparr>"

definition sample_storage :: storage_spec where
  "sample_storage = \<lparr>ss_provider = ProviderAWSS3, ss_bucket = ''bkt'', ss_deletion_policy = DeletionPolicyDelete,
     ss_region = [], ss_endpoint = [], ss_secret_name = [], ss_aws = None, ss_akamai = None\<rparr>"

definition sample_container :: container_spec where
  "sample_container = \<lparr>co_port = 8080, co_config_map_name = [], co_secret_name = [],
     co_config_mount_path = [], co_secret_mount_path = [], co_security_context = None,
     co_liveness_probe = None, co_readiness_probe = None, co_startup_probe = None\<rparr>"

definition sample_spec :: application_spec where
  "sample_spec = \<lparr>sp_image = ''img'', sp_replicas = Some 1, sp_container = sample_container,
     sp_config_map = None, sp_service = \<lparr>sv_type = ''ClusterIP'', sv_port = 80, sv_target_port = None\<rparr>,
     sp_ingress = None, sp_autoscaling = None, sp_pdb = None, sp_storage = Some sample_storage,
     sp_service_account = None, sp_env = [], sp_resources = \<lparr>rr_requests = [], rr_limits = []\<rparr>,
     sp_pod_security_context = None\<rparr>"

definition sample_app :: application where
  "sample_app = \<lparr>app_meta = sample_meta, app_spec = sample_spec,
     app_status = \<lparr>as_conditions = [], as_observed_generation = 0, as_storage = None\<rparr>\<rparr>"

definition sample_kube :: kube_api where
  "sample_kube = \<lparr>get_application = (\<lambda>h ns n. Inr sample_app), api_get_application = (\<lambda>h ns n. Inr sample_app),
     list_applications = (\<lambda>h ns. Inr [sample_app]), update_application = (\<lambda>h a. Inr a),
     update_application_status = (\<lambda>h a. Inr a), apply_ownership_id = (\<lambda>h ns n i. Inr ()),
     get_secret = (\<lambda>h ns n. Inr [(''apiToken'', ''t'')]), get_namespace = (\<lambda>h n. Inr []),
     apply_child = (\<lambda>h c. Inr ()), delete_child = (\<lambda>h k ns n. Inr ()), list_children = (\<lambda>h k ns l. Inr [])\<rparr>"

definition sample_view :: view_api where
  "sample_view = \<lparr>get_service = (\<lambda>h ns n. Inr ()),
     get_deployment = (\<lambda>h ns n. Inr \<lparr>dv_generation = 1, dv_observed_generation = 1, dv_conditions = [],
        dv_spec_replicas = Some 1, dv_updated_replicas = 1, dv_available_replicas = 1, dv_ready_replicas = 1\<rparr>),
     get_ingress = (\<lambda>h ns n. Inr (Some [])),
     get_hpa = (\<lambda>h ns n. Inr \<lparr>hv_generation = 1, hv_observed_generation = Some 1, hv_conditions = [],
        hv_current_replicas = 1\<rparr>),
     get_pdb = (\<lambda>h ns n. Inr \<lparr>pv_disruptions_allowed = 1, pv_current_healthy = 1, pv_desired_healthy = 1\<rparr>)\<rparr>"

definition sample_env :: env where
  "sample_env = \<lparr>e_lib = sample_lib, e_s3 = sample_s3, e_iam = sample_iam, e_linode = sample_linode,
     e_kube = sample_kube, e_view = sample_view\<rparr>"

definition sample_world :: world where
  "sample_world = \<lparr>w_trace = [], w_app = sample_app\<rparr>"

definition with_tags :: "(gerror + tag list) \<Rightarrow> env" where
  "with_tags r = sample_env\<lparr>e_s3 := sample_s3\<lparr>get_bucket_tagging := (\<lambda>h b. r)\<rparr>\<rparr>"

definition annotated :: "smap \<Rightarrow> application \<Rightarrow> application" where
  "annotated as a = a\<lparr>app_meta := (app_meta a)\<lparr>md_annotations := as\<rparr>\<rparr>"

definition sdk_failure :: "string \<Rightarrow> sdk_error" where
  "sdk_failure code = \<lparr>sdk_text = code, sdk_http_status = None, sdk_api_code = Some code,
     sdk_not_found = False, sdk_no_such_bucket = False, sdk_no_such_key = False,
     sdk_no_such_entity = False, sdk_linode_code = None, sdk_deadline = False\<rparr>"

lemmas sample_defs = sample_env_def sample_lib_def sample_s3_def sample_iam_def sample_linode_def
  sample_kube_def sample_view_def sample_world_def sample_app_def sample_meta_def sample_spec_def
  sample_storage_def sample_container_def with_tags_def annotated_def sdk_failure_def

end
