(* ===== verification/S3_Properties.thy ===== *)
theory S3_Properties
  imports S3_Cleanup Sample_Env
begin

text \<open>
  Properties of the AWS storage package: who may claim a bucket and what claiming leaves on
  it, what deletion requires and removes, and the agreement between provisioning and cleanup
  on the IAM role. Each is stated for every environment, so for every answer of S3 and IAM.
\<close>

section \<open>Claiming\<close>

text \<open>The ownership an answer to \<open>GetBucketTagging\<close> records, if it is one that can be trusted.\<close>

definition answered_view :: "gerror + tag list \<Rightarrow> owner_view option" where
  "answered_view r =
     (case r of
        Inl err \<Rightarrow> if api_error_code err = Some noSuchTagSetErrorCode then Some None else None
      | Inr tagSet \<Rightarrow> Some (tag_view tagSet))"

definition tags_answer :: "env \<Rightarrow> s3_manager \<Rightarrow> world \<Rightarrow> gerror + tag list" where
  "tags_answer env m w = get_bucket_tagging (e_s3 env) (w_trace w) (m_bucket m)"

definition after_tags_answer :: "env \<Rightarrow> s3_manager \<Rightarrow> world \<Rightarrow> world" where
  "after_tags_answer env m w =
     w\<lparr>w_trace := w_trace w @ [S3 (GetBucketTagging (m_bucket m) (tags_answer env m w))]\<rparr>"

lemma after_tags_answer_simps [simp]:
  "w_app (after_tags_answer env m w) = w_app w"
  "w_trace (after_tags_answer env m w) =
     w_trace w @ [S3 (GetBucketTagging (m_bucket m) (tags_answer env m w))]"
  by (simp_all add: after_tags_answer_def)

lemma tag_read_run:
  "tag_read env m w =
     (case tags_answer env m w of
        Inl err \<Rightarrow>
          (if api_error_code err = Some noSuchTagSetErrorCode then Inr (None, [])
           else Inl (Errorf [] (Sentinel S3ErrBucketNotOwned)
                  ('': could not verify ownership tag: '' @ err_text err)), after_tags_answer env m w)
      | Inr tagSet \<Rightarrow> (Inr (tag_view tagSet, tags_kept tagSet), after_tags_answer env m w))"
  by (simp add: tag_read_def s3_get_bucket_tagging_def tags_answer_def after_tags_answer_def
      handleIO_def call_def Let_def ret_def fail_def split: sum.splits)

lemma tag_read_Inr:
  "tag_read env m w = (Inr (view, ts), w1) \<Longrightarrow>
     answered_view (tags_answer env m w) = Some view \<and> w1 = after_tags_answer env m w"
  by (auto simp: tag_read_run answered_view_def split: sum.splits if_splits)

abbreviation created_recently :: "env \<Rightarrow> s3_manager \<Rightarrow> world \<Rightarrow> bool" where
  "created_recently env m w \<equiv> previouslyCreatedByUs env (m_bucket m) (after_tags_answer env m w)"

definition aws_manager :: s3_manager where
  "aws_manager = \<lparr>m_storage = sample_storage, m_bucket = ''bkt'', m_region = defaultRegion,
     m_service_account = ''app'', m_oidc_arn = ''arn:oidc'', m_oidc_url = ''https://oidc/'',
     m_boundary_arn = ''arn:boundary'', m_record_created = None\<rparr>"

definition own_tags :: "tag list" where
  "own_tags = [(''team'', ''a''), (ownerTagKey, ''uid-1''), (ownerNamespaceTagKey, ''ns'')]"

definition foreign_tags :: "tag list" where
  "foreign_tags = [(''team'', ''a''), (ownerTagKey, ''uid-2''), (ownerNamespaceTagKey, ''other'')]"

lemmas s3_sample_defs = sample_defs aws_manager_def own_tags_def foreign_tags_def
  ownerTagKey_def ownerNamespaceTagKey_def ownershipIDTagKey_def StorageOwnershipIDAnnotation_def

lemma claim_own_tags:
  "claimOrVerifyOwnership (with_tags (Inr own_tags)) aws_manager sample_world =
     (Inr (), after_tags_answer (with_tags (Inr own_tags)) aws_manager sample_world)"
  by (simp add: claimOrVerifyOwnership_def s3_get_bucket_tagging_def after_tags_answer_def tags_answer_def
      io_simps Let_def s3_sample_defs tag_or_empty_def scan_tag_Cons)

text \<open>
  C1: a bucket is claimed only by an Application entitled to it: the tags could be read, and
  they name this Application, or nobody (and the status records a creation of this bucket
  within the last hour, or the adopt annotation is set), or another owner whose takeover is
  allowed: same stable ownership ID, or the adopt annotation together with a permitted
  adoption.
\<close>

theorem claim_needs_entitlement:
  assumes "claimOrVerifyOwnership env m w = (Inr (), w')"
  shows "\<exists>view. answered_view (tags_answer env m w) = Some view \<and>
    entitled env (w_trace (after_tags_answer env m w)) (created_recently env m w) (w_app w) view"
proof -
  from assms obtain view s w1 b where rd: "tag_read env m w = (Inr (view, s), w1)"
    and b: "ask_previously_created env (m_bucket m) w1 = (Inr b, w1)"
    and ent: "entitled env (w_trace w1) b (w_app w) view"
    unfolding claim_is_protocol by (rule tag_store.claim_succeeded)
  from tag_read_Inr [OF rd] b ent show ?thesis
    by (auto simp: ask_previously_created_def)
qed

theorem claim_needs_entitlement_witness:
  "\<exists>view. answered_view (tags_answer (with_tags (Inr own_tags)) aws_manager sample_world) = Some view \<and>
     entitled (with_tags (Inr own_tags)) (w_trace (after_tags_answer (with_tags (Inr own_tags)) aws_manager sample_world))
       (created_recently (with_tags (Inr own_tags)) aws_manager sample_world) (w_app sample_world) view"
  by (rule claim_needs_entitlement [OF claim_own_tags])

text \<open>
  A claim that succeeds leaves the bucket recorded as this Application's: either the tags
  already named its UID, namespace and ownership ID and nothing was written, or the last call
  is an accepted \<open>PutBucketTagging\<close> of this bucket whose tags name all three.
\<close>

theorem claim_leaves_record:
  assumes "claimOrVerifyOwnership env m w = (Inr (), w')"
  shows "w' = after_tags_answer env m w \<and>
      (\<exists>ow. answered_view (tags_answer env m w) = Some (Some ow) \<and> ow_uid ow = app_uid (w_app w) \<and>
         ow_namespace ow = app_namespace (w_app w) \<and> ow_ownership_id ow = ownership_id (w_app w)) \<or>
    (\<exists>h ts. w_trace w' = h @ [S3 (PutBucketTagging (m_bucket m) ts (Inr ()))] \<and>
       scan_tag ownerTagKey ts = Some (app_uid (w_app w)) \<and>
       scan_tag ownerNamespaceTagKey ts = Some (app_namespace (w_app w)) \<and>
       (ownership_id (w_app w) = [] \<or> scan_tag ownershipIDTagKey ts = Some (ownership_id (w_app w))))"
proof -
  from assms obtain view s w1 b where rd: "tag_read env m w = (Inr (view, s), w1)"
    and res: "w' = w1 \<and> claim_decision b (w_app w) view = Keep \<or>
      (\<exists>h e. w_trace w' = h @ [e] \<and> write_succeeded e \<and> tags_name m (w_app w) e)"
    unfolding claim_is_protocol by (rule tag_store.claim_succeeded)
  from res show ?thesis
  proof
    assume "w' = w1 \<and> claim_decision b (w_app w) view = Keep"
    with tag_read_Inr [OF rd] show ?thesis by (auto simp: claim_decision_Keep_iff)
  next
    assume "\<exists>h e. w_trace w' = h @ [e] \<and> write_succeeded e \<and> tags_name m (w_app w) e"
    then obtain h e where "w_trace w' = h @ [e]" "write_succeeded e" "tags_name m (w_app w) e" by blast
    then show ?thesis
      by (auto simp: tags_name_def split: event.splits s3_event.splits)
  qed
qed

theorem claim_leaves_record_witness:
  "let env = with_tags (Inr own_tags) in
   snd (claimOrVerifyOwnership env aws_manager sample_world) = after_tags_answer env aws_manager sample_world"
  using claim_leaves_record [OF claim_own_tags] by (simp add: claim_own_tags Let_def)

text \<open>
  No takeover by accident. A bucket whose owner tag names another UID, with no matching
  stable ownership ID and no adopt annotation, is refused with \<open>ErrBucketNotOwned\<close> and the
  only call made is the read of its tags.
\<close>

theorem foreign_bucket_refused:
  assumes "tags_answer env m w = Inr tagSet" and "scan_tag ownerTagKey tagSet = Some uid"
    and "uid \<noteq> app_uid (w_app w)"
    and "ownership_id (w_app w) = [] \<or> tag_or_empty ownershipIDTagKey tagSet \<noteq> ownership_id (w_app w)"
    and "\<not> adoptBucketRequested (w_app w)"
  shows "claimOrVerifyOwnership env m w = (Inl (Sentinel S3ErrBucketNotOwned), after_tags_answer env m w)"
  unfolding claim_is_protocol
proof (rule tag_store.claim_denied)
  show "tag_read env m w = (Inr (tag_view tagSet, tags_kept tagSet), after_tags_answer env m w)"
    using assms(1) by (simp add: tag_read_run)
  show "ask_previously_created env (m_bucket m) (after_tags_answer env m w) =
      (Inr (created_recently env m w), after_tags_answer env m w)"
    by (simp add: ask_previously_created_def)
  show "claim_decision (created_recently env m w) (w_app (after_tags_answer env m w)) (tag_view tagSet) = Deny"
    using assms(2-) by (auto simp: claim_decision_Deny_iff tag_view_def adoptBucketRequested_eq)
qed

theorem foreign_bucket_refused_witness:
  "claimOrVerifyOwnership (with_tags (Inr foreign_tags)) aws_manager sample_world =
     (Inl (Sentinel S3ErrBucketNotOwned),
      after_tags_answer (with_tags (Inr foreign_tags)) aws_manager sample_world)"
  by (rule foreign_bucket_refused [of _ _ _ foreign_tags "''uid-2''"])
     (simp_all add: tags_answer_def s3_sample_defs scan_tag_Cons adoptBucketRequested_def
        AdoptBucketAnnotationValue_def)

text \<open>
  With the adopt annotation set, a bucket that names another UID is still refused, with
  an error that is \<open>ErrBucketNotOwned\<close> and without any write to a bucket, unless the
  adoption is permitted: no Application in the cluster has the recorded UID and the recorded
  namespace is the adopter's or its Namespace object grants it.
\<close>

theorem unpermitted_adoption_refused:
  assumes "tags_answer env m w = Inr tagSet" and "scan_tag ownerTagKey tagSet = Some uid"
    and "uid \<noteq> app_uid (w_app w)"
    and "ownership_id (w_app w) = [] \<or> tag_or_empty ownershipIDTagKey tagSet \<noteq> ownership_id (w_app w)"
    and "\<not> adoption_permitted env (w_trace (after_tags_answer env m w)) uid
           (tag_or_empty ownerNamespaceTagKey tagSet) (app_namespace (w_app w))"
    and "claimOrVerifyOwnership env m w = (r, w')"
  shows "(\<exists>e. r = Inl e \<and> errors_is e S3ErrBucketNotOwned) \<and>
    list_all (\<lambda>e. \<not> bucket_write e) (new_events w w')"
proof (cases "adoptBucketRequested (w_app w)")
  case False
  with foreign_bucket_refused [OF assms(1-4)] assms(6) show ?thesis
    by (auto simp: new_events_def)
next
  case True
  let ?w1 = "after_tags_answer env m w"
  have rd: "tag_read env m w = (Inr (tag_view tagSet, tags_kept tagSet), ?w1)"
    using assms(1) by (simp add: tag_read_run)
  have b: "ask_previously_created env (m_bucket m) ?w1 = (Inr (created_recently env m w), ?w1)"
    by (simp add: ask_previously_created_def)
  have ask: "claim_decision (created_recently env m w) (w_app ?w1) (tag_view tagSet) =
      AskAdoption uid (tag_or_empty ownerNamespaceTagKey tagSet)"
    using assms(2-4) True by (auto simp: claim_decision_def tag_view_def adoptBucketRequested_eq)
  note np = tag_store.claim_not_permitted [OF rd b ask _ assms(6) [unfolded claim_is_protocol]]
  have "\<exists>es. w_trace w' = w_trace ?w1 @ es"
  proof -
    have "claimOrVerifyOwnership env m w = execute_decision env ProviderAWSS3 S3ErrBucketNotOwned
        (app_namespace (w_app w)) (tagAsOwned env m (tags_kept tagSet))
        (AskAdoption uid (tag_or_empty ownerNamespaceTagKey tagSet)) ?w1"
      using rd b ask
      by (simp add: claim_is_protocol claim_protocol_def bindIO_def handleIO_def getApp_def)
    moreover have "emits (\<lambda>_. True) (execute_decision env ProviderAWSS3 S3ErrBucketNotOwned
        (app_namespace (w_app w)) (tagAsOwned env m (tags_kept tagSet))
        (AskAdoption uid (tag_or_empty ownerNamespaceTagKey tagSet)))"
      unfolding execute_decision_def decision.case tagAsOwned_def s3_put_bucket_tagging_def
      by (intro emits_intros) simp_all
    ultimately show ?thesis using assms(6) unfolding emits_def by (metis snd_conv)
  qed
  with np assms(5) show ?thesis
    by (auto simp: new_events_def)
qed

definition adopting_world :: world where
  "adopting_world = sample_world\<lparr>w_app :=
     annotated [(AdoptBucketAnnotation, AdoptBucketAnnotationValue)] sample_app\<rparr>"

theorem unpermitted_adoption_refused_witness:
  "errors_is (projl (fst (claimOrVerifyOwnership (with_tags (Inr foreign_tags)) aws_manager adopting_world)))
     S3ErrBucketNotOwned"
proof -
  let ?env = "with_tags (Inr foreign_tags)"
  obtain r w' where run: "claimOrVerifyOwnership ?env aws_manager adopting_world = (r, w')" by fastforce
  have "(\<exists>e. r = Inl e \<and> errors_is e S3ErrBucketNotOwned) \<and>
      list_all (\<lambda>e. \<not> bucket_write e) (new_events adopting_world w')"
    by (rule unpermitted_adoption_refused [OF _ _ _ _ _ run, of foreign_tags "''uid-2''"])
       (simp_all add: tags_answer_def s3_sample_defs scan_tag_Cons adopting_world_def
         adoption_permitted_def tag_or_empty_def grant_allows_def AdoptBucketAnnotation_def Let_def
         smap_get_def)
  with run show ?thesis by auto
qed


lemma tagsExcludingOwner_append [simp]:
  "tagsExcludingOwner (xs @ ys) = tagsExcludingOwner xs @ tagsExcludingOwner ys"
  by (simp add: tagsExcludingOwner_def)

lemma tagsExcludingOwner_own [simp]: "tagsExcludingOwner (owner_tags app) = []"
  by (simp add: tagsExcludingOwner_def owner_tags_def Let_def)

lemma tagsExcludingOwner_idem [simp]: "tagsExcludingOwner (tagsExcludingOwner xs) = tagsExcludingOwner xs"
  by (simp add: tagsExcludingOwner_def)

lemma tagsExcludingOwner_kept: "tagsExcludingOwner (tags_kept xs) = tagsExcludingOwner xs"
  by (simp add: tags_kept_def)

definition tags_of_answer :: "gerror + tag list \<Rightarrow> tag list" where
  "tags_of_answer r = (case r of Inl _ \<Rightarrow> [] | Inr ts \<Rightarrow> ts)"

definition keeps_other_tags :: "string \<Rightarrow> tag list \<Rightarrow> event \<Rightarrow> bool" where
  "keeps_other_tags bucket before e =
     (case e of
        S3 (PutBucketTagging b ts r) \<Rightarrow> b = bucket \<and> tagsExcludingOwner ts = tagsExcludingOwner before
      | _ \<Rightarrow> \<not> bucket_write e)"

lemma keeps_other_tags_quiet: "is_kube_read e \<Longrightarrow> keeps_other_tags b ts e"
  by (auto simp: is_kube_read_def keeps_other_tags_def split: event.splits kube_event.splits)

lemma execute_keeps_other_tags:
  assumes "tagsExcludingOwner ts = tagsExcludingOwner before"
  shows "emits (keeps_other_tags (m_bucket m) before)
    (execute_decision env ProviderAWSS3 S3ErrBucketNotOwned ns (tagAsOwned env m ts) d)"
proof -
  have "emits (keeps_other_tags (m_bucket m) before) (tagAsOwned env m ts)"
    unfolding tagAsOwned_def s3_put_bucket_tagging_def
    by (intro emits_intros) (simp add: keeps_other_tags_def assms)
  moreover have "emits (keeps_other_tags (m_bucket m) before) (emit (Metric x))" for x
    by (intro emits_intros) (simp add: keeps_other_tags_def)
  ultimately show ?thesis
    by (cases d) (auto simp: execute_decision_def
        intro!: emits_bindIO emits_handleIO EvaluateBucketAdoption_reads emits_quiet keeps_other_tags_quiet)
qed



lemma scan_tag_find:
  "scan_tag k (tagsExcludingOwner ts) = None" if "k \<in> {ownerTagKey, ownerNamespaceTagKey, ownershipIDTagKey}"
  using that by (auto simp: scan_tag_def last_match_None_iff tagsExcludingOwner_def list_all_iff)

text \<open>
  Claiming converges, and what it wrote is what deletion accepts. When the bucket carries
  the tags a claim writes over tags that were not the operator's, the next claim by the same
  Application succeeds by reading alone, and \<open>verifyOwnership\<close> lets it delete the bucket.
\<close>

theorem claim_then_verify:
  assumes "tags_answer env m w = Inr (tagsExcludingOwner other @ owner_tags (w_app w))"
  shows "claimOrVerifyOwnership env m w = (Inr (), after_tags_answer env m w) \<and>
    verifyOwnership env m w = (Inr (), after_tags_answer env m w)"
proof
  let ?ts = "tagsExcludingOwner other @ owner_tags (w_app w)"
  have scans: "scan_tag ownerTagKey ?ts = Some (app_uid (w_app w))"
      "tag_or_empty ownerNamespaceTagKey ?ts = app_namespace (w_app w)"
      "tag_or_empty ownershipIDTagKey ?ts = ownership_id (w_app w)"
    by (simp_all add: scan_tag_append tag_or_empty_def scan_tag_find)
  show "claimOrVerifyOwnership env m w = (Inr (), after_tags_answer env m w)"
    using assms scans
    by (simp add: claimOrVerifyOwnership_def s3_get_bucket_tagging_def after_tags_answer_def
        tags_answer_def io_simps Let_def)
  have "find (\<lambda>(key, value). key = ownerTagKey) ?ts = Some (ownerTagKey, app_uid (w_app w))"
  proof -
    have "find (\<lambda>(key, value). key = ownerTagKey) (tagsExcludingOwner other) = None"
      by (auto simp: find_None_iff tagsExcludingOwner_def)
    moreover have "find P (xs @ ys) = (case find P xs of None \<Rightarrow> find P ys | Some x \<Rightarrow> Some x)"
      for P :: "tag \<Rightarrow> bool" and xs ys by (induction xs) auto
    ultimately show ?thesis by (simp add: owner_tags_def)
  qed
  with assms show "verifyOwnership env m w = (Inr (), after_tags_answer env m w)"
    by (simp add: verifyOwnership_def s3_get_bucket_tagging_def after_tags_answer_def
        tags_answer_def io_simps Let_def)
qed

theorem claim_then_verify_witness:
  "let env = with_tags (Inr ([(''team'', ''a'')] @ owner_tags sample_app)) in
   verifyOwnership env aws_manager sample_world = (Inr (), after_tags_answer env aws_manager sample_world)"
  using claim_then_verify [of "with_tags (Inr ([(''team'', ''a'')] @ owner_tags sample_app))" aws_manager
      sample_world "[(''team'', ''a'')]"]
  by (simp add: tags_answer_def s3_sample_defs tagsExcludingOwner_def Let_def)

section \<open>Deletion\<close>

text \<open>
  No data is destroyed on uncertain ownership. In every run of \<open>CleanupBucket\<close>,
  no object deletion, upload abortion or bucket deletion comes before a
  \<open>GetBucketTagging\<close> of this bucket whose answer allows it: the bucket is gone, its owner
  tag is this Application's UID, or it has no owner tag and the status records its recent
  creation or the adopt annotation is set.
\<close>

theorem cleanup_destroys_after_evidence:
  assumes "CleanupBucket env m w = (r, w')"
  shows "guarded_trace (tag_evidence env m (w_app w)) destroys (w_trace w) (new_events w w')"
  using s3_cleanup.cleanup_guarded [OF assms] new_events_eq by metis

theorem cleanup_destroys_after_evidence_witness:
  "guarded_trace (tag_evidence (with_tags (Inr own_tags)) aws_manager sample_app) destroys []
     (new_events sample_world (snd (CleanupBucket (with_tags (Inr own_tags)) aws_manager sample_world)))"
proof -
  obtain r w' where "CleanupBucket (with_tags (Inr own_tags)) aws_manager sample_world = (r, w')" by fastforce
  with cleanup_destroys_after_evidence [OF this] show ?thesis by (simp add: sample_world_def)
qed

lemma CleanupBucket_refuses:
  assumes "\<And>h. get_bucket_tagging (e_s3 env) h (m_bucket m) = Inr tagSet"
    and "find (\<lambda>(key, value). key = ownerTagKey) tagSet = Some (k, uid)" and "uid \<noteq> app_uid (w_app w)"
    and "CleanupBucket env m w = (r, w')"
  shows "(\<exists>irsaErr e. r = Inr (irsaErr, Some e) \<and> errors_is e S3ErrBucketNotOwned) \<and>
    list_all (\<lambda>e. \<not> bucket_write e) (new_events w w')"
proof -
  obtain irsa w1 where irsa: "cleanupAppIRSA env w = (irsa, w1)" by fastforce
  have app: "w_app w1 = w_app w" using keeps_appD [OF keeps_cleanupAppIRSA irsa] .
  let ?ev = "S3 (GetBucketTagging (m_bucket m) (Inr tagSet))"
  let ?e = "Errorf [] (Sentinel S3ErrBucketNotOwned) '': ownership tag names a different Application''"
  have ver: "verifyOwnership env m w1 = (Inl ?e, w1\<lparr>w_trace := w_trace w1 @ [?ev]\<rparr>)"
    using assms(1-3) app
    by (simp add: verifyOwnership_def s3_get_bucket_tagging_def handleIO_def bindIO_def call_def
        getApp_def fail_def Let_def)
  have r: "(\<exists>irsaErr e. r = Inr (irsaErr, Some e) \<and> errors_is e S3ErrBucketNotOwned)"
      "w' = w1\<lparr>w_trace := w_trace w1 @ [?ev]\<rparr>"
    using assms(4) irsa ver
    by (auto simp: CleanupBucket_def tryIO_def bindIO_def handleIO_def wrapIO_def ret_def fail_def
        Let_def split: sum.splits)
  have w1: "w_trace w1 = w_trace w @ new_events w w1" "list_all (\<lambda>e. \<not> bucket_write e) (new_events w w1)"
    using emits_trace [OF cleanupAppIRSA_quiet irsa] emits_new_events [OF cleanupAppIRSA_quiet irsa]
    by (simp_all add: list_all_iff)
  have "new_events w w' = new_events w w1 @ [?ev]"
    by (rule new_events_eq) (use r w1 in simp)
  with r w1 show ?thesis by simp
qed

text \<open>
  A bucket whose owner tag names another Application survives cleanup: \<open>CleanupBucket\<close>
  reports \<open>ErrBucketNotOwned\<close> as the bucket's error and writes to no bucket at all,
  whatever happened to the IAM role.
\<close>

theorem cleanup_refuses_foreign_bucket:
  assumes "\<And>h. get_bucket_tagging (e_s3 env) h (m_bucket m) = Inr tagSet"
    and "find (\<lambda>(key, value). key = ownerTagKey) tagSet = Some (k, uid)" and "uid \<noteq> app_uid (w_app w)"
    and "CleanupBucket env m w = (r, w')"
  shows "(\<exists>irsaErr e. r = Inr (irsaErr, Some e) \<and> errors_is e S3ErrBucketNotOwned) \<and>
    list_all (\<lambda>e. \<not> bucket_write e) (new_events w w')"
  using assms by (rule CleanupBucket_refuses)

theorem cleanup_refuses_foreign_bucket_witness:
  "list_all (\<lambda>e. \<not> bucket_write e)
     (new_events sample_world (snd (CleanupBucket (with_tags (Inr foreign_tags)) aws_manager sample_world)))"
proof -
  obtain r w' where run: "CleanupBucket (with_tags (Inr foreign_tags)) aws_manager sample_world = (r, w')"
    by fastforce
  have "list_all (\<lambda>e. \<not> bucket_write e) (new_events sample_world w')"
    by (rule cleanup_refuses_foreign_bucket [OF _ _ _ run, of foreign_tags ownerTagKey "''uid-2''", THEN conjunct2])
       (simp_all add: s3_sample_defs)
  with run show ?thesis by simp
qed

definition small_batch :: "event \<Rightarrow> bool" where
  "small_batch e = (case e of S3 (DeleteObjects b os r) \<Rightarrow> length os \<le> 1000 | _ \<Rightarrow> True)"

lemma delete_batches_small:
  "list_all (\<lambda>b. length b \<le> 1000) bs \<Longrightarrow> emits small_batch (delete_batches env m bs)"
proof (induction bs)
  case (Cons b bs)
  then have "emits small_batch (delete_batch env m b)"
    unfolding delete_batch_def s3_delete_objects_def
    by (intro emits_intros) (simp_all add: small_batch_def emits_quiet split: list.splits)
  with Cons show ?case by (simp add: emits_bindIO)
qed (simp add: emits_quiet)

lemma delete_pages_small: "emits small_batch (delete_pages env m k n)"
proof (induction k arbitrary: n)
  case (Suc k)
  have "list_all (\<lambda>b. length b \<le> 1000) (batches xs)" for xs :: "object_id list"
    using batches_bounded [of xs] by (simp add: list_all_iff batchSize_def)
  then show ?case
    unfolding delete_pages.simps s3_list_object_versions_def
    by (intro emits_intros delete_batches_small Suc.IH) (simp_all add: small_batch_def)
qed (simp add: emits_quiet)

text \<open>
  C23: deletion is complete. When \<open>deleteAllObjectVersions\<close> reports success, the object
  versions and delete markers it was given in all the pages are, in order, exactly those it
  asked S3 to delete in calls that reported no failed object; no call carries more than the
  1000 identifiers S3 accepts.
\<close>

theorem deletion_is_complete:
  assumes "deleteAllObjectVersions env m w = (Inr (), w')"
  shows "deleted_ids (new_events w w') = listed_ids (new_events w w') \<and>
    list_all small_batch (new_events w w')"
proof
  from assms have run: "delete_pages env m (Suc (more_version_pages (e_s3 env) (w_trace w) (m_bucket m))) 0 w
      = (Inr (), w')"
    by (simp add: deleteAllObjectVersions_def bindIO_def handleIO_def askEnv_def del: delete_pages.simps)
  from delete_pages_done [OF run] show "deleted_ids (new_events w w') = listed_ids (new_events w w')"
    using new_events_eq by metis
  show "list_all small_batch (new_events w w')"
    by (rule emits_new_events [OF delete_pages_small run])
qed

theorem deletion_is_complete_witness:
  "deleted_ids (new_events sample_world (snd (deleteAllObjectVersions sample_env aws_manager sample_world))) =
     [(''a'', ''v1''), (''b'', ''v2'')]"
proof -
  have "fst (deleteAllObjectVersions sample_env aws_manager sample_world) = Inr ()"
    by (simp add: deleteAllObjectVersions_def s3_list_object_versions_def batches.simps page_objects_def
        delete_batch_def s3_delete_objects_def io_simps s3_sample_defs Let_def batchSize_def)
  then have run: "deleteAllObjectVersions sample_env aws_manager sample_world =
      (Inr (), snd (deleteAllObjectVersions sample_env aws_manager sample_world))"
    by (metis prod.collapse)
  have "listed_ids (new_events sample_world (snd (deleteAllObjectVersions sample_env aws_manager sample_world))) =
      [(''a'', ''v1''), (''b'', ''v2'')]"
    by (simp add: deleteAllObjectVersions_def s3_list_object_versions_def batches.simps page_objects_def
        delete_batch_def s3_delete_objects_def io_simps s3_sample_defs Let_def batchSize_def new_events_def)
  with deletion_is_complete [OF run] show ?thesis by simp
qed

section \<open>Creation\<close>

definition bucket_absent :: "gerror + unit \<Rightarrow> bool" where
  "bucket_absent r =
     (case r of Inl err \<Rightarrow> is_s3_not_found err \<or> response_status err = Some 404 | Inr _ \<Rightarrow> False)"

definition creates_bucket :: "event \<Rightarrow> bool" where
  "creates_bucket e = (case e of S3 (CreateBucket b l r) \<Rightarrow> True | _ \<Rightarrow> False)"

lemma kube_read_not_create: "is_kube_read e \<Longrightarrow> \<not> creates_bucket e"
  by (auto simp: is_kube_read_def creates_bucket_def split: event.splits kube_event.splits)

lemma claim_creates_nothing: "emits (\<lambda>e. \<not> creates_bucket e) (claimOrVerifyOwnership env m)"
  unfolding claimOrVerifyOwnership_def claimUntagged_def tagAsOwned_def record_adopted_def
    record_reclaimed_def s3_get_bucket_tagging_def s3_put_bucket_tagging_def
  by (intro emits_intros emits_ask_previously_created)
     (auto simp: creates_bucket_def dest: kube_read_not_create)

text \<open>
  \<open>CreateBucket\<close> is only called when \<open>HeadBucket\<close> answered that the bucket does not
  exist. When it exists the step is the ownership check alone; any other failure of
  \<open>HeadBucket\<close> (access denied, wrong region, outage) ends the step with an error and
  nothing but that call.
\<close>

theorem bucket_created_only_when_absent:
  assumes "ensureBucketExists env m w = (r, w')"
  defines "head \<equiv> head_bucket (e_s3 env) (w_trace w) (m_bucket m)"
  defines "w1 \<equiv> w\<lparr>w_trace := w_trace w @ [S3 (HeadBucket (m_bucket m) head)]\<rparr>"
  shows "bucket_absent head \<and> create_and_claim env m w1 = (r, w') \<or>
    head = Inr () \<and> claimOrVerifyOwnership env m w1 = (r, w') \<and>
      list_all (\<lambda>e. \<not> creates_bucket e) (new_events w w') \<or>
    (\<exists>e. r = Inl e) \<and> w' = w1"
proof (cases head)
  case (Inl err)
  then have head: "head_bucket (e_s3 env) (w_trace w) (m_bucket m) = Inl err" by (simp add: head_def)
  show ?thesis
  proof (cases "bucket_absent head")
    case True
    with Inl have "is_s3_not_found err \<or> response_status err = Some 404"
      by (simp add: bucket_absent_def)
    then have "ensureBucketExists env m w = create_and_claim env m w1"
      by (cases "is_s3_not_found err")
         (simp_all add: ensureBucketExists_def s3_head_bucket_def handleIO_def call_def Let_def
            head Inl w1_def)
    with True assms(1) show ?thesis by simp
  next
    case False
    with Inl have "\<not> is_s3_not_found err" "response_status err \<noteq> Some 404"
      by (simp_all add: bucket_absent_def)
    then have "\<exists>e. ensureBucketExists env m w = (Inl e, w1)"
      by (cases "response_status err")
         (auto simp: ensureBucketExists_def s3_head_bucket_def handleIO_def call_def Let_def fail_def
            head head_def w1_def)
    with assms(1) show ?thesis by auto
  qed
next
  case (Inr u)
  with assms(1) have run: "claimOrVerifyOwnership env m w1 = (r, w')"
    by (simp add: ensureBucketExists_def s3_head_bucket_def handleIO_def call_def Let_def
        head_def w1_def)
  obtain es where es: "w_trace w' = w_trace w1 @ es" "list_all (\<lambda>e. \<not> creates_bucket e) es"
    using emits_trace [OF claim_creates_nothing run] emits_new_events [OF claim_creates_nothing run]
    by blast
  have "new_events w w' = S3 (HeadBucket (m_bucket m) head) # es"
    by (rule new_events_eq) (simp add: es w1_def)
  with Inr run es show ?thesis by (simp add: creates_bucket_def)
qed

theorem bucket_created_only_when_absent_witness:
  "list_all (\<lambda>e. \<not> creates_bucket e)
     (new_events sample_world (snd (ensureBucketExists (with_tags (Inr own_tags)) aws_manager sample_world)))"
proof -
  let ?env = "with_tags (Inr own_tags)"
  obtain r w' where run: "ensureBucketExists ?env aws_manager sample_world = (r, w')" by fastforce
  have head: "head_bucket (e_s3 ?env) h b = Inr ()" for h b
    by (simp add: with_tags_def sample_s3_def)
  have "list_all (\<lambda>e. \<not> creates_bucket e) (new_events sample_world w')"
    using bucket_created_only_when_absent [OF run, unfolded head]
    by (elim disjE conjE) (simp_all add: bucket_absent_def new_events_def creates_bucket_def)
  with run show ?thesis by simp
qed

section \<open>The IAM role\<close>

definition irsa_call :: "string \<Rightarrow> string \<Rightarrow> event \<Rightarrow> bool" where
  "irsa_call boundary role e =
     (case e of
        Iam (GetRole r x) \<Rightarrow> r = role
      | Iam (CreateRole r p b x) \<Rightarrow> r = role \<and> b = boundary
      | Iam (UpdateAssumeRolePolicy r p x) \<Rightarrow> r = role
      | Iam (PutRolePolicy r n p x) \<Rightarrow> r = role \<and> n = s3BucketAccessPolicyName
      | Iam (DeleteRolePolicy r n x) \<Rightarrow> r = role \<and> n = s3BucketAccessPolicyName
      | Iam (DeleteRole r x) \<Rightarrow> r = role
      | _ \<Rightarrow> False)"

text \<open>
  Provisioning and cleanup agree on the IAM role. Every call either makes is on the role
  named by \<open>irsaRoleName\<close>, the inline policy attached is the one detached (or the role could
  never be deleted), and a role is never created without the permissions boundary.
\<close>

theorem irsa_provision_cleanup_agree:
  "emits_as (\<lambda>a. irsa_call (m_boundary_arn m) (irsaRoleName a)) (ReconcileAppIRSA env m) \<and>
   emits_as (\<lambda>a. irsa_call (m_boundary_arn m) (irsaRoleName a)) (cleanupAppIRSA env)"
proof
  let ?P = "\<lambda>a. irsa_call (m_boundary_arn m) (irsaRoleName a)"
  have with_app: "emits_as ?P (bindIO getApp k)" if "\<And>app. emits (?P app) (k app)" for k :: "application \<Rightarrow> 'b io"
    using that by (simp add: emits_as_def emits_def bindIO_def handleIO_def getApp_def)
  show "emits_as ?P (ReconcileAppIRSA env m)"
    unfolding ReconcileAppIRSA_def iam_get_role_def iam_create_role_def iam_update_trust_def
      iam_put_role_policy_def Let_def
    by (intro with_app emits_intros) (simp_all add: irsa_call_def)
  show "emits_as ?P (cleanupAppIRSA env)"
    unfolding cleanupAppIRSA_def iam_delete_role_policy_def iam_delete_role_def Let_def
    by (intro with_app emits_intros) (simp_all add: irsa_call_def)
qed

definition deleted_or_missing :: "gerror + unit \<Rightarrow> bool" where
  "deleted_or_missing r = (case r of Inl err \<Rightarrow> is_no_such_entity err | Inr _ \<Rightarrow> True)"

text \<open>
  A successful cleanup of the role means that both deletions were answered with success or
  with the role or policy missing, the policy before the role (IAM refuses to delete a role
  that still has one).
\<close>

theorem irsa_cleanup_complete:
  "fst (cleanupAppIRSA env w) = Inr () \<longleftrightarrow>
     (\<exists>x y. new_events w (snd (cleanupAppIRSA env w)) =
        [Iam (DeleteRolePolicy (irsaRoleName (w_app w)) s3BucketAccessPolicyName x),
         Iam (DeleteRole (irsaRoleName (w_app w)) y)] \<and> deleted_or_missing x \<and> deleted_or_missing y)"
  by (auto simp: cleanupAppIRSA_def iam_delete_role_policy_def iam_delete_role_def io_simps Let_def
      deleted_or_missing_def new_events_def split: sum.splits)

section \<open>A partially tagged bucket\<close>

text \<open>
  C40: the branch of \<open>claimOrVerifyOwnership\<close> for a tag set without an owner tag does not
  filter the operator's other two keys, so claiming a bucket that kept its namespace tag (say
  after someone removed the owner tag by hand) sends S3 a tag set with a duplicate key.
\<close>

theorem untagged_claim_duplicates_key:
  assumes "tags_answer env m w = Inr tagSet" and "scan_tag ownerTagKey tagSet = None"
    and "ownerNamespaceTagKey \<in> fst ` set tagSet"
    and "created_recently env m w \<or> adoptBucketRequested (w_app w)"
  shows "\<exists>h ts x. w_trace (snd (claimOrVerifyOwnership env m w)) = h @ [S3 (PutBucketTagging (m_bucket m) ts x)] \<and>
    \<not> distinct (map fst ts)"
proof -
  have "\<not> distinct (map fst (tagSet @ owner_tags (w_app w)))"
    using assms(3) by (auto simp: owner_tags_def)
  then show ?thesis
    using assms(1,2,4)
    by (auto simp: claimOrVerifyOwnership_def claimUntagged_def s3_get_bucket_tagging_def tags_answer_def
        after_tags_answer_def ask_previously_created_def tagAsOwned_def s3_put_bucket_tagging_def
        record_adopted_def io_simps Let_def split: sum.splits)
qed

theorem untagged_claim_duplicates_key_witness:
  "\<exists>h ts x. w_trace (snd (claimOrVerifyOwnership (with_tags (Inr [(ownerNamespaceTagKey, ''ns'')]))
     aws_manager adopting_world)) = h @ [S3 (PutBucketTagging (m_bucket aws_manager) ts x)] \<and> \<not> distinct (map fst ts)"
  by (rule untagged_claim_duplicates_key [of _ _ _ "[(ownerNamespaceTagKey, ''ns'')]"])
     (simp_all add: tags_answer_def s3_sample_defs scan_tag_Cons adopting_world_def
        adoptBucketRequested_def AdoptBucketAnnotation_def AdoptBucketAnnotationValue_def smap_get_def)

end
