(* ===== verification/Naming_Properties.thy ===== *)
theory Naming_Properties
  imports Akamai_Cleanup S3_Properties
begin

text \<open>
  Properties of \<open>internal/controller/naming\<close> and of the error classification: the exact
  condition of an adoption, the length of cloud resource names, the names two Applications
  can share, and the outcome labels under wrapping.
\<close>

section \<open>Adoption\<close>

text \<open>
  C15: \<open>EvaluateBucketAdoption\<close> decides exactly the documented condition: it returns no
  error if and only if every Application in the cluster was listed and none has the recorded
  UID, the recorded namespace is known, and it is the adopter's or its Namespace object grants
  the adopter. Whatever it answers, it made read calls only and left the object alone.
\<close>

theorem adoption_iff_permitted:
  "(fst (EvaluateBucketAdoption env uid ns my w) = Inr () \<longleftrightarrow> adoption_permitted env (w_trace w) uid ns my) \<and>
   list_all is_kube_read (new_events w (snd (EvaluateBucketAdoption env uid ns my w))) \<and>
   w_app (snd (EvaluateBucketAdoption env uid ns my w)) = w_app w"
proof -
  obtain r w' where run: "EvaluateBucketAdoption env uid ns my w = (r, w')" by fastforce
  have "emits is_kube_read (EvaluateBucketAdoption env uid ns my)"
    by (rule EvaluateBucketAdoption_reads)
  from emits_new_events [OF this run] keeps_appD [OF EvaluateBucketAdoption_keeps run]
    EvaluateBucketAdoption_iff [of env uid ns my w] run
  show ?thesis by simp
qed

section \<open>Cloud resource names\<close>


definition named :: "string \<Rightarrow> string \<Rightarrow> application \<Rightarrow> application" where
  "named ns name app = app\<lparr>app_meta := (app_meta app)\<lparr>md_namespace := ns, md_name := name\<rparr>\<rparr>"

lemma named_simps [simp]:
  "app_namespace (named ns name app) = ns" "app_name (named ns name app) = name"
  by (simp_all add: named_def)

text \<open>
  Names of different Applications can be equal. The parts are joined with a dash, which
  is legal inside namespaces and names, so Application \<open>c\<close> in namespace \<open>a-b\<close> and
  Application \<open>b-c\<close> in namespace \<open>a\<close> have the same IAM role name and the same access key
  label, whatever \<open>a\<close>, \<open>b\<close> and \<open>c\<close> are, and removing the access key of one makes the
  calls that remove the key of the other.
\<close>

theorem cloud_names_collide:
  "let first = named (a @ ''-'' @ b) c app; other = named a (b @ ''-'' @ c) app;
       v = w\<lparr>w_app := first\<rparr>; u = w\<lparr>w_app := other\<rparr>
   in irsaRoleName first = irsaRoleName other \<and> accessKeyLabel first = accessKeyLabel other \<and>
      new_events v (snd (deleteApplicationAccessKey env v)) = new_events u (snd (deleteApplicationAccessKey env u))"
proof -
  define first where "first = named (a @ ''-'' @ b) c app"
  define other where "other = named a (b @ ''-'' @ c) app"
  have label: "accessKeyLabel first = accessKeyLabel other"
    by (simp add: first_def other_def accessKeyLabel_def CloudResourceName_def)
  have role: "irsaRoleName first = irsaRoleName other"
    by (simp add: first_def other_def irsaRoleName_def CloudResourceName_def)
  have "w_trace (snd (deleteApplicationAccessKey env (w\<lparr>w_app := first\<rparr>))) =
      w_trace (snd (deleteApplicationAccessKey env (w\<lparr>w_app := other\<rparr>)))"
    using label
    by (simp add: deleteApplicationAccessKey_def findAccessKeyIDByLabel_def linode_list_keys_def
        linode_delete_key_def io_simps Let_def split: sum.splits)
  with label role show ?thesis by (simp add: new_events_def Let_def first_def other_def)
qed

section \<open>Outcome labels\<close>

text \<open>
  The label of a storage error depends on the error at the end of its chain only, so it
  survives every \<open>%w\<close> the error is wrapped in on its way up; it is one of four labels, and
  it is \<open>not_owned\<close> exactly for the provider's own refusal.
\<close>

theorem outcome_of_chain:
  "classifyAWSStorageError err = classifyAWSStorageError (err_leaf err) \<and>
   classifyAkamaiStorageError err = classifyAkamaiStorageError (err_leaf err) \<and>
   reconcileFailureReason (Errorf pre err post) = reconcileFailureReason err \<and>
   (classifyAWSStorageError err = outcomeNotOwned \<longleftrightarrow> errors_is err S3ErrBucketNotOwned) \<and>
   (classifyAkamaiStorageError err = outcomeNotOwned \<longleftrightarrow> errors_is err AkamaiErrBucketNotOwned) \<and>
   {classifyAWSStorageError err, classifyAkamaiStorageError err} \<subseteq>
     {outcomeNotOwned, outcomeTimeout, outcomeAccessDenied, outcomeOther}"
  by (simp add: classify_leaf classifyAWS_not_owned_iff classifyAkamai_not_owned_iff)
     (simp add: classifyAWSStorageError_def classifyAkamaiStorageError_def)

end
