(* ===== verification/Akamai_Properties.thy ===== *)
theory Akamai_Properties
  imports Akamai_Cleanup S3_Properties
begin

text \<open>
  Properties of the Akamai storage package, and of both packages as instances of the
  ownership protocol: who may claim a bucket, what the marker records, which access key is
  handed out, and what a cleanup that was interrupted leaves behind.
\<close>

section \<open>Both providers run the same protocol\<close>

text \<open>
  C3: both packages implement the ownership protocol. As functions of the world, so with the
  same calls, results and errors in every environment, \<open>claimOrVerifyOwnership\<close> of package
  \<open>s3\<close> is \<open>claim_protocol\<close> over the tags of the bucket, and that of package
  \<open>akamaiobjstr\<close> is the same \<open>claim_protocol\<close> over the marker object: the decision of
  \<open>claim_decision\<close> on what the record says, executed by \<open>execute_decision\<close>.
\<close>

theorem claims_refine_protocol:
  "claimOrVerifyOwnership env m =
     claim_protocol env ProviderAWSS3 S3ErrBucketNotOwned (ask_previously_created env (m_bucket m))
       (tag_read env m) (tagAsOwned env m) \<and>
   ak_claimOrVerifyOwnership env k =
     claim_protocol env ProviderAkamaiObjectStorage AkamaiErrBucketNotOwned (ak_ask_created env (k_bucket k))
       (marker_read env k) (\<lambda>_. ak_claimOwnership env k)"
  using claim_is_protocol ak_claim_is_protocol by blast

section \<open>Claiming by the marker\<close>

definition marker_answer :: "env \<Rightarrow> akamai_manager \<Rightarrow> world \<Rightarrow> gerror + (gerror + string)" where
  "marker_answer env m w = get_object (e_linode env) (w_trace w) (k_bucket m) ownerMarkerKey"

definition after_marker_answer :: "env \<Rightarrow> akamai_manager \<Rightarrow> world \<Rightarrow> world" where
  "after_marker_answer env m w =
     w\<lparr>w_trace := w_trace w @ [Linode (GetObject (k_bucket m) ownerMarkerKey (marker_answer env m w))]\<rparr>"

lemma after_marker_answer_simps [simp]:
  "w_app (after_marker_answer env m w) = w_app w"
  "w_trace (after_marker_answer env m w) =
     w_trace w @ [Linode (GetObject (k_bucket m) ownerMarkerKey (marker_answer env m w))]"
  by (simp_all add: after_marker_answer_def)

definition answered_marker :: "gerror + (gerror + string) \<Rightarrow> owner_view option" where
  "answered_marker r =
     (case r of
        Inl err \<Rightarrow> if is_no_such_key err then Some None else None
      | Inr (Inl _) \<Rightarrow> None
      | Inr (Inr body) \<Rightarrow> Some (marker_view body))"

lemma marker_read_run:
  "marker_read env m w =
     (case marker_answer env m w of
        Inl err \<Rightarrow> (if is_no_such_key err then Inr (None, ())
           else Inl (Errorf [] (Sentinel AkamaiErrBucketNotOwned)
             ('': could not verify ownership marker: '' @ err_text err)), after_marker_answer env m w)
      | Inr (Inl err) \<Rightarrow> (Inl (Errorf ''failed to read ownership marker: '' err []), after_marker_answer env m w)
      | Inr (Inr body) \<Rightarrow> (Inr (marker_view body, ()), after_marker_answer env m w))"
  by (simp add: marker_read_def object_get_def marker_answer_def after_marker_answer_def
      handleIO_def call_def Let_def ret_def fail_def split: sum.splits)

lemma marker_read_Inr:
  "marker_read env m w = (Inr (view, s), w1) \<Longrightarrow>
     answered_marker (marker_answer env m w) = Some view \<and> w1 = after_marker_answer env m w"
  by (auto simp: marker_read_run answered_marker_def split: sum.splits if_splits)

abbreviation ak_created_recently :: "env \<Rightarrow> akamai_manager \<Rightarrow> world \<Rightarrow> bool" where
  "ak_created_recently env m w \<equiv> ak_previouslyCreatedByUs env (k_bucket m) (after_marker_answer env m w)"

text \<open>
  C2: an Akamai bucket is claimed only by an Application entitled to it. Whatever the services
  answer, the only write that \<open>claimOrVerifyOwnership\<close> makes to any bucket puts the marker that
  names this Application into the bucket of the spec; and it returns without an error only if
  the marker was read or is missing, and it names this Application, or nobody with a recorded
  creation or the adopt annotation, or an owner whose takeover is allowed.
\<close>

theorem ak_claim_needs_entitlement:
  assumes "ak_claimOrVerifyOwnership env m w = (r, w')"
  shows "list_all (\<lambda>e. \<not> bucket_write e \<or> marker_names m (w_app w) e) (new_events w w') \<and>
    (r \<noteq> Inr () \<or> (\<exists>view. answered_marker (marker_answer env m w) = Some view \<and>
      entitled env (w_trace (after_marker_answer env m w)) (ak_created_recently env m w) (w_app w) view))"
proof
  have "list_all (\<lambda>e. bucket_write e \<longrightarrow> marker_names m (w_app w) e) (new_events w w')"
    using emits_as_run [OF marker_store.claim_names assms [unfolded ak_claim_is_protocol]] .
  then show "list_all (\<lambda>e. \<not> bucket_write e \<or> marker_names m (w_app w) e) (new_events w w')"
    by (rule list.pred_mono_strong) blast
next
  have "\<exists>view. answered_marker (marker_answer env m w) = Some view \<and>
      entitled env (w_trace (after_marker_answer env m w)) (ak_created_recently env m w) (w_app w) view"
    if "r = Inr ()"
  proof -
    have "claim_protocol env ProviderAkamaiObjectStorage AkamaiErrBucketNotOwned
        (ak_ask_created env (k_bucket m)) (marker_read env m) (\<lambda>_. ak_claimOwnership env m) w = (Inr (), w')"
      using assms that unfolding ak_claim_is_protocol by simp
    then obtain view s w1 b where rd: "marker_read env m w = (Inr (view, s), w1)"
      and b: "ak_ask_created env (k_bucket m) w1 = (Inr b, w1)"
      and ent: "entitled env (w_trace w1) b (w_app w) view"
      by (rule marker_store.claim_succeeded)
    from marker_read_Inr [OF rd] b ent show ?thesis by (auto simp: ak_ask_created_def)
  qed
  then show "r \<noteq> Inr () \<or> (\<exists>view. answered_marker (marker_answer env m w) = Some view \<and>
      entitled env (w_trace (after_marker_answer env m w)) (ak_created_recently env m w) (w_app w) view)"
    by blast
qed

definition akamai_sample_manager :: akamai_manager where
  "akamai_sample_manager = \<lparr>k_storage = sample_storage, k_bucket = ''bkt'', k_region = ''us-ord'',
     k_record_created = None\<rparr>"

definition with_object :: "(gerror + (gerror + string)) \<Rightarrow> env" where
  "with_object r = sample_env\<lparr>e_linode := sample_linode\<lparr>get_object := (\<lambda>h b k. r)\<rparr>\<rparr>"

lemma with_object_answer [simp]: "get_object (e_linode (with_object r)) h b k = r"
  by (simp add: with_object_def)

text \<open>A claim that finds its own, complete marker keeps it and writes nothing.\<close>

lemma ak_claim_keeps:
  assumes "marker_answer env m w = Inr (Inr body)"
    and "claim_decision (ak_created_recently env m w) (w_app w) (marker_view body) = Keep"
  shows "ak_claimOrVerifyOwnership env m w = (Inr (), after_marker_answer env m w)"
  using assms by (simp add: ak_claim_is_protocol claim_protocol_def marker_read_run execute_decision_def
      bindIO_def handleIO_def getApp_def ak_ask_created_def ret_def)

lemma marker_view_body:
  "app_uid app \<noteq> [] \<Longrightarrow> marker_view (marker_body app) =
     Some \<lparr>ow_uid = app_uid app, ow_namespace = app_namespace app, ow_ownership_id = ownership_id app,
       ow_legacy = False\<rparr>"
  by (simp add: marker_view_def parse_marker_body)

lemma claim_keeps_own_marker:
  "app_uid app \<noteq> [] \<Longrightarrow> claim_decision b app (marker_view (marker_body app)) = Keep"
  by (simp add: marker_view_body claim_decision_Keep_iff)

theorem ak_claim_needs_entitlement_witness:
  "\<exists>view. answered_marker (marker_answer (with_object (Inr (Inr (marker_body sample_app)))) akamai_sample_manager sample_world)
     = Some view"
proof -
  let ?env = "with_object (Inr (Inr (marker_body sample_app)))"
  have "ak_claimOrVerifyOwnership ?env akamai_sample_manager sample_world =
      (Inr (), after_marker_answer ?env akamai_sample_manager sample_world)"
    by (rule ak_claim_keeps [where body = "marker_body sample_app"])
       (simp_all add: marker_answer_def sample_world_def claim_keeps_own_marker sample_app_def sample_meta_def)
  from ak_claim_needs_entitlement [OF this] show ?thesis by auto
qed



section \<open>The access key\<close>

text \<open>
  The key handed to the application is usable. A key pair returned by \<open>ensureAccessKey\<close>
  comes from exactly one of three runs: no key carries this Application's label and a new one
  was created for this bucket; a key with the label exists and its secret was read from the
  storage Secret, where it is not empty; or the secret of that key is lost, and the key was
  deleted before the new one was created.
\<close>

theorem access_key_usable:
  assumes "ensureAccessKey env m w = (Inr (accessKey, secretKey), w')"
  shows "w_app w' = w_app w \<and> (\<exists>keys. let lbl = accessKeyLabel (w_app w);
        same = find (\<lambda>key. lk_label key = lbl) keys;
        list = Linode (ListObjectStorageKeys (Inr keys));
        fresh = (\<lambda>new. Linode (CreateObjectStorageKey lbl (k_region m) (k_bucket m) (Inr new)));
        secret = (\<lambda>x. Kube (GetSecret (app_namespace (w_app w)) (StorageSecret (w_app w)) x))
     in (\<exists>new. same = None \<and> new_events w w' = [list, fresh new] \<and>
           accessKey = lk_access_key new \<and> secretKey = lk_secret_key new) \<or>
        (\<exists>key data. same = Some key \<and> new_events w w' = [list, secret (Inr data)] \<and>
           accessKey = lk_access_key key \<and> secretKey = smap_get data ''secret_key'' \<and> secretKey \<noteq> []) \<or>
        (\<exists>key x new. same = Some key \<and>
           new_events w w' = [list, secret x, Linode (DeleteObjectStorageKey (lk_id key) (Inr ())), fresh new] \<and>
           accessKey = lk_access_key new \<and> secretKey = lk_secret_key new))"
proof -
  let ?lbl = "accessKeyLabel (w_app w)"
  let ?keys = "list_object_storage_keys (e_linode env) (w_trace w)"
  obtain keys where keys: "?keys = Inr keys"
    using assms by (cases ?keys) (simp_all add: ensureAccessKey_def linode_list_keys_def io_simps Let_def)
  let ?w1 = "w\<lparr>w_trace := w_trace w @ [Linode (ListObjectStorageKeys (Inr keys))]\<rparr>"
  have create: "w_app w2' = w_app w2 \<and> (\<exists>new. w_trace w2' = w_trace w2 @
        [Linode (CreateObjectStorageKey ?lbl (k_region m) (k_bucket m) (Inr new))] \<and>
        ak = lk_access_key new \<and> sk = lk_secret_key new)"
    if "create_access_key env m ?lbl w2 = (Inr (ak, sk), w2')" for ak sk w2 w2'
    using that by (auto simp: create_access_key_def linode_create_key_def io_simps Let_def split: sum.splits)
  show ?thesis
  proof (cases "find (\<lambda>key. lk_label key = ?lbl) keys")
    case None
    with assms keys have "create_access_key env m ?lbl ?w1 = (Inr (accessKey, secretKey), w')"
      by (simp add: ensureAccessKey_def linode_list_keys_def bindIO_def handleIO_def getApp_def wrapIO_def
          call_def ret_def Let_def)
    from create [OF this] None show ?thesis by (auto simp: Let_def new_events_def intro!: exI [of _ keys])
  next
    case (Some key)
    let ?sec = "get_secret (e_kube env) (w_trace ?w1) (app_namespace (w_app w)) (StorageSecret (w_app w))"
    let ?w2 = "w\<lparr>w_trace := w_trace ?w1 @ [Kube (GetSecret (app_namespace (w_app w)) (StorageSecret (w_app w)) ?sec)]\<rparr>"
    define sec where "sec = (case ?sec of Inl e \<Rightarrow> [] | Inr data \<Rightarrow> smap_get data ''secret_key'')"
    have recover: "recoverSecretKey env ?w1 = (Inr sec, ?w2)"
      by (simp add: recoverSecretKey_def kube_get_secret_def sec_def io_simps Let_def split: sum.splits)
    show ?thesis
    proof (cases "sec = []")
      case False
      with assms keys Some recover have "accessKey = lk_access_key key" "secretKey = sec" "w' = ?w2"
        by (auto simp: ensureAccessKey_def linode_list_keys_def bindIO_def handleIO_def getApp_def wrapIO_def
            call_def ret_def Let_def)
      moreover from False obtain data where "?sec = Inr data" "sec = smap_get data ''secret_key''"
        by (auto simp: sec_def split: sum.splits)
      ultimately show ?thesis
        using Some False by (auto simp: Let_def new_events_def intro!: exI [of _ keys])
    next
      case True
      let ?del = "delete_object_storage_key (e_linode env) (w_trace ?w2) (lk_id key)"
      let ?w3 = "w\<lparr>w_trace := w_trace ?w2 @ [Linode (DeleteObjectStorageKey (lk_id key) ?del)]\<rparr>"
      from assms keys Some recover True have "?del = Inr ()"
          "create_access_key env m ?lbl ?w3 = (Inr (accessKey, secretKey), w')"
        by (auto simp: ensureAccessKey_def linode_list_keys_def linode_delete_key_def bindIO_def handleIO_def
            getApp_def wrapIO_def call_def ret_def fail_def Let_def split: sum.splits)
      with create [of ?w3 accessKey secretKey w'] Some show ?thesis
        by (auto simp: Let_def new_events_def intro!: exI [of _ keys])
    qed
  qed
qed

theorem access_key_usable_witness:
  "\<exists>keys. new_events sample_world (snd (ensureAccessKey sample_env akamai_sample_manager sample_world)) \<noteq>
     [Linode (ListObjectStorageKeys (Inr keys))]"
proof -
  have run: "ensureAccessKey sample_env akamai_sample_manager sample_world =
      (Inr (''AK'', ''SK''), snd (ensureAccessKey sample_env akamai_sample_manager sample_world))"
    by (simp add: ensureAccessKey_def create_access_key_def linode_list_keys_def linode_create_key_def io_simps
        sample_env_def sample_linode_def Let_def)
  from access_key_usable [OF run] show ?thesis by (auto simp: Let_def)
qed

section \<open>A foreign bucket\<close>

definition foreign_marker :: "application \<Rightarrow> string \<Rightarrow> bool" where
  "foreign_marker app body \<longleftrightarrow>
     om_uid (fst (parseOwnerMarker body)) \<noteq> app_uid app \<and> \<not> ak_adoptBucketRequested app \<and>
     (ownership_id app = [] \<or> om_ownership_id (fst (parseOwnerMarker body)) \<noteq> ownership_id app)"

lemma foreign_marker_denied: "foreign_marker app body \<Longrightarrow> claim_decision b app (marker_view body) = Deny"
  by (auto simp: claim_decision_Deny_iff marker_view_def foreign_marker_def ak_adopt_eq split: prod.splits)

lemma ak_claim_denied:
  assumes "marker_answer env m w = Inr (Inr body)" and "foreign_marker (w_app w) body"
  shows "ak_claimOrVerifyOwnership env m w = (Inl (Sentinel AkamaiErrBucketNotOwned), after_marker_answer env m w)"
  using assms foreign_marker_denied [of "w_app w" body]
  by (simp add: ak_claim_is_protocol claim_protocol_def marker_read_run execute_decision_def
      bindIO_def handleIO_def getApp_def ak_ask_created_def fail_def)

text \<open>
  A foreign Akamai bucket is refused, and no credentials for it stay behind. When the
  bucket exists and its marker names another owner that may not be taken over,
  \<open>ReconcileBucket\<close> writes nothing to any bucket; once it obtained an access key it fails with
  \<open>ErrBucketNotOwned\<close>, and its last steps are those of \<open>deleteApplicationAccessKey\<close>.
\<close>

theorem foreign_bucket_revokes_key:
  assumes "validateStorageSpec m = None"
    and "get_object_storage_bucket (e_linode env) (w_trace w) (k_region m) (k_bucket m) = Inr host"
    and "\<And>h. get_object (e_linode env) h (k_bucket m) ownerMarkerKey = Inr (Inr body)"
    and "foreign_marker (w_app w) body"
    and "ak_ReconcileBucket env m w = (res, w')"
  shows "list_all (\<lambda>e. \<not> bucket_write e) (new_events w w') \<and>
    (case ensureAccessKey env m (snd (linode_get_bucket env (k_region m) (k_bucket m) w)) of
       (Inl err, w1) \<Rightarrow> res = Inl (Errorf ''failed to ensure access key: '' err []) \<and> w' = w1
     | (Inr key, w1) \<Rightarrow> res = Inl (Sentinel AkamaiErrBucketNotOwned) \<and>
         w' = snd (deleteApplicationAccessKey env (after_marker_answer env m w1)))"
proof -
  let ?get = "linode_get_bucket env (k_region m) (k_bucket m)"
  define w0 where "w0 = snd (?get w)"
  have get: "?get w = (Inr host, w0)" and app: "w_app w0 = w_app w"
    and w0: "new_events w w0 = [Linode (GetObjectStorageBucket (k_region m) (k_bucket m) (Inr host))]"
      "w_trace w0 = w_trace w @ new_events w w0"
    using assms(2) by (simp_all add: w0_def linode_get_bucket_def call_def Let_def new_events_def)
  obtain kr w1 where key: "ensureAccessKey env m w0 = (kr, w1)" by fastforce
  have keyq: "emits (\<lambda>e. \<not> bucket_write e) (ensureAccessKey env m)"
    by (intro ensureAccessKey_emits) (simp_all add: kube_read_not_write)
  have app1: "w_app w1 = w_app w" using keeps_appD [OF ensureAccessKey_keeps key] app by simp
  note tr1 = emits_trace [OF keyq key] emits_new_events [OF keyq key]
  have ensured: "wrapIO ''failed to ensure bucket exists: '' (ak_ensureBucketExists env m) w = (Inr host, w0)"
    using get by (simp add: wrapIO_def handleIO_def ret_def ak_ensureBucketExists_def)
  show ?thesis
  proof (cases kr)
    case (Inl err)
    with assms(1,5) ensured key have res: "res = Inl (Errorf ''failed to ensure access key: '' err [])" "w' = w1"
      by (auto simp: ak_ReconcileBucket_def bindIO_def handleIO_def wrapIO_def fail_def)
    have "new_events w w1 = new_events w w0 @ new_events w0 w1"
      by (rule new_events_eq) (use tr1(1) w0(2) in simp)
    with res tr1(2) w0(1) Inl key show ?thesis by (simp flip: w0_def)
  next
    case (Inr ks)
    let ?w2 = "after_marker_answer env m w1"
    have "ak_claimOrVerifyOwnership env m w1 = (Inl (Sentinel AkamaiErrBucketNotOwned), ?w2)"
      using assms(3,4) app1 by (intro ak_claim_denied [of _ _ _ body]) (simp_all add: marker_answer_def)
    moreover obtain dr w3 where del: "deleteApplicationAccessKey env ?w2 = (dr, w3)" by fastforce
    ultimately have res: "res = Inl (Sentinel AkamaiErrBucketNotOwned)" "w' = w3"
      using assms(1,5) ensured key Inr
      by (cases ks; cases dr; auto simp: ak_ReconcileBucket_def bindIO_def handleIO_def wrapIO_def fail_def
          ret_def ignoreIO_def)+
    have delq: "emits (\<lambda>e. \<not> bucket_write e) (deleteApplicationAccessKey env)"
      by (intro deleteApplicationAccessKey_emits) simp_all
    have "new_events w w3 = new_events w w0 @ new_events w0 w1 @
        Linode (GetObject (k_bucket m) ownerMarkerKey (marker_answer env m w1)) # new_events ?w2 w3"
      by (rule new_events_eq) (use tr1(1) w0(2) emits_trace [OF delq del] in simp)
    with res tr1(2) w0(1) Inr key del emits_new_events [OF delq del] show ?thesis by (simp flip: w0_def)
  qed
qed

lemma foreign_marker_sample: "foreign_marker sample_app ''uid-2''"
proof -
  have "parse_value (Suc n) ''uid-2'' = None" for n
    by (simp add: skip_ws_def is_json_space_def byte_def parse_literal_def has_prefix_def parse_number_def
        parse_int_def digits1_def is_digit_def)
  from this [of 11] have "parse_value 12 ''uid-2'' = None" by (simp del: parse_value.simps)
  then have "parseOwnerMarker ''uid-2'' = (\<lparr>om_uid = ''uid-2'', om_namespace = [], om_ownership_id = []\<rparr>, True)"
    by (simp add: parseOwnerMarker_def unmarshal_strings_def parse_json_def del: parse_value.simps)
  then show ?thesis
    by (simp add: foreign_marker_def sample_app_def sample_meta_def ak_adoptBucketRequested_def
        AdoptBucketAnnotationValue_def)
qed

theorem foreign_bucket_revokes_key_witness:
  "list_all (\<lambda>e. \<not> bucket_write e) (new_events sample_world
     (snd (ak_ReconcileBucket (with_object (Inr (Inr ''uid-2''))) akamai_sample_manager sample_world)))"
proof -
  let ?env = "with_object (Inr (Inr ''uid-2''))"
  obtain res w' where run: "ak_ReconcileBucket ?env akamai_sample_manager sample_world = (res, w')" by fastforce
  have "list_all (\<lambda>e. \<not> bucket_write e) (new_events sample_world w')"
    by (rule foreign_bucket_revokes_key [OF _ _ _ _ run, of "''host''" "''uid-2''", THEN conjunct1])
       (simp_all add: foreign_marker_sample sample_world_def validateStorageSpec_def akamai_sample_manager_def
         with_object_def sample_linode_def)
  with run show ?thesis by simp
qed

section \<open>What is deleted, and what an interrupted cleanup leaves\<close>

fun listed_keys :: "event list \<Rightarrow> string list" where
  "listed_keys [] = []"
| "listed_keys (Linode (ListObjectsV2 b n (Inr keys)) # es) = keys @ listed_keys es"
| "listed_keys (e # es) = listed_keys es"

text \<open>The keys of the \<open>DeleteObjects\<close> calls that reported no error for any object.\<close>

fun deleted_keys :: "event list \<Rightarrow> string list" where
  "deleted_keys [] = []"
| "deleted_keys (Linode (DeleteObjectKeys b ks (Inr [])) # es) = ks @ deleted_keys es"
| "deleted_keys (e # es) = deleted_keys es"

lemma listed_keys_append [simp]: "listed_keys (xs @ ys) = listed_keys xs @ listed_keys ys"
  by (induction xs rule: listed_keys.induct) simp_all

lemma deleted_keys_append [simp]: "deleted_keys (xs @ ys) = deleted_keys xs @ deleted_keys ys"
  by (induction xs rule: deleted_keys.induct) simp_all

lemma delete_page_done:
  assumes "delete_page env m ks w = (Inr (), w')"
  shows "w_trace w' = w_trace w @ [Linode (DeleteObjectKeys (k_bucket m) ks (Inr []))]"
proof -
  from assms obtain errors w1 where "object_delete env (k_bucket m) ks w = (Inr errors, w1)"
    and "(case errors of [] \<Rightarrow> ret () | e # es \<Rightarrow> fail (ErrorText (''failed to delete '' @
        show_nat (length errors) @ '' objects in bucket '' @ k_bucket m @ '' (first error: '' @ e @ '')''))) w1
      = (Inr (), w')"
    by (auto simp: delete_page_def bindIO_Inr_iff wrapIO_Inr_iff)
  then show ?thesis
    by (cases errors) (auto simp: object_delete_def call_def fail_def ret_def Let_def)
qed

lemma empty_pages_done:
  "empty_pages env m k n w = (Inr (), w') \<Longrightarrow>
     \<exists>es. w_trace w' = w_trace w @ es \<and> deleted_keys es = listed_keys es"
proof (induction k arbitrary: n w)
  case 0
  then show ?case by (auto simp: ret_def)
next
  case (Suc k)
  let ?resp = "list_objects_v2 (e_linode env) (w_trace w) (k_bucket m) n"
  let ?ev = "Linode (ListObjectsV2 (k_bucket m) n ?resp)"
  let ?w1 = "w\<lparr>w_trace := w_trace w @ [?ev]\<rparr>"
  from Suc.prems obtain keys w2 where page: "?resp = Inr keys"
    and del: "(if keys = [] then ret () else delete_page env m keys) ?w1 = (Inr (), w2)"
    and rest: "empty_pages env m k (Suc n) w2 = (Inr (), w')"
    by (auto simp: bindIO_Inr_iff wrapIO_Inr_iff object_list_def call_def Let_def)
  obtain xs where xs: "w_trace w2 = w_trace ?w1 @ xs" "listed_keys xs = []" "deleted_keys xs = keys"
    using del delete_page_done [of env m keys ?w1 w2] by (cases "keys = []") (auto simp: ret_def)
  from Suc.IH [OF rest] obtain ys where ys: "w_trace w' = w_trace w2 @ ys" "deleted_keys ys = listed_keys ys"
    by blast
  show ?case using page xs ys by (intro exI [of _ "?ev # xs @ ys"]) simp
qed

lemma emptyBucket_done:
  assumes "emptyBucket env m w = (Inr (), w')"
  shows "w_trace w' = w_trace w @ new_events w w'" "deleted_keys (new_events w w') = listed_keys (new_events w w')"
proof -
  from assms have "empty_pages env m (Suc (more_object_pages (e_linode env) (w_trace w) (k_bucket m))) 0 w = (Inr (), w')"
    by (simp add: emptyBucket_def bindIO_def [of "askEnv _"] handleIO_def askEnv_def del: empty_pages.simps)
  from empty_pages_done [OF this] obtain es where "w_trace w' = w_trace w @ es" "deleted_keys es = listed_keys es"
    by blast
  then show "w_trace w' = w_trace w @ new_events w w'" "deleted_keys (new_events w w') = listed_keys (new_events w w')"
    by (simp_all add: new_events_def)
qed

text \<open>The marker of bucket \<open>b\<close> was deleted in \<open>h\<close> and not written again since.\<close>

fun marker_gone :: "string \<Rightarrow> event list \<Rightarrow> bool \<Rightarrow> bool" where
  "marker_gone b [] gone = gone"
| "marker_gone b (Linode (DeleteObjectKeys b' ks (Inr [])) # es) gone =
     marker_gone b es (gone \<or> b' = b \<and> ownerMarkerKey \<in> set ks)"
| "marker_gone b (Linode (PutObject b' k v r) # es) gone =
     marker_gone b es (gone \<and> \<not> (b' = b \<and> k = ownerMarkerKey))"
| "marker_gone b (e # es) gone = marker_gone b es gone"

lemma marker_gone_append: "marker_gone b (xs @ ys) g \<longleftrightarrow> marker_gone b ys (marker_gone b xs g)"
  by (induction b xs g rule: marker_gone.induct) simp_all

definition in_objects :: "string \<Rightarrow> event \<Rightarrow> bool" where
  "in_objects b e =
     (case e of
        Linode (ListObjectsV2 b' n r) \<Rightarrow> b' = b
      | Linode (DeleteObjectKeys b' ks r) \<Rightarrow> b' = b
      | _ \<Rightarrow> False)"

definition puts_marker :: "string \<Rightarrow> event \<Rightarrow> bool" where
  "puts_marker b e = (case e of Linode (PutObject b' k v r) \<Rightarrow> b' = b \<and> k = ownerMarkerKey | _ \<Rightarrow> False)"

lemma puts_marker_simps [simp]:
  "\<not> puts_marker b (Linode (GetObjectStorageBucket rg b' r))"
  "\<not> puts_marker b (Linode (DeleteObjectKeys b' ks x))"
  "in_objects b (Linode (DeleteObjectKeys b' ks x)) \<longleftrightarrow> b' = b"
  by (simp_all add: puts_marker_def in_objects_def)

lemma in_objects_not_put: "in_objects b e \<Longrightarrow> \<not> puts_marker b e"
  by (auto simp: in_objects_def puts_marker_def split: event.splits linode_event.splits)

lemma marker_gone_deleted:
  "list_all (in_objects b) es \<Longrightarrow> ownerMarkerKey \<in> set (deleted_keys es) \<Longrightarrow> marker_gone b es g"
  and marker_gone_stays: "list_all (\<lambda>e. \<not> puts_marker b e) es \<Longrightarrow> marker_gone b es True"
proof -
  have stays: "list_all (\<lambda>e. \<not> puts_marker b e) es \<Longrightarrow> marker_gone b es True" for b es
    by (induction b es True rule: marker_gone.induct) (auto simp: puts_marker_def)
  then show "list_all (\<lambda>e. \<not> puts_marker b e) es \<Longrightarrow> marker_gone b es True" .
  show "list_all (in_objects b) es \<Longrightarrow> ownerMarkerKey \<in> set (deleted_keys es) \<Longrightarrow> marker_gone b es g"
  proof (induction b es g rule: marker_gone.induct)
    case (2 b b' ks es gone)
    show ?case
    proof (cases "ownerMarkerKey \<in> set ks")
      case True
      from 2(2) have "list_all (in_objects b) es" by simp
      then have "list_all (\<lambda>e. \<not> puts_marker b e) es"
        by (rule list.pred_mono_strong) (rule in_objects_not_put)
      with stays 2(2) True show ?thesis by simp
    next
      case False
      with 2 show ?thesis by simp
    qed
  qed (auto simp: in_objects_def)
qed

lemma emptyBucket_removes_marker:
  assumes "emptyBucket env m w0 = (Inr (), w1)" and "ownerMarkerKey \<in> set (listed_keys (new_events w0 w1))"
  shows "marker_gone (k_bucket m) (w_trace w1) False"
proof -
  have "emits (in_objects (k_bucket m)) (emptyBucket env m)"
    by (intro emptyBucket_emits) (simp_all add: in_objects_def)
  from emits_new_events [OF this assms(1)] have "list_all (in_objects (k_bucket m)) (new_events w0 w1)" .
  with assms(2) have "marker_gone (k_bucket m) (new_events w0 w1) g" for g
    by (intro marker_gone_deleted) (simp_all add: emptyBucket_done(2) [OF assms(1)])
  then show ?thesis
    by (subst emptyBucket_done(1) [OF assms(1)]) (simp add: marker_gone_append)
qed

lemma verify_marker_missing:
  assumes "marker_answer env m w = Inl err" and "is_no_such_key err"
    and "\<not> ak_previouslyCreatedByUs env (k_bucket m) (after_marker_answer env m w)"
    and "\<not> ak_adoptBucketRequested (w_app w)"
  shows "\<exists>e. verify_marker env m w = (Inl e, after_marker_answer env m w) \<and> errors_is e AkamaiErrBucketNotOwned"
  using assms by (simp add: verify_marker_def object_get_def marker_answer_def after_marker_answer_def io_simps
      Let_def ak_ask_created_def)

text \<open>
  C35: a cleanup that was interrupted after it emptied the bucket cannot be resumed. The owner
  marker is an object of the bucket and is deleted with the rest; once a pass listed and
  deleted it, any later pass that finds the bucket still there (its deletion failed, or the
  pass was cut off) and has neither a recent creation on record nor the adopt annotation
  refuses with \<open>ErrBucketNotOwned\<close> (or fails to obtain a key) and deletes nothing: the
  Application cannot prove that the bucket is its own.
\<close>

theorem interrupted_cleanup_is_stuck:
  assumes emptied: "emptyBucket env m w0 = (Inr (), w1)"
    and listed: "ownerMarkerKey \<in> set (listed_keys (new_events w0 w1))"
    and later: "w_trace w = w_trace w1 @ es" "list_all (\<lambda>e. \<not> puts_marker (k_bucket m) e) es"
    and store: "\<And>h. marker_gone (k_bucket m) h False \<Longrightarrow>
      \<exists>err. get_object (e_linode env) h (k_bucket m) ownerMarkerKey = Inl err \<and> is_no_such_key err"
    and there: "get_object_storage_bucket (e_linode env) (w_trace w) (k_region m) (k_bucket m) = Inr host"
    and unrecorded: "\<And>h. \<not> ak_previouslyCreatedByUs env (k_bucket m) \<lparr>w_trace = h, w_app = w_app w\<rparr>"
      "\<not> ak_adoptBucketRequested (w_app w)"
    and named: "k_bucket m \<noteq> []"
    and run: "ak_DeleteBucket env m w = (r, w')"
  shows "\<exists>e. r = Inr (None, Some e) \<and> list_all (\<lambda>e. \<not> destroys e) (new_events w w') \<and>
    (errors_is e AkamaiErrBucketNotOwned \<or>
     (\<exists>err. fst (ensureAccessKey env m (snd (linode_get_bucket env (k_region m) (k_bucket m) w))) = Inl err))"
proof -
  define w2 where "w2 = snd (linode_get_bucket env (k_region m) (k_bucket m) w)"
  have get: "linode_get_bucket env (k_region m) (k_bucket m) w = (Inr host, w2)"
    and w2: "w_app w2 = w_app w"
      "w_trace w2 = w_trace w @ [Linode (GetObjectStorageBucket (k_region m) (k_bucket m) (Inr host))]"
    using there by (simp_all add: w2_def linode_get_bucket_def call_def Let_def)
  obtain kr w3 where key: "ensureAccessKey env m w2 = (kr, w3)" by fastforce
  have keyq: "emits (\<lambda>e. \<not> destroys e \<and> \<not> puts_marker (k_bucket m) e) (ensureAccessKey env m)"
    by (intro ensureAccessKey_emits)
       (auto simp: puts_marker_def is_kube_read_def split: event.splits kube_event.splits)
  have w3: "w_app w3 = w_app w" "w_trace w3 = w_trace w2 @ new_events w2 w3"
    using keeps_appD [OF ensureAccessKey_keeps key] emits_trace [OF keyq key] w2(1) by simp_all
  have w3q: "list_all (\<lambda>e. \<not> destroys e \<and> \<not> puts_marker (k_bucket m) e) (new_events w2 w3)"
    by (rule emits_new_events [OF keyq key])
  show ?thesis
  proof (cases kr)
    case (Inl err)
    then have "r = Inr (None, Some (Errorf (''refusing to delete bucket '' @ k_bucket m @ '': '')
        (Errorf (''failed to obtain access key to verify/empty bucket '' @ k_bucket m @ '': '') err []) []))" "w' = w3"
      using run named get key
      by (auto simp: ak_DeleteBucket_def verifyOwnershipAndEmptyBucket_def bindIO_def handleIO_def wrapIO_def
          fail_def ret_def)
    moreover have "new_events w w3 = Linode (GetObjectStorageBucket (k_region m) (k_bucket m) (Inr host)) # new_events w2 w3"
      by (rule new_events_eq) (simp add: w2(2) w3(2))
    ultimately show ?thesis
      using w3q key Inl by (auto simp: list_all_iff simp flip: w2_def)
  next
    case (Inr ks)
    let ?w4 = "after_marker_answer env m w3"
    have "list_all (\<lambda>e. \<not> puts_marker (k_bucket m) e)
        (es @ Linode (GetObjectStorageBucket (k_region m) (k_bucket m) (Inr host)) # new_events w2 w3)"
      using later(2) w3q by (auto simp: list_all_iff)
    from marker_gone_stays [OF this] emptyBucket_removes_marker [OF emptied listed]
    have "marker_gone (k_bucket m) (w_trace w3) False"
      by (simp add: w3(2) w2(2) later(1) marker_gone_append)
    from store [OF this] obtain err where "marker_answer env m w3 = Inl err" "is_no_such_key err"
      by (auto simp: marker_answer_def)
    moreover have "?w4 = \<lparr>w_trace = w_trace ?w4, w_app = w_app w\<rparr>" using w3(1) by simp
    then have "\<not> ak_previouslyCreatedByUs env (k_bucket m) ?w4"
      using unrecorded(1) [of "w_trace ?w4"] by (rule ssubst)
    ultimately obtain e where ver: "verify_marker env m w3 = (Inl e, ?w4)" "errors_is e AkamaiErrBucketNotOwned"
      using verify_marker_missing unrecorded(2) w3(1) by metis
    obtain dr w5 where del: "deleteApplicationAccessKey env ?w4 = (dr, w5)" by fastforce
    have delq: "emits (\<lambda>e. \<not> destroys e) (deleteApplicationAccessKey env)"
      by (intro deleteApplicationAccessKey_emits) simp_all
    have "r = Inr (None, Some (Errorf (''refusing to delete bucket '' @ k_bucket m @ '': '') e []))" "w' = w5"
      using run named get key Inr ver del
      by (cases ks; cases dr; auto simp: ak_DeleteBucket_def verifyOwnershipAndEmptyBucket_def bindIO_def handleIO_def
          wrapIO_def fail_def ret_def ignoreIO_def)+
    moreover have "new_events w w5 = Linode (GetObjectStorageBucket (k_region m) (k_bucket m) (Inr host)) #
        new_events w2 w3 @ Linode (GetObject (k_bucket m) ownerMarkerKey (marker_answer env m w3)) # new_events ?w4 w5"
      by (rule new_events_eq) (use w2(2) w3(2) emits_trace [OF delq del] in simp)
    ultimately show ?thesis
      using w3q ver(2) emits_new_events [OF delq del] by (auto simp: list_all_iff)
  qed
qed

definition no_such_key :: gerror where
  "no_such_key = SdkErr ((sdk_failure ''NoSuchKey'')\<lparr>sdk_no_such_key := True\<rparr>)"

text \<open>A bucket that holds the marker until it is deleted.\<close>

definition marker_bucket_env :: env where
  "marker_bucket_env = sample_env\<lparr>e_linode := sample_linode\<lparr>
     get_object := (\<lambda>h b k. if marker_gone b h False then Inl no_such_key else Inr (Inr (marker_body sample_app))),
     list_objects_v2 := (\<lambda>h b n. Inr [ownerMarkerKey])\<rparr>\<rparr>"

definition emptied_world :: world where
  "emptied_world = snd (emptyBucket marker_bucket_env akamai_sample_manager sample_world)"

lemma emptied_run:
  "emptyBucket marker_bucket_env akamai_sample_manager sample_world = (Inr (), emptied_world)"
  "emptied_world = \<lparr>w_trace = [Linode (ListObjectsV2 ''bkt'' 0 (Inr [ownerMarkerKey])),
     Linode (DeleteObjectKeys ''bkt'' [ownerMarkerKey] (Inr []))], w_app = sample_app\<rparr>"
  by (simp_all add: emptied_world_def emptyBucket_def object_list_def delete_page_def object_delete_def io_simps
      marker_bucket_env_def sample_linode_def sample_world_def akamai_sample_manager_def Let_def)

theorem interrupted_cleanup_is_stuck_witness:
  "\<exists>e. fst (ak_DeleteBucket marker_bucket_env akamai_sample_manager emptied_world) = Inr (None, Some e)"
proof -
  obtain r w' where run: "ak_DeleteBucket marker_bucket_env akamai_sample_manager emptied_world = (r, w')" by fastforce
  have app: "app_status_storage sample_app = None" "\<not> ak_adoptBucketRequested (w_app emptied_world)"
    by (simp_all add: emptied_run(2) sample_app_def sample_meta_def ak_adoptBucketRequested_def
        AdoptBucketAnnotationValue_def)
  have "\<exists>e. r = Inr (None, Some e) \<and> list_all (\<lambda>e. \<not> destroys e) (new_events emptied_world w') \<and>
      (errors_is e AkamaiErrBucketNotOwned \<or> (\<exists>err. fst (ensureAccessKey marker_bucket_env akamai_sample_manager
        (snd (linode_get_bucket marker_bucket_env (k_region akamai_sample_manager) (k_bucket akamai_sample_manager)
          emptied_world))) = Inl err))"
  proof (rule interrupted_cleanup_is_stuck [OF emptied_run(1) _ _ _ _ _ _ app(2) _ run, of "[]" "''host''"])
    show "\<exists>err. get_object (e_linode marker_bucket_env) h (k_bucket akamai_sample_manager) ownerMarkerKey = Inl err \<and>
        is_no_such_key err" if "marker_gone (k_bucket akamai_sample_manager) h False" for h
      using that by (simp add: marker_bucket_env_def no_such_key_def is_no_such_key_def)
  qed (simp_all add: emptied_run(2) new_events_def sample_world_def ak_previouslyCreatedByUs_def app(1)
      marker_bucket_env_def sample_linode_def akamai_sample_manager_def)
  with run show ?thesis by auto
qed

end
