(* ===== verification/Tenancy.thy ===== *)
theory Tenancy
  imports S3_Properties
begin

text \<open>
  One bucket and any number of Applications: a step relation whose states are what S3 stores of
  the bucket and whose steps are whole runs of \<open>claimOrVerifyOwnership\<close> and \<open>CleanupBucket\<close>,
  by any Application in any environment in which S3 answers for the tags as they are. Runs do
  not overlap here: the code reads the tags and writes them in two calls without a condition,
  so the operator does not exclude that another writer comes between, which \<open>Claim_Race\<close> shows.
\<close>

section \<open>What S3 stores of the bucket\<close>

text \<open>\<open>Lost\<close> once anything in the bucket or the bucket itself was deleted; a tag set may be absent.\<close>

datatype stored = Lost | Stored "tag list option"

definition after_event :: "string \<Rightarrow> event \<Rightarrow> stored \<Rightarrow> stored" where
  "after_event b e st =
     (case st of
        Lost \<Rightarrow> Lost
      | Stored old \<Rightarrow>
          if destroys e \<and> in_bucket b e then Lost
          else (case e of
                  S3 (PutBucketTagging b' ts (Inr ok)) \<Rightarrow> Stored (if b' = b then Some ts else old)
                | _ \<Rightarrow> Stored old))"

abbreviation after_run :: "string \<Rightarrow> event list \<Rightarrow> stored \<Rightarrow> stored" where
  "after_run b \<equiv> fold (after_event b)"

text \<open>
  S3's answers to \<open>GetBucketTagging\<close>: the stored tags, or the two error codes for what is not
  there, or any other failure at any time.
\<close>

definition answers_truly :: "s3_api \<Rightarrow> string \<Rightarrow> stored \<Rightarrow> bool" where
  "answers_truly s3 b st \<longleftrightarrow>
     (\<forall>h. case get_bucket_tagging s3 h b of
            Inr ts \<Rightarrow> st = Stored (Some ts)
          | Inl e \<Rightarrow> (api_error_code e = Some noSuchTagSetErrorCode \<longrightarrow> st = Stored None) \<and>
              (api_error_code e = Some noSuchBucketErrorCode \<longrightarrow> st = Lost))"

section \<open>The tenants\<close>

text \<open>
  The Application with UID \<open>u\<close> and stable ownership ID \<open>i\<close>, or another one with another ID
  (or none) from whose cluster \<open>u\<close> can be seen whenever it lists the Applications.
\<close>

definition sees :: "string \<Rightarrow> env \<Rightarrow> bool" where
  "sees u env \<longleftrightarrow>
     (\<forall>h as. list_applications (e_kube env) h None = Inr as \<longrightarrow> list_ex (\<lambda>a. app_uid a = u) as)"

definition stranger :: "string \<Rightarrow> string \<Rightarrow> env \<Rightarrow> application \<Rightarrow> bool" where
  "stranger u i env app \<longleftrightarrow>
     app_uid app \<noteq> u \<and> (ownership_id app = [] \<or> ownership_id app \<noteq> i) \<and> sees u env"

definition tenant :: "string \<Rightarrow> string \<Rightarrow> application \<Rightarrow> bool" where
  "tenant u i app \<longleftrightarrow> app_uid app = u \<and> ownership_id app = i"

inductive bucket_step :: "string \<Rightarrow> string \<Rightarrow> string \<Rightarrow> stored \<Rightarrow> stored \<Rightarrow> bool" for u i b where
  claim: "answers_truly (e_s3 env) b st \<Longrightarrow> m_bucket m = b \<Longrightarrow>
     tenant u i (w_app w) \<or> stranger u i env (w_app w) \<Longrightarrow>
     claimOrVerifyOwnership env m w = (r, w') \<Longrightarrow>
     bucket_step u i b st (after_run b (new_events w w') st)"
| cleanup: "answers_truly (e_s3 env) b st \<Longrightarrow> m_bucket m = b \<Longrightarrow> stranger u i env (w_app w) \<Longrightarrow>
     CleanupBucket env m w = (c, w') \<Longrightarrow>
     bucket_step u i b st (after_run b (new_events w w') st)"

text \<open>The bucket is there and both ways the code reads the tags find \<open>u\<close>, with the ID \<open>i\<close>.\<close>

definition owned_by :: "string \<Rightarrow> string \<Rightarrow> stored \<Rightarrow> bool" where
  "owned_by u i st \<longleftrightarrow>
     (case st of
        Stored (Some ts) \<Rightarrow>
          find (\<lambda>(key, value). key = ownerTagKey) ts = Some (ownerTagKey, u) \<and>
          scan_tag ownerTagKey ts = Some u \<and> tag_or_empty ownershipIDTagKey ts = i
      | _ \<Rightarrow> False)"

lemma owned_by_Stored: "owned_by u i st \<Longrightarrow> \<exists>ts. st = Stored (Some ts)"
  by (auto simp: owned_by_def split: stored.splits option.splits)

section \<open>Runs that leave the bucket alone\<close>

lemma after_event_quiet: "\<not> bucket_write e \<Longrightarrow> after_event b e st = st"
  using destroys_is_write
  by (auto simp: after_event_def split: stored.splits event.splits s3_event.splits sum.splits)

lemma after_run_quiet: "list_all (\<lambda>e. \<not> bucket_write e) es \<Longrightarrow> after_run b es st = st"
  by (induction es) (simp_all add: after_event_quiet)

lemma answered_owned:
  assumes "answers_truly s3 b st" and "owned_by u i st"
  shows "(\<exists>e. get_bucket_tagging s3 h b = Inl e \<and> api_error_code e \<noteq> Some noSuchTagSetErrorCode \<and>
      api_error_code e \<noteq> Some noSuchBucketErrorCode) \<or>
    (\<exists>ts. get_bucket_tagging s3 h b = Inr ts \<and> st = Stored (Some ts))"
proof -
  obtain ts where "st = Stored (Some ts)" using owned_by_Stored [OF assms(2)] by blast
  with assms(1) show ?thesis
    unfolding answers_truly_def by (cases "get_bucket_tagging s3 h b") (auto split: sum.splits)
qed

lemma not_permitted_while_alive: "sees u env \<Longrightarrow> u \<noteq> [] \<Longrightarrow> \<not> adoption_permitted env h u ns my"
  by (auto simp: sees_def adoption_permitted_def Let_def list_ex_iff list_all_iff split: sum.splits)

lemma stranger_cleanup_quiet:
  assumes "answers_truly (e_s3 env) (m_bucket m) st" and "owned_by u i st" and "app_uid (w_app w) \<noteq> u"
    and "CleanupBucket env m w = (c, w')"
  shows "list_all (\<lambda>e. \<not> bucket_write e) (new_events w w')"
proof -
  from assms(4) obtain irsa w1 ev rest where run: "cleanupAppIRSA env w = (irsa, w1)"
      "ev = S3 (GetBucketTagging (m_bucket m) (get_bucket_tagging (e_s3 env) (w_trace w1) (m_bucket m)))"
      "w_trace w' = w_trace w1 @ ev # rest"
      "rest \<noteq> [] \<longrightarrow> tag_evidence env m (w_app w) (w_trace w1) ev"
    by (rule CleanupBucket_run) blast
  have "\<not> tag_evidence env m (w_app w) (w_trace w1) ev"
    using answered_owned [OF assms(1,2), of "w_trace w1"] assms(2,3) run(2)
    by (auto simp: tag_evidence_def deletion_allowed_def Let_def owned_by_def)
  with run(4) have "rest = []" by blast
  with run(3) emits_trace [OF cleanupAppIRSA_quiet run(1)]
  have "new_events w w' = new_events w w1 @ [ev]" by (intro new_events_eq) simp
  with emits_new_events [OF cleanupAppIRSA_quiet run(1)] run(2) show ?thesis by (simp add: list_all_iff)
qed

lemma stranger_claim_quiet:
  assumes "answers_truly (e_s3 env) (m_bucket m) st" and "owned_by u i st" and "u \<noteq> []"
    and "stranger u i env (w_app w)" and "claimOrVerifyOwnership env m w = (r, w')"
  shows "list_all (\<lambda>e. \<not> bucket_write e) (new_events w w')"
proof (cases "tags_answer env m w")
  case (Inl e)
  with answered_owned [OF assms(1,2), of "w_trace w"]
  have "api_error_code e \<noteq> Some noSuchTagSetErrorCode" by (auto simp: tags_answer_def)
  with Inl assms(5) have "w_trace w' = w_trace w @ [S3 (GetBucketTagging (m_bucket m) (Inl e))]"
    by (auto simp: claimOrVerifyOwnership_def s3_get_bucket_tagging_def tags_answer_def io_simps Let_def)
  then show ?thesis by (simp add: new_events_eq)
next
  case (Inr ts)
  with answered_owned [OF assms(1,2), of "w_trace w"] have st: "st = Stored (Some ts)"
    by (auto simp: tags_answer_def)
  with assms(2,4) have ts: "scan_tag ownerTagKey ts = Some u" "u \<noteq> app_uid (w_app w)"
      "ownership_id (w_app w) = [] \<or> tag_or_empty ownershipIDTagKey ts \<noteq> ownership_id (w_app w)"
    by (auto simp: owned_by_def stranger_def)
  have "\<not> adoption_permitted env h u ns my" for h ns my
    using assms(3,4) not_permitted_while_alive by (simp add: stranger_def)
  from unpermitted_adoption_refused [OF Inr ts this assms(5)] show ?thesis by blast
qed

section \<open>The tenant's own claims\<close>

lemma find_appended_owner:
  "find (\<lambda>(key, value). key = ownerTagKey) (tagsExcludingOwner ts @ owner_tags app) = Some (ownerTagKey, app_uid app)"
proof -
  have "find (\<lambda>(key, value). key = ownerTagKey) (tagsExcludingOwner ts) = None"
    by (auto simp: find_None_iff tagsExcludingOwner_def)
  then have "find (\<lambda>(key, value). key = ownerTagKey) (tagsExcludingOwner ts @ xs) =
      find (\<lambda>(key, value). key = ownerTagKey) xs" for xs
    by (induction ts) (auto simp: tagsExcludingOwner_def split: if_splits)
  then show ?thesis by (simp add: owner_tags_def)
qed

lemma owned_by_rewritten:
  "tenant u i app \<Longrightarrow> owned_by u i (Stored (Some (tagsExcludingOwner ts @ owner_tags app)))"
  by (simp add: owned_by_def tenant_def find_appended_owner scan_tag_append tag_or_empty_def scan_tag_find)

lemma tenant_claim_keeps:
  assumes "answers_truly (e_s3 env) (m_bucket m) st" and "owned_by u i st" and "tenant u i (w_app w)"
    and "claimOrVerifyOwnership env m w = (r, w')"
  shows "owned_by u i (after_run (m_bucket m) (new_events w w') st)"
proof (cases "tags_answer env m w")
  case (Inl e)
  with answered_owned [OF assms(1,2), of "w_trace w"]
  have "api_error_code e \<noteq> Some noSuchTagSetErrorCode" by (auto simp: tags_answer_def)
  with Inl assms(4) have "w_trace w' = w_trace w @ [S3 (GetBucketTagging (m_bucket m) (Inl e))]"
    by (auto simp: claimOrVerifyOwnership_def s3_get_bucket_tagging_def tags_answer_def io_simps Let_def)
  with assms(2) show ?thesis by (simp add: new_events_eq after_event_quiet)
next
  case (Inr ts)
  let ?get = "S3 (GetBucketTagging (m_bucket m) (Inr ts))"
  let ?w1 = "w\<lparr>w_trace := w_trace w @ [?get]\<rparr>"
  from Inr answered_owned [OF assms(1,2), of "w_trace w"] have st: "st = Stored (Some ts)"
    by (auto simp: tags_answer_def)
  with assms(2,3) have "scan_tag ownerTagKey ts = Some (app_uid (w_app w))"
    by (simp add: owned_by_def tenant_def)
  with Inr assms(4) have "w' = ?w1 \<or> tagAsOwned env m (tagsExcludingOwner ts) ?w1 = (r, w')"
    by (auto simp: claimOrVerifyOwnership_def s3_get_bucket_tagging_def tags_answer_def Let_def
        handleIO_def [of "call _ _"] call_def bindIO_step [of getApp] getApp_def ret_def split: if_splits)
  then show ?thesis
  proof
    assume "w' = ?w1"
    with assms(2) show ?thesis by (simp add: new_events_def after_event_quiet)
  next
    assume "tagAsOwned env m (tagsExcludingOwner ts) ?w1 = (r, w')"
    from tagAsOwned_run [OF this] obtain x where "w_trace w' = w_trace w @
        [?get, S3 (PutBucketTagging (m_bucket m) (tagsExcludingOwner ts @ owner_tags (w_app w)) x)]" by auto
    then have "new_events w w' =
        [?get, S3 (PutBucketTagging (m_bucket m) (tagsExcludingOwner ts @ owner_tags (w_app w)) x)]"
      by (rule new_events_eq)
    with st assms(2) owned_by_rewritten [OF assms(3)] show ?thesis
      by (cases x) (simp_all add: after_event_quiet after_event_def)
  qed
qed

section \<open>Every reachable state\<close>

lemma bucket_step_keeps_owner:
  assumes "bucket_step u i b st st'" and "u \<noteq> []" and "owned_by u i st"
  shows "owned_by u i st'"
  using assms(1)
proof (cases rule: bucket_step.cases)
  case (claim env m w r w')
  with assms(2,3) show ?thesis
    using tenant_claim_keeps stranger_claim_quiet after_run_quiet by metis
next
  case (cleanup env m w c w')
  with assms(2,3) show ?thesis
    using stranger_cleanup_quiet after_run_quiet unfolding stranger_def by metis
qed

text \<open>
  C6: a bucket stays with its tenant. Once the tags of a bucket name an Application, no sequence
  of claims by it and of claims and cleanups by others changes that or deletes anything in the
  bucket: with the adopt annotation or without, whatever the status of the others records and
  whatever call fails, provided that each of the others has another ownership ID and finds the
  tenant when it lists the Applications.
\<close>

theorem tenant_keeps_bucket:
  assumes "(bucket_step u i b)\<^sup>*\<^sup>* st st'" and "u \<noteq> []" and "owned_by u i st"
  shows "owned_by u i st'"
  using assms(1,3)
proof (induction rule: rtranclp_induct)
  case (step y z)
  then show ?case using bucket_step_keeps_owner assms(2) by blast
qed

definition shared_env :: env where
  "shared_env = (with_tags (Inr foreign_tags))\<lparr>e_kube := sample_kube\<lparr>list_applications := (\<lambda>h ns.
     Inr [sample_app, sample_app\<lparr>app_meta := sample_meta\<lparr>md_uid := ''uid-2''\<rparr>\<rparr>])\<rparr>\<rparr>"

text \<open>An Application with the adopt annotation tries to take the bucket over and to clean it up.\<close>

theorem tenant_keeps_bucket_witness:
  "\<exists>st. (bucket_step ''uid-2'' [] ''bkt'')\<^sup>*\<^sup>* (Stored (Some foreign_tags)) st \<and>
     st = after_run ''bkt'' (new_events adopting_world (snd (CleanupBucket shared_env aws_manager adopting_world)))
       (after_run ''bkt'' (new_events adopting_world (snd (claimOrVerifyOwnership shared_env aws_manager adopting_world)))
         (Stored (Some foreign_tags))) \<and>
     owned_by ''uid-2'' [] st"
proof -
  let ?first = "Stored (Some foreign_tags)"
  obtain r w1 where claimed: "claimOrVerifyOwnership shared_env aws_manager adopting_world = (r, w1)" by fastforce
  obtain c w2 where cleaned: "CleanupBucket shared_env aws_manager adopting_world = (c, w2)" by fastforce
  let ?second = "after_run ''bkt'' (new_events adopting_world w1) ?first"
  have owned: "owned_by ''uid-2'' [] ?first"
    by (simp add: owned_by_def foreign_tags_def scan_tag_Cons tag_or_empty_def ownershipIDTagKey_def
        ownerNamespaceTagKey_def ownerTagKey_def)
  have truly: "answers_truly (e_s3 shared_env) ''bkt'' ?first"
    by (simp add: answers_truly_def shared_env_def with_tags_def)
  have stranger: "stranger ''uid-2'' [] shared_env (w_app adopting_world)"
    by (simp add: stranger_def sees_def shared_env_def adopting_world_def sample_defs)
  have bucket: "m_bucket aws_manager = ''bkt''" by (simp add: aws_manager_def)
  have one: "bucket_step ''uid-2'' [] ''bkt'' ?first ?second"
    by (rule bucket_step.claim [OF truly bucket _ claimed]) (simp add: stranger)
  have same: "?second = ?first"
    using stranger_claim_quiet [OF _ owned _ stranger claimed] truly bucket by (simp add: after_run_quiet)
  have two: "bucket_step ''uid-2'' [] ''bkt'' ?second (after_run ''bkt'' (new_events adopting_world w2) ?second)"
    unfolding same by (rule bucket_step.cleanup [OF truly bucket stranger cleaned])
  let ?step = "bucket_step ''uid-2'' [] ''bkt''"
  have "?step\<^sup>*\<^sup>* ?first ?second" by (rule r_into_rtranclp [where r = ?step, OF one])
  then have "?step\<^sup>*\<^sup>* ?first (after_run ''bkt'' (new_events adopting_world w2) ?second)"
    by (rule rtranclp.rtrancl_into_rtrancl [where r = ?step, OF _ two])
  with tenant_keeps_bucket [OF this _ owned] claimed cleaned show ?thesis by simp
qed

end
