(* ===== verification/Children.thy ===== *)
theory Children
  imports Akamai_Manager
begin

text \<open>
  The Kubernetes objects an Application owns, except its Deployment:
  \<open>serviceaccount.go\<close>, \<open>configmap.go\<close>, \<open>service.go\<close>, \<open>secret.go\<close>,
  \<open>ingress.go\<close>, \<open>pdb.go\<close> and \<open>hpa.go\<close> of \<open>internal/controller\<close>. Each builds
  the desired object, sets the controller reference and applies it; the ones that can be
  disabled or renamed delete what is left over. The locale \<open>child_reconciler\<close> is what the
  controller relies on: only objects of one kind, in the Application's namespace, controlled
  by the Application.
\<close>

section \<open>Calls\<close>

definition appLabelKey :: string where "appLabelKey = ''app''"
definition deploymentKind :: string where "deploymentKind = ''Deployment''"

definition kube_apply :: "env \<Rightarrow> child \<Rightarrow> unit io" where
  "kube_apply env c = call (\<lambda>h. apply_child (e_kube env) h c) (\<lambda>r. Kube (Apply c r))"

definition kube_delete :: "env \<Rightarrow> kind \<Rightarrow> string \<Rightarrow> string \<Rightarrow> unit io" where
  "kube_delete env k ns name =
     call (\<lambda>h. delete_child (e_kube env) h k ns name) (\<lambda>r. Kube (Delete k ns name r))"

definition kube_list :: "env \<Rightarrow> kind \<Rightarrow> string \<Rightarrow> smap \<Rightarrow> listed list io" where
  "kube_list env k ns labels =
     call (\<lambda>h. list_children (e_kube env) h k ns labels) (\<lambda>r. Kube (ListChildren k ns labels r))"

text \<open>\<open>client.IgnoreNotFound\<close> on a deletion, then the error with its message.\<close>

definition delete_or_gone :: "env \<Rightarrow> kind \<Rightarrow> string \<Rightarrow> string \<Rightarrow> string \<Rightarrow> unit io" where
  "delete_or_gone env k ns name msg =
     handleIO (kube_delete env k ns name)
       (\<lambda>err. if kube_not_found err then ret () else fail (Errorf msg err [])) ret"

text \<open>
  \<open>controllerutil.SetControllerReference\<close> on the desired object, then the server-side apply,
  each with the message its error is wrapped in.
\<close>

definition apply_owned :: "env \<Rightarrow> string \<Rightarrow> string \<Rightarrow> child \<Rightarrow> unit io" where
  "apply_owned env ref_msg apply_msg desired =
     bindIO getApp (\<lambda>app.
     case set_controller_reference (e_lib env) app desired of
       Inl err \<Rightarrow> fail (Errorf ref_msg err [])
     | Inr _ \<Rightarrow> wrapIO apply_msg (kube_apply env (set_controller (app_uid app) desired)))"

text \<open>
  The loops of the \<open>deleteStale\<close> functions: every listed object but the one to keep that
  \<open>metav1.IsControlledBy\<close> the Application.
\<close>

primrec delete_stale_items :: "env \<Rightarrow> kind \<Rightarrow> string \<Rightarrow> string \<Rightarrow> application \<Rightarrow> listed list \<Rightarrow> unit io" where
  "delete_stale_items env k what keep app [] = ret ()"
| "delete_stale_items env k what keep app (x # xs) =
     (if li_name x = keep \<or> li_controller x \<noteq> Some (app_uid app)
      then delete_stale_items env k what keep app xs
      else bindIO (delete_or_gone env k (app_namespace app) (li_name x)
                    (''failed to delete stale '' @ what @ '' '' @ li_name x @ '': ''))
             (\<lambda>_. delete_stale_items env k what keep app xs))"

definition delete_stale :: "env \<Rightarrow> kind \<Rightarrow> string \<Rightarrow> smap \<Rightarrow> string \<Rightarrow> unit io" where
  "delete_stale env k what extra_labels keep =
     bindIO getApp (\<lambda>app.
     bindIO (wrapIO (''failed to list '' @ what @ ''s for cleanup: '')
              (kube_list env k (app_namespace app) ((appLabelKey, app_name app) # extra_labels)))
       (delete_stale_items env k what keep app))"

section \<open>ServiceAccount\<close>

definition shouldCreateServiceAccount :: "application \<Rightarrow> bool" where
  "shouldCreateServiceAccount app =
     (case sp_service_account (app_spec app) of
        None \<Rightarrow> True
      | Some sa \<Rightarrow> (case sa_create sa of Some b \<Rightarrow> b | None \<Rightarrow> sa_name sa = []))"

definition serviceAccountNameFor :: "application \<Rightarrow> string" where
  "serviceAccountNameFor app =
     (case sp_service_account (app_spec app) of
        Some sa \<Rightarrow> if sa_name sa \<noteq> [] then sa_name sa else app_name app @ ''-sa''
      | None \<Rightarrow> app_name app @ ''-sa'')"

definition podServiceAccountName :: "application \<Rightarrow> string" where
  "podServiceAccountName app =
     (case sp_service_account (app_spec app) of
        Some sa \<Rightarrow> if sa_create sa = Some False \<and> sa_name sa = [] then [] else serviceAccountNameFor app
      | None \<Rightarrow> serviceAccountNameFor app)"

definition roleArnAnnotation :: string where "roleArnAnnotation = ''eks.amazonaws.com/role-arn''"

definition app_labels :: "application \<Rightarrow> smap" where
  "app_labels app = [(appLabelKey, app_name app)]"

definition child_named :: "application \<Rightarrow> string \<Rightarrow> smap \<Rightarrow> smap \<Rightarrow> child_body \<Rightarrow> child" where
  "child_named app name labels annotations body =
     \<lparr>child_meta = \<lparr>ch_name = name, ch_namespace = app_namespace app, ch_labels = labels,
        ch_annotations = annotations, ch_controller = None\<rparr>, child_body = body\<rparr>"

definition desiredServiceAccount :: "application \<Rightarrow> child" where
  "desiredServiceAccount app =
     child_named app (serviceAccountNameFor app) (app_labels app)
       (case app_status_storage app of
          Some st \<Rightarrow>
            (case st_aws st of
               Some aws \<Rightarrow> if st_provider st = ProviderAWSS3 \<and> aws_role_arn aws \<noteq> []
                 then [(roleArnAnnotation, aws_role_arn aws)] else []
             | None \<Rightarrow> [])
        | None \<Rightarrow> [])
       ServiceAccountBody"

text \<open>\<open>keepName\<close> survives; the empty name, which no object has, keeps none.\<close>

definition deleteStaleServiceAccounts :: "env \<Rightarrow> string \<Rightarrow> unit io" where
  "deleteStaleServiceAccounts env keepName = delete_stale env ServiceAccountKind ''ServiceAccount'' [] keepName"

definition reconcileServiceAccount :: "env \<Rightarrow> unit io" where
  "reconcileServiceAccount env =
     bindIO getApp (\<lambda>app.
     if \<not> shouldCreateServiceAccount app then deleteStaleServiceAccounts env []
     else
       let desired = desiredServiceAccount app
       in bindIO (apply_owned env ''failed to set controller reference for ServiceAccount: ''
                   ''failed to apply ServiceAccount: '' desired) (\<lambda>_.
          wrapIO ''failed to clean up stale ServiceAccount: ''
            (deleteStaleServiceAccounts env (ch_name (child_meta desired)))))"

definition annotateServiceAccountWithIRSA :: "env \<Rightarrow> string \<Rightarrow> unit io" where
  "annotateServiceAccountWithIRSA env roleArn =
     bindIO getApp (\<lambda>app.
     if \<not> shouldCreateServiceAccount app then ret ()
     else
       let desired = desiredServiceAccount app;
           meta = child_meta desired;
           annotated = desired\<lparr>child_meta := meta\<lparr>ch_annotations :=
             smap_put (ch_annotations meta) roleArnAnnotation roleArn\<rparr>\<rparr>
       in apply_owned env ''failed to set controller reference for ServiceAccount: ''
            ''failed to apply ServiceAccount with IRSA annotation: '' annotated)"

section \<open>ConfigMap\<close>

definition desiredConfigMap :: "application \<Rightarrow> child" where
  "desiredConfigMap app =
     child_named app (AppConfigMap app) (app_labels app) []
       (ConfigMapBody
         (case sp_config_map (app_spec app) of
            Some c \<Rightarrow> if cf_data c \<noteq> [] then cf_data c
              else [(''app-name'', app_name app), (''image'', sp_image (app_spec app))]
          | None \<Rightarrow> [(''app-name'', app_name app), (''image'', sp_image (app_spec app))]))"

definition deleteStaleConfigMaps :: "env \<Rightarrow> string \<Rightarrow> unit io" where
  "deleteStaleConfigMaps env keepName = delete_stale env ConfigMapKind ''ConfigMap'' [] keepName"

definition reconcileConfigMap :: "env \<Rightarrow> unit io" where
  "reconcileConfigMap env =
     bindIO getApp (\<lambda>app.
     if sp_config_map (app_spec app) = None then deleteStaleConfigMaps env []
     else
       let desired = desiredConfigMap app
       in bindIO (apply_owned env ''failed to set controller reference for ConfigMap: ''
                   ''failed to server-side apply ConfigMap: '' desired) (\<lambda>_.
          wrapIO ''failed to clean up stale ConfigMap: ''
            (deleteStaleConfigMaps env (ch_name (child_meta desired)))))"

section \<open>Service\<close>

definition servicePortName :: string where "servicePortName = ''http''"

definition servicePortFor :: "application \<Rightarrow> int" where
  "servicePortFor app =
     (let p = sv_port (sp_service (app_spec app)) in if p \<noteq> 0 then p else 80)"

definition desiredService :: "application \<Rightarrow> child" where
  "desiredService app =
     (let svc = sp_service (app_spec app);
          serviceType = (if sv_type svc \<noteq> [] then sv_type svc else ''ClusterIP'');
          containerPort = co_port (sp_container (app_spec app));
          targetPort = (case sv_target_port svc of
             Some p \<Rightarrow> p
           | None \<Rightarrow> if containerPort \<noteq> 0 then containerPort else 8080)
      in child_named app (service_name app) (app_labels app) []
           (ServiceBody serviceType (app_labels app)
             [\<lparr>spt_name = servicePortName, spt_port = servicePortFor app, spt_target_port = targetPort\<rparr>]))"

definition reconcileService :: "env \<Rightarrow> unit io" where
  "reconcileService env =
     bindIO getApp (\<lambda>app.
       apply_owned env ''failed to set controller reference for Service: ''
         ''failed to server-side apply Service: '' (desiredService app))"

section \<open>Storage Secret\<close>

definition SecretRoleLabel :: string where "SecretRoleLabel = ''forge.ningendo7.github.io/secret-role''"
definition secretRoleStorage :: string where "secretRoleStorage = ''storage''"

definition storage_secret_data :: "application \<Rightarrow> storage_spec \<Rightarrow> akamai_result option \<Rightarrow> smap" where
  "storage_secret_data app storage akamaiCreds =
     (let d0 = [(''provider'', ss_provider storage), (''bucket'', ss_bucket storage),
                (''region'', ss_region storage), (''endpoint'', ss_endpoint storage)];
          d1 = (case app_status_storage app of
                  Some st \<Rightarrow> (case st_aws st of
                      Some aws \<Rightarrow> smap_put d0 ''role_arn'' (aws_role_arn aws) | None \<Rightarrow> d0)
                | None \<Rightarrow> d0)
      in case akamaiCreds of
           None \<Rightarrow> d1
         | Some creds \<Rightarrow>
             let d2 = smap_put d1 ''access_key'' (ar_access_key creds);
                 d3 = (if ar_secret_key creds \<noteq> [] then smap_put d2 ''secret_key'' (ar_secret_key creds) else d2);
                 d4 = smap_put d3 ''endpoint'' (ar_endpoint creds);
                 endpointHost = trim_prefix (ar_endpoint creds) (ss_bucket storage @ ''.'')
             in smap_put d4 ''endpoint_url'' (''https://'' @ endpointHost))"

definition desiredStorage :: "application \<Rightarrow> akamai_result option \<Rightarrow> child option" where
  "desiredStorage app akamaiCreds =
     (case app_storage app of
        None \<Rightarrow> None
      | Some storage \<Rightarrow>
          Some (child_named app (StorageSecret app)
            [(appLabelKey, app_name app), (SecretRoleLabel, secretRoleStorage)] []
            (SecretBody ''Opaque'' (storage_secret_data app storage akamaiCreds))))"

definition delete_stale_secrets :: "env \<Rightarrow> string \<Rightarrow> unit io" where
  "delete_stale_secrets env keepName =
     delete_stale env SecretKind ''Secret'' [(SecretRoleLabel, secretRoleStorage)] keepName"

definition reconcileStorageSecret :: "env \<Rightarrow> akamai_result option \<Rightarrow> unit io" where
  "reconcileStorageSecret env akamaiCreds =
     bindIO getApp (\<lambda>app.
     case desiredStorage app akamaiCreds of
       None \<Rightarrow> delete_stale_secrets env []
     | Some desired \<Rightarrow>
         bindIO (apply_owned env ''failed to set controller reference for Storage Secret: ''
                  ''failed to server-side apply Storage Secret: '' desired) (\<lambda>_.
         wrapIO ''failed to clean up stale Storage Secret: ''
           (delete_stale_secrets env (ch_name (child_meta desired)))))"

text \<open>The Applications a changed Secret concerns, by name and namespace.\<close>

definition secret_referenced :: "string \<Rightarrow> application \<Rightarrow> bool" where
  "secret_referenced name app =
     (case app_storage app of
        None \<Rightarrow> False
      | Some st \<Rightarrow>
          ss_secret_name st = name \<or>
          ss_provider st = ProviderAkamaiObjectStorage \<and> AkamaiTokenSecret app = name \<or>
          ss_provider st = ProviderAWSS3 \<and>
            (case ss_aws st of Some aws \<Rightarrow> aws_credentials_secret_ref aws = name | None \<Rightarrow> False))"

definition findApplicationsForSecret :: "env \<Rightarrow> string \<Rightarrow> string \<Rightarrow> (string \<times> string) list io" where
  "findApplicationsForSecret env secretNamespace secretName =
     handleIO (kube_list_applications env (Some secretNamespace))
       (\<lambda>_. ret [])
       (\<lambda>items. ret (map (\<lambda>a. (app_name a, app_namespace a)) (filter (secret_referenced secretName) items)))"

section \<open>Ingress, PodDisruptionBudget, HorizontalPodAutoscaler\<close>

definition desiredIngress :: "application \<Rightarrow> ingress_spec \<Rightarrow> child" where
  "desiredIngress app spec =
     child_named app (ingress_name app) (app_labels app) (in_annotations spec)
       (IngressBody (in_class_name spec)
         [\<lparr>ir_host = in_host spec, ir_path = (if in_path spec = [] then ''/'' else in_path spec),
           ir_path_type = in_path_type spec, ir_backend_service = service_name app,
           ir_backend_port = servicePortFor app\<rparr>]
         (in_tls spec))"

definition reconcileIngress :: "env \<Rightarrow> unit io" where
  "reconcileIngress env =
     bindIO getApp (\<lambda>app.
     case sp_ingress (app_spec app) of
       None \<Rightarrow> delete_or_gone env IngressKind (app_namespace app) (ingress_name app)
                 ''failed to delete disabled Ingress: ''
     | Some spec \<Rightarrow>
         apply_owned env ''failed to set controller reference for Ingress: ''
           ''failed to server-side apply Ingress: '' (desiredIngress app spec))"

definition desiredPDB :: "application \<Rightarrow> child" where
  "desiredPDB app =
     (let (minAvailable, maxUnavailable) =
        (case sp_pdb (app_spec app) of
           None \<Rightarrow> (None, None)
         | Some spec \<Rightarrow>
             (case pd_min_available spec of
                Some m \<Rightarrow> (Some m, None)
              | None \<Rightarrow> (None, pd_max_unavailable spec)))
      in child_named app (pdb_name app) (app_labels app) []
           (PdbBody (app_labels app) minAvailable maxUnavailable))"

definition reconcilePDB :: "env \<Rightarrow> unit io" where
  "reconcilePDB env =
     bindIO getApp (\<lambda>app.
     case sp_pdb (app_spec app) of
       None \<Rightarrow> delete_or_gone env PdbKind (app_namespace app) (pdb_name app) ''failed to delete disabled PDB: ''
     | Some spec \<Rightarrow>
         apply_owned env ''failed to set controller reference for PodDisruptionBudget: ''
           ''failed to apply PodDisruptionBudget: '' (desiredPDB app))"

definition hpa_bounds :: "autoscaling_spec \<Rightarrow> int \<times> int" where
  "hpa_bounds autoscaling =
     (let minReplicas = (if 0 < as_min_replicas autoscaling then as_min_replicas autoscaling else 1);
          maxReplicas = (if 0 < as_max_replicas autoscaling then as_max_replicas autoscaling else 3)
      in (minReplicas, if maxReplicas < minReplicas then minReplicas else maxReplicas))"

definition hpa_utilization :: "autoscaling_spec \<Rightarrow> int" where
  "hpa_utilization autoscaling =
     (let u0 = (case as_cpu_utilization autoscaling of None \<Rightarrow> 80 | Some u \<Rightarrow> u);
          u1 = (if u0 < 1 then 1 else u0)
      in if 100 < u1 then 100 else u1)"

definition desiredHPA :: "application \<Rightarrow> child option" where
  "desiredHPA app =
     (case sp_autoscaling (app_spec app) of
        None \<Rightarrow> None
      | Some autoscaling \<Rightarrow>
          let (minReplicas, maxReplicas) = hpa_bounds autoscaling
          in Some (child_named app (hpa_name app) (app_labels app) []
               (HpaBody (deployment_name app) (Some minReplicas) maxReplicas (hpa_utilization autoscaling))))"

definition reconcileHPA :: "env \<Rightarrow> unit io" where
  "reconcileHPA env =
     bindIO getApp (\<lambda>app.
     case desiredHPA app of
       None \<Rightarrow> delete_or_gone env HpaKind (app_namespace app) (hpa_name app) ''failed to delete disabled HPA: ''
     | Some desired \<Rightarrow>
         apply_owned env ''failed to set controller reference for HPA: ''
           ''failed to server-side apply HPA: '' desired)"

section \<open>What a child reconciler does to the cluster\<close>

text \<open>An applied object of one kind, in the Application's namespace and controlled by it, or a
  deletion or listing of that kind in that namespace.\<close>

definition child_call :: "kind \<Rightarrow> application \<Rightarrow> event \<Rightarrow> bool" where
  "child_call k app e =
     (case e of
        Kube (Apply c r) \<Rightarrow> child_kind (child_body c) = k \<and>
          ch_namespace (child_meta c) = app_namespace app \<and>
          ch_controller (child_meta c) = Some (app_uid app)
      | Kube (Delete k' ns n r) \<Rightarrow> k' = k \<and> ns = app_namespace app
      | Kube (ListChildren k' ns ls r) \<Rightarrow> k' = k \<and> ns = app_namespace app
      | View (GetDeployment ns n r) \<Rightarrow> k = DeploymentKind \<and> ns = app_namespace app
      | _ \<Rightarrow> False)"

locale child_reconciler =
  fixes reconcile :: "env \<Rightarrow> unit io" and k :: kind
  assumes calls: "emits_as (child_call k) (reconcile env)"
    and keeps: "keeps_app (reconcile env)"
begin

text \<open>Whatever it applies belongs to the Application.\<close>

lemma applied_owned:
  assumes "reconcile env w = (r, w')" and "Kube (Apply c x) \<in> set (new_events w w')"
  shows "ch_controller (child_meta c) = Some (app_uid (w_app w))"
    and "ch_namespace (child_meta c) = app_namespace (w_app w)"
    and "child_kind (child_body c) = k"
  using emits_as_run [OF calls assms(1)] assms(2) by (auto simp: list_all_iff child_call_def)

text \<open>It is no storage call.\<close>

lemma no_bucket_write: "emits (\<lambda>e. \<not> bucket_write e) (reconcile env)"
proof (rule emitsI)
  fix w
  obtain es where "w_trace (snd (reconcile env w)) = w_trace w @ es" "list_all (child_call k (w_app w)) es"
    using calls unfolding emits_as_def by blast
  moreover have "child_call k a e \<Longrightarrow> \<not> bucket_write e" for a e
    by (auto simp: child_call_def split: event.splits kube_event.splits)
  ultimately show "\<exists>es. w_trace (snd (reconcile env w)) = w_trace w @ es \<and> list_all (\<lambda>e. \<not> bucket_write e) es"
    by (auto simp: list_all_iff)
qed

end

lemma emits_as_getApp:
  "(\<And>app. emits (P app) (k app)) \<Longrightarrow> emits_as P (bindIO getApp k)"
  by (simp add: emits_as_def emits_def bindIO_def handleIO_def getApp_def)

lemma emits_as_getApp_rel:
  "(\<And>app. emits_as (\<lambda>a e. a = app \<longrightarrow> P app e) (k app)) \<Longrightarrow> emits_as P (bindIO getApp k)"
proof -
  assume k: "\<And>app. emits_as (\<lambda>a e. a = app \<longrightarrow> P app e) (k app)"
  show ?thesis
    unfolding emits_as_def
  proof
    fix w
    from k [of "w_app w"] obtain es where "w_trace (snd (k (w_app w) w)) = w_trace w @ es"
        "list_all (\<lambda>e. w_app w = w_app w \<longrightarrow> P (w_app w) e) es"
      unfolding emits_as_def by blast
    then show "\<exists>es. w_trace (snd (bindIO getApp k w)) = w_trace w @ es \<and> list_all (P (w_app w)) es"
      by (auto simp: bindIO_def handleIO_def getApp_def list_all_iff)
  qed
qed

lemma emits_as_mono: "emits_as P m \<Longrightarrow> (\<And>a e. P a e \<Longrightarrow> Q a e) \<Longrightarrow> emits_as Q m"
  unfolding emits_as_def by (metis list_all_iff)

lemma emits_as_wrapIO: "emits_as P m \<Longrightarrow> emits_as P (wrapIO p m)"
  by (simp add: emits_as_def)

lemma apply_owned_calls:
  assumes "ch_namespace (child_meta c) = app_namespace app"
  shows "emits_as (\<lambda>a e. a = app \<longrightarrow> child_call (child_kind (child_body c)) app e) (apply_owned env m1 m2 c)"
  unfolding apply_owned_def
  by (rule emits_as_getApp)
     (auto simp: kube_apply_def child_call_def assms intro!: emits_intros)

lemma apply_owned_keeps: "keeps_app (apply_owned env m1 m2 c)"
  unfolding apply_owned_def kube_apply_def by (intro keeps_intros)

lemma delete_or_gone_calls: "emits (child_call k app) (delete_or_gone env k (app_namespace app) n m)"
  unfolding delete_or_gone_def kube_delete_def by (intro emits_intros) (simp add: child_call_def)

lemma delete_or_gone_keeps: "keeps_app (delete_or_gone env k ns n m)"
  unfolding delete_or_gone_def kube_delete_def by (intro keeps_intros)

lemma delete_stale_items_calls: "emits (child_call k app) (delete_stale_items env k what keep app xs)"
  by (induction xs) (auto intro!: emits_intros delete_or_gone_calls)

lemma delete_stale_items_keeps: "keeps_app (delete_stale_items env k what keep app xs)"
  by (induction xs) (auto intro!: keeps_intros delete_or_gone_keeps)

lemma delete_stale_calls: "emits_as (child_call k) (delete_stale env k what ls keep)"
  unfolding delete_stale_def kube_list_def
  by (intro emits_as_getApp emits_intros delete_stale_items_calls) (simp add: child_call_def)

lemma delete_stale_keeps: "keeps_app (delete_stale env k what ls keep)"
  unfolding delete_stale_def kube_list_def
  by (intro keeps_intros delete_stale_items_keeps)

lemma child_named_simps [simp]:
  "ch_namespace (child_meta (child_named app n ls as b)) = app_namespace app"
  "ch_name (child_meta (child_named app n ls as b)) = n"
  "child_body (child_named app n ls as b) = b"
  by (simp_all add: child_named_def)

text \<open>Apply, then delete what is stale: the shape of the renameable children.\<close>

lemma apply_then_clean_calls:
  assumes "ch_namespace (child_meta c) = app_namespace app" and "child_kind (child_body c) = k"
  shows "emits_as (\<lambda>a e. a = app \<longrightarrow> child_call k app e)
    (bindIO (apply_owned env m1 m2 c) (\<lambda>_. wrapIO m3 (delete_stale env k what ls keep)))"
  using apply_owned_calls [OF assms(1), of env m1 m2] assms(2)
  by (intro emits_as_bindIO apply_owned_keeps emits_as_wrapIO)
     (auto intro: emits_as_mono [OF delete_stale_calls])

interpretation service_account_child: child_reconciler reconcileServiceAccount ServiceAccountKind
proof unfold_locales
  fix env
  show "emits_as (child_call ServiceAccountKind) (reconcileServiceAccount env)"
    unfolding reconcileServiceAccount_def deleteStaleServiceAccounts_def Let_def
    by (rule emits_as_getApp_rel)
       (auto simp: desiredServiceAccount_def intro!: apply_then_clean_calls intro: emits_as_mono [OF delete_stale_calls])
  show "keeps_app (reconcileServiceAccount env)"
    unfolding reconcileServiceAccount_def deleteStaleServiceAccounts_def by (intro keeps_intros apply_owned_keeps delete_stale_keeps)
qed

interpretation config_map_child: child_reconciler reconcileConfigMap ConfigMapKind
proof unfold_locales
  fix env
  show "emits_as (child_call ConfigMapKind) (reconcileConfigMap env)"
    unfolding reconcileConfigMap_def deleteStaleConfigMaps_def Let_def
    by (rule emits_as_getApp_rel)
       (auto simp: desiredConfigMap_def intro!: apply_then_clean_calls intro: emits_as_mono [OF delete_stale_calls])
  show "keeps_app (reconcileConfigMap env)"
    unfolding reconcileConfigMap_def deleteStaleConfigMaps_def by (intro keeps_intros apply_owned_keeps delete_stale_keeps)
qed

interpretation storage_secret_child: child_reconciler "\<lambda>env. reconcileStorageSecret env creds" SecretKind
  for creds
proof unfold_locales
  fix env
  show "emits_as (child_call SecretKind) (reconcileStorageSecret env creds)"
    unfolding reconcileStorageSecret_def delete_stale_secrets_def desiredStorage_def
    by (rule emits_as_getApp_rel)
       (auto intro!: apply_then_clean_calls intro: emits_as_mono [OF delete_stale_calls] split: option.splits)
  show "keeps_app (reconcileStorageSecret env creds)"
    unfolding reconcileStorageSecret_def delete_stale_secrets_def
    by (intro keeps_intros apply_owned_keeps delete_stale_keeps)
qed

lemma apply_only_calls:
  assumes "ch_namespace (child_meta c) = app_namespace app" and "child_kind (child_body c) = k"
  shows "emits_as (\<lambda>a e. a = app \<longrightarrow> child_call k app e) (apply_owned env m1 m2 c)"
  using apply_owned_calls [OF assms(1)] assms(2) by simp

lemma delete_disabled_calls:
  "emits_as (\<lambda>a e. a = app \<longrightarrow> child_call k app e) (delete_or_gone env k (app_namespace app) n m)"
  by (rule emits_as_const, rule emits_mono, rule delete_or_gone_calls) auto

interpretation service_child: child_reconciler reconcileService ServiceKind
proof unfold_locales
  fix env
  show "emits_as (child_call ServiceKind) (reconcileService env)"
    unfolding reconcileService_def
    by (rule emits_as_getApp_rel) (auto simp: desiredService_def Let_def intro!: apply_only_calls)
  show "keeps_app (reconcileService env)"
    unfolding reconcileService_def by (intro keeps_intros apply_owned_keeps)
qed

interpretation ingress_child: child_reconciler reconcileIngress IngressKind
proof unfold_locales
  fix env
  show "emits_as (child_call IngressKind) (reconcileIngress env)"
    unfolding reconcileIngress_def
    by (rule emits_as_getApp_rel)
       (auto simp: desiredIngress_def intro!: apply_only_calls delete_disabled_calls split: option.splits)
  show "keeps_app (reconcileIngress env)"
    unfolding reconcileIngress_def by (intro keeps_intros apply_owned_keeps delete_or_gone_keeps)
qed

interpretation pdb_child: child_reconciler reconcilePDB PdbKind
proof unfold_locales
  fix env
  show "emits_as (child_call PdbKind) (reconcilePDB env)"
    unfolding reconcilePDB_def
    by (rule emits_as_getApp_rel)
       (auto simp: desiredPDB_def split_def Let_def intro!: apply_only_calls delete_disabled_calls
         split: option.splits)
  show "keeps_app (reconcilePDB env)"
    unfolding reconcilePDB_def by (intro keeps_intros apply_owned_keeps delete_or_gone_keeps)
qed

interpretation hpa_child: child_reconciler reconcileHPA HpaKind
proof unfold_locales
  fix env
  show "emits_as (child_call HpaKind) (reconcileHPA env)"
    unfolding reconcileHPA_def
    by (rule emits_as_getApp_rel)
       (auto simp: desiredHPA_def split_def Let_def intro!: apply_only_calls delete_disabled_calls
         split: option.splits)
  show "keeps_app (reconcileHPA env)"
    unfolding reconcileHPA_def by (intro keeps_intros apply_owned_keeps delete_or_gone_keeps)
qed

end
