(* ===== verification/Deployment.thy ===== *)
theory Deployment
  imports Children
begin

text \<open>
  \<open>internal/controller/deployment.go\<close>: the pod the Application runs in (volumes, security
  contexts, resources, probes, environment) and the Deployment around it, whose replica count
  the operator leaves alone once an autoscaler owns it.
\<close>

section \<open>Volumes\<close>

definition configMapNameFor :: "application \<Rightarrow> string" where
  "configMapNameFor app =
     (let n = co_config_map_name (sp_container (app_spec app)) in if n \<noteq> [] then n else AppConfigMap app)"

definition secretNameFor :: "application \<Rightarrow> string" where
  "secretNameFor app =
     (let n = co_secret_name (sp_container (app_spec app)) in if n \<noteq> [] then n else app_name app @ ''-secret'')"

definition configMountPathFor :: "application \<Rightarrow> string" where
  "configMountPathFor app =
     (let p = co_config_mount_path (sp_container (app_spec app))
      in if p \<noteq> [] then p else ''/etc/'' @ app_name app @ ''/config'')"

definition secretMountPathFor :: "application \<Rightarrow> string" where
  "secretMountPathFor app =
     (let p = co_secret_mount_path (sp_container (app_spec app))
      in if p \<noteq> [] then p else ''/etc/'' @ app_name app @ ''/secret'')"

definition buildVolumeAndMounts :: "application \<Rightarrow> volume list \<times> volume_mount list" where
  "buildVolumeAndMounts app =
     (let useConfig = co_config_map_name (sp_container (app_spec app)) \<noteq> [] \<or> sp_config_map (app_spec app) \<noteq> None;
          useSecret = co_secret_name (sp_container (app_spec app)) \<noteq> []
      in ((if useConfig then [\<lparr>vo_name = ''config'', vo_source = ConfigMapVolume (configMapNameFor app)\<rparr>] else []) @
          (if useSecret then [\<lparr>vo_name = ''secret'', vo_source = SecretVolume (secretNameFor app)\<rparr>] else []),
          (if useConfig then [\<lparr>vm_name = ''config'', vm_mount_path = configMountPathFor app, vm_read_only = True\<rparr>] else []) @
          (if useSecret then [\<lparr>vm_name = ''secret'', vm_mount_path = secretMountPathFor app, vm_read_only = True\<rparr>] else [])))"

section \<open>Defaults\<close>

definition defaultPodSecurityContext :: pod_security_context where
  "defaultPodSecurityContext =
     \<lparr>psc_run_as_non_root = Some True, psc_seccomp_type = Some ''RuntimeDefault'', psc_rest = []\<rparr>"

definition defaultContainerSecurityContext :: container_security_context where
  "defaultContainerSecurityContext =
     \<lparr>csc_run_as_non_root = Some True, csc_allow_privilege_escalation = Some False,
      csc_drop_capabilities = [''ALL''], csc_rest = []\<rparr>"

definition podSecurityContextFor :: "application \<Rightarrow> pod_security_context" where
  "podSecurityContextFor app =
     (case sp_pod_security_context (app_spec app) of Some c \<Rightarrow> c | None \<Rightarrow> defaultPodSecurityContext)"

definition containerSecurityContextFor :: "application \<Rightarrow> container_security_context" where
  "containerSecurityContextFor app =
     (case co_security_context (sp_container (app_spec app)) of
        Some c \<Rightarrow> c | None \<Rightarrow> defaultContainerSecurityContext)"

definition defaultResources :: resource_requirements where
  "defaultResources =
     \<lparr>rr_requests = [(''cpu'', ''100m''), (''memory'', ''128Mi'')],
      rr_limits = [(''cpu'', ''500m''), (''memory'', ''512Mi'')]\<rparr>"

definition resourcesFor :: "application \<Rightarrow> resource_requirements" where
  "resourcesFor app =
     (let res = sp_resources (app_spec app)
      in if rr_requests res = [] \<and> rr_limits res = [] then defaultResources else res)"

definition defaultLivenessProbe :: "int \<Rightarrow> probe" where
  "defaultLivenessProbe port =
     \<lparr>pr_handler = TcpSocketPort port, pr_initial_delay = 10, pr_period = 15, pr_timeout = 5,
      pr_failure_threshold = 3, pr_rest = []\<rparr>"

definition defaultReadinessProbe :: "int \<Rightarrow> probe" where
  "defaultReadinessProbe port =
     \<lparr>pr_handler = TcpSocketPort port, pr_initial_delay = 5, pr_period = 10, pr_timeout = 3,
      pr_failure_threshold = 3, pr_rest = []\<rparr>"

definition livenessProbeFor :: "application \<Rightarrow> int \<Rightarrow> probe" where
  "livenessProbeFor app port =
     (case co_liveness_probe (sp_container (app_spec app)) of Some p \<Rightarrow> p | None \<Rightarrow> defaultLivenessProbe port)"

definition readinessProbeFor :: "application \<Rightarrow> int \<Rightarrow> probe" where
  "readinessProbeFor app port =
     (case co_readiness_probe (sp_container (app_spec app)) of Some p \<Rightarrow> p | None \<Rightarrow> defaultReadinessProbe port)"

section \<open>Storage credentials in the environment\<close>

definition storageCredentialEnvVars :: "application \<Rightarrow> env_var list" where
  "storageCredentialEnvVars app =
     (case app_storage app of
        None \<Rightarrow> []
      | Some storage \<Rightarrow>
          (case ss_akamai storage of
             None \<Rightarrow> []
           | Some ak \<Rightarrow>
               if ss_provider storage \<noteq> ProviderAkamaiObjectStorage \<or> \<not> ak_inject_credentials ak then []
               else
                 let secretName = StorageSecret app;
                     envVar = (\<lambda>name key. \<lparr>ev_name = name, ev_source = EnvSecretKeyRef secretName key\<rparr>)
                 in [envVar ''AWS_ACCESS_KEY_ID'' ''access_key'',
                     envVar ''AWS_SECRET_ACCESS_KEY'' ''secret_key'',
                     envVar ''AWS_ENDPOINT_URL'' ''endpoint_url'',
                     envVar ''AWS_REGION'' ''region'',
                     envVar ''FORGE_STORAGE_BUCKET'' ''bucket'']))"

section \<open>The pod and the Deployment\<close>

definition desiredPodSpec :: "application \<Rightarrow> pod_spec" where
  "desiredPodSpec app =
     (let (volumes, volumeMounts) = buildVolumeAndMounts app;
          envs = storageCredentialEnvVars app @ sp_env (app_spec app);
          containerPort = co_port (sp_container (app_spec app));
          port = (if containerPort \<noteq> 0 then containerPort else 8080)
      in \<lparr>ps_security_context = podSecurityContextFor app,
          ps_containers =
            [\<lparr>ct_name = app_name app, ct_image = sp_image (app_spec app), ct_port = port, ct_env = envs,
              ct_resources = resourcesFor app, ct_volume_mounts = volumeMounts,
              ct_security_context = containerSecurityContextFor app,
              ct_liveness_probe = livenessProbeFor app port,
              ct_readiness_probe = readinessProbeFor app port,
              ct_startup_probe = co_startup_probe (sp_container (app_spec app))\<rparr>],
          ps_volumes = volumes,
          ps_service_account_name = podServiceAccountName app\<rparr>)"

definition desiredReplicas :: "application \<Rightarrow> int" where
  "desiredReplicas app = (case sp_replicas (app_spec app) of Some r \<Rightarrow> r | None \<Rightarrow> 1)"

definition desiredDeployment :: "application \<Rightarrow> bool \<Rightarrow> child" where
  "desiredDeployment app deploymentExists =
     (let hpaEnabled = sp_autoscaling (app_spec app) \<noteq> None;
          replicas = (if \<not> hpaEnabled \<or> \<not> deploymentExists then Some (desiredReplicas app) else None)
      in child_named app (deployment_name app) [] []
           (DeploymentBody replicas (app_labels app) (app_labels app) (desiredPodSpec app)))"

definition view_get_deployment :: "env \<Rightarrow> string \<Rightarrow> string \<Rightarrow> deployment_view io" where
  "view_get_deployment env ns name =
     call (\<lambda>h. get_deployment (e_view env) h ns name) (\<lambda>r. View (GetDeployment ns name r))"

definition reconcileDeployment :: "env \<Rightarrow> unit io" where
  "reconcileDeployment env =
     bindIO getApp (\<lambda>app.
     bindIO
       (handleIO (view_get_deployment env (app_namespace app) (deployment_name app))
         (\<lambda>err. if \<not> kube_not_found err then fail (Errorf ''failed to get existing Deployment: '' err [])
            else ret False)
         (\<lambda>_. ret True))
       (\<lambda>deploymentExists.
         apply_owned env ''failed to set controller reference: ''
           ''failed to server-side apply Deployment: '' (desiredDeployment app deploymentExists)))"

lemma desiredDeployment_meta [simp]:
  "ch_namespace (child_meta (desiredDeployment app ex)) = app_namespace app"
  "ch_name (child_meta (desiredDeployment app ex)) = deployment_name app"
  "child_kind (child_body (desiredDeployment app ex)) = DeploymentKind"
  by (simp_all add: desiredDeployment_def Let_def)

interpretation deployment_child: child_reconciler reconcileDeployment DeploymentKind
proof unfold_locales
  fix env
  show "emits_as (child_call DeploymentKind) (reconcileDeployment env)"
    unfolding reconcileDeployment_def view_get_deployment_def
    by (intro emits_as_getApp_rel emits_as_bindIO apply_only_calls emits_as_const emits_intros keeps_intros)
       (simp_all add: child_call_def)
  show "keeps_app (reconcileDeployment env)"
    unfolding reconcileDeployment_def view_get_deployment_def
    by (intro keeps_intros apply_owned_keeps)
qed

text \<open>Every volume a container mounts exists in the pod, and mount names are distinct.\<close>

lemma mounts_have_volumes:
  "map vm_name (snd (buildVolumeAndMounts app)) = map vo_name (fst (buildVolumeAndMounts app))"
  "distinct (map vm_name (snd (buildVolumeAndMounts app)))"
  by (simp_all add: buildVolumeAndMounts_def Let_def)

end
