(* ===== verification/Children_Properties.thy ===== *)
theory Children_Properties
  imports Deployment Sample_Env
begin

text \<open>
  Properties of the objects an Application owns: the bounds of its autoscaler, the references
  between the objects, who sets the replica count, and what the clean-up of stale and of
  disabled objects may delete.
\<close>

section \<open>Desired objects\<close>

text \<open>
  C24: the autoscaler that is applied is always valid. Whatever the spec says, its minimum is at
  least 1 and at most its maximum, its CPU target is between 1 and 100 percent, and it scales
  the Deployment the operator creates; numbers of the spec that are valid are used as they are.
\<close>

theorem hpa_always_valid:
  assumes "desiredHPA app = Some c" and "sp_autoscaling (app_spec app) = Some spec"
  shows "\<exists>mn mx u. child_body c = HpaBody (ch_name (child_meta (desiredDeployment app ex))) (Some mn) mx u \<and>
    1 \<le> mn \<and> mn \<le> mx \<and> 1 \<le> u \<and> u \<le> 100 \<and>
    (mn = as_min_replicas spec \<or> as_min_replicas spec < 1) \<and>
    (mx = as_max_replicas spec \<or> as_max_replicas spec < mn) \<and>
    (as_cpu_utilization spec = Some u \<or> (case as_cpu_utilization spec of None \<Rightarrow> u = 80 | Some v \<Rightarrow> v < 1 \<or> 100 < v))"
  using assms
  by (auto simp: desiredHPA_def hpa_bounds_def hpa_utilization_def Let_def split: if_splits option.splits)

definition scaled_app :: application where
  "scaled_app = sample_app\<lparr>app_spec := sample_spec\<lparr>sp_autoscaling := Some
     \<lparr>as_min_replicas = 7, as_max_replicas = 2, as_cpu_utilization = Some 900\<rparr>\<rparr>\<rparr>"

theorem hpa_always_valid_witness:
  "\<exists>mn mx u. child_body (the (desiredHPA scaled_app)) =
     HpaBody (ch_name (child_meta (desiredDeployment scaled_app False))) (Some mn) mx u \<and> mn \<le> mx"
proof -
  have spec: "sp_autoscaling (app_spec scaled_app) = Some \<lparr>as_min_replicas = 7, as_max_replicas = 2, as_cpu_utilization = Some 900\<rparr>"
    by (simp add: scaled_app_def)
  then have "desiredHPA scaled_app = Some (the (desiredHPA scaled_app))"
    by (simp add: desiredHPA_def split_def Let_def)
  from hpa_always_valid [OF this spec, of False] show ?thesis by blast
qed

text \<open>
  C26: the objects of one Application fit together. The pod mounts exactly the volumes it has,
  each once; the Service, the disruption budget and the Deployment select the labels the pods
  carry; the Service forwards to the port the container listens on unless the spec names
  another; the Ingress routes to the Service, at the Service's port; and every object is in the
  Application's namespace.
\<close>

theorem objects_fit_together:
  "\<exists>replicas pod ct svc_type port.
     child_body (desiredDeployment app ex) = DeploymentBody replicas (app_labels app) (app_labels app) pod \<and>
     ps_containers pod = [ct] \<and>
     map vm_name (ct_volume_mounts ct) = map vo_name (ps_volumes pod) \<and> distinct (map vo_name (ps_volumes pod)) \<and>
     child_body (desiredService app) = ServiceBody svc_type (app_labels app) [port] \<and>
     (case sv_target_port (sp_service (app_spec app)) of Some p \<Rightarrow> spt_target_port port = p | None \<Rightarrow> spt_target_port port = ct_port ct) \<and>
     (\<exists>rule tls cls. child_body (desiredIngress app spec) = IngressBody cls [rule] tls \<and>
        ir_backend_service rule = ch_name (child_meta (desiredService app)) \<and> ir_backend_port rule = spt_port port) \<and>
     (\<exists>mn mx. child_body (desiredPDB app) = PdbBody (app_labels app) mn mx \<and> (mn = None \<or> mx = None)) \<and>
     map (\<lambda>c. ch_namespace (child_meta c)) [desiredDeployment app ex, desiredService app, desiredIngress app spec, desiredPDB app]
       = replicate 4 (app_namespace app)"
proof -
  define svc_type where "svc_type = (if sv_type (sp_service (app_spec app)) \<noteq> [] then sv_type (sp_service (app_spec app)) else ''ClusterIP'')"
  define port where "port = \<lparr>spt_name = servicePortName, spt_port = servicePortFor app,
    spt_target_port = (case sv_target_port (sp_service (app_spec app)) of Some p \<Rightarrow> p
      | None \<Rightarrow> if co_port (sp_container (app_spec app)) \<noteq> 0 then co_port (sp_container (app_spec app)) else 8080)\<rparr>"
  define ct where "ct = hd (ps_containers (desiredPodSpec app))"
  have pod: "ps_containers (desiredPodSpec app) = [ct]"
    "ct_port ct = (if co_port (sp_container (app_spec app)) \<noteq> 0 then co_port (sp_container (app_spec app)) else 8080)"
    "ct_volume_mounts ct = snd (buildVolumeAndMounts app)" "ps_volumes (desiredPodSpec app) = fst (buildVolumeAndMounts app)"
    by (simp_all add: ct_def desiredPodSpec_def Let_def split_def)
  have svc: "child_body (desiredService app) = ServiceBody svc_type (app_labels app) [port]"
    by (simp add: desiredService_def svc_type_def port_def Let_def)
  have dep: "\<exists>replicas. child_body (desiredDeployment app ex) =
      DeploymentBody replicas (app_labels app) (app_labels app) (desiredPodSpec app)"
    by (simp add: desiredDeployment_def Let_def)
  have ing: "\<exists>rule tls cls. child_body (desiredIngress app spec) = IngressBody cls [rule] tls \<and>
      ir_backend_service rule = ch_name (child_meta (desiredService app)) \<and> ir_backend_port rule = spt_port port"
    by (simp add: desiredIngress_def desiredService_def port_def service_name_def Let_def)
  have pdb: "\<exists>mn mx. child_body (desiredPDB app) = PdbBody (app_labels app) mn mx \<and> (mn = None \<or> mx = None)"
    by (auto simp: desiredPDB_def split_def split: option.splits)
  have ns: "map (\<lambda>c. ch_namespace (child_meta c)) [desiredDeployment app ex, desiredService app, desiredIngress app spec,
      desiredPDB app] = replicate 4 (app_namespace app)"
    by (simp add: desiredService_def desiredIngress_def desiredPDB_def Let_def split_def eval_nat_numeral)
  have names: "map vm_name (ct_volume_mounts ct) = map vo_name (ps_volumes (desiredPodSpec app))"
    "distinct (map vo_name (ps_volumes (desiredPodSpec app)))"
    using mounts_have_volumes [of app] by (simp_all add: pod)
  have target: "case sv_target_port (sp_service (app_spec app)) of Some p \<Rightarrow> spt_target_port port = p
      | None \<Rightarrow> spt_target_port port = ct_port ct"
    by (simp add: port_def pod split: option.splits)
  from dep obtain replicas where "child_body (desiredDeployment app ex) =
      DeploymentBody replicas (app_labels app) (app_labels app) (desiredPodSpec app)" by blast
  with pod(1) names svc target ing pdb ns show ?thesis by blast
qed

section \<open>Who sets the replica count\<close>

definition applies_only :: "(child \<Rightarrow> bool) \<Rightarrow> event \<Rightarrow> bool" where
  "applies_only P e = (case e of Kube (Apply c x) \<Rightarrow> P c | _ \<Rightarrow> True)"

definition carries_replicas :: "int option \<Rightarrow> child \<Rightarrow> bool" where
  "carries_replicas n c \<longleftrightarrow> (\<exists>s l p. child_body c = DeploymentBody n s l p)"

text \<open>
  The operator never fights the autoscaler. Every Deployment that \<open>reconcileDeployment\<close>
  applies leaves the replica count out if and only if the spec has an autoscaler and the
  Deployment was found to exist; otherwise it carries the count of the spec. When the existing
  Deployment could not be read, nothing is applied.
\<close>

theorem replicas_left_to_autoscaler:
  "list_all
     (applies_only
       (case get_deployment (e_view env) (w_trace w) (app_namespace (w_app w)) (deployment_name (w_app w)) of
          Inl err \<Rightarrow>
            if kube_not_found err then carries_replicas (Some (desiredReplicas (w_app w))) else (\<lambda>_. False)
        | Inr d \<Rightarrow> carries_replicas
            (if sp_autoscaling (app_spec (w_app w)) = None then Some (desiredReplicas (w_app w)) else None)))
     (new_events w (snd (reconcileDeployment env w)))"
  by (auto simp: reconcileDeployment_def view_get_deployment_def apply_owned_def kube_apply_def io_simps Let_def
      new_events_def desiredDeployment_def applies_only_def carries_replicas_def split: sum.splits)

section \<open>What is deleted\<close>

lemma stale_items_deletes:
  "emits (\<lambda>e. \<forall>k' ns n x. e = Kube (Delete k' ns n x) \<longrightarrow>
      k' = k \<and> ns = app_namespace app \<and> n \<noteq> keep \<and> \<lparr>li_name = n, li_controller = Some (app_uid app)\<rparr> \<in> set items)
    (delete_stale_items env k what keep app items)"
proof (induction items)
  case (Cons x xs)
  let ?P = "\<lambda>items e. \<forall>k' ns n x. e = Kube (Delete k' ns n x) \<longrightarrow>
      k' = k \<and> ns = app_namespace app \<and> n \<noteq> keep \<and> \<lparr>li_name = n, li_controller = Some (app_uid app)\<rparr> \<in> set items"
  have rest: "emits (?P (x # xs)) (delete_stale_items env k what keep app xs)"
    by (rule emits_mono [OF Cons.IH]) auto
  have "emits (?P (x # xs)) (delete_or_gone env k (app_namespace app) (li_name x) msg)"
    if "li_name x \<noteq> keep" "li_controller x = Some (app_uid app)" for msg
  proof -
    have "\<lparr>li_name = li_name x, li_controller = Some (app_uid app)\<rparr> = x" using that(2) by (metis listed.surjective unit.exhaust)
    with that(1) show ?thesis
      unfolding delete_or_gone_def kube_delete_def by (intro emits_intros) auto
  qed
  with rest show ?case by (auto intro!: emits_intros)
qed (simp add: emits_quiet)


definition stale_env :: env where
  "stale_env = sample_env\<lparr>e_kube := sample_kube\<lparr>list_children := (\<lambda>h k ns ls.
     Inr [\<lparr>li_name = ''mine'', li_controller = Some ''uid-1''\<rparr>, \<lparr>li_name = ''yours'', li_controller = None\<rparr>])\<rparr>\<rparr>"


text \<open>
  Disabled objects are deleted by name alone. When \<open>spec.ingress\<close>, \<open>spec.pdb\<close> or
  \<open>spec.autoscaling\<close> is absent, the reconciler deletes the object with the derived name in the
  Application's namespace, as its only call: it neither lists the object nor looks at its
  controller, so an object of that name which somebody else made is deleted too.
\<close>

theorem disabled_deleted_by_name:
  assumes "sp_ingress (app_spec (w_app w)) = None" and "sp_pdb (app_spec (w_app w)) = None"
    and "sp_autoscaling (app_spec (w_app w)) = None"
  shows "(\<exists>x. new_events w (snd (reconcileIngress env w)) =
      [Kube (Delete IngressKind (app_namespace (w_app w)) (ingress_name (w_app w)) x)]) \<and>
    (\<exists>x. new_events w (snd (reconcilePDB env w)) =
      [Kube (Delete PdbKind (app_namespace (w_app w)) (pdb_name (w_app w)) x)]) \<and>
    (\<exists>x. new_events w (snd (reconcileHPA env w)) =
      [Kube (Delete HpaKind (app_namespace (w_app w)) (hpa_name (w_app w)) x)])"
  using assms
  by (auto simp: reconcileIngress_def reconcilePDB_def reconcileHPA_def desiredHPA_def delete_or_gone_def
      kube_delete_def io_simps Let_def new_events_def split: sum.splits)

theorem disabled_deleted_by_name_witness:
  "\<exists>x. new_events sample_world (snd (reconcileIngress sample_env sample_world)) =
     [Kube (Delete IngressKind ''ns'' ''app'' x)]"
  using disabled_deleted_by_name [of sample_world sample_env]
  by (simp add: sample_world_def sample_app_def sample_spec_def sample_meta_def ingress_name_def)

end
