(* ===== verification/Webhook.thy ===== *)
theory Webhook
  imports Naming
begin

text \<open>
  \<open>internal/webhook/v1alpha1/application_webhook.go\<close>: the defaulting and the validating
  admission webhook. A validator returns its warnings, or an error that rejects the request.
  Both read Secrets through the client and change nothing.
\<close>

section \<open>Defaulting\<close>

definition empty_akamai_spec :: akamai_storage_spec where
  "empty_akamai_spec = \<lparr>ak_access_key_secret_ref = [], ak_endpoint = [], ak_inject_credentials = False\<rparr>"

definition default_secret_name :: "application \<Rightarrow> storage_spec \<Rightarrow> storage_spec" where
  "default_secret_name obj storage =
     (if ss_secret_name storage = [] then storage\<lparr>ss_secret_name := StorageSecret obj\<rparr> else storage)"

definition default_token :: "string \<Rightarrow> storage_spec \<Rightarrow> storage_spec" where
  "default_token defaultToken storage =
     (let ak = (case ss_akamai storage of None \<Rightarrow> empty_akamai_spec | Some ak \<Rightarrow> ak)
      in storage\<lparr>ss_akamai := Some
           (if ak_access_key_secret_ref ak = [] then ak\<lparr>ak_access_key_secret_ref := defaultToken\<rparr> else ak)\<rparr>)"

definition Default :: "application \<Rightarrow> application" where
  "Default obj =
     (case app_storage obj of
        None \<Rightarrow> obj
      | Some storage \<Rightarrow>
          let obj1 = set_spec_storage (Some (default_secret_name obj storage)) obj
          in if ss_provider storage \<noteq> ProviderAkamaiObjectStorage then obj1
             else set_spec_storage
               (Some (default_token (AkamaiTokenSecret obj1) (default_secret_name obj storage))) obj1)"

section \<open>Validation\<close>

type_synonym warnings = "string list"

definition immutable_error :: "string \<Rightarrow> string \<Rightarrow> string \<Rightarrow> string \<Rightarrow> gerror" where
  "immutable_error field explanation old new =
     ErrorText (''spec.storage.'' @ field @ '' is immutable once set (was '' @ quoted old @
       '', tried to change to '' @ quoted new @ ''): '' @ explanation)"

definition provider_explanation :: string where
  "provider_explanation =
     ''changing providers would silently orphan the old provider's bucket and '' @
     ''credentials, since nothing cleans those up on a spec change -- delete and '' @
     ''recreate the Application instead, which correctly cleans up the old '' @
     ''provider's resources via its finalizer''"

definition bucket_explanation :: string where
  "bucket_explanation =
     ''a bucket name is the identity of a real cloud resource, not just a label -- '' @
     ''renaming it here would abandon the old bucket permanently (nothing cleans it '' @
     ''up on a spec change) while claiming a new one under the new name -- delete '' @
     ''and recreate the Application instead, which correctly cleans up the old '' @
     ''bucket via its finalizer''"

definition region_explanation :: string where
  "region_explanation =
     ''a bucket cannot be moved between regions in place -- this would silently '' @
     ''start treating an entirely different (and likely nonexistent) bucket as this '' @
     ''Application's storage -- delete and recreate the Application instead''"

definition field_changed :: "string \<Rightarrow> string \<Rightarrow> bool" where
  "field_changed old new \<longleftrightarrow> old \<noteq> [] \<and> new \<noteq> [] \<and> old \<noteq> new"

definition validateStorageIdentityImmutable :: "application \<Rightarrow> application \<Rightarrow> gerror option" where
  "validateStorageIdentityImmutable oldObj newObj =
     (case (app_storage oldObj, app_storage newObj) of
        (Some old, Some new) \<Rightarrow>
          if field_changed (ss_provider old) (ss_provider new)
          then Some (immutable_error ''provider'' provider_explanation (ss_provider old) (ss_provider new))
          else if field_changed (ss_bucket old) (ss_bucket new)
          then Some (immutable_error ''bucket'' bucket_explanation (ss_bucket old) (ss_bucket new))
          else if field_changed (ss_region old) (ss_region new)
          then Some (immutable_error ''region'' region_explanation (ss_region old) (ss_region new))
          else None
      | _ \<Rightarrow> None)"

definition validateConfigNotOrphaned :: "application \<Rightarrow> application \<Rightarrow> gerror option" where
  "validateConfigNotOrphaned oldObj newObj =
     (if sp_config_map (app_spec oldObj) \<noteq> None \<and> sp_config_map (app_spec newObj) = None \<and>
         co_config_map_name (sp_container (app_spec newObj)) = AppConfigMap oldObj
      then Some (ErrorText (''spec.config cannot be removed while spec.container.configMapName still references '' @
        quoted (AppConfigMap oldObj) @ '': '' @
        ''that ConfigMap would be deleted while the pod spec still mounts it by name, '' @
        ''breaking the Deployment on its next pod restart -- clear or repoint '' @
        ''spec.container.configMapName first''))
      else None)"

definition same_secret_error :: "string \<Rightarrow> string \<Rightarrow> string \<Rightarrow> string \<Rightarrow> gerror" where
  "same_secret_error outputSecret field secretName victim =
     ErrorText (''spec.storage.secretName ('' @ quoted outputSecret @ '') must not be the same Secret as '' @
       field @ '' ('' @ quoted secretName @ ''): '' @
       ''the operator owns and overwrites the former (including deleting it when the Application is deleted), '' @
       ''which would corrupt or destroy your '' @ victim @ '' Secret'')"

text \<open>The live check of a referenced Secret warns, whatever it finds; it never rejects.\<close>

definition secret_warnings ::
  "env \<Rightarrow> string \<Rightarrow> string \<Rightarrow> string \<Rightarrow> string \<Rightarrow> (smap \<Rightarrow> warnings) \<Rightarrow> warnings io" where
  "secret_warnings env ns name field provider content =
     handleIO (kube_get_secret env ns name)
       (\<lambda>err. if kube_not_found err
          then ret [field @ '' Secret '' @ quoted name @ '' not found in namespace '' @ quoted ns]
          else ret [''could not verify '' @ provider @ '' credentials Secret '' @ quoted name @ '': '' @ err_text err])
       (\<lambda>data. ret (content data))"

definition validateAkamai :: "env \<Rightarrow> application \<Rightarrow> warnings io" where
  "validateAkamai env app =
     (let outputSecret = StorageSecret app; tokenSecret = AkamaiTokenSecret app
      in if outputSecret = tokenSecret
         then fail (same_secret_error outputSecret ''spec.storage.akamai.accessKeySecretRef'' tokenSecret ''Akamai API token'')
         else secret_warnings env (app_namespace app) tokenSecret ''spec.storage.akamai.accessKeySecretRef'' ''Akamai''
           (\<lambda>data. if smap_get data ''apiToken'' = []
              then [''secret '' @ quoted tokenSecret @
                '' (spec.storage.akamai.accessKeySecretRef) is missing required key '' @ quoted ''apiToken'']
              else []))"

definition missing_aws_keys :: "smap \<Rightarrow> string list" where
  "missing_aws_keys data =
     filter (\<lambda>key. smap_get data key = []) [''AWS_ACCESS_KEY_ID'', ''AWS_SECRET_ACCESS_KEY'']"

definition validateAWS :: "env \<Rightarrow> application \<Rightarrow> warnings io" where
  "validateAWS env app =
     (case (case app_storage app of None \<Rightarrow> [] | Some s \<Rightarrow>
              (case ss_aws s of None \<Rightarrow> [] | Some aws \<Rightarrow> aws_credentials_secret_ref aws)) of
        [] \<Rightarrow> ret []
      | secretName \<Rightarrow>
          let outputSecret = StorageSecret app
          in if outputSecret = secretName
             then fail (same_secret_error outputSecret ''spec.storage.aws.credentialsSecretRef'' secretName ''AWS credentials'')
             else secret_warnings env (app_namespace app) secretName ''spec.storage.aws.credentialsSecretRef'' ''AWS''
               (\<lambda>data. if missing_aws_keys data \<noteq> []
                  then [''secret '' @ quoted secretName @
                    '' (spec.storage.aws.credentialsSecretRef) is missing required key(s): '' @
                    strings_join (missing_aws_keys data) '', '']
                  else []))"

definition validate :: "env \<Rightarrow> application \<Rightarrow> warnings io" where
  "validate env app =
     (case app_storage app of
        None \<Rightarrow> ret []
      | Some storage \<Rightarrow>
          if ss_provider storage = ProviderAkamaiObjectStorage then validateAkamai env app
          else if ss_provider storage = ProviderAWSS3 then validateAWS env app
          else ret [])"

definition ValidateCreate :: "env \<Rightarrow> application \<Rightarrow> warnings io" where
  "ValidateCreate env obj = validate env obj"

definition ValidateUpdate :: "env \<Rightarrow> application \<Rightarrow> application \<Rightarrow> warnings io" where
  "ValidateUpdate env oldObj newObj =
     (if md_deletion_timestamp (app_meta newObj) \<noteq> None then ret []
      else case validateStorageIdentityImmutable oldObj newObj of
        Some err \<Rightarrow> fail err
      | None \<Rightarrow>
          (case validateConfigNotOrphaned oldObj newObj of
             Some err \<Rightarrow> fail err
           | None \<Rightarrow> validate env newObj))"

definition ValidateDelete :: "env \<Rightarrow> application \<Rightarrow> warnings io" where
  "ValidateDelete env obj = ret []"

section \<open>What the webhooks do\<close>

lemma set_spec_storage_twice [simp]: "set_spec_storage s (set_spec_storage t a) = set_spec_storage s a"
  by (simp add: set_spec_storage_def)

lemma app_storage_set [simp]: "app_storage (set_spec_storage s a) = s"
  by (simp add: set_spec_storage_def)

lemma secret_warnings_run:
  "\<exists>ws x. secret_warnings env ns name field provider content w =
     (Inr ws, w\<lparr>w_trace := w_trace w @ [Kube (GetSecret ns name x)]\<rparr>)"
  by (auto simp: secret_warnings_def kube_get_secret_def io_simps Let_def split: sum.splits)

text \<open>Validation reads Secrets at most, so a rejection depends on the object alone.\<close>

definition secret_collision :: "application \<Rightarrow> bool" where
  "secret_collision app =
     (case app_storage app of
        None \<Rightarrow> False
      | Some s \<Rightarrow>
          if ss_provider s = ProviderAkamaiObjectStorage then StorageSecret app = AkamaiTokenSecret app
          else if ss_provider s = ProviderAWSS3 then
            (case ss_aws s of None \<Rightarrow> False
             | Some aws \<Rightarrow> aws_credentials_secret_ref aws \<noteq> [] \<and>
                 StorageSecret app = aws_credentials_secret_ref aws)
          else False)"

lemma validate_rejects_iff: "(\<exists>e. fst (validate env app w) = Inl e) \<longleftrightarrow> secret_collision app"
proof -
  have never: "\<exists>ws. fst (secret_warnings env ns name field provider content w) = Inr ws" for ns name field provider content
    using secret_warnings_run [of env ns name field provider content w] by fastforce
  have no: "fst (secret_warnings env ns name field provider content w) \<noteq> Inl e" for ns name field provider content e
    using never [of ns name field provider content] by auto
  show ?thesis
    by (auto simp: validate_def validateAkamai_def validateAWS_def secret_collision_def Let_def ret_def fail_def no
        split: option.splits list.splits)
qed

end
