(* ===== verification/Status_Manager.thy ===== *)
theory Status_Manager
  imports Deployment Conditions
begin

text \<open>
  \<open>internal/controller/status\<close>: the readiness of what an Application runs on, and the
  \<open>Ready\<close>, \<open>Progressing\<close> and \<open>Degraded\<close> conditions. A readiness check returns its
  verdict with a message; the locale \<open>readiness_check\<close> is what each of them promises: it
  looks at one object once, a missing object is not ready, and an object is ready exactly when
  a predicate on what was read holds.
\<close>

section \<open>Readiness of one object\<close>

definition view_get_service :: "env \<Rightarrow> string \<Rightarrow> string \<Rightarrow> unit io" where
  "view_get_service env ns name =
     call (\<lambda>h. get_service (e_view env) h ns name) (\<lambda>r. View (GetService ns name r))"

definition view_get_ingress :: "env \<Rightarrow> string \<Rightarrow> string \<Rightarrow> lb_ingress list option io" where
  "view_get_ingress env ns name =
     call (\<lambda>h. get_ingress (e_view env) h ns name) (\<lambda>r. View (GetIngress ns name r))"

definition view_get_hpa :: "env \<Rightarrow> string \<Rightarrow> string \<Rightarrow> hpa_view io" where
  "view_get_hpa env ns name =
     call (\<lambda>h. get_hpa (e_view env) h ns name) (\<lambda>r. View (GetHpa ns name r))"

definition view_get_pdb :: "env \<Rightarrow> string \<Rightarrow> string \<Rightarrow> pdb_view io" where
  "view_get_pdb env ns name =
     call (\<lambda>h. get_pdb (e_view env) h ns name) (\<lambda>r. View (GetPdb ns name r))"

text \<open>The first condition that shows a failed or stalled rollout, as its message.\<close>

fun rollout_issue :: "status_condition list \<Rightarrow> string option" where
  "rollout_issue [] = None"
| "rollout_issue (c # cs) =
     (if sc_type c = ''Progressing'' \<and> sc_status c = ''False''
      then Some (''Deployment rollout issue: '' @ sc_message c)
      else if sc_type c = ''ReplicaFailure'' \<and> sc_status c = ''True''
      then Some (''Deployment failed creating pods: '' @ sc_message c)
      else rollout_issue cs)"

definition deployment_verdict :: "deployment_view \<Rightarrow> bool \<times> string" where
  "deployment_verdict d =
     (if dv_observed_generation d < dv_generation d then
        (False, ''Deployment rollout in progress: status generation ('' @ show_int (dv_observed_generation d) @
           '') lags spec generation '' @ show_int (dv_generation d))
      else case rollout_issue (dv_conditions d) of
        Some msg \<Rightarrow> (False, msg)
      | None \<Rightarrow>
          let desiredReplicas = (case dv_spec_replicas d of Some r \<Rightarrow> r | None \<Rightarrow> 1)
          in if dv_updated_replicas d < desiredReplicas then
               (False, ''Deployment rollout in progress: '' @ show_int (dv_updated_replicas d) @ ''/'' @
                  show_int desiredReplicas @ '' updated'')
             else if dv_available_replicas d < desiredReplicas then
               (False, ''Waiting for pod availability: '' @ show_int (dv_available_replicas d) @ ''/'' @
                  show_int desiredReplicas @ '' available'')
             else if dv_ready_replicas d < desiredReplicas then
               (False, ''Deployment pods are not ready: '' @ show_int (dv_ready_replicas d) @ ''/'' @
                  show_int desiredReplicas @ '' ready'')
             else (True, ''Deployment pods are fully ready''))"

definition IsDeploymentReady :: "env \<Rightarrow> string \<Rightarrow> string \<Rightarrow> (bool \<times> string) io" where
  "IsDeploymentReady env ns name =
     handleIO (view_get_deployment env ns name)
       (\<lambda>err. if kube_not_found err
          then ret (False, ''Deployment '' @ ns @ '' '' @ name @ '' not found:'') else fail err)
       (\<lambda>d. ret (deployment_verdict d))"

definition ingress_verdict :: "lb_ingress list option \<Rightarrow> bool \<times> string" where
  "ingress_verdict lb =
     (case lb of
        None \<Rightarrow> (False, ''Ingress pending controller reconciliation'')
      | Some [] \<Rightarrow> (False, ''Ingress reconciled: (pending IP/Hostname from controller)'')
      | Some (x # xs) \<Rightarrow>
          (True, ''Ingress assigned endpoint: '' @ (if lb_ip x = [] then lb_hostname x else lb_ip x)))"

definition IsIngressReady :: "env \<Rightarrow> string \<Rightarrow> string \<Rightarrow> (bool \<times> string) io" where
  "IsIngressReady env ns name =
     handleIO (view_get_ingress env ns name)
       (\<lambda>err. if kube_not_found err
          then ret (False, ''Ingress '' @ ns @ '' '' @ name @ '' not found:'') else fail err)
       (\<lambda>lb. ret (ingress_verdict lb))"

definition hpa_verdict :: "hpa_view \<Rightarrow> bool \<times> string" where
  "hpa_verdict v =
     (if (case hv_observed_generation v of Some g \<Rightarrow> g < hv_generation v | None \<Rightarrow> False) then
        (False, ''HPA rollout in progress: status generation ('' @
           show_int (case hv_observed_generation v of Some g \<Rightarrow> g | None \<Rightarrow> 0) @
           '') lags spec generation '' @ show_int (hv_generation v))
      else case find (\<lambda>c. sc_type c = ''AbleToScale'' \<and> sc_status c = ''False'') (hv_conditions v) of
        Some c \<Rightarrow> (False, ''HPA scaling issue: '' @ sc_message c)
      | None \<Rightarrow> (True, ''HPA active(current replicas: '' @ show_int (hv_current_replicas v) @ '')''))"

definition IsHPAReady :: "env \<Rightarrow> string \<Rightarrow> string \<Rightarrow> (bool \<times> string) io" where
  "IsHPAReady env ns name =
     handleIO (view_get_hpa env ns name)
       (\<lambda>err. if kube_not_found err
          then ret (False, ''HPA '' @ ns @ '' '' @ name @ '' not found:'') else fail err)
       (\<lambda>v. ret (hpa_verdict v))"

definition pdb_verdict :: "pdb_view \<Rightarrow> bool \<times> string" where
  "pdb_verdict v =
     (if pv_disruptions_allowed v = 0 \<and> pv_current_healthy v < pv_desired_healthy v then
        (False, ''PDB unhealthy: '' @ show_int (pv_current_healthy v) @ ''/'' @
           show_int (pv_desired_healthy v) @ '' healthy pods'')
      else (True, ''PDB active and healthy''))"

definition IsPDBReady :: "env \<Rightarrow> string \<Rightarrow> string \<Rightarrow> (bool \<times> string) io" where
  "IsPDBReady env ns name =
     handleIO (view_get_pdb env ns name)
       (\<lambda>err. if kube_not_found err
          then ret (False, ''PDB '' @ ns @ ''/'' @ name @ '' not found:'') else fail err)
       (\<lambda>v. ret (pdb_verdict v))"

section \<open>Readiness of the Application\<close>

text \<open>\<open>if spec.X != nil { ready, msg, err := check; if !ready || err != nil { return } }\<close>.\<close>

definition unless_ready :: "(bool \<times> string) io \<Rightarrow> (bool \<times> string) io \<Rightarrow> (bool \<times> string) io" where
  "unless_ready check next = bindIO check (\<lambda>(ready, msg). if \<not> ready then ret (ready, msg) else next)"

definition when_set :: "bool \<Rightarrow> (bool \<times> string) io \<Rightarrow> (bool \<times> string) io \<Rightarrow> (bool \<times> string) io" where
  "when_set present check next = (if present then unless_ready check next else next)"

definition EvaluateComputeReadiness :: "env \<Rightarrow> (bool \<times> string) io" where
  "EvaluateComputeReadiness env =
     bindIO getApp (\<lambda>app. let ns = app_namespace app; spec = app_spec app in
     handleIO (view_get_service env ns (service_name app))
       (\<lambda>err. if kube_not_found err
          then ret (False, ''Service '' @ ns @ ''/'' @ app_name app @ '' not found'') else fail err)
       (\<lambda>_. unless_ready (IsDeploymentReady env ns (deployment_name app))
         (when_set (sp_ingress spec \<noteq> None) (IsIngressReady env ns (ingress_name app))
         (when_set (sp_autoscaling spec \<noteq> None) (IsHPAReady env ns (hpa_name app))
         (when_set (sp_pdb spec \<noteq> None) (IsPDBReady env ns (pdb_name app))
           (ret (True, ''All Compute resources are ready'')))))))"

locale readiness_check =
  fixes check :: "env \<Rightarrow> string \<Rightarrow> string \<Rightarrow> (bool \<times> string) io"
    and look :: "env \<Rightarrow> history \<Rightarrow> string \<Rightarrow> string \<Rightarrow> gerror + 'v"
    and seen :: "string \<Rightarrow> string \<Rightarrow> gerror + 'v \<Rightarrow> view_event"
    and healthy :: "'v \<Rightarrow> bool"
  assumes one_look: "w_trace (snd (check env ns name w)) =
      w_trace w @ [View (seen ns name (look env (w_trace w) ns name))]"
    and keeps: "keeps_app (check env ns name)"
    and ready_iff: "(\<exists>msg. fst (check env ns name w) = Inr (True, msg)) \<longleftrightarrow>
      (\<exists>v. look env (w_trace w) ns name = Inr v \<and> healthy v)"
    and missing: "look env (w_trace w) ns name = Inl err \<Longrightarrow> kube_not_found err \<Longrightarrow>
      \<exists>msg. fst (check env ns name w) = Inr (False, msg)"
begin

text \<open>A check in front of others: they are reached exactly when it finds its object healthy.\<close>

lemma unless_ready_True:
  assumes "unless_ready (check env ns name) next w = (Inr (True, msg), w')"
  shows "\<exists>v w1. look env (w_trace w) ns name = Inr v \<and> healthy v \<and>
    w_trace w1 = w_trace w @ [View (seen ns name (Inr v))] \<and> w_app w1 = w_app w \<and>
    next w1 = (Inr (True, msg), w')"
proof -
  from assms obtain msg1 w1 where run: "check env ns name w = (Inr (True, msg1), w1)"
    and rest: "next w1 = (Inr (True, msg), w')"
    by (auto simp: unless_ready_def bindIO_Inr_iff ret_def split: if_splits)
  from run have "\<exists>msg. fst (check env ns name w) = Inr (True, msg)" by simp
  then obtain v where v: "look env (w_trace w) ns name = Inr v" "healthy v"
    unfolding ready_iff by blast
  with one_look [of env ns name w] run have "w_trace w1 = w_trace w @ [View (seen ns name (Inr v))]" by simp
  with v rest keeps_appD [OF keeps run] show ?thesis by blast
qed

lemma only_looks: "emits (\<lambda>e. case e of View x \<Rightarrow> True | _ \<Rightarrow> False) (check env ns name)"
  by (simp add: emits_def one_look)

end

definition deployment_healthy :: "deployment_view \<Rightarrow> bool" where
  "deployment_healthy d \<longleftrightarrow>
     dv_generation d \<le> dv_observed_generation d \<and>
     list_all (\<lambda>c. \<not> (sc_type c = ''Progressing'' \<and> sc_status c = ''False'') \<and>
        \<not> (sc_type c = ''ReplicaFailure'' \<and> sc_status c = ''True'')) (dv_conditions d) \<and>
     (let n = (case dv_spec_replicas d of Some r \<Rightarrow> r | None \<Rightarrow> 1)
      in n \<le> dv_updated_replicas d \<and> n \<le> dv_available_replicas d \<and> n \<le> dv_ready_replicas d)"

definition hpa_healthy :: "hpa_view \<Rightarrow> bool" where
  "hpa_healthy v \<longleftrightarrow>
     (case hv_observed_generation v of Some g \<Rightarrow> hv_generation v \<le> g | None \<Rightarrow> True) \<and>
     list_all (\<lambda>c. \<not> (sc_type c = ''AbleToScale'' \<and> sc_status c = ''False'')) (hv_conditions v)"

definition pdb_healthy :: "pdb_view \<Rightarrow> bool" where
  "pdb_healthy v \<longleftrightarrow> pv_disruptions_allowed v \<noteq> 0 \<or> pv_desired_healthy v \<le> pv_current_healthy v"

definition ingress_admitted :: "lb_ingress list option \<Rightarrow> bool" where
  "ingress_admitted lb \<longleftrightarrow> lb \<noteq> None \<and> lb \<noteq> Some []"

lemma rollout_issue_None_iff:
  "rollout_issue cs = None \<longleftrightarrow>
     list_all (\<lambda>c. \<not> (sc_type c = ''Progressing'' \<and> sc_status c = ''False'') \<and>
        \<not> (sc_type c = ''ReplicaFailure'' \<and> sc_status c = ''True'')) cs"
  by (induction cs rule: rollout_issue.induct) auto

lemma deployment_verdict_ready: "fst (deployment_verdict d) \<longleftrightarrow> deployment_healthy d"
proof (cases "rollout_issue (dv_conditions d)")
  case None
  with rollout_issue_None_iff [of "dv_conditions d"] show ?thesis
    by (auto simp: deployment_verdict_def deployment_healthy_def Let_def)
next
  case (Some msg)
  with rollout_issue_None_iff [of "dv_conditions d"] show ?thesis
    by (auto simp: deployment_verdict_def deployment_healthy_def)
qed

lemma hpa_verdict_ready: "fst (hpa_verdict v) \<longleftrightarrow> hpa_healthy v"
  by (auto simp: hpa_verdict_def hpa_healthy_def find_None_iff list_all_iff find_Some_iff
      split: option.splits)

lemma pdb_verdict_ready: "fst (pdb_verdict v) \<longleftrightarrow> pdb_healthy v"
  by (auto simp: pdb_verdict_def pdb_healthy_def)

lemma ingress_verdict_ready: "fst (ingress_verdict lb) \<longleftrightarrow> ingress_admitted lb"
  by (auto simp: ingress_verdict_def ingress_admitted_def split: option.splits list.splits)

text \<open>The four checks have one shape, so they satisfy the contract by one lemma.\<close>

definition check_of ::
  "(env \<Rightarrow> history \<Rightarrow> string \<Rightarrow> string \<Rightarrow> gerror + 'v) \<Rightarrow> (string \<Rightarrow> string \<Rightarrow> gerror + 'v \<Rightarrow> view_event) \<Rightarrow>
     (string \<Rightarrow> string \<Rightarrow> string) \<Rightarrow> ('v \<Rightarrow> bool \<times> string) \<Rightarrow> env \<Rightarrow> string \<Rightarrow> string \<Rightarrow> (bool \<times> string) io" where
  "check_of look seen absent verdict env ns name =
     handleIO (call (\<lambda>h. look env h ns name) (\<lambda>r. View (seen ns name r)))
       (\<lambda>err. if kube_not_found err then ret (False, absent ns name) else fail err)
       (\<lambda>v. ret (verdict v))"

lemma check_of_contract:
  assumes "\<And>v. fst (verdict v) \<longleftrightarrow> healthy v"
  shows "readiness_check (check_of look seen absent verdict) look seen healthy"
proof unfold_locales
  fix env ns name w err
  let ?c = "check_of look seen absent verdict env ns name"
  show "w_trace (snd (?c w)) = w_trace w @ [View (seen ns name (look env (w_trace w) ns name))]"
    by (simp add: check_of_def handleIO_def call_def Let_def ret_def fail_def split: sum.splits)
  show "keeps_app ?c"
    unfolding check_of_def by (intro keeps_intros)
  show "(\<exists>msg. fst (?c w) = Inr (True, msg)) \<longleftrightarrow> (\<exists>v. look env (w_trace w) ns name = Inr v \<and> healthy v)"
    using assms
    by (auto simp: check_of_def handleIO_def call_def Let_def ret_def fail_def prod_eq_iff split: sum.splits)
  show "\<exists>msg. fst (?c w) = Inr (False, msg)"
    if "look env (w_trace w) ns name = Inl err" "kube_not_found err"
    using that by (simp add: check_of_def handleIO_def call_def Let_def ret_def)
qed

interpretation deployment_check: readiness_check IsDeploymentReady
  "\<lambda>env. get_deployment (e_view env)" GetDeployment deployment_healthy
proof -
  have eq: "IsDeploymentReady = check_of (\<lambda>env. get_deployment (e_view env)) GetDeployment
      (\<lambda>ns name. ''Deployment '' @ ns @ '' '' @ name @ '' not found:'') deployment_verdict"
    by (intro ext) (simp only: IsDeploymentReady_def check_of_def view_get_deployment_def)
  show "readiness_check IsDeploymentReady (\<lambda>env. get_deployment (e_view env)) GetDeployment deployment_healthy"
    unfolding eq by (rule check_of_contract) (rule deployment_verdict_ready)
qed

interpretation ingress_check: readiness_check IsIngressReady
  "\<lambda>env. get_ingress (e_view env)" GetIngress ingress_admitted
proof -
  have eq: "IsIngressReady = check_of (\<lambda>env. get_ingress (e_view env)) GetIngress
      (\<lambda>ns name. ''Ingress '' @ ns @ '' '' @ name @ '' not found:'') ingress_verdict"
    by (intro ext) (simp only: IsIngressReady_def check_of_def view_get_ingress_def)
  show "readiness_check IsIngressReady (\<lambda>env. get_ingress (e_view env)) GetIngress ingress_admitted"
    unfolding eq by (rule check_of_contract) (rule ingress_verdict_ready)
qed

interpretation hpa_check: readiness_check IsHPAReady
  "\<lambda>env. get_hpa (e_view env)" GetHpa hpa_healthy
proof -
  have eq: "IsHPAReady = check_of (\<lambda>env. get_hpa (e_view env)) GetHpa
      (\<lambda>ns name. ''HPA '' @ ns @ '' '' @ name @ '' not found:'') hpa_verdict"
    by (intro ext) (simp only: IsHPAReady_def check_of_def view_get_hpa_def)
  show "readiness_check IsHPAReady (\<lambda>env. get_hpa (e_view env)) GetHpa hpa_healthy"
    unfolding eq by (rule check_of_contract) (rule hpa_verdict_ready)
qed

interpretation pdb_check: readiness_check IsPDBReady
  "\<lambda>env. get_pdb (e_view env)" GetPdb pdb_healthy
proof -
  have eq: "IsPDBReady = check_of (\<lambda>env. get_pdb (e_view env)) GetPdb
      (\<lambda>ns name. ''PDB '' @ ns @ ''/'' @ name @ '' not found:'') pdb_verdict"
    by (intro ext) (simp only: IsPDBReady_def check_of_def view_get_pdb_def)
  show "readiness_check IsPDBReady (\<lambda>env. get_pdb (e_view env)) GetPdb pdb_healthy"
    unfolding eq by (rule check_of_contract) (rule pdb_verdict_ready)
qed

section \<open>The Application's conditions\<close>

definition TypeReady :: string where "TypeReady = ''Ready''"
definition TypeProgressing :: string where "TypeProgressing = ''Progressing''"
definition TypeDegraded :: string where "TypeDegraded = ''Degraded''"
definition ReasonReconciling :: string where "ReasonReconciling = ''Reconciling''"
definition ReasonAvailable :: string where "ReasonAvailable = ''ReconcileSuccess''"

lemma condition_types_distinct [simp]:
  "TypeReady \<noteq> TypeProgressing" "TypeProgressing \<noteq> TypeReady" "TypeReady \<noteq> TypeDegraded"
  "TypeDegraded \<noteq> TypeReady" "TypeProgressing \<noteq> TypeDegraded" "TypeDegraded \<noteq> TypeProgressing"
  "TypeReady \<noteq> StorageReady" "TypeProgressing \<noteq> StorageReady" "TypeDegraded \<noteq> StorageReady"
  "StorageReady \<noteq> TypeReady" "StorageReady \<noteq> TypeProgressing" "StorageReady \<noteq> TypeDegraded"
  by (simp_all add: TypeReady_def TypeProgressing_def TypeDegraded_def StorageReady_def)

definition app_condition :: "application \<Rightarrow> string \<Rightarrow> string \<Rightarrow> string \<Rightarrow> string \<Rightarrow> condition" where
  "app_condition app ty status reason message =
     \<lparr>cd_type = ty, cd_status = status, cd_reason = reason, cd_message = message,
      cd_observed_generation = app_generation app, cd_last_transition_time = 0\<rparr>"

definition kube_api_get_application :: "env \<Rightarrow> string \<Rightarrow> string \<Rightarrow> application io" where
  "kube_api_get_application env ns name =
     call (\<lambda>h. api_get_application (e_kube env) h ns name) (\<lambda>r. Kube (ApiReaderGetApplication ns name r))"

definition set_conditions_and_generation :: "condition list \<Rightarrow> int \<Rightarrow> application \<Rightarrow> application" where
  "set_conditions_and_generation cs g a =
     a\<lparr>app_status := (app_status a)\<lparr>as_conditions := cs, as_observed_generation := g\<rparr>\<rparr>"

definition UpdateStatus :: "env \<Rightarrow> unit io" where
  "UpdateStatus env =
     bindIO (modifyApp (\<lambda>a. a\<lparr>app_status := (app_status a)\<lparr>as_observed_generation := app_generation a\<rparr>\<rparr>)) (\<lambda>_.
     bindIO getApp (\<lambda>a0.
     let desiredConditions = as_conditions (app_status a0);
         desiredObservedGeneration = as_observed_generation (app_status a0)
     in retry_on_conflict (e_lib env)
          (handleIO (kube_status_update env)
            (\<lambda>updateErr.
              if \<not> kube_conflict updateErr then fail updateErr
              else bindIO getApp (\<lambda>a.
                bindIO (kube_api_get_application env (app_namespace a) (app_name a)) (\<lambda>fresh.
                bindIO (putApp (set_conditions_and_generation desiredConditions desiredObservedGeneration fresh))
                  (\<lambda>_. fail updateErr))))
            ret)))"

definition SetReconciling :: "env \<Rightarrow> string \<Rightarrow> unit io" where
  "SetReconciling env message =
     bindIO getApp (\<lambda>app.
     bindIO (setStatusCondition env (app_condition app TypeProgressing ''True'' ReasonReconciling message))
       (\<lambda>progressingChanged.
     bindIO (setStatusCondition env
         (app_condition app TypeReady ''False'' ReasonReconciling ''Reconciliation in progress''))
       (\<lambda>readyChanged.
     if \<not> progressingChanged \<and> \<not> readyChanged then ret () else UpdateStatus env)))"

definition SetAppReady :: "env \<Rightarrow> string \<Rightarrow> unit io" where
  "SetAppReady env message =
     bindIO getApp (\<lambda>app.
     bindIO (setStatusCondition env (app_condition app TypeReady ''True'' ReasonAvailable message))
       (\<lambda>readyChanged.
     bindIO (setStatusCondition env (app_condition app TypeProgressing ''False'' ReasonAvailable
         ''Application is up to date and ready''))
       (\<lambda>progressingChanged.
     bindIO (setStatusCondition env (app_condition app TypeDegraded ''False'' ReasonAvailable
         ''No errors observed''))
       (\<lambda>degradedChanged.
     if \<not> readyChanged \<and> \<not> progressingChanged \<and> \<not> degradedChanged then ret () else UpdateStatus env))))"

definition SetFailed :: "env \<Rightarrow> string \<Rightarrow> gerror \<Rightarrow> unit io" where
  "SetFailed env reason err =
     bindIO getApp (\<lambda>app.
     bindIO (setStatusCondition env (app_condition app TypeDegraded ''True'' reason (err_text err)))
       (\<lambda>degradedChanged.
     bindIO (setStatusCondition env (app_condition app TypeReady ''False'' reason
         (''Reconciliation failed: '' @ err_text err)))
       (\<lambda>readyChanged.
     if \<not> degradedChanged \<and> \<not> readyChanged then ret () else UpdateStatus env)))"

lemma emits_UpdateStatus [emits_intros]:
  assumes "retry_contract (e_lib env)" and "\<And>e. is_status_io e \<Longrightarrow> P e"
  shows "emits P (UpdateStatus env)"
  unfolding UpdateStatus_def kube_api_get_application_def Let_def
  by (intro emits_intros assms) simp_all

end
