(* ===== verification/Finalizer.thy ===== *)
theory Finalizer
  imports Status_Manager S3_Cleanup Akamai_Cleanup
begin

text \<open>
  \<open>internal/controller/finalizer.go\<close>: what happens to an Application's storage when it is
  deleted, or when its storage is removed or replaced. The two provider branches of the Go
  function differ in the package they call, in the classification of errors and in messages
  only, so both are \<open>cleanup_provider\<close> with those as arguments. The \<open>DeepCopy\<close> the code
  hands to the storage packages is \<open>with_app\<close>.
\<close>

section \<open>Configuration\<close>

record reconciler =
  r_oidc_arn :: string
  r_oidc_url :: string
  r_boundary_arn :: string
  r_default_akamai_region :: string
  r_has_recorder :: bool
  r_storage_resync_interval :: duration
  r_max_concurrent_reconciles :: int

definition ApplicationFinalizer :: string where
  "ApplicationFinalizer = ''forge.ningendo7.github.io/finalizer''"

definition log_status_update :: "env \<Rightarrow> unit io" where
  "log_status_update env = ignoreIO (retryStatusUpdate env)"

definition record_event :: "reconciler \<Rightarrow> string \<Rightarrow> string \<Rightarrow> string \<Rightarrow> unit io" where
  "record_event r ty reason message =
     whenIO (r_has_recorder r) (emit (Recorder ty reason message))"

section \<open>What to clean up\<close>

definition storageSpecFromStatus :: "storage_status \<Rightarrow> storage_spec" where
  "storageSpecFromStatus status =
     \<lparr>ss_provider = st_provider status, ss_bucket = st_bucket status,
      ss_deletion_policy = st_deletion_policy status, ss_region = st_region status, ss_endpoint = [],
      ss_secret_name = st_secret_name status,
      ss_aws = (case st_aws status of
         Some aws \<Rightarrow> if aws_status_credentials_secret_ref aws \<noteq> []
           then Some \<lparr>aws_credentials_secret_ref = aws_status_credentials_secret_ref aws,
                      aws_versioning_enabled = None, aws_lifecycle_rules = None\<rparr> else None
       | None \<Rightarrow> None),
      ss_akamai = (case st_akamai status of
         Some ak \<Rightarrow> if ak_status_access_key_secret_ref ak \<noteq> []
           then Some \<lparr>ak_access_key_secret_ref = ak_status_access_key_secret_ref ak, ak_endpoint = [],
                      ak_inject_credentials = False\<rparr> else None
       | None \<Rightarrow> None)\<rparr>"

definition storage_to_finalize :: "application \<Rightarrow> storage_spec option" where
  "storage_to_finalize app =
     (case app_storage app of
        Some s \<Rightarrow> Some s
      | None \<Rightarrow> map_option storageSpecFromStatus (app_status_storage app))"

section \<open>Steps\<close>

definition failStorageCleanup :: "env \<Rightarrow> gerror \<Rightarrow> unit io" where
  "failStorageCleanup env err =
     bindIO (SetCleanupFailed env (Some err)) (\<lambda>_.
     bindIO (log_status_update env) (\<lambda>_. fail err))"

definition retainStorage :: "env \<Rightarrow> reconciler \<Rightarrow> string \<Rightarrow> unit io" where
  "retainStorage env r bucket =
     bindIO (SetRetained env bucket) (\<lambda>_.
     bindIO (log_status_update env) (\<lambda>_.
     record_event r ''Normal'' ''StorageRetained''
       (''deletionPolicy is Retain: bucket '' @ quoted bucket @
        '' was NOT deleted and remains in your cloud account'')))"

definition cleanup_s3_manager :: "env \<Rightarrow> reconciler \<Rightarrow> string \<Rightarrow> s3_manager io" where
  "cleanup_s3_manager env r serviceAccount =
     NewS3Manager env serviceAccount (r_oidc_arn r) (r_oidc_url r) (r_boundary_arn r) None"

definition cleanup_akamai_manager :: "env \<Rightarrow> reconciler \<Rightarrow> string \<Rightarrow> akamai_manager io" where
  "cleanup_akamai_manager env r _ = NewAkamaiManager env (r_default_akamai_region r) None"

text \<open>The credentials of a retained bucket: failures are logged or become an Event, never an error.\<close>

definition retained_credentials ::
  "env \<Rightarrow> reconciler \<Rightarrow> application \<Rightarrow> (string \<Rightarrow> 'm io) \<Rightarrow> ('m \<Rightarrow> unit io) \<Rightarrow> string \<Rightarrow> string \<Rightarrow> unit io" where
  "retained_credentials env r cleanupApp mk credentials_only reason message =
     bindIO getApp (\<lambda>app.
     handleIO (with_app cleanupApp (mk (serviceAccountNameFor app)))
       (\<lambda>_. ret ())
       (\<lambda>m. handleIO (with_app cleanupApp (credentials_only m))
          (\<lambda>err. record_event r ''Warning'' reason (message @ err_text err)) ret))"

definition cleanupRetainedStorageCredentials :: "env \<Rightarrow> reconciler \<Rightarrow> storage_spec \<Rightarrow> unit io" where
  "cleanupRetainedStorageCredentials env r storage =
     bindIO getApp (\<lambda>app.
     let cleanupApp = set_spec_storage (Some storage) app
     in if ss_provider storage = ProviderAWSS3 then
          retained_credentials env r cleanupApp (cleanup_s3_manager env r) (s3_CleanupCredentialsOnly env)
            ''IRSACleanupFailed'' ''Bucket was retained, but its IAM role/policy could not be cleaned up: ''
        else if ss_provider storage = ProviderAkamaiObjectStorage then
          retained_credentials env r cleanupApp (cleanup_akamai_manager env r) (ak_CleanupCredentialsOnly env)
            ''AccessKeyCleanupFailed''
            ''Bucket was retained, but its Akamai Object Storage access key could not be cleaned up: ''
        else ret ())"

definition cleanup_metrics :: "string \<Rightarrow> string \<Rightarrow> unit io" where
  "cleanup_metrics provider outcome =
     bindIO (emit (Metric (FinalizerCleanupDuration provider))) (\<lambda>_.
     emit (Metric (FinalizerCleanupTotal provider outcome)))"

lemma emits_cleanup_metrics [emits_intros]:
  "(\<And>m. P (Metric m)) \<Longrightarrow> emits P (cleanup_metrics provider outcome)"
  by (auto simp: cleanup_metrics_def intro!: emits_intros)

definition cleanup_provider ::
  "env \<Rightarrow> reconciler \<Rightarrow> application \<Rightarrow> string \<Rightarrow> (string \<Rightarrow> 'm io) \<Rightarrow>
     ('m \<Rightarrow> (gerror option \<times> gerror option) io) \<Rightarrow> (gerror \<Rightarrow> string) \<Rightarrow>
     string \<Rightarrow> string \<Rightarrow> string \<Rightarrow> string \<Rightarrow> unit io" where
  "cleanup_provider env r cleanupApp provider mk cleanup classify create_msg delete_msg reason message =
     bindIO (SetCleanupInProgress env) (\<lambda>_.
     bindIO (log_status_update env) (\<lambda>_.
     bindIO getApp (\<lambda>app.
     handleIO (with_app cleanupApp (mk (serviceAccountNameFor app)))
       (\<lambda>mgrErr.
         bindIO (cleanup_metrics provider (classify mgrErr)) (\<lambda>_.
         failStorageCleanup env (Errorf create_msg mgrErr [])))
       (\<lambda>m. bindIO (with_app cleanupApp (cleanup m)) (\<lambda>(credentialsErr, cleanupErr).
         case cleanupErr of
           Some err \<Rightarrow>
             bindIO (cleanup_metrics provider (classify err)) (\<lambda>_.
             failStorageCleanup env (Errorf delete_msg err []))
         | None \<Rightarrow>
             bindIO (cleanup_metrics provider outcomeSuccess) (\<lambda>_.
             case credentialsErr of
               Some err \<Rightarrow> record_event r ''Warning'' reason (message @ err_text err)
             | None \<Rightarrow> ret ()))))))"

definition aws_cleanup :: "env \<Rightarrow> reconciler \<Rightarrow> application \<Rightarrow> unit io" where
  "aws_cleanup env r cleanupApp =
     cleanup_provider env r cleanupApp ProviderAWSS3 (cleanup_s3_manager env r) (CleanupBucket env)
       classifyAWSStorageError ''failed to create storage manager for cleanup: ''
       ''failed to delete S3 bucket during cleanup: '' ''IRSACleanupFailed''
       ''Bucket was deleted, but its IAM role/policy could not be cleaned up: ''"

definition akamai_cleanup :: "env \<Rightarrow> reconciler \<Rightarrow> application \<Rightarrow> unit io" where
  "akamai_cleanup env r cleanupApp =
     cleanup_provider env r cleanupApp ProviderAkamaiObjectStorage (cleanup_akamai_manager env r)
       (ak_DeleteBucket env) classifyAkamaiStorageError
       ''failed to create Akamai storage manager for cleanup: ''
       ''failed to delete Akamai bucket during cleanup: '' ''AccessKeyCleanupFailed''
       ''Bucket was deleted, but its Akamai Object Storage access key could not be cleaned up: ''"

definition finalize_storage :: "env \<Rightarrow> reconciler \<Rightarrow> application \<Rightarrow> storage_spec \<Rightarrow> unit io" where
  "finalize_storage env r app storage =
     (if ss_deletion_policy storage = DeletionPolicyRetain then
        bindIO (cleanupRetainedStorageCredentials env r storage) (\<lambda>_.
        retainStorage env r (ss_bucket storage))
      else
        let cleanupApp = set_spec_storage (Some storage) app
        in if ss_provider storage = ProviderAWSS3 then aws_cleanup env r cleanupApp
           else if ss_provider storage = ProviderAkamaiObjectStorage then akamai_cleanup env r cleanupApp
           else ret ())"

definition finalizeApplication :: "env \<Rightarrow> reconciler \<Rightarrow> unit io" where
  "finalizeApplication env r =
     bindIO getApp (\<lambda>app.
     case storage_to_finalize app of
       None \<Rightarrow> ret ()
     | Some storage \<Rightarrow>
         bindIO (finalize_storage env r app storage) (\<lambda>_.
         bindIO getApp (\<lambda>now.
           emit (Metric (StorageReadyDelete (app_namespace now) (app_name now) (ss_provider storage))))))"

section \<open>The finalizer\<close>

definition kube_update :: "env \<Rightarrow> unit io" where
  "kube_update env =
     bindIO getApp (\<lambda>a.
     bindIO (call (\<lambda>h. update_application (e_kube env) h a) (\<lambda>r. Kube (Update a r))) putApp)"

definition is_deleting :: "application \<Rightarrow> bool" where
  "is_deleting app = (case md_deletion_timestamp (app_meta app) of None \<Rightarrow> False | Some t \<Rightarrow> t \<noteq> 0)"

definition has_finalizer :: "application \<Rightarrow> bool" where
  "has_finalizer app \<longleftrightarrow> ApplicationFinalizer \<in> set (md_finalizers (app_meta app))"

definition set_finalizers :: "string list \<Rightarrow> application \<Rightarrow> application" where
  "set_finalizers fs app = app\<lparr>app_meta := (app_meta app)\<lparr>md_finalizers := fs\<rparr>\<rparr>"

definition remove_finalizer :: "application \<Rightarrow> application" where
  "remove_finalizer app =
     set_finalizers (filter (\<lambda>f. f \<noteq> ApplicationFinalizer) (md_finalizers (app_meta app))) app"

definition add_finalizer :: "application \<Rightarrow> application" where
  "add_finalizer app =
     (if has_finalizer app then app
      else set_finalizers (md_finalizers (app_meta app) @ [ApplicationFinalizer]) app)"

definition handleFinalizer :: "env \<Rightarrow> reconciler \<Rightarrow> bool io" where
  "handleFinalizer env r =
     bindIO getApp (\<lambda>app.
     if is_deleting app then
       (if has_finalizer app then
          bindIO (wrapIO ''failed to finalize application: '' (finalizeApplication env r)) (\<lambda>_.
          bindIO (modifyApp remove_finalizer) (\<lambda>_.
          bindIO (wrapIO ''failed to remove finalizer: '' (kube_update env)) (\<lambda>_.
          bindIO getApp (\<lambda>now.
          bindIO (emit (Metric (ApplicationReadyDelete (app_namespace now) (app_name now))))
            (\<lambda>_. ret True)))))
        else ret True)
     else if \<not> has_finalizer app then
       bindIO (modifyApp add_finalizer) (\<lambda>_.
       bindIO (wrapIO ''failed to add finalizer: '' (kube_update env)) (\<lambda>_. ret False))
     else ret False)"

section \<open>Effects of finalization\<close>

text \<open>The events of finalization that are not the storage package's: status writes, metrics, Events.\<close>

definition is_bookkeeping :: "event \<Rightarrow> bool" where
  "is_bookkeeping e \<longleftrightarrow> is_status_io e \<or> (case e of Metric m \<Rightarrow> True | Recorder t r m \<Rightarrow> True | _ \<Rightarrow> False)"

lemma is_bookkeeping_simps [simp]:
  "is_bookkeeping (Metric m)" "is_bookkeeping (Recorder t r x)" "is_status_io e \<Longrightarrow> is_bookkeeping e"
  "\<not> is_bookkeeping (S3 se)" "\<not> is_bookkeeping (Linode le)" "\<not> is_bookkeeping (Iam ie)"
  "\<not> is_bookkeeping (Kube (Update a u))"
  by (simp_all add: is_bookkeeping_def)

lemma bookkeeping_not_write: "is_bookkeeping e \<Longrightarrow> \<not> bucket_write e"
  by (auto simp: is_bookkeeping_def is_status_io_def split: event.splits kube_event.splits)

lemma bookkeeping_emits [emits_intros]:
  assumes "retry_contract (e_lib env)" and "\<And>e. is_bookkeeping e \<Longrightarrow> P e"
  shows "emits P (log_status_update env)" and "emits P (failStorageCleanup env err)"
    and "emits P (retainStorage env r b)"
  unfolding log_status_update_def failStorageCleanup_def retainStorage_def record_event_def
  by (intro emits_intros assms(1) assms(2); simp)+

lemma record_event_emits [emits_intros]:
  "(\<And>x. P (Recorder ty reason x)) \<Longrightarrow> emits P (record_event r ty reason message)"
  unfolding record_event_def by (intro emits_intros) simp

text \<open>Building a manager reads Secrets and builds clients.\<close>

definition is_manager_setup :: "event \<Rightarrow> bool" where
  "is_manager_setup e =
     (case e of
        Kube (GetSecret ns n r) \<Rightarrow> True
      | S3 (ClientBuilt rg ep cr) \<Rightarrow> True
      | Linode (LinodeClientBuilt s) \<Rightarrow> True
      | _ \<Rightarrow> False)"

lemma setup_not_write: "is_manager_setup e \<Longrightarrow> \<not> bucket_write e"
  by (auto simp: is_manager_setup_def split: event.splits kube_event.splits s3_event.splits linode_event.splits)

lemma NewS3Manager_emits: "emits is_manager_setup (NewS3Manager env sa a u b cb)"
  unfolding NewS3Manager_def build_s3_manager_def static_credentials_def kube_get_secret_def Let_def
  by (intro emits_intros) (simp_all add: is_manager_setup_def)

lemma NewS3Manager_keeps: "keeps_app (NewS3Manager env sa a u b cb)"
  unfolding NewS3Manager_def build_s3_manager_def static_credentials_def kube_get_secret_def Let_def
  by (intro keeps_intros)

lemma NewAkamaiManager_emits: "emits is_manager_setup (NewAkamaiManager env rg cb)"
  unfolding NewAkamaiManager_def kube_get_secret_def Let_def
  by (intro emits_intros) (simp_all add: is_manager_setup_def)

lemma NewAkamaiManager_keeps: "keeps_app (NewAkamaiManager env rg cb)"
  unfolding NewAkamaiManager_def kube_get_secret_def Let_def
  by (intro keeps_intros)

lemma NewS3Manager_bucket:
  assumes "NewS3Manager env sa a u b cb w = (Inr m, w')"
  shows "\<exists>storage. app_storage (w_app w) = Some storage \<and> m_storage m = storage \<and>
    m_bucket m = ss_bucket storage \<and> m_record_created m = cb \<and>
    m_region m = (if ss_region storage = [] then defaultRegion else ss_region storage)"
  using assms
  by (auto simp: NewS3Manager_def build_s3_manager_def bindIO_Inr_iff getApp_def ret_def fail_def Let_def
      split: option.splits if_splits)

lemma NewAkamaiManager_bucket:
  assumes "NewAkamaiManager env rg cb w = (Inr m, w')"
  shows "\<exists>storage. app_storage (w_app w) = Some storage \<and> k_storage m = storage \<and>
    k_bucket m = ss_bucket storage \<and> k_record_created m = cb"
  using assms
  by (auto simp: NewAkamaiManager_def bindIO_Inr_iff handleIO_Inr_iff getApp_def ret_def fail_def Let_def
      split: option.splits if_splits)

section \<open>Deletion through the finalizer is guarded\<close>

lemma guarded_mono:
  "guarded_trace G D h es \<Longrightarrow> (\<And>h e. G h e \<Longrightarrow> G' h e) \<Longrightarrow> guarded_trace G' D h es"
  by (induction es arbitrary: h) auto

lemma guarded_seq:
  assumes "emits (\<lambda>e. \<not> D e) m" and "\<And>e. guarded_io (\<lambda>_. G) D (h e)"
    and "\<And>x w w'. m w = (Inr x, w') \<Longrightarrow> guarded_io (\<lambda>_. G) D (k x)"
  shows "guarded_io (\<lambda>_. G) D (handleIO m h k)"
  unfolding guarded_io_def
proof
  fix w
  obtain r w1 where m: "m w = (r, w1)" by fastforce
  obtain es where es: "w_trace w1 = w_trace w @ es" "list_all (\<lambda>e. \<not> D e) es"
    using emits_trace [OF assms(1) m] emits_new_events [OF assms(1) m] by blast
  have "\<exists>es'. w_trace (snd (handleIO m h k w)) = w_trace w1 @ es' \<and> guarded_trace G D (w_trace w1) es'"
  proof (cases r)
    case (Inl e)
    with assms(2) [of e] m show ?thesis unfolding guarded_io_def by (simp add: handleIO_def)
  next
    case (Inr x)
    with assms(3) [of w x w1] m show ?thesis unfolding guarded_io_def by (simp add: handleIO_def)
  qed
  with es show "\<exists>es. w_trace (snd (handleIO m h k w)) = w_trace w @ es \<and> guarded_trace G D (w_trace w) es"
    by (metis append.assoc guarded_prefix)
qed

lemma guarded_seq_quiet:
  assumes "guarded_io (\<lambda>_. G) D m" and "\<And>e. emits (\<lambda>e. \<not> D e) (h e)" and "\<And>x. emits (\<lambda>e. \<not> D e) (k x)"
  shows "guarded_io (\<lambda>_. G) D (handleIO m h k)"
  unfolding guarded_io_def
proof
  fix w
  obtain r w1 where m: "m w = (r, w1)" by fastforce
  with assms(1) obtain es where es: "w_trace w1 = w_trace w @ es" "guarded_trace G D (w_trace w) es"
    unfolding guarded_io_def by (metis snd_conv)
  have "\<exists>es'. w_trace (snd (handleIO m h k w)) = w_trace w1 @ es' \<and> list_all (\<lambda>e. \<not> D e) es'"
    using assms(2,3) m unfolding emits_def by (cases r) (simp_all add: handleIO_def)
  with es show "\<exists>es. w_trace (snd (handleIO m h k w)) = w_trace w @ es \<and> guarded_trace G D (w_trace w) es"
    by (metis append.assoc guarded_suffix)
qed

lemma emits_not_destroys:
  "emits (\<lambda>e. \<not> bucket_write e) m \<Longrightarrow> emits (\<lambda>e. \<not> destroys e) m"
  by (erule emits_mono) (blast dest: destroys_is_write)

lemma bookkeeping_not_destroy: "is_bookkeeping e \<Longrightarrow> \<not> destroys e"
  using bookkeeping_not_write destroys_is_write by blast

context bucket_cleanup
begin

lemma cleanup_under_copy:
  assumes "\<And>h e. evidence env m a h e \<Longrightarrow> G h e"
  shows "guarded_io (\<lambda>_. G) destroys (with_app a (cleanup env m))"
  unfolding guarded_io_def
proof
  fix w
  obtain r w' where run: "cleanup env m (w\<lparr>w_app := a\<rparr>) = (r, w')" by fastforce
  from cleanup_guarded [OF run] obtain es where "w_trace w' = w_trace w @ es"
      "guarded_trace (evidence env m a) destroys (w_trace w) es" by auto
  with assms run show "\<exists>es. w_trace (snd (with_app a (cleanup env m) w)) = w_trace w @ es \<and>
      guarded_trace G destroys (w_trace w) es"
    by (auto simp: with_app_def intro: guarded_mono)
qed

lemma cleanup_provider_guarded:
  assumes retry: "retry_contract (e_lib env)"
    and prepare: "\<And>sa. emits is_manager_setup (mk sa)"
    and made: "\<And>sa w m w' h e. mk sa (w\<lparr>w_app := a\<rparr>) = (Inr m, w') \<Longrightarrow> evidence env m a h e \<Longrightarrow> G h e"
  shows "guarded_io (\<lambda>_. G) destroys
    (cleanup_provider env r a provider mk (cleanup env) classify cm dm reason msg)"
proof -
  have quiet: "emits (\<lambda>e. \<not> destroys e) (SetCleanupInProgress env)" "emits (\<lambda>e. \<not> destroys e) (log_status_update env)"
      "emits (\<lambda>e. \<not> destroys e) (failStorageCleanup env err)" for err
    using bookkeeping_not_destroy by (intro emits_intros retry; blast)+
  have mk_quiet: "emits (\<lambda>e. \<not> destroys e) (with_app a (mk sa))" for sa
    by (intro emits_with_app emits_mono [OF prepare]) (blast dest: setup_not_write destroys_is_write)
  have after: "guarded_io (\<lambda>_. G) destroys
      (bindIO (with_app a (cleanup env m)) (\<lambda>(credentialsErr, cleanupErr).
         case cleanupErr of
           Some err \<Rightarrow> bindIO (cleanup_metrics provider (classify err))
             (\<lambda>_. failStorageCleanup env (Errorf dm err []))
         | None \<Rightarrow> bindIO (cleanup_metrics provider outcomeSuccess) (\<lambda>_.
             case credentialsErr of
               Some err \<Rightarrow> record_event r ''Warning'' reason (msg @ err_text err)
             | None \<Rightarrow> ret ())))"
    if "mk sa (w\<lparr>w_app := a\<rparr>) = (Inr m, w')" for sa m w w'
    unfolding bindIO_def [of "with_app a (cleanup env m)"]
    by (intro guarded_seq_quiet cleanup_under_copy made [OF that] emits_intros quiet) simp_all
  have then_cleanup: "guarded_io (\<lambda>_. G) destroys
      (bindIO (with_app a (cleanup env m)) (\<lambda>(credentialsErr, cleanupErr).
         case cleanupErr of
           Some err \<Rightarrow> bindIO (cleanup_metrics provider (classify err))
             (\<lambda>_. failStorageCleanup env (Errorf dm err []))
         | None \<Rightarrow> bindIO (cleanup_metrics provider outcomeSuccess) (\<lambda>_.
             case credentialsErr of
               Some err \<Rightarrow> record_event r ''Warning'' reason (msg @ err_text err)
             | None \<Rightarrow> ret ())))"
    if run: "with_app a (mk sa) w = (Inr m, w')" for sa m w w'
  proof -
    from run obtain w1 where "mk sa (w\<lparr>w_app := a\<rparr>) = (Inr m, w1)"
      by (auto simp: with_app_def split: prod.splits)
    then show ?thesis by (rule after)
  qed
  show ?thesis
    unfolding cleanup_provider_def bindIO_def [of "SetCleanupInProgress env"]
      bindIO_def [of "log_status_update env"] bindIO_def [of getApp]
    by (rule guarded_seq, rule quiet, rule guarded_quiet, rule emits_quiet,
        rule guarded_seq, rule quiet, rule guarded_quiet, rule emits_quiet,
        rule guarded_seq, rule emits_quiet, rule guarded_quiet, rule emits_quiet,
        rule guarded_seq, rule mk_quiet, rule guarded_quiet, (intro emits_intros quiet; simp),
        erule then_cleanup)
qed

end

end
