(* ===== verification/Storage_Reconcile.thy ===== *)
theory Storage_Reconcile
  imports Finalizer
begin

text \<open>
  \<open>internal/controller/storage.go\<close>: what one reconcile does about \<open>spec.storage\<close>. The AWS
  and the Akamai branch differ in the package that provisions the bucket and in what the result
  adds to the status, so the common steps (the callback that records a creation, the error
  paths, the final status write) are definitions of their own with the provider as an argument.
  Spans, the time that is measured and the 90 second context are left out: the context shows as an
  error of a service call.
\<close>

section \<open>Status of the bucket\<close>

text \<open>The status that the \<open>recordCreated\<close> callback writes right after a bucket was created.\<close>

definition interim_status :: "storage_provider \<Rightarrow> string \<Rightarrow> gotime \<Rightarrow> storage_status" where
  "interim_status provider bucket t =
     \<lparr>st_provider = provider, st_bucket = bucket, st_created = True, st_created_at = t, st_region = [],
      st_secret_name = [], st_deletion_policy = [], st_aws = None, st_akamai = None\<rparr>"

text \<open>
  \<open>application.Spec.Storage.X\<close>. A status write that met a conflict replaces the in-memory
  object by a fresh copy, whose \<open>spec.storage\<close> may be gone; the Go code then panics on the
  nil pointer, which is the error \<open>panic_error\<close> here. \<open>controller-runtime\<close> turns a panic
  of a reconciler into an error.
\<close>

definition panic_error :: gerror where
  "panic_error = ErrorText ''panic: runtime error: invalid memory address or nil pointer dereference''"

definition is_panic :: "gerror \<Rightarrow> bool" where
  "is_panic err \<longleftrightarrow> err_leaf err = panic_error"

definition spec_storage :: "storage_spec io" where
  "spec_storage =
     bindIO getApp (\<lambda>app. case app_storage app of None \<Rightarrow> fail panic_error | Some s \<Rightarrow> ret s)"

definition record_created :: "env \<Rightarrow> storage_provider \<Rightarrow> unit io" where
  "record_created env provider =
     bindIO spec_storage (\<lambda>storage.
     bindIO (askEnv (now (e_lib env))) (\<lambda>t.
     bindIO (modifyApp (set_status_storage (Some (interim_status provider (ss_bucket storage) t)))) (\<lambda>_.
     retryStatusUpdate env)))"

text \<open>\<open>CreatedAt\<close> is carried forward once it was set.\<close>

definition carried_created_at :: "gotime \<Rightarrow> application \<Rightarrow> gotime" where
  "carried_created_at t app =
     (case app_status_storage app of
        Some st \<Rightarrow> if st_created_at st \<noteq> 0 then st_created_at st else t
      | None \<Rightarrow> t)"

definition provisioned_status ::
  "storage_spec \<Rightarrow> gotime \<Rightarrow> aws_storage_status option \<Rightarrow> akamai_storage_status option \<Rightarrow> storage_status" where
  "provisioned_status storage createdAt aws akamai =
     \<lparr>st_provider = ss_provider storage, st_bucket = ss_bucket storage, st_created = True,
      st_created_at = createdAt, st_region = ss_region storage, st_secret_name = ss_secret_name storage,
      st_deletion_policy = ss_deletion_policy storage, st_aws = aws, st_akamai = akamai\<rparr>"

definition aws_provisioned :: "string \<Rightarrow> storage_spec \<Rightarrow> gotime \<Rightarrow> storage_status" where
  "aws_provisioned roleArn storage createdAt =
     (provisioned_status storage createdAt
       (Some \<lparr>aws_role_arn = roleArn, aws_status_credentials_secret_ref =
          (case ss_aws storage of None \<Rightarrow> [] | Some aws \<Rightarrow> aws_credentials_secret_ref aws)\<rparr>) None)
     \<lparr>st_provider := ProviderAWSS3\<rparr>"

definition akamai_provisioned :: "string \<Rightarrow> storage_spec \<Rightarrow> gotime \<Rightarrow> storage_status" where
  "akamai_provisioned endpoint storage createdAt =
     (provisioned_status storage createdAt None
       (Some \<lparr>ak_status_endpoint = endpoint, ak_status_access_key_secret_ref =
          (case ss_akamai storage of None \<Rightarrow> [] | Some ak \<Rightarrow> ak_access_key_secret_ref ak)\<rparr>))
     \<lparr>st_provider := ProviderAkamaiObjectStorage\<rparr>"

section \<open>The common steps of a provider\<close>

definition storage_ready_gauge :: "storage_provider \<Rightarrow> int \<Rightarrow> unit io" where
  "storage_ready_gauge provider v =
     bindIO getApp (\<lambda>app. emit (Metric (StorageReadySet (app_namespace app) (app_name app) provider v)))"

text \<open>The two failure branches: the condition, a status write that may fail silently, the metrics.\<close>

definition storage_failed :: "env \<Rightarrow> storage_provider \<Rightarrow> string \<Rightarrow> unit io \<Rightarrow> gerror \<Rightarrow> 'a io" where
  "storage_failed env provider outcome mark err =
     bindIO mark (\<lambda>_.
     bindIO (log_status_update env) (\<lambda>_.
     bindIO (emit (Metric (StorageReconcileTotal provider outcome))) (\<lambda>_.
     bindIO (storage_ready_gauge provider 0) (\<lambda>_. fail err))))"

definition manager_failed :: "env \<Rightarrow> storage_provider \<Rightarrow> (gerror \<Rightarrow> string) \<Rightarrow> string \<Rightarrow> gerror \<Rightarrow> 'a io" where
  "manager_failed env provider classify message err =
     storage_failed env provider (classify err) (SetNotReady env (Some err)) (Errorf message err [])"

definition bucket_failed :: "env \<Rightarrow> storage_provider \<Rightarrow> (gerror \<Rightarrow> string) \<Rightarrow> string \<Rightarrow> gerror \<Rightarrow> 'a io" where
  "bucket_failed env provider classify message err =
     (let outcome = classify err
      in storage_failed env provider outcome
           (if outcome = outcomeNotOwned then SetNotOwned env (Some err) else SetNotReady env (Some err))
           (Errorf message err []))"

definition storage_settled ::
  "env \<Rightarrow> storage_provider \<Rightarrow> (storage_spec \<Rightarrow> gotime \<Rightarrow> storage_status) \<Rightarrow> string \<Rightarrow> unit io" where
  "storage_settled env provider status message =
     bindIO (askEnv (now (e_lib env))) (\<lambda>t.
     bindIO getApp (\<lambda>app.
     bindIO spec_storage (\<lambda>storage.
     bindIO (SetReady env (status storage (carried_created_at t app)) message) (\<lambda>_.
     bindIO (wrapIO ''failed to update storage status: '' (retryStatusUpdate env)) (\<lambda>_.
     bindIO (emit (Metric (StorageReconcileTotal provider outcomeReady))) (\<lambda>_.
     storage_ready_gauge provider 1))))))"

section \<open>AWS\<close>

text \<open>The constructors of the provider packages, which the code calls through variables.\<close>

definition newS3StorageManager ::
  "env \<Rightarrow> string \<Rightarrow> string \<Rightarrow> string \<Rightarrow> string \<Rightarrow> unit io option \<Rightarrow> s3_manager io" where
  "newS3StorageManager env serviceAccountName oidcProviderARN oidcProviderURL permissionsBoundaryARN recordCreated =
     NewS3Manager env serviceAccountName oidcProviderARN oidcProviderURL permissionsBoundaryARN recordCreated"

definition newAkamaiStorageManager :: "env \<Rightarrow> string \<Rightarrow> unit io option \<Rightarrow> akamai_manager io" where
  "newAkamaiStorageManager env region recordCreated = NewAkamaiManager env region recordCreated"

definition provisioning_s3_manager :: "env \<Rightarrow> reconciler \<Rightarrow> s3_manager io" where
  "provisioning_s3_manager env r =
     bindIO getApp (\<lambda>app.
     newS3StorageManager env (serviceAccountNameFor app) (r_oidc_arn r) (r_oidc_url r) (r_boundary_arn r)
       (Some (record_created env ProviderAWSS3)))"

definition reconcileAWSStorage :: "env \<Rightarrow> reconciler \<Rightarrow> unit io" where
  "reconcileAWSStorage env r =
     deferIO (emit (Metric (StorageReconcileDuration ProviderAWSS3)))
      (handleIO (provisioning_s3_manager env r)
         (manager_failed env ProviderAWSS3 classifyAWSStorageError ''failed to create S3 storage manager: '')
         (\<lambda>m. handleIO (s3_ReconcileBucket env m)
            (bucket_failed env ProviderAWSS3 classifyAWSStorageError ''failed to reconcile S3 bucket: '')
            (\<lambda>roleArn.
               bindIO (if roleArn \<noteq> [] then annotateServiceAccountWithIRSA env roleArn else ret ()) (\<lambda>_.
               storage_settled env ProviderAWSS3 (aws_provisioned roleArn)
                 ''S3 bucket and IRSA role provisioned''))))"

section \<open>Akamai\<close>

definition provisioning_akamai_manager :: "env \<Rightarrow> reconciler \<Rightarrow> akamai_manager io" where
  "provisioning_akamai_manager env r =
     newAkamaiStorageManager env (r_default_akamai_region r) (Some (record_created env ProviderAkamaiObjectStorage))"

text \<open>The secret key is returned by Akamai once only, and read back from the storage Secret later.\<close>

definition recall_secret_key :: "env \<Rightarrow> akamai_result \<Rightarrow> akamai_result io" where
  "recall_secret_key env result =
     (if ar_secret_key result = [] then
        bindIO getApp (\<lambda>app.
        handleIO (kube_get_secret env (app_namespace app) (StorageSecret app))
          (\<lambda>_. ret result)
          (\<lambda>data. ret (result\<lparr>ar_secret_key := smap_get data ''secret_key''\<rparr>)))
      else ret result)"

definition reconcileAkamaiStorage :: "env \<Rightarrow> reconciler \<Rightarrow> akamai_result io" where
  "reconcileAkamaiStorage env r =
     deferIO (emit (Metric (StorageReconcileDuration ProviderAkamaiObjectStorage)))
      (handleIO (provisioning_akamai_manager env r)
         (manager_failed env ProviderAkamaiObjectStorage classifyAkamaiStorageError
           ''failed to create Akamai storage manager: '')
         (\<lambda>m. handleIO (ak_ReconcileBucket env m)
            (bucket_failed env ProviderAkamaiObjectStorage classifyAkamaiStorageError
              ''failed to reconcile Akamai bucket: '')
            (\<lambda>first.
               bindIO (recall_secret_key env first) (\<lambda>result.
               bindIO (storage_settled env ProviderAkamaiObjectStorage (akamai_provisioned (ar_endpoint result))
                 ''Akamai bucket and access key provisioned'') (\<lambda>_. ret result)))))"

section \<open>The stable ownership ID and the replaced bucket\<close>

definition set_annotation :: "string \<Rightarrow> string \<Rightarrow> application \<Rightarrow> application" where
  "set_annotation k v app =
     app\<lparr>app_meta := (app_meta app)\<lparr>md_annotations := smap_put (md_annotations (app_meta app)) k v\<rparr>\<rparr>"

definition ensureStorageOwnershipID :: "env \<Rightarrow> unit io" where
  "ensureStorageOwnershipID env =
     bindIO getApp (\<lambda>app.
     if app_annotation app StorageOwnershipIDAnnotation \<noteq> [] then ret ()
     else bindIO (askEnv (uuid (e_lib env))) (\<lambda>ownershipID.
          bindIO (wrapIO ''failed to persist storage ownership ID: ''
            (call (\<lambda>h. apply_ownership_id (e_kube env) h (app_namespace app) (app_name app) ownershipID)
               (\<lambda>x. Kube (ApplyOwnershipID (app_namespace app) (app_name app) ownershipID x)))) (\<lambda>_.
          modifyApp (set_annotation StorageOwnershipIDAnnotation ownershipID))))"

definition clear_storage_status :: "env \<Rightarrow> application \<Rightarrow> application" where
  "clear_storage_status env app =
     set_conditions (remove_condition (e_lib env) (as_conditions (app_status app)) StorageReady)
       (set_status_storage None app)"

definition cleanupPreviousStorage :: "env \<Rightarrow> reconciler \<Rightarrow> storage_status \<Rightarrow> unit io" where
  "cleanupPreviousStorage env r oldStorage =
     bindIO getApp (\<lambda>app.
     bindIO (wrapIO ''failed to clean up previously provisioned storage: ''
       (with_app (set_spec_storage (Some (storageSpecFromStatus oldStorage)) app)
          (finalizeApplication env r))) (\<lambda>_.
     bindIO (modifyApp (clear_storage_status env)) (\<lambda>_.
     wrapIO ''failed to clear storage status after cleanup: '' (retryStatusUpdate env))))"

section \<open>The reconcile of storage\<close>

definition identity_changed :: "storage_status \<Rightarrow> storage_spec \<Rightarrow> bool" where
  "identity_changed old storage \<longleftrightarrow>
     st_provider old \<noteq> ss_provider storage \<or> st_bucket old \<noteq> ss_bucket storage \<or>
     st_region old \<noteq> ss_region storage"

definition cleanup_replaced_storage :: "env \<Rightarrow> reconciler \<Rightarrow> storage_spec \<Rightarrow> unit io" where
  "cleanup_replaced_storage env r storage =
     bindIO getApp (\<lambda>app.
     case app_status_storage app of
       Some old \<Rightarrow> if identity_changed old storage then cleanupPreviousStorage env r old else ret ()
     | None \<Rightarrow> ret ())"

definition provision_storage :: "env \<Rightarrow> reconciler \<Rightarrow> storage_provider \<Rightarrow> akamai_result option io" where
  "provision_storage env r provider =
     (if provider = ProviderAWSS3 then
        bindIO (wrapIO ''failed to reconcile AWS storage: '' (reconcileAWSStorage env r)) (\<lambda>_. ret None)
      else if provider = ProviderAkamaiObjectStorage then
        bindIO (wrapIO ''failed to reconcile Akamai storage: '' (reconcileAkamaiStorage env r))
          (\<lambda>creds. ret (Some creds))
      else
        let err = ErrorText (''unsupported storage provider: '' @ provider)
        in bindIO (SetNotReady env (Some err)) (\<lambda>_.
           bindIO (log_status_update env) (\<lambda>_. fail err)))"

definition reconcileStorage :: "env \<Rightarrow> reconciler \<Rightarrow> unit io" where
  "reconcileStorage env r =
     bindIO getApp (\<lambda>app.
     case app_storage app of
       None \<Rightarrow>
         bindIO (case app_status_storage app of
                   Some old \<Rightarrow> cleanupPreviousStorage env r old
                 | None \<Rightarrow> ret ()) (\<lambda>_.
         reconcileStorageSecret env None)
     | Some storage \<Rightarrow>
         bindIO (cleanup_replaced_storage env r storage) (\<lambda>_.
         bindIO (wrapIO ''failed to ensure storage ownership ID: '' (ensureStorageOwnershipID env)) (\<lambda>_.
         bindIO spec_storage (\<lambda>now_storage.
         bindIO (provision_storage env r (ss_provider now_storage)) (\<lambda>akamaiCreds.
         wrapIO ''failed to reconcile storage secret: '' (reconcileStorageSecret env akamaiCreds))))))"

end
