(* ===== verification/Webhook_Properties.thy ===== *)
theory Webhook_Properties
  imports Webhook Storage_Reconcile Deployment S3_Properties
begin

text \<open>
  Properties of the admission webhooks: the exact condition under which an update is rejected,
  what defaulting may change, and the updates that are admitted although they move a bucket or
  take away a ConfigMap that the pod mounts.
\<close>

section \<open>Rejection\<close>

definition identity_field_changed :: "application \<Rightarrow> application \<Rightarrow> bool" where
  "identity_field_changed old new \<longleftrightarrow>
     (\<exists>s t. app_storage old = Some s \<and> app_storage new = Some t \<and>
        (field_changed (ss_provider s) (ss_provider t) \<or> field_changed (ss_bucket s) (ss_bucket t) \<or>
         field_changed (ss_region s) (ss_region t)))"

definition config_orphaned :: "application \<Rightarrow> application \<Rightarrow> bool" where
  "config_orphaned old new \<longleftrightarrow>
     sp_config_map (app_spec old) \<noteq> None \<and> sp_config_map (app_spec new) = None \<and>
     co_config_map_name (sp_container (app_spec new)) = AppConfigMap old"

lemma identity_check_iff: "validateStorageIdentityImmutable old new \<noteq> None \<longleftrightarrow> identity_field_changed old new"
  by (auto simp: validateStorageIdentityImmutable_def identity_field_changed_def split: option.splits)

lemma orphan_check_iff: "validateConfigNotOrphaned old new \<noteq> None \<longleftrightarrow> config_orphaned old new"
  by (simp add: validateConfigNotOrphaned_def config_orphaned_def)

lemma validate_reads: "emits is_kube_read (validate env app)"
  unfolding validate_def validateAkamai_def validateAWS_def secret_warnings_def kube_get_secret_def Let_def
  by (intro emits_intros) (auto intro!: emits_intros split: list.splits)

lemma update_rejected:
  "(\<exists>err. fst (ValidateUpdate env old new w) = Inl err) \<longleftrightarrow>
     md_deletion_timestamp (app_meta new) = None \<and>
     (identity_field_changed old new \<or> config_orphaned old new \<or> secret_collision new)"
  using identity_check_iff [of old new] orphan_check_iff [of old new] validate_rejects_iff [of env new w]
  by (auto simp: ValidateUpdate_def ret_def fail_def split: option.splits)

lemma update_admitted:
  "\<not> identity_field_changed old new \<Longrightarrow> \<not> config_orphaned old new \<Longrightarrow> \<not> secret_collision new \<Longrightarrow>
     \<exists>ws. fst (ValidateUpdate env old new w) = Inr ws"
  using update_rejected [of env old new w] by (cases "fst (ValidateUpdate env old new w)") auto

text \<open>
  C16: an update is rejected exactly when the object is not being deleted and it changes a set
  provider, bucket or region to another set value, or removes \<open>spec.config\<close> under a reference
  to its ConfigMap, or makes the operator's Secret coincide with the user's credentials Secret.
  The verdict depends on the two objects only: no answer of the cluster can reject an update or
  let one pass, and the webhook makes no call but reads.
\<close>

theorem update_rejected_iff:
  "((\<exists>err. fst (ValidateUpdate env old new w) = Inl err) \<longleftrightarrow>
     md_deletion_timestamp (app_meta new) = None \<and>
     (identity_field_changed old new \<or> config_orphaned old new \<or> secret_collision new)) \<and>
   list_all is_kube_read (new_events w (snd (ValidateUpdate env old new w)))"
proof
  have "emits is_kube_read (ValidateUpdate env old new)"
    unfolding ValidateUpdate_def by (intro emits_intros validate_reads)
  moreover obtain r w' where "ValidateUpdate env old new w = (r, w')" by fastforce
  ultimately show "list_all is_kube_read (new_events w (snd (ValidateUpdate env old new w)))"
    using emits_new_events by fastforce
qed (rule update_rejected)

section \<open>Defaulting\<close>

lemma spec_simps [simp]:
  "app_name (set_spec_storage s a) = app_name a"
  by (simp add: set_spec_storage_def)

text \<open>
  Defaulting only writes down what the controller would use anyway. Running it again
  changes nothing; the names of the operator's Secret and of the token Secret are the same
  with and without it, and so is the verdict on their collision; metadata, status and every
  part of the spec outside \<open>spec.storage\<close> are left alone.
\<close>

theorem defaulting_is_transparent:
  "Default (Default obj) = Default obj \<and>
   StorageSecret (Default obj) = StorageSecret obj \<and> AkamaiTokenSecret (Default obj) = AkamaiTokenSecret obj \<and>
   secret_collision (Default obj) = secret_collision obj \<and>
   app_meta (Default obj) = app_meta obj \<and> app_status (Default obj) = app_status obj \<and>
   set_spec_storage None (Default obj) = set_spec_storage None obj"
proof (cases "app_storage obj")
  case None
  then show ?thesis by (simp add: Default_def)
next
  case (Some s)
  define s1 where "s1 = default_secret_name obj s"
  have s1: "ss_secret_name s1 \<noteq> []" "ss_provider s1 = ss_provider s" "ss_akamai s1 = ss_akamai s" "ss_aws s1 = ss_aws s"
    and name: "StorageSecret obj = ss_secret_name s1"
    using Some by (auto simp: s1_def default_secret_name_def StorageSecret_def)
  define t where "t = AkamaiTokenSecret obj"
  have t: "AkamaiTokenSecret (set_spec_storage (Some s1) obj) = t" "t \<noteq> []"
    using Some s1 by (auto simp: t_def AkamaiTokenSecret_def split: option.splits)
  show ?thesis
  proof (cases "ss_provider s = ProviderAkamaiObjectStorage")
    case False
    then have def1: "Default obj = set_spec_storage (Some s1) obj"
      using Some by (simp add: Default_def s1_def Let_def)
    have names: "StorageSecret (Default obj) = StorageSecret obj" "AkamaiTokenSecret (Default obj) = AkamaiTokenSecret obj"
      using s1 t(1) by (simp_all add: def1 name t_def [symmetric]) (simp add: StorageSecret_def)
    have "default_secret_name (Default obj) s1 = s1"
      using s1 by (simp add: default_secret_name_def)
    then have "Default (Default obj) = Default obj"
      using s1(2) False by (simp add: Default_def [of "Default obj"] Let_def) (simp add: def1)
    moreover have "secret_collision (Default obj) = secret_collision obj"
      unfolding secret_collision_def names by (simp add: def1 Some False s1(2,4))
    ultimately show ?thesis
      using names by (simp add: def1)
  next
    case True
    define s2 where "s2 = default_token t s1"
    have s2: "ss_secret_name s2 = ss_secret_name s1" "ss_provider s2 = ss_provider s1"
        "\<exists>ak. ss_akamai s2 = Some ak \<and> ak_access_key_secret_ref ak = t"
      using Some s1 t(2)
      by (auto simp: s2_def default_token_def Let_def t_def AkamaiTokenSecret_def empty_akamai_spec_def split: option.splits)
    have def1: "Default obj = set_spec_storage (Some s2) obj"
      using Some True t by (simp add: Default_def s1_def [symmetric] Let_def s2_def)
    have names: "StorageSecret (Default obj) = StorageSecret obj" "AkamaiTokenSecret (Default obj) = AkamaiTokenSecret obj"
    proof -
      show "StorageSecret (Default obj) = StorageSecret obj"
        using s1 s2 by (simp add: def1 name) (simp add: StorageSecret_def)
      show "AkamaiTokenSecret (Default obj) = AkamaiTokenSecret obj"
        using s2 t(2) by (auto simp: def1 t_def [symmetric]) (auto simp: AkamaiTokenSecret_def)
    qed
    have fixed: "default_secret_name (Default obj) s2 = s2" "default_token t s2 = s2"
      using s1 s2 t(2) by (auto simp: default_secret_name_def default_token_def)
    have "Default (Default obj) = Default obj"
      using fixed names s1(2) s2(2) True by (simp add: Default_def [of "Default obj"] Let_def t_def [symmetric]) (simp add: def1)
    moreover have "secret_collision (Default obj) = secret_collision obj"
      unfolding secret_collision_def names by (simp add: def1 Some True s1(2) s2(2))
    ultimately show ?thesis
      using names by (simp add: def1)
  qed
qed

section \<open>Updates that pass\<close>

definition in_region :: "application \<Rightarrow> storage_spec \<Rightarrow> string \<Rightarrow> application" where
  "in_region app s rg = set_spec_storage (Some (s\<lparr>ss_region := rg\<rparr>)) app"

lemma in_region_storage: "app_storage (in_region app s rg) = Some (s\<lparr>ss_region := rg\<rparr>)"
  by (simp add: in_region_def)

lemma in_region_admitted:
  assumes "app_storage app = Some s" and "\<not> secret_collision app" and "r1 = [] \<or> r2 = [] \<or> r1 = r2"
  shows "\<exists>ws. fst (ValidateUpdate env (in_region app s r1) (in_region app s r2) w) = Inr ws"
proof (rule update_admitted)
  show "\<not> identity_field_changed (in_region app s r1) (in_region app s r2)"
    using assms(3) by (auto simp: identity_field_changed_def field_changed_def in_region_storage)
  show "\<not> config_orphaned (in_region app s r1) (in_region app s r2)"
    by (auto simp: config_orphaned_def in_region_def set_spec_storage_def)
  have names: "StorageSecret (in_region app s r2) = StorageSecret app" "AkamaiTokenSecret (in_region app s r2) = AkamaiTokenSecret app"
    using assms(1)
    by (simp_all add: StorageSecret_def AkamaiTokenSecret_def in_region_def set_spec_storage_def split: option.splits)
  show "\<not> secret_collision (in_region app s r2)"
    using assms(1,2) unfolding secret_collision_def names by (auto simp: in_region_storage split: if_splits)
qed

text \<open>
  The region is not immutable. Changing it from one value to another is rejected, but the
  same change through an empty region is admitted in two steps, whatever the cluster answers;
  and after the first step the reconcile of storage sees another bucket: its identity check
  on the status that provisioning left is positive, so the old bucket is cleaned up (with the
  recorded policy) before the new one is provisioned.
\<close>

theorem region_moves_in_two_steps:
  assumes "app_storage app = Some s" and "\<not> secret_collision app" and "md_deletion_timestamp (app_meta app) = None"
    and "r1 \<noteq> []" and "r2 \<noteq> []" and "r1 \<noteq> r2"
  shows "(\<exists>err. fst (ValidateUpdate env (in_region app s r1) (in_region app s r2) w) = Inl err) \<and>
    (\<exists>ws. fst (ValidateUpdate env (in_region app s r1) (in_region app s []) w) = Inr ws) \<and>
    (\<exists>ws. fst (ValidateUpdate env (in_region app s []) (in_region app s r2) w) = Inr ws) \<and>
    identity_changed (aws_provisioned arn (s\<lparr>ss_region := r1\<rparr>) t) (s\<lparr>ss_region := []\<rparr>)"
proof (intro conjI)
  show "\<exists>err. fst (ValidateUpdate env (in_region app s r1) (in_region app s r2) w) = Inl err"
    unfolding update_rejected using assms(3-6)
    by (simp add: identity_field_changed_def in_region_storage field_changed_def) (simp add: in_region_def set_spec_storage_def)
  show "identity_changed (aws_provisioned arn (s\<lparr>ss_region := r1\<rparr>) t) (s\<lparr>ss_region := []\<rparr>)"
    using assms(4) by (simp add: identity_changed_def aws_provisioned_def provisioned_status_def)
qed (rule in_region_admitted [OF assms(1,2)], simp)+

lemma sample_app_simps [simp]:
  "app_storage sample_app = Some sample_storage" "\<not> secret_collision sample_app"
  "md_deletion_timestamp (app_meta sample_app) = None"
  by (simp_all add: sample_app_def sample_spec_def sample_meta_def secret_collision_def sample_storage_def)

theorem region_moves_in_two_steps_witness:
  "\<exists>err. fst (ValidateUpdate sample_env (in_region sample_app sample_storage ''eu-west-1'')
     (in_region sample_app sample_storage ''us-west-2'') sample_world) = Inl err"
  by (rule region_moves_in_two_steps [THEN conjunct1]) simp_all

text \<open>
  Writing down the default region makes the operator delete the bucket. Setting the empty
  \<open>spec.storage.region\<close> of an AWS bucket to \<open>us-east-1\<close>, the region it is in anyway, is
  admitted; both specs give a manager of the same bucket in the same region; yet the reconcile
  that follows takes the bucket for a replaced one and runs its cleanup, with the bucket's own
  name and the recorded deletion policy.
\<close>

theorem explicit_default_region_cleans_up:
  fixes s :: storage_spec and app :: application and arn :: string and t :: gotime
  defines "old \<equiv> in_region app s []" and "new \<equiv> in_region app s defaultRegion"
    and "recorded \<equiv> aws_provisioned arn (s\<lparr>ss_region := []\<rparr>) t"
  assumes "app_storage app = Some s" and "\<not> secret_collision app" and "ss_provider s = ProviderAWSS3"
    and "w_app w = set_status_storage (Some recorded) new"
  shows "(\<exists>ws. fst (ValidateUpdate env old new v) = Inr ws) \<and>
    (\<forall>m w1 m' w2. fst (NewS3Manager env sa a u b cb (w1\<lparr>w_app := old\<rparr>)) \<noteq> Inr m \<or>
       fst (NewS3Manager env sa a u b cb (w2\<lparr>w_app := new\<rparr>)) \<noteq> Inr m' \<or>
       m_region m = m_region m' \<and> m_bucket m = m_bucket m') \<and>
    cleanup_replaced_storage env r (s\<lparr>ss_region := defaultRegion\<rparr>) w = cleanupPreviousStorage env r recorded w \<and>
    ss_bucket (storageSpecFromStatus recorded) = ss_bucket s \<and>
    ss_deletion_policy (storageSpecFromStatus recorded) = ss_deletion_policy s"
proof (intro conjI)
  show "\<exists>ws. fst (ValidateUpdate env old new v) = Inr ws"
    unfolding old_def new_def by (rule in_region_admitted [OF assms(4,5)]) simp
  have made: "m_region m = defaultRegion \<and> m_bucket m = ss_bucket s"
    if ok: "fst (NewS3Manager env sa a u b cb (w1\<lparr>w_app := in_region app s rg\<rparr>)) = Inr m" and rg: "rg = [] \<or> rg = defaultRegion" for rg w1 m
  proof -
    obtain w1' where "NewS3Manager env sa a u b cb (w1\<lparr>w_app := in_region app s rg\<rparr>) = (Inr m, w1')"
      using ok by (cases "NewS3Manager env sa a u b cb (w1\<lparr>w_app := in_region app s rg\<rparr>)") auto
    from NewS3Manager_bucket [OF this] rg show ?thesis by (auto simp: in_region_storage)
  qed
  show "\<forall>m w1 m' w2. fst (NewS3Manager env sa a u b cb (w1\<lparr>w_app := old\<rparr>)) \<noteq> Inr m \<or>
       fst (NewS3Manager env sa a u b cb (w2\<lparr>w_app := new\<rparr>)) \<noteq> Inr m' \<or>
       m_region m = m_region m' \<and> m_bucket m = m_bucket m'"
    unfolding old_def new_def using made by metis
  have "identity_changed recorded (s\<lparr>ss_region := defaultRegion\<rparr>)"
    by (simp add: identity_changed_def recorded_def aws_provisioned_def provisioned_status_def defaultRegion_def)
  then show "cleanup_replaced_storage env r (s\<lparr>ss_region := defaultRegion\<rparr>) w = cleanupPreviousStorage env r recorded w"
    using assms(7) by (simp add: cleanup_replaced_storage_def bindIO_def handleIO_def getApp_def)
qed (simp_all add: recorded_def aws_provisioned_def provisioned_status_def storageSpecFromStatus_def)

theorem explicit_default_region_cleans_up_witness:
  "\<exists>ws. fst (ValidateUpdate sample_env (in_region sample_app sample_storage [])
     (in_region sample_app sample_storage defaultRegion) sample_world) = Inr ws"
  by (rule explicit_default_region_cleans_up [of sample_app sample_storage
        "sample_world\<lparr>w_app := set_status_storage (Some (aws_provisioned [] (sample_storage\<lparr>ss_region := []\<rparr>) 0))
           (in_region sample_app sample_storage defaultRegion)\<rparr>" "[]" 0, THEN conjunct1])
    (simp_all, simp add: sample_storage_def)

definition rename_config :: "string \<Rightarrow> application \<Rightarrow> application" where
  "rename_config n app =
     app\<lparr>app_spec := (app_spec app)\<lparr>sp_config_map := map_option (\<lambda>c. c\<lparr>cf_name := n\<rparr>) (sp_config_map (app_spec app))\<rparr>\<rparr>"

text \<open>
  C39: the guard against orphaned ConfigMaps covers removal only. Renaming \<open>spec.config\<close> while
  \<open>spec.container.configMapName\<close> names the ConfigMap it has now is admitted; the pod goes on
  mounting the old name, and the next reconcile, having applied the new ConfigMap, deletes the
  old one (when it is listed as controlled by this Application).
\<close>

theorem renamed_config_is_deleted:
  fixes app :: application and n :: string
  defines "new \<equiv> rename_config n app"
  assumes "sp_config_map (app_spec app) = Some c" and "n \<noteq> []" and "n \<noteq> AppConfigMap app"
    and "co_config_map_name (sp_container (app_spec app)) = AppConfigMap app"
    and "\<not> secret_collision app" and "w_app w = new"
    and "\<And>a d. set_controller_reference (e_lib env) a d = Inr ()" and "\<And>h d. apply_child (e_kube env) h d = Inr ()"
    and "\<And>h ns ls. list_children (e_kube env) h ConfigMapKind ns ls =
      Inr [\<lparr>li_name = AppConfigMap app, li_controller = Some (app_uid app)\<rparr>]"
  shows "(\<exists>ws. fst (ValidateUpdate env app new v) = Inr ws) \<and>
    ConfigMapVolume (AppConfigMap app) \<in> vo_source ` set (ps_volumes (desiredPodSpec new)) \<and>
    (\<exists>x. Kube (Delete ConfigMapKind (app_namespace app) (AppConfigMap app) x)
       \<in> set (new_events w (snd (reconcileConfigMap env w))))"
proof (intro conjI)
  have new: "sp_config_map (app_spec new) = Some (c\<lparr>cf_name := n\<rparr>)" "sp_container (app_spec new) = sp_container (app_spec app)"
    "app_storage new = app_storage app" "app_meta new = app_meta app"
    using assms(2) by (simp_all add: new_def rename_config_def)
  have names: "StorageSecret new = StorageSecret app" "AkamaiTokenSecret new = AkamaiTokenSecret app"
    by (simp_all only: StorageSecret_def AkamaiTokenSecret_def new)
  show "\<exists>ws. fst (ValidateUpdate env app new v) = Inr ws"
  proof (rule update_admitted)
    show "\<not> identity_field_changed app new" by (auto simp: identity_field_changed_def field_changed_def new)
    show "\<not> config_orphaned app new" by (simp add: config_orphaned_def new)
    show "\<not> secret_collision new"
      using assms(6) unfolding secret_collision_def names new .
  qed
  have "AppConfigMap app \<noteq> []" using assms(2) by (auto simp: AppConfigMap_def)
  then show "ConfigMapVolume (AppConfigMap app) \<in> vo_source ` set (ps_volumes (desiredPodSpec new))"
    using assms(5) by (auto simp: desiredPodSpec_def buildVolumeAndMounts_def configMapNameFor_def new Let_def split: if_splits)
  have name: "AppConfigMap new = n" using assms(3) by (simp add: AppConfigMap_def new)
  show "\<exists>x. Kube (Delete ConfigMapKind (app_namespace app) (AppConfigMap app) x)
       \<in> set (new_events w (snd (reconcileConfigMap env w)))"
    using assms(4,7-10) new name
    by (simp add: reconcileConfigMap_def deleteStaleConfigMaps_def apply_owned_def kube_apply_def delete_stale_def kube_list_def
        delete_or_gone_def kube_delete_def desiredConfigMap_def io_simps Let_def new_events_def split: sum.splits)
qed

definition config_app :: application where
  "config_app = sample_app\<lparr>app_spec := sample_spec\<lparr>sp_config_map := Some \<lparr>cf_name = ''old'', cf_data = []\<rparr>,
     sp_container := sample_container\<lparr>co_config_map_name := ''old''\<rparr>\<rparr>\<rparr>"

definition listing_env :: env where
  "listing_env = sample_env\<lparr>e_kube := sample_kube\<lparr>list_children := (\<lambda>h k ns ls.
     Inr [\<lparr>li_name = ''old'', li_controller = Some ''uid-1''\<rparr>])\<rparr>\<rparr>"

theorem renamed_config_is_deleted_witness:
  "\<exists>x. Kube (Delete ConfigMapKind ''ns'' ''old'' x) \<in> set (new_events (sample_world\<lparr>w_app := rename_config ''new'' config_app\<rparr>)
     (snd (reconcileConfigMap listing_env (sample_world\<lparr>w_app := rename_config ''new'' config_app\<rparr>))))"
proof -
  have app: "app_uid config_app = ''uid-1''" "app_namespace config_app = ''ns''"
      "sp_config_map (app_spec config_app) = Some \<lparr>cf_name = ''old'', cf_data = []\<rparr>"
      "co_config_map_name (sp_container (app_spec config_app)) = ''old''"
    by (simp_all add: config_app_def sample_app_def sample_meta_def)
  then have name: "AppConfigMap config_app = ''old''" by (simp add: AppConfigMap_def)
  have "\<not> secret_collision config_app"
    by (simp add: config_app_def secret_collision_def sample_spec_def sample_storage_def)
  from renamed_config_is_deleted [OF app(3) _ _ _ this, of "''new''" "sample_world\<lparr>w_app := rename_config ''new'' config_app\<rparr>" listing_env]
  show ?thesis
    by (simp add: name app listing_env_def sample_env_def sample_lib_def sample_kube_def)
qed

end
