(* ===== verification/Finalizer_Properties.thy ===== *)
theory Finalizer_Properties
  imports Finalizer S3_Properties
begin

text \<open>
  Properties of deletion: a retained bucket is left alone, the finalizer is released only after
  the cleanup succeeded, and no object or bucket is deleted without evidence of ownership.
\<close>

section \<open>Retained buckets\<close>

lemma retained_credentials_quiet:
  assumes "\<And>sa. emits is_manager_setup (mk sa)" and "\<And>m. emits (\<lambda>e. \<not> bucket_write e) (cred m)"
  shows "emits (\<lambda>e. \<not> bucket_write e) (retained_credentials env r a mk cred reason msg)"
  unfolding retained_credentials_def
  by (intro emits_intros assms(2) emits_mono [OF assms(1)]) (auto dest: setup_not_write)

lemma cleanupRetained_quiet:
  "emits (\<lambda>e. \<not> bucket_write e) (cleanupRetainedStorageCredentials env r s)"
  unfolding cleanupRetainedStorageCredentials_def Let_def cleanup_s3_manager_def cleanup_akamai_manager_def
  by (intro emits_intros retained_credentials_quiet NewS3Manager_emits NewAkamaiManager_emits
      s3_cleanup.credentials_leave_bucket ak_cleanup.credentials_leave_bucket)

lemma finalize_retained_never_fails:
  "never_fails (cleanupRetainedStorageCredentials env r s)" "never_fails (retainStorage env r b)"
  unfolding cleanupRetainedStorageCredentials_def retained_credentials_def retainStorage_def Let_def
    record_event_def log_status_update_def SetRetained_def
  by (intro never_fails_intros)+

text \<open>
  C13: \<open>deletionPolicy: Retain\<close> is honoured. Finalizing an Application whose storage is to be
  retained makes no call that creates, changes or deletes anything in any bucket, whatever the
  services answer, and it never fails, so it cannot block the deletion.
\<close>

theorem retain_leaves_buckets_alone:
  assumes "retry_contract (e_lib env)"
    and "storage_to_finalize (w_app w) = Some s" and "ss_deletion_policy s = DeletionPolicyRetain"
    and "finalizeApplication env r w = (res, w')"
  shows "res = Inr () \<and> list_all (\<lambda>e. \<not> bucket_write e) (new_events w w')"
proof -
  let ?fin = "\<lambda>s. bindIO (bindIO (cleanupRetainedStorageCredentials env r s) (\<lambda>_. retainStorage env r (ss_bucket s)))
      (\<lambda>_. bindIO getApp (\<lambda>now. emit (Metric (StorageReadyDelete (app_namespace now) (app_name now) (ss_provider s)))))"
  have run: "?fin s w = (res, w')"
    using assms by (simp add: finalizeApplication_def finalize_storage_def bindIO_def [of getApp] handleIO_def getApp_def)
  have "emits (\<lambda>e. \<not> bucket_write e) (?fin s)"
    by (intro emits_intros cleanupRetained_quiet assms(1) bookkeeping_not_write) simp_all
  then have "list_all (\<lambda>e. \<not> bucket_write e) (new_events w w')"
    using run by (rule emits_new_events)
  moreover have "never_fails (?fin s)"
    by (intro never_fails_intros finalize_retained_never_fails)
  then have "\<exists>x. res = Inr x" using run by (rule never_failsD [where m = "?fin s"])
  ultimately show ?thesis by auto
qed

definition retained_app :: application where
  "retained_app = sample_app\<lparr>app_spec := sample_spec\<lparr>sp_storage :=
     Some (sample_storage\<lparr>ss_deletion_policy := DeletionPolicyRetain\<rparr>)\<rparr>\<rparr>"

definition sample_reconciler :: reconciler where
  "sample_reconciler = \<lparr>r_oidc_arn = ''arn:oidc'', r_oidc_url = ''https://oidc/'', r_boundary_arn = ''arn:boundary'',
     r_default_akamai_region = ''us-ord'', r_has_recorder = True, r_storage_resync_interval = 0,
     r_max_concurrent_reconciles = 0\<rparr>"

lemma sample_env_lib [simp]: "e_lib sample_env = sample_lib" "e_lib (with_tags x) = sample_lib"
  by (simp_all add: sample_env_def with_tags_def)

theorem retain_leaves_buckets_alone_witness:
  "fst (finalizeApplication sample_env sample_reconciler (sample_world\<lparr>w_app := retained_app\<rparr>)) = Inr ()"
proof -
  obtain res w' where "finalizeApplication sample_env sample_reconciler (sample_world\<lparr>w_app := retained_app\<rparr>)
      = (res, w')" by fastforce
  with retain_leaves_buckets_alone [OF _ _ _ this] show ?thesis
    by (simp add: sample_retry_contract retained_app_def storage_to_finalize_def)
qed

section \<open>Releasing the finalizer\<close>

definition is_update :: "event \<Rightarrow> bool" where
  "is_update e = (case e of Kube (Update a x) \<Rightarrow> True | _ \<Rightarrow> False)"

text \<open>What finalization does, besides its bookkeeping: calls of the cloud and reads of the cluster.\<close>

definition is_cloud_io :: "event \<Rightarrow> bool" where
  "is_cloud_io e \<longleftrightarrow> is_kube_read e \<or> is_manager_setup e \<or>
     (case e of S3 se \<Rightarrow> True | Iam ie \<Rightarrow> True | Linode le \<Rightarrow> True | _ \<Rightarrow> False)"

lemma is_cloud_io_simps [simp]:
  "is_cloud_io (S3 se)" "is_cloud_io (Iam ie)" "is_cloud_io (Linode le)"
  "is_kube_read e \<Longrightarrow> is_cloud_io e" "is_manager_setup e \<Longrightarrow> is_cloud_io e"
  by (simp_all add: is_cloud_io_def)

lemma cloud_io_not_update [simp]: "is_cloud_io e \<Longrightarrow> \<not> is_update e"
  by (auto simp: is_cloud_io_def is_update_def is_kube_read_def is_manager_setup_def
      split: event.splits kube_event.splits)

lemma bookkeeping_not_update [simp]: "is_bookkeeping e \<Longrightarrow> \<not> is_update e"
  by (auto simp: is_update_def is_bookkeeping_def is_status_io_def split: event.splits kube_event.splits)

lemma in_bucket_cloud: "in_bucket b e \<Longrightarrow> is_cloud_io e"
  by (auto simp: in_bucket_def split: event.splits)

lemma CleanupBucket_cloud: "emits is_cloud_io (CleanupBucket env m)"
  unfolding CleanupBucket_def verifyOwnership_def s3_get_bucket_tagging_def Let_def
  by (intro emits_intros emits_mono [OF empty_and_delete_in_bucket in_bucket_cloud]) simp_all

lemma ak_DeleteBucket_cloud: "emits is_cloud_io (ak_DeleteBucket env m)"
  unfolding ak_DeleteBucket_def verifyOwnershipAndEmptyBucket_def deleteStorageBucket_def
    linode_get_bucket_def linode_delete_bucket_def verify_marker_def object_get_def Let_def
  by (intro emits_intros ensureAccessKey_emits deleteApplicationAccessKey_emits emptyBucket_emits
      ak_ask_created_quiet) simp_all

lemma credentials_only_cloud:
  "emits is_cloud_io (s3_CleanupCredentialsOnly env m)" "emits is_cloud_io (ak_CleanupCredentialsOnly env k)"
  unfolding s3_CleanupCredentialsOnly_def ak_CleanupCredentialsOnly_def
  by (intro emits_intros deleteApplicationAccessKey_emits; simp)+

lemma cleanup_provider_emits:
  assumes "retry_contract (e_lib env)" and "\<And>e. is_bookkeeping e \<Longrightarrow> P e" and "\<And>e. is_cloud_io e \<Longrightarrow> P e"
    and "\<And>sa. emits is_manager_setup (mk sa)" and "\<And>m. emits is_cloud_io (cleanup m)"
  shows "emits P (cleanup_provider env r a provider mk cleanup classify cm dm reason msg)"
  unfolding cleanup_provider_def
  by (intro emits_intros assms(1,2) emits_mono [OF assms(4)] emits_mono [OF assms(5)] assms(3)) simp_all

lemma finalizeApplication_emits:
  assumes retry: "retry_contract (e_lib env)"
    and P: "\<And>e. is_bookkeeping e \<Longrightarrow> P e" "\<And>e. is_cloud_io e \<Longrightarrow> P e"
  shows "emits P (finalizeApplication env r)"
proof -
  have "emits P (cleanupRetainedStorageCredentials env r s)" for s
    unfolding cleanupRetainedStorageCredentials_def retained_credentials_def Let_def
      cleanup_s3_manager_def cleanup_akamai_manager_def
    by (intro emits_intros emits_mono [OF NewS3Manager_emits] emits_mono [OF NewAkamaiManager_emits]
        emits_mono [OF credentials_only_cloud(1)] emits_mono [OF credentials_only_cloud(2)] P) simp_all
  then show ?thesis
    unfolding finalizeApplication_def finalize_storage_def aws_cleanup_def akamai_cleanup_def Let_def
      cleanup_s3_manager_def cleanup_akamai_manager_def
    by (intro emits_intros cleanup_provider_emits retry P NewS3Manager_emits NewAkamaiManager_emits
        CleanupBucket_cloud ak_DeleteBucket_cloud) simp_all
qed

lemma handleFinalizer_failed:
  "is_deleting (w_app w) \<Longrightarrow> has_finalizer (w_app w) \<Longrightarrow> finalizeApplication env r w = (Inl err, w1) \<Longrightarrow>
     handleFinalizer env r w = (Inl (Errorf ''failed to finalize application: '' err []), w1)"
  by (simp add: handleFinalizer_def bindIO_def handleIO_def getApp_def wrapIO_def fail_def)

text \<open>
  C8: the finalizer is released only after the cleanup succeeded. While an Application is being
  deleted, \<open>handleFinalizer\<close> updates the object only when \<open>finalizeApplication\<close> returned
  without an error, and then once, with an object that no longer carries the finalizer. When the
  cleanup failed, \<open>handleFinalizer\<close> returns an error and the object is not updated, so the
  API server keeps it for the next attempt.
\<close>

theorem finalizer_released_after_cleanup:
  assumes "retry_contract (e_lib env)"
    and "is_deleting (w_app w)" and "has_finalizer (w_app w)"
    and "handleFinalizer env r w = (res, w')"
  shows "(\<exists>w1 a x rest. finalizeApplication env r w = (Inr (), w1) \<and>
      new_events w w' = new_events w w1 @ Kube (Update a x) # rest \<and>
      \<not> has_finalizer a \<and> list_all (\<lambda>e. \<not> is_update e) (new_events w w1 @ rest)) \<or>
    (\<exists>err. fst (finalizeApplication env r w) = Inl err \<and> (\<exists>e. res = Inl e) \<and>
      list_all (\<lambda>e. \<not> is_update e) (new_events w w'))"
proof -
  have quiet: "emits (\<lambda>e. \<not> is_update e) (finalizeApplication env r)"
    by (rule finalizeApplication_emits [OF assms(1)]) simp_all
  obtain fr w1 where fin: "finalizeApplication env r w = (fr, w1)" by fastforce
  note tr = emits_trace [OF quiet fin] and no = emits_new_events [OF quiet fin]
  show ?thesis
  proof (cases fr)
    case (Inl err)
    then have "w' = w1" "\<exists>e. res = Inl e"
      using handleFinalizer_failed assms(2-4) fin by fastforce+
    with Inl fin no show ?thesis by simp
  next
    case (Inr u)
    define a where "a = remove_finalizer (w_app w1)"
    have a: "\<not> has_finalizer a"
      by (simp add: a_def has_finalizer_def remove_finalizer_def set_finalizers_def)
    obtain x rest where "w_trace w' = w_trace w1 @ Kube (Update a x) # rest"
        "list_all (\<lambda>e. \<not> is_update e) rest"
      using assms(2-4) fin Inr
      by (auto simp: handleFinalizer_def kube_update_def io_simps a_def Let_def split: sum.splits)
    with tr have "new_events w w' = new_events w w1 @ Kube (Update a x) # rest"
      by (intro new_events_eq) (metis append.assoc)
    with a no fin Inr \<open>list_all (\<lambda>e. \<not> is_update e) rest\<close> show ?thesis
      by (intro disjI1 exI [of _ w1] exI [of _ a] exI [of _ x] exI [of _ rest]) simp
  qed
qed

definition deleting_app :: application where
  "deleting_app = sample_app\<lparr>app_meta := sample_meta\<lparr>md_deletion_timestamp := Some sample_now,
     md_finalizers := [ApplicationFinalizer]\<rparr>\<rparr>"

lemma deleting_app_simps [simp]:
  "is_deleting deleting_app" "has_finalizer deleting_app" "app_storage deleting_app = Some sample_storage"
  "app_uid deleting_app = ''uid-1''"
  by (simp_all add: deleting_app_def is_deleting_def has_finalizer_def sample_app_def sample_spec_def
      sample_now_def sample_meta_def second_def)

theorem finalizer_released_after_cleanup_witness:
  "\<exists>res w'. handleFinalizer sample_env sample_reconciler (sample_world\<lparr>w_app := deleting_app\<rparr>) = (res, w') \<and>
     ((\<exists>err. fst (finalizeApplication sample_env sample_reconciler (sample_world\<lparr>w_app := deleting_app\<rparr>)) = Inl err) \<longrightarrow>
        (\<exists>e. res = Inl e))"
proof -
  obtain res w' where run: "handleFinalizer sample_env sample_reconciler (sample_world\<lparr>w_app := deleting_app\<rparr>)
      = (res, w')" by fastforce
  show ?thesis
    using finalizer_released_after_cleanup [OF _ _ _ run] run by (auto simp: sample_retry_contract)
qed

section \<open>Evidence before deletion, through the finalizer\<close>

text \<open>
  The answer that authorises the deletion of the bucket named by \<open>s\<close>: the owner tag or the
  owner marker of exactly that bucket, read with the provider of \<open>s\<close>.
\<close>

definition finalizer_evidence :: "env \<Rightarrow> application \<Rightarrow> storage_spec \<Rightarrow> history \<Rightarrow> event \<Rightarrow> bool" where
  "finalizer_evidence env app s h e \<longleftrightarrow>
     ss_deletion_policy s \<noteq> DeletionPolicyRetain \<and>
     (ss_provider s = ProviderAWSS3 \<and>
        (\<exists>m. m_bucket m = ss_bucket s \<and> tag_evidence env m (set_spec_storage (Some s) app) h e) \<or>
      ss_provider s = ProviderAkamaiObjectStorage \<and>
        (\<exists>m. k_bucket m = ss_bucket s \<and> marker_evidence env m (set_spec_storage (Some s) app) h e))"

lemma s3_manager_bucket_under:
  "NewS3Manager env sa a u b cb (w\<lparr>w_app := set_spec_storage (Some s) app\<rparr>) = (Inr m, w') \<Longrightarrow>
     m_bucket m = ss_bucket s"
  by (drule NewS3Manager_bucket) (simp add: set_spec_storage_def)

lemma akamai_manager_bucket_under:
  "NewAkamaiManager env rg cb (w\<lparr>w_app := set_spec_storage (Some s) app\<rparr>) = (Inr m, w') \<Longrightarrow>
     k_bucket m = ss_bucket s"
  by (drule NewAkamaiManager_bucket) (simp add: set_spec_storage_def)

lemma finalize_storage_guarded:
  assumes "retry_contract (e_lib env)"
  shows "guarded_io (\<lambda>_. finalizer_evidence env app s) destroys (finalize_storage env r app s)"
proof -
  have retained: "emits (\<lambda>e. \<not> destroys e)
      (bindIO (cleanupRetainedStorageCredentials env r s) (\<lambda>_. retainStorage env r (ss_bucket s)))"
    by (intro emits_not_destroys emits_intros cleanupRetained_quiet assms bookkeeping_not_write)
  have aws: "guarded_io (\<lambda>_. finalizer_evidence env app s) destroys
      (aws_cleanup env r (set_spec_storage (Some s) app))"
    if "ss_deletion_policy s \<noteq> DeletionPolicyRetain" "ss_provider s = ProviderAWSS3"
    unfolding aws_cleanup_def
    by (rule s3_cleanup.cleanup_provider_guarded [OF assms])
       (use that in \<open>auto simp: cleanup_s3_manager_def finalizer_evidence_def intro: NewS3Manager_emits
          dest: s3_manager_bucket_under\<close>)
  have akamai: "guarded_io (\<lambda>_. finalizer_evidence env app s) destroys
      (akamai_cleanup env r (set_spec_storage (Some s) app))"
    if "ss_deletion_policy s \<noteq> DeletionPolicyRetain" "ss_provider s = ProviderAkamaiObjectStorage"
    unfolding akamai_cleanup_def
    by (rule ak_cleanup.cleanup_provider_guarded [OF assms])
       (use that in \<open>auto simp: cleanup_akamai_manager_def finalizer_evidence_def intro: NewAkamaiManager_emits
          dest: akamai_manager_bucket_under\<close>)
  show ?thesis
    unfolding finalize_storage_def Let_def
    using guarded_quiet [OF retained] aws akamai guarded_quiet [OF emits_quiet(1)] by auto
qed



text \<open>The cleanup of a bucket that is tagged for another Application, on the copy it works on.\<close>

lemma cleanup_refused_under_copy:
  assumes "\<And>h. get_bucket_tagging (e_s3 env) h (m_bucket m) = Inr tagSet"
    and "find (\<lambda>(key, value). key = ownerTagKey) tagSet = Some (k, uid)" and "uid \<noteq> app_uid a"
  shows "emits (\<lambda>e. \<not> bucket_write e) (with_app a (CleanupBucket env m))"
    and "with_app a (CleanupBucket env m) w = (r, w') \<Longrightarrow> \<exists>c e. r = Inr (c, Some e)"
proof -
  have refused: "(\<exists>c e. r = Inr (c, Some e)) \<and> list_all (\<lambda>e. \<not> bucket_write e) (new_events (w\<lparr>w_app := a\<rparr>) w')"
    if "CleanupBucket env m (w\<lparr>w_app := a\<rparr>) = (r, w')" for w r w'
    using CleanupBucket_refuses [OF assms(1,2) _ that] assms(3) by auto
  show "emits (\<lambda>e. \<not> bucket_write e) (with_app a (CleanupBucket env m))"
  proof (rule emitsI)
    fix w
    obtain r w' where run: "CleanupBucket env m (w\<lparr>w_app := a\<rparr>) = (r, w')" by fastforce
    from emits_trace [OF CleanupBucket_cloud run] refused [OF run] run
    show "\<exists>es. w_trace (snd (with_app a (CleanupBucket env m) w)) = w_trace w @ es \<and>
        list_all (\<lambda>e. \<not> bucket_write e) es"
      by (auto simp: with_app_def)
  qed
  assume run: "with_app a (CleanupBucket env m) w = (r, w')"
  obtain r1 w1 where run1: "CleanupBucket env m (w\<lparr>w_app := a\<rparr>) = (r1, w1)" by fastforce
  with run have "r = r1" by (simp add: with_app_def)
  with refused [OF run1] show "\<exists>c e. r = Inr (c, Some e)" by simp
qed

lemma failStorageCleanup_fails: "always_fails (failStorageCleanup env err)"
  unfolding failStorageCleanup_def by (intro always_fails_bindIO always_fails_fail)

lemma cleanup_provider_refused:
  assumes "retry_contract (e_lib env)"
    and mk: "\<And>sa. emits is_manager_setup (mk sa)"
    and quiet: "\<And>sa w m w'. with_app a (mk sa) w = (Inr m, w') \<Longrightarrow> emits (\<lambda>e. \<not> bucket_write e) (with_app a (cleanup m))"
    and refuses: "\<And>sa w m w' v x v'. with_app a (mk sa) w = (Inr m, w') \<Longrightarrow> with_app a (cleanup m) v = (Inr x, v') \<Longrightarrow>
      \<exists>c e. x = (c, Some e)"
  shows "emits (\<lambda>e. \<not> bucket_write e) (cleanup_provider env r a provider mk cleanup classify cm dm reason msg)"
    and "always_fails (cleanup_provider env r a provider mk cleanup classify cm dm reason msg)"
proof -
  have prepare: "emits (\<lambda>e. \<not> bucket_write e) (with_app a (mk sa))" for sa
    by (intro emits_with_app emits_mono [OF mk]) (rule setup_not_write)
  have status: "emits (\<lambda>e. \<not> bucket_write e) (SetCleanupInProgress env)"
      "emits (\<lambda>e. \<not> bucket_write e) (log_status_update env)"
      "emits (\<lambda>e. \<not> bucket_write e) (failStorageCleanup env err)" for err
    by (intro emits_intros assms(1); erule bookkeeping_not_write)+
  let ?after = "\<lambda>(credentialsErr, cleanupErr).
      case cleanupErr of
        Some err \<Rightarrow> bindIO (cleanup_metrics provider (classify err))
          (\<lambda>_. failStorageCleanup env (Errorf dm err []))
      | None \<Rightarrow> bindIO (cleanup_metrics provider outcomeSuccess) (\<lambda>_.
          case credentialsErr of
            Some err \<Rightarrow> record_event r ''Warning'' reason (msg @ err_text err)
          | None \<Rightarrow> ret ())"
  have rest: "emits (\<lambda>e. \<not> bucket_write e) (bindIO (with_app a (cleanup m)) ?after)"
      "always_fails (bindIO (with_app a (cleanup m)) ?after)"
    if "with_app a (mk sa) w = (Inr m, w')" for sa w m w'
  proof -
    show "emits (\<lambda>e. \<not> bucket_write e) (bindIO (with_app a (cleanup m)) ?after)"
      by (intro emits_bindIO quiet [OF that] emits_intros status) simp_all
    show "always_fails (bindIO (with_app a (cleanup m)) ?after)"
    proof (rule always_fails_bindIO)
      fix v x v'
      assume "with_app a (cleanup m) v = (Inr x, v')"
      from refuses [OF that this] obtain c e where "x = (c, Some e)" by blast
      then show "always_fails (?after x)"
        by (simp add: always_fails_bindIO failStorageCleanup_fails)
    qed
  qed
  show "emits (\<lambda>e. \<not> bucket_write e) (cleanup_provider env r a provider mk cleanup classify cm dm reason msg)"
    unfolding cleanup_provider_def
    by (rule emits_bindIO, rule status, rule emits_bindIO, rule status, rule emits_bindIO, rule emits_quiet,
        rule emits_handleIO_run, rule prepare, rule emits_bindIO, rule emits_cleanup_metrics, simp, rule status, erule rest(1))
  show "always_fails (cleanup_provider env r a provider mk cleanup classify cm dm reason msg)"
    unfolding cleanup_provider_def
    by (rule always_fails_bindIO, rule always_fails_bindIO, rule always_fails_bindIO,
        rule always_fails_handleIO, rule always_fails_bindIO, rule failStorageCleanup_fails, erule rest(2))
qed

lemma aws_cleanup_refused:
  assumes "retry_contract (e_lib env)"
    and answer: "\<And>h. get_bucket_tagging (e_s3 env) h (ss_bucket s) = Inr tagSet"
    and owner: "find (\<lambda>(key, value). key = ownerTagKey) tagSet = Some (k, uid)" "uid \<noteq> app_uid app"
  shows "emits (\<lambda>e. \<not> bucket_write e) (aws_cleanup env r (set_spec_storage (Some s) app))"
    and "always_fails (aws_cleanup env r (set_spec_storage (Some s) app))"
proof -
  let ?a = "set_spec_storage (Some s) app"
  have bucket: "m_bucket m = ss_bucket s"
    if run: "with_app ?a (cleanup_s3_manager env r sa) w = (Inr m, w')" for sa m w w'
  proof -
    from run obtain w1 where "cleanup_s3_manager env r sa (w\<lparr>w_app := ?a\<rparr>) = (Inr m, w1)"
      by (auto simp: with_app_def split: prod.splits)
    then show ?thesis unfolding cleanup_s3_manager_def by (rule s3_manager_bucket_under)
  qed
  have uid: "uid \<noteq> app_uid ?a" using owner(2) by simp
  have prepare: "emits is_manager_setup (cleanup_s3_manager env r sa)" for sa
    unfolding cleanup_s3_manager_def by (rule NewS3Manager_emits)
  have quiet: "emits (\<lambda>e. \<not> bucket_write e) (with_app ?a (CleanupBucket env m))"
    and refuses: "with_app ?a (CleanupBucket env m) v = (Inr x, v') \<Longrightarrow> \<exists>c e. x = (c, Some e)"
    if "with_app ?a (cleanup_s3_manager env r sa) w = (Inr m, w')" for sa m w w' v x v'
  proof -
    have *: "get_bucket_tagging (e_s3 env) h (m_bucket m) = Inr tagSet" for h
      using answer bucket [OF that] by simp
    show "emits (\<lambda>e. \<not> bucket_write e) (with_app ?a (CleanupBucket env m))"
      by (rule cleanup_refused_under_copy(1) [OF * owner(1) uid])
    assume "with_app ?a (CleanupBucket env m) v = (Inr x, v')"
    from cleanup_refused_under_copy(2) [OF * owner(1) uid this] show "\<exists>c e. x = (c, Some e)" by simp
  qed
  show "emits (\<lambda>e. \<not> bucket_write e) (aws_cleanup env r ?a)"
    unfolding aws_cleanup_def by (rule cleanup_provider_refused(1) [OF assms(1) prepare quiet refuses])
  show "always_fails (aws_cleanup env r ?a)"
    unfolding aws_cleanup_def by (rule cleanup_provider_refused(2) [OF assms(1) prepare quiet refuses])
qed

text \<open>
  C14: an Application whose bucket belongs to another Application cannot be deleted over it. When
  the owner tag of its AWS bucket names another UID, whatever else happens, the finalizer
  attempt ends in an error, no bucket is written, and the object keeps its finalizer on the
  server (it is not updated).
\<close>

theorem foreign_bucket_blocks_deletion:
  assumes "retry_contract (e_lib env)"
    and "is_deleting (w_app w)" and "has_finalizer (w_app w)"
    and "app_storage (w_app w) = Some s" and "ss_provider s = ProviderAWSS3"
    and "ss_deletion_policy s \<noteq> DeletionPolicyRetain"
    and "\<And>h. get_bucket_tagging (e_s3 env) h (ss_bucket s) = Inr tagSet"
    and "find (\<lambda>(key, value). key = ownerTagKey) tagSet = Some (k, uid)" and "uid \<noteq> app_uid (w_app w)"
    and "handleFinalizer env r w = (res, w')"
  shows "(\<exists>err. res = Inl err) \<and>
    list_all (\<lambda>e. \<not> is_update e) (new_events w w') \<and> list_all (\<lambda>e. \<not> bucket_write e) (new_events w w')"
proof -
  let ?fin = "bindIO (aws_cleanup env r (set_spec_storage (Some s) (w_app w))) (\<lambda>_. bindIO getApp (\<lambda>now.
      emit (Metric (StorageReadyDelete (app_namespace now) (app_name now) (ss_provider s)))))"
  note refused = aws_cleanup_refused [OF assms(1,7,8,9), of r]
  have fin: "finalizeApplication env r w = ?fin w"
    using assms(4-6)
    by (simp add: finalizeApplication_def storage_to_finalize_def finalize_storage_def Let_def
        bindIO_def [of getApp] handleIO_def getApp_def)
  obtain fr w1 where run: "?fin w = (fr, w1)" by fastforce
  have "always_fails ?fin" by (intro always_fails_first refused)
  then have "\<exists>e. fr = Inl e" using run by (rule always_failsD [where m = "?fin"])
  then obtain err where fr: "fr = Inl err" by blast
  have "finalizeApplication env r w = (Inl err, w1)" using fin run fr by simp
  then have "w' = w1" "\<exists>err. res = Inl err"
    using handleFinalizer_failed assms(2,3,10) by fastforce+
  moreover have "emits (\<lambda>e. \<not> bucket_write e) ?fin"
    by (intro emits_bindIO refused emits_intros) simp
  moreover have "emits (\<lambda>e. \<not> is_update e) (finalizeApplication env r)"
    by (rule finalizeApplication_emits [OF assms(1)]) simp_all
  ultimately show ?thesis
    using emits_new_events [where m = "?fin" and P = "\<lambda>e. \<not> bucket_write e" and w = w and w' = w1]
      emits_new_events [of "\<lambda>e. \<not> is_update e" "finalizeApplication env r" w fr w1] fin run by simp
qed

theorem foreign_bucket_blocks_deletion_witness:
  "\<exists>err. fst (handleFinalizer (with_tags (Inr foreign_tags)) sample_reconciler
     (sample_world\<lparr>w_app := deleting_app\<rparr>)) = Inl err"
proof -
  obtain res w' where run: "handleFinalizer (with_tags (Inr foreign_tags)) sample_reconciler
      (sample_world\<lparr>w_app := deleting_app\<rparr>) = (res, w')" by fastforce
  have lib: "retry_contract (e_lib (with_tags (Inr foreign_tags)))" by (simp add: sample_retry_contract)
  have storage: "app_storage (w_app (sample_world\<lparr>w_app := deleting_app\<rparr>)) = Some sample_storage" by simp
  have answer: "get_bucket_tagging (e_s3 (with_tags (Inr foreign_tags))) h b = Inr foreign_tags" for h b
    by (simp add: with_tags_def)
  have owner: "find (\<lambda>(key, value). key = ownerTagKey) foreign_tags = Some (ownerTagKey, ''uid-2'')"
    by (simp add: foreign_tags_def ownerTagKey_def)
  have "\<exists>err. res = Inl err"
    by (rule foreign_bucket_blocks_deletion [OF lib _ _ storage _ _ answer owner _ run, THEN conjunct1])
       (simp_all add: sample_storage_def DeletionPolicyRetain_def DeletionPolicyDelete_def)
  with run show ?thesis by simp
qed

end
