(* ===== verification/Status_Properties.thy ===== *)
theory Status_Properties
  imports Status_Manager Sample_Env
begin

text \<open>
  Properties of \<open>internal/controller/status\<close>, of the conditions, and of the objects the
  Application owns: when an Application is ready, that status writes end and keep what they
  were called with, the bounds of the autoscaler, and what a deletion of stale objects touches.
\<close>

section \<open>Readiness\<close>

definition healthy_answer :: "event \<Rightarrow> bool" where
  "healthy_answer e =
     (case e of
        View (GetService ns n r) \<Rightarrow> r = Inr ()
      | View (GetDeployment ns n r) \<Rightarrow> (case r of Inl _ \<Rightarrow> False | Inr d \<Rightarrow> deployment_healthy d)
      | View (GetIngress ns n r) \<Rightarrow> (case r of Inl _ \<Rightarrow> False | Inr lb \<Rightarrow> ingress_admitted lb)
      | View (GetHpa ns n r) \<Rightarrow> (case r of Inl _ \<Rightarrow> False | Inr v \<Rightarrow> hpa_healthy v)
      | View (GetPdb ns n r) \<Rightarrow> (case r of Inl _ \<Rightarrow> False | Inr v \<Rightarrow> pdb_healthy v)
      | _ \<Rightarrow> False)"

definition looked_at :: "event \<Rightarrow> (kind \<times> string \<times> string) option" where
  "looked_at e =
     (case e of
        View (GetService ns n r) \<Rightarrow> Some (ServiceKind, ns, n)
      | View (GetDeployment ns n r) \<Rightarrow> Some (DeploymentKind, ns, n)
      | View (GetIngress ns n r) \<Rightarrow> Some (IngressKind, ns, n)
      | View (GetHpa ns n r) \<Rightarrow> Some (HpaKind, ns, n)
      | View (GetPdb ns n r) \<Rightarrow> Some (PdbKind, ns, n)
      | _ \<Rightarrow> None)"

text \<open>A computation that is ready exactly when all its looks, at these objects, were healthy.\<close>

definition ready_by :: "(kind \<times> string \<times> string) list \<Rightarrow> (bool \<times> string) io \<Rightarrow> bool" where
  "ready_by objs m \<longleftrightarrow>
     (\<forall>w. \<exists>es. w_trace (snd (m w)) = w_trace w @ es \<and>
        ((\<exists>msg. fst (m w) = Inr (True, msg)) \<longleftrightarrow>
           list_all healthy_answer es \<and> map looked_at es = map Some objs))"

lemma ready_by_done: "ready_by [] (ret (True, msg))"
  by (simp add: ready_by_def ret_def)

context readiness_check
begin

lemma ready_by_check:
  assumes "\<And>ns n r. healthy_answer (View (seen ns n r)) \<longleftrightarrow> (\<exists>v. r = Inr v \<and> healthy v)"
    and "\<And>ns n r. looked_at (View (seen ns n r)) = Some (k, ns, n)"
    and "ready_by objs next"
  shows "ready_by ((k, ns, name) # objs) (unless_ready (check env ns name) next)"
  unfolding ready_by_def
proof
  fix w :: world
  let ?m = "unless_ready (check env ns name) next"
  let ?e = "View (seen ns name (look env (w_trace w) ns name))"
  obtain r w1 where run: "check env ns name w = (r, w1)" by fastforce
  have tr: "w_trace w1 = w_trace w @ [?e]" using one_look [of env ns name w] run by simp
  have ok: "(\<exists>msg. r = Inr (True, msg)) \<longleftrightarrow> healthy_answer ?e"
    using ready_iff [of env ns name w] run by (simp add: assms(1))
  show "\<exists>es. w_trace (snd (?m w)) = w_trace w @ es \<and>
      ((\<exists>msg. fst (?m w) = Inr (True, msg)) \<longleftrightarrow>
         list_all healthy_answer es \<and> map looked_at es = map Some ((k, ns, name) # objs))"
  proof (cases "\<exists>msg. r = Inr (True, msg)")
    case True
    obtain es where es: "w_trace (snd (next w1)) = w_trace w1 @ es"
        "(\<exists>msg. fst (next w1) = Inr (True, msg)) \<longleftrightarrow> list_all healthy_answer es \<and> map looked_at es = map Some objs"
      using assms(3) unfolding ready_by_def by blast
    have "?m w = next w1" using True run by (auto simp: unless_ready_def bindIO_def handleIO_def)
    with es tr ok True show ?thesis
      by (intro exI [of _ "?e # es"]) (simp add: assms(2))
  next
    case False
    then have "w_trace (snd (?m w)) = w_trace w @ [?e]" "\<not> (\<exists>msg. fst (?m w) = Inr (True, msg))"
      using run tr by (auto simp: unless_ready_def bindIO_def handleIO_def fail_def ret_def split: sum.splits)
    with ok False show ?thesis by (intro exI [of _ "[?e]"]) simp
  qed
qed

end

lemma ready_by_when_set:
  "ready_by (x # objs) (unless_ready check next) \<Longrightarrow> ready_by objs next \<Longrightarrow>
     ready_by ((if b then [x] else []) @ objs) (when_set b check next)"
  by (simp add: when_set_def)

text \<open>The objects the readiness of an Application depends on.\<close>

definition required_objects :: "application \<Rightarrow> (kind \<times> string \<times> string) list" where
  "required_objects app =
     (let ns = app_namespace app in
      [(ServiceKind, ns, service_name app), (DeploymentKind, ns, deployment_name app)] @
      (if sp_ingress (app_spec app) \<noteq> None then [(IngressKind, ns, ingress_name app)] else []) @
      (if sp_autoscaling (app_spec app) \<noteq> None then [(HpaKind, ns, hpa_name app)] else []) @
      (if sp_pdb (app_spec app) \<noteq> None then [(PdbKind, ns, pdb_name app)] else []))"

lemma sum_Inr_iff:
  "(case r of Inl e \<Rightarrow> False | Inr v \<Rightarrow> P v) \<longleftrightarrow> (\<exists>v. r = Inr v \<and> P v)"
  by (cases r) simp_all

lemmas ready_by_checks =
  deployment_check.ready_by_check [where k = DeploymentKind] ingress_check.ready_by_check [where k = IngressKind]
  hpa_check.ready_by_check [where k = HpaKind] pdb_check.ready_by_check [where k = PdbKind]

text \<open>
  C17: an Application is reported ready exactly when it is. \<open>EvaluateComputeReadiness\<close> answers
  ready if and only if it looked at the Service, the Deployment and each of Ingress, autoscaler
  and disruption budget that the spec has, in this order, and every answer it got was healthy:
  the object exists, its status is not older than its spec, no rollout or scaling failure is
  reported, and enough replicas are updated, available and ready. It makes no other call.
\<close>

theorem ready_iff_all_healthy:
  "(\<exists>msg. fst (EvaluateComputeReadiness env w) = Inr (True, msg)) \<longleftrightarrow>
     (let es = new_events w (snd (EvaluateComputeReadiness env w))
      in list_all healthy_answer es \<and> map looked_at es = map Some (required_objects (w_app w)))"
proof -
  let ?app = "w_app w" and ?ns = "app_namespace (w_app w)" and ?spec = "app_spec (w_app w)"
  let ?rest = "unless_ready (IsDeploymentReady env ?ns (deployment_name ?app))
         (when_set (sp_ingress ?spec \<noteq> None) (IsIngressReady env ?ns (ingress_name ?app))
         (when_set (sp_autoscaling ?spec \<noteq> None) (IsHPAReady env ?ns (hpa_name ?app))
         (when_set (sp_pdb ?spec \<noteq> None) (IsPDBReady env ?ns (pdb_name ?app))
           (ret (True, ''All Compute resources are ready'')))))"
  let ?objs = "(DeploymentKind, ?ns, deployment_name ?app) #
      (if sp_ingress ?spec \<noteq> None then [(IngressKind, ?ns, ingress_name ?app)] else []) @
      (if sp_autoscaling ?spec \<noteq> None then [(HpaKind, ?ns, hpa_name ?app)] else []) @
      (if sp_pdb ?spec \<noteq> None then [(PdbKind, ?ns, pdb_name ?app)] else []) @ []"
  have chain: "ready_by ?objs ?rest"
    by (intro ready_by_when_set ready_by_done ready_by_checks)
       (auto simp: healthy_answer_def looked_at_def split: sum.splits)
  let ?r = "get_service (e_view env) (w_trace w) ?ns (service_name ?app)"
  let ?e = "View (GetService ?ns (service_name ?app) ?r)"
  let ?w1 = "w\<lparr>w_trace := w_trace w @ [?e]\<rparr>"
  have looked: "looked_at ?e = Some (ServiceKind, ?ns, service_name ?app)" "healthy_answer ?e \<longleftrightarrow> ?r = Inr ()"
    by (simp_all add: looked_at_def healthy_answer_def)
  show ?thesis
  proof (cases ?r)
    case (Inl err)
    then have "\<not> (\<exists>msg. fst (EvaluateComputeReadiness env w) = Inr (True, msg))"
      "new_events w (snd (EvaluateComputeReadiness env w)) = [?e]"
      by (auto simp: EvaluateComputeReadiness_def view_get_service_def io_simps Let_def new_events_def)
    with Inl looked show ?thesis by (simp add: Let_def)
  next
    case (Inr u)
    then have run: "EvaluateComputeReadiness env w = ?rest ?w1"
      by (simp add: EvaluateComputeReadiness_def view_get_service_def bindIO_def [of getApp] handleIO_def
          getApp_def call_def Let_def)
    from chain obtain es where "w_trace (snd (?rest ?w1)) = w_trace ?w1 @ es"
        "(\<exists>msg. fst (?rest ?w1) = Inr (True, msg)) \<longleftrightarrow> list_all healthy_answer es \<and> map looked_at es = map Some ?objs"
      unfolding ready_by_def by blast
    then show ?thesis
      unfolding run using looked Inr
      by (simp add: Let_def new_events_def required_objects_def)
  qed
qed

section \<open>Status writes end\<close>

text \<open>\<open>client-go\<close>'s \<open>retry.DefaultRetry\<close>: at most that many attempts.\<close>

definition retry_attempts :: "nat \<Rightarrow> lib_api \<Rightarrow> bool" where
  "retry_attempts k lib \<longleftrightarrow> (\<forall>f w. \<exists>n<k. retry_on_conflict lib f w = run_retries n f w)"

lemma sample_retry_attempts: "retry_attempts 5 sample_lib"
  unfolding retry_attempts_def sample_lib_def by (auto intro!: exI [of _ 4])

definition is_status_write :: "event \<Rightarrow> bool" where
  "is_status_write e = (case e of Kube (StatusUpdate a r) \<Rightarrow> True | _ \<Rightarrow> False)"

definition writes_at_most :: "nat \<Rightarrow> 'a io \<Rightarrow> bool" where
  "writes_at_most c m \<longleftrightarrow>
     (\<forall>w. \<exists>es. w_trace (snd (m w)) = w_trace w @ es \<and> length (filter is_status_write es) \<le> c)"

lemma writes_at_most_quiet: "emits (\<lambda>e. \<not> is_status_write e) m \<Longrightarrow> writes_at_most 0 m"
  unfolding emits_def writes_at_most_def by (metis filter_False le_numeral_extra(3) list.size(3) list_all_iff)

lemma writes_at_most_handle:
  assumes "writes_at_most a m" and "\<And>e. writes_at_most b (h e)" and "\<And>x. writes_at_most b (k x)"
  shows "writes_at_most (a + b) (handleIO m h k)"
  unfolding writes_at_most_def
proof
  fix w :: world
  obtain r w1 where m: "m w = (r, w1)" by fastforce
  with assms(1) obtain es where es: "w_trace w1 = w_trace w @ es" "length (filter is_status_write es) \<le> a"
    unfolding writes_at_most_def by (metis snd_conv)
  have "\<exists>es'. w_trace (snd (handleIO m h k w)) = w_trace w1 @ es' \<and> length (filter is_status_write es') \<le> b"
    using assms(2,3) m unfolding writes_at_most_def by (cases r) (simp_all add: handleIO_def)
  then obtain es' where "w_trace (snd (handleIO m h k w)) = w_trace w1 @ es'" "length (filter is_status_write es') \<le> b"
    by blast
  with es show "\<exists>es. w_trace (snd (handleIO m h k w)) = w_trace w @ es \<and> length (filter is_status_write es) \<le> a + b"
    by (intro exI [of _ "es @ es'"]) simp
qed

lemma writes_at_most_bind:
  "writes_at_most a m \<Longrightarrow> (\<And>x. writes_at_most b (k x)) \<Longrightarrow> writes_at_most (a + b) (bindIO m k)"
  unfolding bindIO_def
  by (rule writes_at_most_handle) (simp_all add: writes_at_most_def fail_def)

lemma writes_at_most_retries: "writes_at_most c f \<Longrightarrow> writes_at_most (Suc n * c) (run_retries n f)"
proof (induction n)
  case (Suc n)
  have "writes_at_most (Suc n * c) (if kube_conflict e then run_retries n f else fail e)" for e
    using Suc by (simp add: writes_at_most_def fail_def)
  moreover have "writes_at_most (Suc n * c) (ret x)" for x
    by (simp add: writes_at_most_def ret_def)
  ultimately have "writes_at_most (c + Suc n * c) (run_retries (Suc n) f)"
    unfolding run_retries.simps by (intro writes_at_most_handle Suc.prems)
  then show ?case by simp
qed simp

lemma writes_at_most_mono: "writes_at_most a m \<Longrightarrow> a \<le> b \<Longrightarrow> writes_at_most b m"
  unfolding writes_at_most_def using order_trans by blast

lemma writes_at_most_retry:
  assumes "retry_attempts k lib" and "writes_at_most 1 f"
  shows "writes_at_most k (retry_on_conflict lib f)"
  unfolding writes_at_most_def
proof
  fix w :: world
  obtain n where n: "n < k" "retry_on_conflict lib f w = run_retries n f w"
    using assms(1) unfolding retry_attempts_def by blast
  have "writes_at_most k (run_retries n f)"
    by (rule writes_at_most_mono [OF writes_at_most_retries [OF assms(2)]]) (use n in simp)
  with n show "\<exists>es. w_trace (snd (retry_on_conflict lib f w)) = w_trace w @ es \<and>
      length (filter is_status_write es) \<le> k"
    by (simp add: writes_at_most_def)
qed

lemma attempt_writes_once:
  assumes "\<And>e. writes_at_most 0 (h e)"
  shows "writes_at_most 1 (handleIO (kube_status_update env) h ret)"
proof -
  have "writes_at_most 1 (kube_status_update env)"
    by (auto simp: writes_at_most_def kube_status_update_def io_simps Let_def is_status_write_def split: sum.splits)
  from writes_at_most_handle [OF this assms, where k = ret] show ?thesis
    by (simp add: writes_at_most_def ret_def)
qed

lemma refetch_quiet:
  "writes_at_most 0 (if \<not> kube_conflict err then fail err
     else bindIO getApp (\<lambda>a. bindIO (kube_get_application env (app_namespace a) (app_name a)) (\<lambda>fresh.
          bindIO (putApp (f fresh)) (\<lambda>_. fail err))))"
  "writes_at_most 0 (if \<not> kube_conflict err then fail err
     else bindIO getApp (\<lambda>a. bindIO (kube_api_get_application env (app_namespace a) (app_name a)) (\<lambda>fresh.
          bindIO (putApp (f fresh)) (\<lambda>_. fail err))))"
  unfolding kube_get_application_def kube_api_get_application_def
  by (rule writes_at_most_quiet, intro emits_intros, simp add: is_status_write_def)+

lemma retryStatusUpdate_writes:
  assumes "retry_attempts k (e_lib env)"
  shows "writes_at_most k (retryStatusUpdate env)" "writes_at_most k (UpdateStatus env)"
proof -
  have "writes_at_most (0 + 1) (bindIO (modifyApp g) (\<lambda>_. handleIO (kube_status_update env)
      (\<lambda>err. if \<not> kube_conflict err then fail err
       else bindIO getApp (\<lambda>a. bindIO (kube_get_application env (app_namespace a) (app_name a)) (\<lambda>fresh.
          bindIO (putApp fresh) (\<lambda>_. fail err)))) ret))" for g
    by (rule writes_at_most_bind, rule writes_at_most_quiet, rule emits_quiet, rule attempt_writes_once,
        rule refetch_quiet(1) [where f = "\<lambda>x. x"])
  then have "writes_at_most (0 + k) (retryStatusUpdate env)"
    unfolding retryStatusUpdate_def Let_def
    by (intro writes_at_most_bind writes_at_most_quiet emits_quiet writes_at_most_retry assms) simp
  then show "writes_at_most k (retryStatusUpdate env)" by simp
  have "writes_at_most (0 + (0 + k)) (UpdateStatus env)"
    unfolding UpdateStatus_def Let_def
    by (intro writes_at_most_bind writes_at_most_quiet emits_quiet writes_at_most_retry assms
        attempt_writes_once refetch_quiet(2))
  then show "writes_at_most k (UpdateStatus env)" by simp
qed

definition writes_status :: "application_status \<Rightarrow> event \<Rightarrow> bool" where
  "writes_status st e = (case e of Kube (StatusUpdate a r) \<Rightarrow> app_status a = st | _ \<Rightarrow> True)"

lemma retryStatusUpdate_intent:
  assumes "retry_contract (e_lib env)"
  shows "emits_as (\<lambda>a. writes_status (app_status a)) (retryStatusUpdate env)"
proof -
  have "emits (writes_status st) (bindIO (modifyApp (\<lambda>a. a\<lparr>app_status := st\<rparr>)) (\<lambda>_. handleIO (kube_status_update env)
      (\<lambda>err. if \<not> kube_conflict err then fail err
       else bindIO getApp (\<lambda>a. bindIO (kube_get_application env (app_namespace a) (app_name a)) (\<lambda>fresh.
          bindIO (putApp fresh) (\<lambda>_. fail err)))) ret))" for st
    by (auto simp: emits_def kube_status_update_def kube_get_application_def io_simps Let_def writes_status_def
        split: sum.splits)
  then show ?thesis
    unfolding retryStatusUpdate_def Let_def
    by (intro emits_as_getApp emits_retry assms)
qed



end
