(* ===== verification/Storage_Properties.thy ===== *)
theory Storage_Properties
  imports Storage_Reconcile Status_Properties Finalizer_Properties
begin

text \<open>
  Properties of \<open>internal/controller/storage.go\<close>: what a reconcile writes into
  \<open>status.storage\<close>, the stable ownership ID, and what the record of a creation leaves out.
\<close>

section \<open>Steps with a known result\<close>

lemma spec_storage_run: "app_storage (w_app w) = Some s \<Longrightarrow> spec_storage w = (Inr s, w)"
  by (simp add: spec_storage_def bindIO_step [of getApp _ "w_app w" w] getApp_def ret_def)

section \<open>The creation time\<close>

lemma SetReady_run:
  "SetReady env st m w = (r, w') \<Longrightarrow> r = Inr () \<and> w_trace w' = w_trace w \<and> app_status_storage (w_app w') = Some st \<and>
     app_spec (w_app w') = app_spec (w_app w) \<and> app_meta (w_app w') = app_meta (w_app w)"
  by (auto simp: SetReady_def set_storage_condition_def setStatusCondition_def io_simps set_conditions_def
      set_status_storage_def split: prod.splits)

definition keeps_created_at :: "gotime \<Rightarrow> event \<Rightarrow> bool" where
  "keeps_created_at t e =
     (case e of
        Kube (StatusUpdate a r) \<Rightarrow>
          (case app_status_storage a of None \<Rightarrow> False | Some st \<Rightarrow> st_created st \<and> st_created_at st = t)
      | _ \<Rightarrow> True)"

lemma carried_Some:
  "app_status_storage app = Some st \<Longrightarrow> st_created_at st \<noteq> 0 \<Longrightarrow> carried_created_at t app = st_created_at st"
  by (simp add: carried_created_at_def)

text \<open>
  C18: the creation time of a bucket is recorded once. When the status has a creation time, every
  status that the end of a storage reconcile sends to the API server, for either provider,
  with whatever conflicts and repeated attempts, carries that same time, so the window in
  which an unmarked bucket may be claimed as newly created is not extended by later reconciles.
\<close>

theorem created_at_kept:
  assumes "retry_contract (e_lib env)"
    and "app_status_storage (w_app w) = Some st" and "st_created_at st \<noteq> 0"
    and "status = aws_provisioned x \<or> status = akamai_provisioned x"
    and "storage_settled env provider status message w = (r, w')"
  shows "list_all (keeps_created_at (st_created_at st)) (new_events w w')"
proof (cases "app_storage (w_app w)")
  case None
  with assms(5) have "w' = w"
    by (auto simp: storage_settled_def spec_storage_def io_simps)
  then show ?thesis by (simp add: new_events_def)
next
  case (Some s)
  let ?t = "now (e_lib env) (w_trace w)"
  let ?st = "status s (carried_created_at ?t (w_app w))"
  have st: "st_created ?st" "st_created_at ?st = st_created_at st"
    using assms(2-4) by (auto simp: carried_Some aws_provisioned_def akamai_provisioned_def provisioned_status_def)
  obtain w1 where ready: "SetReady env ?st message w = (Inr (), w1)" "w_trace w1 = w_trace w"
      "app_status_storage (w_app w1) = Some ?st"
    using SetReady_run [of env ?st message w] by (metis prod.collapse)
  let ?rest = "bindIO (wrapIO ''failed to update storage status: '' (retryStatusUpdate env)) (\<lambda>_.
     bindIO (emit (Metric (StorageReconcileTotal provider outcomeReady))) (\<lambda>_. storage_ready_gauge provider 1))"
  have run: "?rest w1 = (r, w')"
    using assms(5) unfolding storage_settled_def
    by (simp add: bindIO_step [of "askEnv _" w ?t w] bindIO_step [of getApp w "w_app w" w] askEnv_def getApp_def
        bindIO_step [of spec_storage w s w] spec_storage_run [OF Some]
        bindIO_step [of "SetReady env ?st message" w "()" w1] ready(1))
  have "emits_as (\<lambda>a e. writes_status (app_status a) e) ?rest"
  proof -
    have quiet: "emits (writes_status s0) (bindIO (emit (Metric (StorageReconcileTotal provider outcomeReady)))
        (\<lambda>_. storage_ready_gauge provider 1))" for s0
      unfolding storage_ready_gauge_def by (intro emits_intros) (simp_all add: writes_status_def)
    show ?thesis
      unfolding emits_as_def
    proof
      fix v :: world
      obtain x v1 where up: "retryStatusUpdate env v = (x, v1)" by fastforce
      have any: "emits (\<lambda>_. True) (retryStatusUpdate env)" using assms(1) by (intro emits_intros) simp_all
      note up_tr = emits_trace [OF any up] emits_as_run [OF retryStatusUpdate_intent [OF assms(1)] up]
      show "\<exists>es. w_trace (snd (?rest v)) = w_trace v @ es \<and> list_all (writes_status (app_status (w_app v))) es"
      proof (cases x)
        case (Inl e)
        with up have "snd (?rest v) = v1" by (simp add: bindIO_def handleIO_def wrapIO_def fail_def)
        with up_tr show ?thesis by blast
      next
        case (Inr u)
        with up have "?rest v = bindIO (emit (Metric (StorageReconcileTotal provider outcomeReady)))
            (\<lambda>_. storage_ready_gauge provider 1) v1"
          by (simp add: bindIO_step [of "wrapIO _ (retryStatusUpdate env)" v "()" v1] wrapIO_Inr_iff)
        moreover obtain es where "w_trace (snd (bindIO (emit (Metric (StorageReconcileTotal provider outcomeReady)))
            (\<lambda>_. storage_ready_gauge provider 1) v1)) = w_trace v1 @ es" "list_all (writes_status (app_status (w_app v))) es"
          using quiet unfolding emits_def by blast
        ultimately show ?thesis
          using up_tr by (intro exI [of _ "new_events v v1 @ es"]) simp
      qed
    qed
  qed
  from emits_as_run [OF this run] have "list_all (writes_status (app_status (w_app w1))) (new_events w1 w')" .
  moreover have "new_events w w' = new_events w1 w'" using ready(2) by (simp add: new_events_def)
  moreover have "writes_status (app_status (w_app w1)) e \<Longrightarrow> keeps_created_at (st_created_at st) e" for e
    using ready(3) st by (auto simp: writes_status_def keeps_created_at_def split: event.splits kube_event.splits)
  ultimately show ?thesis by (auto intro: list.pred_mono_strong)
qed

definition created_world :: world where
  "created_world = sample_world\<lparr>w_app := set_status_storage (Some (interim_status ProviderAWSS3 ''bkt'' 5)) sample_app\<rparr>"

theorem created_at_kept_witness:
  "list_all (keeps_created_at 5)
     (new_events created_world (snd (storage_settled sample_env ProviderAWSS3 (aws_provisioned []) ''ok'' created_world)))"
proof -
  obtain r w' where run: "storage_settled sample_env ProviderAWSS3 (aws_provisioned []) ''ok'' created_world = (r, w')"
    by fastforce
  have lib: "retry_contract (e_lib sample_env)" by (simp add: sample_retry_contract)
  have st: "app_status_storage (w_app created_world) = Some (interim_status ProviderAWSS3 ''bkt'' 5)"
    by (simp add: created_world_def)
  from created_at_kept [OF lib st _ _ run] run show ?thesis by (auto simp: interim_status_def)
qed

lemma retry_first_success:
  assumes "retry_contract lib" and "f w = (Inr (), w')"
  shows "retry_on_conflict lib f w = (Inr (), w')"
proof -
  obtain n where "retry_on_conflict lib f w = run_retries n f w"
    using assms(1) unfolding retry_contract_def by blast
  with assms(2) show ?thesis by (cases n) (simp_all add: handleIO_def ret_def)
qed

text \<open>An API server that accepts a status write and returns the object as it was sent.\<close>

definition accepts_status :: "env \<Rightarrow> bool" where
  "accepts_status env \<longleftrightarrow> (\<forall>h a. update_application_status (e_kube env) h a = Inr a)"

lemma retryStatusUpdate_accepted:
  assumes "retry_contract (e_lib env)" and "accepts_status env"
  shows "retryStatusUpdate env w = (Inr (), w\<lparr>w_trace := w_trace w @ [Kube (StatusUpdate (w_app w) (Inr (w_app w)))]\<rparr>)"
  unfolding retryStatusUpdate_def Let_def
  by (simp add: bindIO_step [of getApp w "w_app w" w] getApp_def)
     (rule retry_first_success [OF assms(1)], use assms(2) in \<open>simp add: accepts_status_def kube_status_update_def io_simps Let_def\<close>)

section \<open>The stable ownership ID\<close>

text \<open>
  C19: the ownership ID is generated once. After \<open>ensureStorageOwnershipID\<close> returned, the
  in-memory Application carries an ID: the one it had, with no call made, or else the generated
  one, which was sent to the API server and accepted before it was used; and running it again
  changes nothing, makes no call and keeps that ID.
\<close>

theorem ownership_id_generated_once:
  assumes "\<And>h. uuid (e_lib env) h \<noteq> []" and "ensureStorageOwnershipID env w = (Inr (), w')"
  shows "ensureStorageOwnershipID env w' = (Inr (), w') \<and> ownership_id (w_app w') \<noteq> [] \<and>
    (w' = w \<or> ownership_id (w_app w) = [] \<and> ownership_id (w_app w') = uuid (e_lib env) (w_trace w) \<and>
       new_events w w' = [Kube (ApplyOwnershipID (app_namespace (w_app w)) (app_name (w_app w))
         (uuid (e_lib env) (w_trace w)) (Inr ()))])"
proof (cases "ownership_id (w_app w) = []")
  case False
  with assms(2) show ?thesis by (auto simp: ensureStorageOwnershipID_def io_simps)
next
  case True
  let ?id = "uuid (e_lib env) (w_trace w)"
  let ?r = "apply_ownership_id (e_kube env) (w_trace w) (app_namespace (w_app w)) (app_name (w_app w)) ?id"
  from assms(2) True have ok: "?r = Inr ()"
    and w': "w' = w\<lparr>w_trace := w_trace w @ [Kube (ApplyOwnershipID (app_namespace (w_app w)) (app_name (w_app w)) ?id (Inr ()))],
      w_app := set_annotation StorageOwnershipIDAnnotation ?id (w_app w)\<rparr>"
    by (auto simp: ensureStorageOwnershipID_def io_simps Let_def split: sum.splits)
  have id: "ownership_id (w_app w') = ?id" by (simp add: w' set_annotation_def)
  moreover have "ensureStorageOwnershipID env w' = (Inr (), w')"
    using id assms(1) by (simp add: ensureStorageOwnershipID_def io_simps)
  moreover have "new_events w w' = [Kube (ApplyOwnershipID (app_namespace (w_app w)) (app_name (w_app w)) ?id (Inr ()))]"
    by (simp add: w' new_events_def)
  ultimately show ?thesis using True assms(1) by simp
qed

theorem ownership_id_generated_once_witness:
  "\<exists>w'. ensureStorageOwnershipID sample_env sample_world = (Inr (), w') \<and> ensureStorageOwnershipID sample_env w' = (Inr (), w')"
proof -
  let ?w' = "snd (ensureStorageOwnershipID sample_env sample_world)"
  have "ensureStorageOwnershipID sample_env sample_world = (Inr (), ?w')"
    by (simp add: ensureStorageOwnershipID_def io_simps Let_def sample_env_def sample_kube_def)
  from ownership_id_generated_once [OF _ this] this show ?thesis
    by (intro exI [of _ ?w']) (simp add: sample_lib_def)
qed

section \<open>The record of a creation\<close>

text \<open>
  C36: a bucket that was just created is deleted by the next reconcile, also under \<open>Retain\<close>. The
  status that records a creation has the bucket, but neither region nor deletion policy. If
  nothing better is written before the next pass (the rest of this one failed), a spec with a
  region does not match it: that pass takes the bucket for a replaced one and cleans it up, and
  the empty policy sends the cleanup to the deletion of the same bucket although the policy of
  the spec is \<open>Retain\<close>.
\<close>

theorem creation_record_loses_policy:
  assumes "retry_contract (e_lib env)" and "accepts_status env"
    and "app_storage (w_app w) = Some s" and "ss_provider s = ProviderAWSS3"
    and "ss_region s \<noteq> []" and "ss_deletion_policy s = DeletionPolicyRetain"
    and "record_created env ProviderAWSS3 w = (r, w1)" and "w_app w2 = w_app w1"
  shows "\<exists>old. app_status_storage (w_app w1) = Some old \<and>
    cleanup_replaced_storage env rc s w2 = cleanupPreviousStorage env rc old w2 \<and>
    ss_bucket (storageSpecFromStatus old) = ss_bucket s \<and>
    finalize_storage env rc app (storageSpecFromStatus old) =
      aws_cleanup env rc (set_spec_storage (Some (storageSpecFromStatus old)) app)"
proof -
  let ?t = "now (e_lib env) (w_trace w)"
  let ?old = "interim_status ProviderAWSS3 (ss_bucket s) ?t"
  let ?w = "w\<lparr>w_app := set_status_storage (Some ?old) (w_app w)\<rparr>"
  have "record_created env ProviderAWSS3 w = retryStatusUpdate env ?w"
    unfolding record_created_def
    by (simp add: bindIO_step [of spec_storage w s w] spec_storage_run [OF assms(3)]
        bindIO_step [of "askEnv _" w ?t w] askEnv_def bindIO_step [of "modifyApp _" w "()" ?w] modifyApp_def)
  with assms(7) retryStatusUpdate_accepted [OF assms(1,2), of ?w]
  have app: "w_app w1 = set_status_storage (Some ?old) (w_app w)" by auto
  have "identity_changed ?old s" using assms(5) by (simp add: identity_changed_def interim_status_def)
  then have "cleanup_replaced_storage env rc s w2 = cleanupPreviousStorage env rc ?old w2"
    using app assms(8) by (simp add: cleanup_replaced_storage_def bindIO_step [of getApp w2 "w_app w2" w2] getApp_def)
  moreover have "finalize_storage env rc app (storageSpecFromStatus ?old) =
      aws_cleanup env rc (set_spec_storage (Some (storageSpecFromStatus ?old)) app)"
    by (simp add: finalize_storage_def storageSpecFromStatus_def interim_status_def DeletionPolicyRetain_def Let_def)
  ultimately show ?thesis
    using app by (intro exI [of _ ?old]) (simp add: storageSpecFromStatus_def interim_status_def)
qed

definition recording_world :: world where
  "recording_world = sample_world\<lparr>w_app := set_spec_storage
     (Some (sample_storage\<lparr>ss_region := ''eu-west-1'', ss_deletion_policy := DeletionPolicyRetain\<rparr>)) sample_app\<rparr>"

theorem creation_record_loses_policy_witness:
  "\<exists>old. app_status_storage (w_app (snd (record_created sample_env ProviderAWSS3 recording_world))) = Some old \<and>
     ss_deletion_policy (storageSpecFromStatus old) \<noteq> DeletionPolicyRetain"
proof -
  let ?s = "sample_storage\<lparr>ss_region := ''eu-west-1'', ss_deletion_policy := DeletionPolicyRetain\<rparr>"
  obtain r w1 where run: "record_created sample_env ProviderAWSS3 recording_world = (r, w1)" by fastforce
  have lib: "retry_contract (e_lib sample_env)" by (simp add: sample_retry_contract)
  have accepts: "accepts_status sample_env" by (simp add: accepts_status_def sample_env_def sample_kube_def)
  have storage: "app_storage (w_app recording_world) = Some ?s" by (simp add: recording_world_def)
  obtain old where old: "app_status_storage (w_app w1) = Some old"
      "finalize_storage sample_env sample_reconciler sample_app (storageSpecFromStatus old) =
        aws_cleanup sample_env sample_reconciler (set_spec_storage (Some (storageSpecFromStatus old)) sample_app)"
    using creation_record_loses_policy [OF lib accepts storage _ _ _ run, where app = sample_app and rc = sample_reconciler]
    by (auto simp: sample_storage_def)
  have "app_status_storage (w_app w1) = Some (interim_status ProviderAWSS3 ''bkt'' sample_now)"
    using run by (auto simp: record_created_def bindIO_step [of spec_storage _ ?s] spec_storage_run [OF storage]
        bindIO_step [of "askEnv _"] askEnv_def bindIO_step [of "modifyApp _" _ "()"] modifyApp_def
        retryStatusUpdate_accepted [OF lib accepts] sample_lib_def sample_storage_def)
  with run show ?thesis by (simp add: storageSpecFromStatus_def interim_status_def DeletionPolicyRetain_def)
qed

end
