(* ===== verification/Controller.thy ===== *)
theory Controller
  imports Storage_Reconcile Children Deployment
begin

text \<open>
  \<open>desiredstate.go\<close> and \<open>application_controller.go\<close>: one pass of the controller over one
  Application. \<open>Reconcile\<close> starts from whatever in-memory object the world holds (the Go code
  allocates an empty one) and reads the Application into it. Logging and spans are left out.
\<close>

definition ensureDesiredState :: "env \<Rightarrow> reconciler \<Rightarrow> unit io" where
  "ensureDesiredState env r =
     bindIO (reconcileServiceAccount env) (\<lambda>_.
     bindIO (reconcileConfigMap env) (\<lambda>_.
     bindIO (reconcileStorage env r) (\<lambda>_.
     bindIO (reconcileService env) (\<lambda>_.
     bindIO (reconcileDeployment env) (\<lambda>_.
     bindIO (reconcileIngress env) (\<lambda>_.
     bindIO (reconcilePDB env) (\<lambda>_.
     reconcileHPA env)))))))"

section \<open>Intervals\<close>

definition readinessRequeueInterval :: duration where
  "readinessRequeueInterval = 10 * second"

definition defaultMaxConcurrentReconciles :: int where
  "defaultMaxConcurrentReconciles = 5"

definition resolveMaxConcurrentReconciles :: "int \<Rightarrow> int" where
  "resolveMaxConcurrentReconciles configured =
     (if configured \<le> 0 then defaultMaxConcurrentReconciles else configured)"

definition defaultStorageResyncInterval :: duration where
  "defaultStorageResyncInterval = 10 * minute"

definition resolveStorageResyncInterval :: "duration \<Rightarrow> duration" where
  "resolveStorageResyncInterval configured =
     (if configured \<le> 0 then defaultStorageResyncInterval else configured)"

definition jitteredStorageResyncInterval :: "env \<Rightarrow> duration \<Rightarrow> duration io" where
  "jitteredStorageResyncInterval env configured =
     askEnv (\<lambda>h. jitter (e_lib env) h (resolveStorageResyncInterval configured))"

section \<open>One pass\<close>

text \<open>\<open>ctrl.Result\<close>: when to look again; 0 is not at all until the next event.\<close>

type_synonym requeue_after = duration

definition application_ready_gauge :: "int \<Rightarrow> unit io" where
  "application_ready_gauge v =
     bindIO getApp (\<lambda>app. emit (Metric (ApplicationReadySet (app_namespace app) (app_name app) v)))"

text \<open>Both failure branches of \<open>Reconcile\<close>; a panic unwinds past them.\<close>

definition reconcile_failed :: "env \<Rightarrow> string \<Rightarrow> gerror \<Rightarrow> requeue_after io" where
  "reconcile_failed env reason err =
     (if is_panic err then fail err
      else bindIO (SetFailed env reason err) (\<lambda>_.
           bindIO (application_ready_gauge 0) (\<lambda>_. fail err)))"

definition reconcile_settled :: "env \<Rightarrow> reconciler \<Rightarrow> string \<Rightarrow> requeue_after io" where
  "reconcile_settled env r reason =
     bindIO (SetAppReady env reason) (\<lambda>_.
     bindIO (application_ready_gauge 1) (\<lambda>_.
     bindIO getApp (\<lambda>app.
     if app_storage app \<noteq> None then jitteredStorageResyncInterval env (r_storage_resync_interval r)
     else ret 0)))"

definition reconcile_present :: "env \<Rightarrow> reconciler \<Rightarrow> requeue_after io" where
  "reconcile_present env r =
     handleIO (ensureDesiredState env r) (\<lambda>err. reconcile_failed env (reconcileFailureReason err) err) (\<lambda>_.
     handleIO (EvaluateComputeReadiness env) (reconcile_failed env ReasonFailed) (\<lambda>(ready, reason).
       if \<not> ready then
         bindIO (SetReconciling env reason) (\<lambda>_.
         bindIO (application_ready_gauge 0) (\<lambda>_. ret readinessRequeueInterval))
       else reconcile_settled env r reason))"

definition Reconcile :: "env \<Rightarrow> reconciler \<Rightarrow> string \<Rightarrow> string \<Rightarrow> requeue_after io" where
  "Reconcile env r ns name =
     handleIO (kube_get_application env ns name)
       (\<lambda>err. if kube_not_found err then ret 0 else fail err)
       (\<lambda>app.
          bindIO (putApp app) (\<lambda>_.
          bindIO (SetReconciling env ''Reconciling Application resources'') (\<lambda>_.
          bindIO (handleFinalizer env r) (\<lambda>isDeleting.
          if isDeleting then ret 0 else reconcile_present env r))))"

end
