(* ===== verification/Controller_Properties.thy ===== *)
theory Controller_Properties
  imports Controller Storage_Properties
begin

text \<open>
  A property of one whole pass of the controller: no bucket is written before the server holds
  the finalizer. Two calculi carry it: \<open>learns\<close> for the status writes before the finalizer,
  whose answers replace the in-memory object, and \<open>appends\<close> for every later step.
\<close>

section \<open>What the server showed of the finalizer\<close>

text \<open>
  An answer of the API server after which the stored Application carries the finalizer: an
  object that it returned with it, or an update with it that it accepted.
\<close>

definition shows_finalizer :: "event \<Rightarrow> bool" where
  "shows_finalizer e =
     (case e of
        Kube (GetApplication ns n (Inr a)) \<Rightarrow> has_finalizer a
      | Kube (ApiReaderGetApplication ns n (Inr a)) \<Rightarrow> has_finalizer a
      | Kube (StatusUpdate b (Inr a)) \<Rightarrow> has_finalizer a
      | Kube (Update b (Inr a)) \<Rightarrow> has_finalizer b
      | _ \<Rightarrow> False)"

text \<open>
  A computation that writes no bucket, and after which the in-memory object has the finalizer
  only if it had it before or the server showed it.
\<close>

definition learns :: "'a io \<Rightarrow> bool" where
  "learns m \<longleftrightarrow>
     (\<forall>w. \<exists>es. w_trace (snd (m w)) = w_trace w @ es \<and> list_all (\<lambda>e. \<not> bucket_write e) es \<and>
        (\<not> has_finalizer (w_app (snd (m w))) \<or> has_finalizer (w_app w) \<or> list_ex shows_finalizer es))"

lemma learns_handle:
  assumes "learns m" and "\<And>e. learns (h e)" and "\<And>x. learns (k x)"
  shows "learns (handleIO m h k)"
  unfolding learns_def
proof
  fix w :: world
  obtain r w1 where m: "m w = (r, w1)" by fastforce
  with assms(1) obtain es where es: "w_trace w1 = w_trace w @ es" "list_all (\<lambda>e. \<not> bucket_write e) es"
      "\<not> has_finalizer (w_app w1) \<or> has_finalizer (w_app w) \<or> list_ex shows_finalizer es"
    unfolding learns_def by (metis snd_conv)
  have "\<exists>es'. w_trace (snd (handleIO m h k w)) = w_trace w1 @ es' \<and> list_all (\<lambda>e. \<not> bucket_write e) es' \<and>
      (\<not> has_finalizer (w_app (snd (handleIO m h k w))) \<or> has_finalizer (w_app w1) \<or> list_ex shows_finalizer es')"
    using assms(2,3) m unfolding learns_def by (cases r) (simp_all add: handleIO_def)
  then obtain es' where "w_trace (snd (handleIO m h k w)) = w_trace w1 @ es'" "list_all (\<lambda>e. \<not> bucket_write e) es'"
      "\<not> has_finalizer (w_app (snd (handleIO m h k w))) \<or> has_finalizer (w_app w1) \<or> list_ex shows_finalizer es'"
    by blast
  with es show "\<exists>es. w_trace (snd (handleIO m h k w)) = w_trace w @ es \<and> list_all (\<lambda>e. \<not> bucket_write e) es \<and>
      (\<not> has_finalizer (w_app (snd (handleIO m h k w))) \<or> has_finalizer (w_app w) \<or> list_ex shows_finalizer es)"
    by (intro exI [of _ "es @ es'"]) auto
qed

lemma learns_quiet:
  "learns (ret x)" "learns (fail e)" "learns getApp" "learns (askEnv f)"
  "(\<And>a. has_finalizer (g a) = has_finalizer a) \<Longrightarrow> learns (modifyApp g)"
  by (simp_all add: learns_def io_simps)

lemma learns_bind: "learns m \<Longrightarrow> (\<And>x. learns (k x)) \<Longrightarrow> learns (bindIO m k)"
  unfolding bindIO_def by (intro learns_handle learns_quiet)

lemma learns_if: "(b \<Longrightarrow> learns m) \<Longrightarrow> (\<not> b \<Longrightarrow> learns n) \<Longrightarrow> learns (if b then m else n)"
  by simp

text \<open>A call whose answer replaces the in-memory object.\<close>

lemma learns_fetch:
  assumes "\<And>a. has_finalizer (g a) \<Longrightarrow> shows_finalizer (ev (Inr a))" and "\<And>r. \<not> bucket_write (ev r)"
    and "\<And>x. learns (k x)"
  shows "learns (bindIO (call f ev) (\<lambda>a. bindIO (putApp (g a)) k))"
proof -
  have "learns (bindIO (call f ev) (\<lambda>a. putApp (g a)))"
    using assms(1,2) by (auto simp: learns_def io_simps Let_def split: sum.splits)
  from learns_bind [OF this assms(3)] show ?thesis by (simp add: bindIO_assoc)
qed

lemma learns_retry:
  assumes "retry_contract lib" and "learns f"
  shows "learns (retry_on_conflict lib f)"
proof -
  have "learns (run_retries n f)" for n
    by (induction n) (auto intro!: learns_handle learns_quiet assms(2))
  then show ?thesis
    using assms(1) unfolding learns_def retry_contract_def by metis
qed

lemma has_finalizer_status [simp]:
  "has_finalizer (a\<lparr>app_status := s\<rparr>) = has_finalizer a"
  "has_finalizer (set_conditions cs a) = has_finalizer a"
  "has_finalizer (set_conditions_and_generation cs g a) = has_finalizer a"
  by (simp_all add: has_finalizer_def set_conditions_def set_conditions_and_generation_def)

lemma learns_status_update:
  "learns (handleIO (kube_status_update env) h ret)" if "\<And>e. learns (h e)"
proof -
  have "learns (kube_status_update env)"
    by (auto simp: learns_def kube_status_update_def io_simps Let_def shows_finalizer_def split: sum.splits)
  then show ?thesis by (intro learns_handle that learns_quiet)
qed

lemma learns_UpdateStatus:
  assumes "retry_contract (e_lib env)"
  shows "learns (UpdateStatus env)"
proof -
  have refetch: "learns (bindIO (kube_api_get_application env ns n) (\<lambda>fresh.
      bindIO (putApp (set_conditions_and_generation cs g fresh)) (\<lambda>_. fail err)))" for ns n cs g err
    unfolding kube_api_get_application_def
    by (rule learns_fetch) (simp_all add: shows_finalizer_def learns_quiet)
  show ?thesis
    unfolding UpdateStatus_def Let_def
    by (rule learns_bind, rule learns_quiet, simp, rule learns_bind, rule learns_quiet,
        rule learns_retry, rule assms, rule learns_status_update, rule learns_if,
        rule learns_quiet, rule learns_bind, rule learns_quiet, rule refetch)
qed

lemma learns_SetReconciling:
  assumes "retry_contract (e_lib env)"
  shows "learns (SetReconciling env message)"
proof -
  have "learns (setStatusCondition env c)" for c
    by (simp add: learns_def setStatusCondition_def split: prod.splits)
  then show ?thesis
    unfolding SetReconciling_def by (intro learns_bind learns_quiet learns_if learns_UpdateStatus assms)
qed

section \<open>Every step of a pass only appends to the history\<close>

abbreviation appends :: "'a io \<Rightarrow> bool" where
  "appends m \<equiv> emits (\<lambda>_. True) m"

lemma child_appends:
  "appends (reconcileServiceAccount env)" "appends (reconcileConfigMap env)" "appends (reconcileService env)"
  "appends (reconcileDeployment env)" "appends (reconcileIngress env)" "appends (reconcilePDB env)"
  "appends (reconcileHPA env)" "appends (reconcileStorageSecret env creds)"
  using service_account_child.no_bucket_write config_map_child.no_bucket_write service_child.no_bucket_write
    deployment_child.no_bucket_write ingress_child.no_bucket_write pdb_child.no_bucket_write
    hpa_child.no_bucket_write storage_secret_child.no_bucket_write
  by (blast intro: emits_mono)+

text \<open>
  What the storage part of a pass does before it applies the storage Secret: no owned object is
  applied but the annotated ServiceAccount, none is listed or deleted, and no readiness is looked at.
\<close>

definition storage_event :: "event \<Rightarrow> bool" where
  "storage_event e \<longleftrightarrow>
     (case e of
        Kube (Apply c r) \<Rightarrow> child_kind (child_body c) = ServiceAccountKind
      | Kube (Delete k ns n r) \<Rightarrow> False
      | Kube (ListChildren k ns ls r) \<Rightarrow> False
      | View v \<Rightarrow> False
      | _ \<Rightarrow> True)"

lemma storage_events [simp]:
  "storage_event (S3 s)" "storage_event (Iam i)" "storage_event (Linode l)" "storage_event (Metric m)"
  "storage_event (Recorder t n msg)" "storage_event (Kube (GetApplication ns n ra))"
  "storage_event (Kube (ApiReaderGetApplication ns n ra))" "storage_event (Kube (ListApplications sel rl))"
  "storage_event (Kube (Update a ra))" "storage_event (Kube (StatusUpdate a ra))"
  "storage_event (Kube (ApplyOwnershipID ns n i' ru))" "storage_event (Kube (GetSecret ns n rs))"
  "storage_event (Kube (GetNamespace n rs))"
  by (simp_all add: storage_event_def)

lemma storage_event_setup [simp]:
  "is_bookkeeping e \<Longrightarrow> storage_event e" "is_cloud_io e \<Longrightarrow> storage_event e"
  "is_manager_setup e \<Longrightarrow> storage_event e" "is_kube_read e \<Longrightarrow> storage_event e"
  by (auto simp: storage_event_def is_bookkeeping_def is_status_io_def is_cloud_io_def is_manager_setup_def
      is_kube_read_def split: event.splits kube_event.splits)

lemma s3_ReconcileBucket_calls:
  assumes "\<And>cb. m_record_created m = Some cb \<Longrightarrow> emits storage_event cb"
  shows "emits storage_event (s3_ReconcileBucket env m)"
proof -
  have tag: "emits storage_event (tagAsOwned env m ts)" for ts
    unfolding tagAsOwned_def s3_put_bucket_tagging_def by (intro emits_intros storage_events)
  have claim: "emits storage_event (claimOrVerifyOwnership env m)"
    unfolding claimOrVerifyOwnership_def claimUntagged_def s3_get_bucket_tagging_def record_adopted_def
      record_reclaimed_def ask_previously_created_def
    by (intro emits_intros tag) (auto intro!: emits_intros tag simp: emits_def)
  have made: "emits storage_event (recordBucketCreated env m)"
    unfolding recordBucketCreated_def by (intro emits_intros assms)
  show ?thesis
    unfolding s3_ReconcileBucket_def ensureBucketExists_def create_and_claim_def s3_CreateBucket_def
      ensureVersioning_def ensureLifecyclePolicy_def ReconcileAppIRSA_def s3_call_defs Let_def
    by (intro emits_intros tag claim made storage_events)
qed

lemma ak_ReconcileBucket_calls:
  assumes "\<And>cb. k_record_created m = Some cb \<Longrightarrow> emits storage_event cb"
  shows "emits storage_event (ak_ReconcileBucket env m)"
proof -
  have own: "emits storage_event (ak_claimOwnership env m)"
    unfolding ak_claimOwnership_def object_put_def by (intro emits_intros storage_events)
  have claim: "emits storage_event (ak_claimOrVerifyOwnership env m)"
    unfolding ak_claim_is_protocol claim_protocol_def marker_read_def object_get_def execute_decision_def
    by (intro emits_intros ak_ask_created_quiet own storage_events) (auto intro!: emits_intros own split: decision.splits)
  show ?thesis
    unfolding ak_ReconcileBucket_def ak_ensureBucketExists_def ak_recordBucketCreated_def linode_get_bucket_def
      linode_create_bucket_def
    by (intro emits_intros claim assms ensureAccessKey_emits deleteApplicationAccessKey_emits storage_events)
       (auto intro!: emits_intros claim deleteApplicationAccessKey_emits)
qed

lemma status_appends:
  assumes "retry_contract (e_lib env)"
  shows "appends (retryStatusUpdate env)" "appends (UpdateStatus env)" "appends (SetReconciling env msg)"
    "appends (SetAppReady env msg)" "appends (SetFailed env reason err)"
  unfolding SetReconciling_def SetAppReady_def SetFailed_def
  by (intro emits_intros assms TrueI)+

lemma status_calls:
  assumes "retry_contract (e_lib env)"
  shows "emits storage_event (retryStatusUpdate env)"
  by (intro emits_intros assms; simp)

lemma storage_steps_calls:
  assumes "retry_contract (e_lib env)"
  shows "emits storage_event (record_created env provider)" "emits storage_event (manager_failed env provider classify msg err)"
    "emits storage_event (bucket_failed env provider classify msg err)" "emits storage_event (storage_settled env provider status msg)"
proof -
  have spec: "emits storage_event spec_storage" unfolding spec_storage_def by (intro emits_intros)
  have gauge: "emits storage_event (storage_ready_gauge p v)" for p v
    unfolding storage_ready_gauge_def by (intro emits_intros storage_events)
  have log: "emits storage_event (log_status_update env)"
    unfolding log_status_update_def by (intro emits_intros status_calls assms)
  show "emits storage_event (record_created env provider)"
    unfolding record_created_def by (intro emits_intros spec status_calls assms)
  show "emits storage_event (manager_failed env provider classify msg err)"
    unfolding manager_failed_def storage_failed_def by (intro emits_intros log gauge storage_events)
  show "emits storage_event (bucket_failed env provider classify msg err)"
    unfolding bucket_failed_def storage_failed_def Let_def by (intro emits_intros log gauge storage_events)
  show "emits storage_event (storage_settled env provider status msg)"
    unfolding storage_settled_def by (intro emits_intros spec gauge status_calls assms storage_events)
qed

lemma NewManager_callback:
  "NewS3Manager env sa a u b cb w = (Inr m, w') \<Longrightarrow> m_record_created m = cb"
  "NewAkamaiManager env rg cb w = (Inr k, w') \<Longrightarrow> k_record_created k = cb"
  using NewS3Manager_bucket [of env sa a u b cb w m w'] NewAkamaiManager_bucket [of env rg cb w k w'] by auto

lemma annotate_calls: "emits storage_event (annotateServiceAccountWithIRSA env arn)"
  unfolding annotateServiceAccountWithIRSA_def apply_owned_def kube_apply_def Let_def
  by (intro emits_intros)
     (auto simp: storage_event_def desiredServiceAccount_def intro!: emits_intros split: sum.splits)

lemma aws_storage_calls:
  assumes "retry_contract (e_lib env)"
  shows "emits storage_event (reconcileAWSStorage env r)"
  unfolding reconcileAWSStorage_def
proof (rule emits_deferIO [OF _ emits_handleIO_run])
  show "emits storage_event (emit (Metric (StorageReconcileDuration ProviderAWSS3)))" by (intro emits_intros storage_events)
  show "emits storage_event (provisioning_s3_manager env r)"
    unfolding provisioning_s3_manager_def newS3StorageManager_def by (intro emits_intros emits_mono [OF NewS3Manager_emits] storage_event_setup)
  show "emits storage_event (manager_failed env ProviderAWSS3 classifyAWSStorageError ''failed to create S3 storage manager: '' e)" for e
    by (intro storage_steps_calls assms)
next
  fix w m w'
  assume "provisioning_s3_manager env r w = (Inr m, w')"
  then have cb: "m_record_created m = Some (record_created env ProviderAWSS3)"
    using NewManager_callback(1) by (auto simp: provisioning_s3_manager_def newS3StorageManager_def bindIO_step [of getApp w "w_app w" w] getApp_def)
  show "emits storage_event (handleIO (s3_ReconcileBucket env m)
      (bucket_failed env ProviderAWSS3 classifyAWSStorageError ''failed to reconcile S3 bucket: '')
      (\<lambda>roleArn. bindIO (if roleArn \<noteq> [] then annotateServiceAccountWithIRSA env roleArn else ret ()) (\<lambda>_.
         storage_settled env ProviderAWSS3 (aws_provisioned roleArn) ''S3 bucket and IRSA role provisioned'')))"
    by (intro emits_intros s3_ReconcileBucket_calls storage_steps_calls assms annotate_calls)
       (auto simp: cb intro: storage_steps_calls assms)
qed

lemma akamai_storage_calls:
  assumes "retry_contract (e_lib env)"
  shows "emits storage_event (reconcileAkamaiStorage env r)"
  unfolding reconcileAkamaiStorage_def
proof (rule emits_deferIO [OF _ emits_handleIO_run])
  show "emits storage_event (emit (Metric (StorageReconcileDuration ProviderAkamaiObjectStorage)))" by (intro emits_intros storage_events)
  show "emits storage_event (provisioning_akamai_manager env r)"
    unfolding provisioning_akamai_manager_def newAkamaiStorageManager_def by (intro emits_mono [OF NewAkamaiManager_emits] storage_event_setup)
  show "emits storage_event (manager_failed env ProviderAkamaiObjectStorage classifyAkamaiStorageError
      ''failed to create Akamai storage manager: '' e)" for e
    by (intro storage_steps_calls assms)
next
  fix w m w'
  assume "provisioning_akamai_manager env r w = (Inr m, w')"
  then have cb: "k_record_created m = Some (record_created env ProviderAkamaiObjectStorage)"
    unfolding provisioning_akamai_manager_def newAkamaiStorageManager_def by (rule NewManager_callback(2))
  have recall: "emits storage_event (recall_secret_key env first)" for first
    unfolding recall_secret_key_def kube_get_secret_def by (intro emits_intros storage_events)
  show "emits storage_event (handleIO (ak_ReconcileBucket env m)
      (bucket_failed env ProviderAkamaiObjectStorage classifyAkamaiStorageError ''failed to reconcile Akamai bucket: '')
      (\<lambda>first. bindIO (recall_secret_key env first) (\<lambda>result.
         bindIO (storage_settled env ProviderAkamaiObjectStorage (akamai_provisioned (ar_endpoint result))
           ''Akamai bucket and access key provisioned'') (\<lambda>_. ret result))))"
    by (intro emits_intros ak_ReconcileBucket_calls storage_steps_calls assms recall)
       (auto simp: cb intro: storage_steps_calls assms)
qed

lemma reconcileStorage_parts:
  assumes "retry_contract (e_lib env)"
  shows "emits storage_event (cleanupPreviousStorage env r old)"
    "emits storage_event (cleanup_replaced_storage env r storage)"
    "emits storage_event (ensureStorageOwnershipID env)" "emits storage_event spec_storage"
    "emits storage_event (provision_storage env r p)"
proof -
  have fin: "emits storage_event (finalizeApplication env r)"
    by (rule finalizeApplication_emits [OF assms]; simp add: storage_event_setup)
  have clean: "emits storage_event (cleanupPreviousStorage env r old)" for old
    unfolding cleanupPreviousStorage_def by (intro emits_intros fin status_calls assms)
  have log: "emits storage_event (log_status_update env)"
    unfolding log_status_update_def by (intro emits_intros status_calls assms)
  show "emits storage_event (cleanupPreviousStorage env r old)" by (rule clean)
  show "emits storage_event (cleanup_replaced_storage env r storage)"
    unfolding cleanup_replaced_storage_def by (intro emits_intros clean)
  show "emits storage_event (ensureStorageOwnershipID env)"
    unfolding ensureStorageOwnershipID_def by (intro emits_intros storage_events)
  show "emits storage_event spec_storage" unfolding spec_storage_def by (intro emits_intros)
  show "emits storage_event (provision_storage env r p)"
    unfolding provision_storage_def Let_def
    by (intro emits_intros aws_storage_calls akamai_storage_calls log assms)
qed

lemma reconcileStorage_appends:
  assumes "retry_contract (e_lib env)"
  shows "appends (reconcileStorage env r)"
  using reconcileStorage_parts [OF assms, THEN emits_mono, OF TrueI]
  unfolding reconcileStorage_def by (intro emits_intros child_appends)

lemma EvaluateComputeReadiness_appends: "appends (EvaluateComputeReadiness env)"
proof -
  have check: "appends (unless_ready c d)" "appends (when_set b c d)" if "appends c" "appends d" for b c d
    unfolding when_set_def unless_ready_def using that by (auto intro!: emits_intros split: prod.splits)
  have checks: "appends (IsDeploymentReady env ns n)" "appends (IsIngressReady env ns n)"
      "appends (IsHPAReady env ns n)" "appends (IsPDBReady env ns n)" for ns n
    using deployment_check.only_looks ingress_check.only_looks hpa_check.only_looks pdb_check.only_looks
    by (blast intro: emits_mono)+
  show ?thesis
    unfolding EvaluateComputeReadiness_def view_get_service_def Let_def
    by (intro emits_intros check checks TrueI)
qed

lemma ensureDesiredState_appends:
  assumes "retry_contract (e_lib env)"
  shows "appends (ensureDesiredState env r)"
  unfolding ensureDesiredState_def
  by (intro emits_bindIO child_appends reconcileStorage_appends assms)

lemma reconcile_present_appends:
  assumes "retry_contract (e_lib env)"
  shows "appends (reconcile_present env r)"
proof -
  have failed: "appends (reconcile_failed env reason err)" for reason err
    unfolding reconcile_failed_def application_ready_gauge_def
    by (intro emits_intros status_appends assms TrueI)
  have settled: "appends (reconcile_settled env r reason)" for reason
    unfolding reconcile_settled_def application_ready_gauge_def jitteredStorageResyncInterval_def
    by (intro emits_intros status_appends assms TrueI)
  show ?thesis
    unfolding reconcile_present_def application_ready_gauge_def
    by (intro emits_intros ensureDesiredState_appends EvaluateComputeReadiness_appends failed settled
        status_appends assms TrueI)
qed

lemma kube_update_appends: "appends (kube_update env)"
  unfolding kube_update_def by (intro emits_intros TrueI)

lemma handleFinalizer_appends:
  assumes "retry_contract (e_lib env)"
  shows "appends (handleFinalizer env r)"
  unfolding handleFinalizer_def
  by (intro emits_intros kube_update_appends TrueI) (rule finalizeApplication_emits [OF assms]; simp)

section \<open>No bucket is written before the finalizer is on the server\<close>

definition finalize_then_reconcile :: "env \<Rightarrow> reconciler \<Rightarrow> requeue_after io" where
  "finalize_then_reconcile env r =
     bindIO (handleFinalizer env r) (\<lambda>isDeleting. if isDeleting then ret 0 else reconcile_present env r)"

lemma finalize_then_reconcile_appends:
  "retry_contract (e_lib env) \<Longrightarrow> appends (finalize_then_reconcile env r)"
  unfolding finalize_then_reconcile_def
  by (intro emits_intros handleFinalizer_appends reconcile_present_appends)

lemma guarded_after_shown:
  assumes "list_all (\<lambda>e. \<not> bucket_write e) xs" and "list_ex shows_finalizer xs"
  shows "guarded_trace (\<lambda>_. shows_finalizer) bucket_write h (xs @ ys)"
proof -
  have "has_evidence (\<lambda>_. shows_finalizer) h xs" using assms(2) by (induction xs arbitrary: h) auto
  then show ?thesis by (intro guarded_covers guarded_none assms(1))
qed

text \<open>Without the finalizer the pass first writes the object with it.\<close>

lemma unfinalized_pass_guarded:
  assumes "retry_contract (e_lib env)" and "\<not> has_finalizer (w_app w)"
    and "finalize_then_reconcile env r w = (res, w')"
  shows "guarded_trace (\<lambda>_. shows_finalizer) bucket_write (w_trace w) (new_events w w')"
proof (cases "is_deleting (w_app w)")
  case True
  with assms(2,3) have "w' = w"
    by (auto simp: finalize_then_reconcile_def handleFinalizer_def io_simps)
  then show ?thesis by (simp add: new_events_def)
next
  case False
  let ?a = "add_finalizer (w_app w)"
  let ?r = "update_application (e_kube env) (w_trace w) ?a"
  let ?w1 = "w\<lparr>w_trace := w_trace w @ [Kube (Update ?a ?r)]\<rparr>"
  have fin: "has_finalizer ?a" by (simp add: add_finalizer_def has_finalizer_def set_finalizers_def)
  show ?thesis
  proof (cases ?r)
    case (Inl e)
    with assms(2,3) False have "w_trace w' = w_trace w @ [Kube (Update ?a ?r)]"
      by (auto simp: finalize_then_reconcile_def handleFinalizer_def kube_update_def io_simps Let_def)
    then show ?thesis by (simp add: new_events_eq)
  next
    case (Inr b)
    with assms(2) False have "handleFinalizer env r w = (Inr False, ?w1\<lparr>w_app := b\<rparr>)"
      by (simp add: handleFinalizer_def kube_update_def io_simps Let_def)
    with assms(3) have "reconcile_present env r (?w1\<lparr>w_app := b\<rparr>) = (res, w')"
      by (simp add: finalize_then_reconcile_def
          bindIO_step [of "handleFinalizer env r" w False "?w1\<lparr>w_app := b\<rparr>"])
    from emits_trace [OF reconcile_present_appends [OF assms(1)] this]
    have "new_events w w' = [Kube (Update ?a ?r)] @ new_events (?w1\<lparr>w_app := b\<rparr>) w'"
      by (intro new_events_eq) simp
    moreover have "shows_finalizer (Kube (Update ?a ?r))" using Inr fin by (simp add: shows_finalizer_def)
    ultimately show ?thesis using guarded_after_shown [of "[Kube (Update ?a ?r)]"] by simp
  qed
qed

lemma Reconcile_alt:
  "Reconcile env r ns name =
     handleIO (kube_get_application env ns name)
       (\<lambda>err. if kube_not_found err then ret 0 else fail err)
       (\<lambda>app. bindIO (bindIO (putApp app) (\<lambda>_. SetReconciling env ''Reconciling Application resources''))
          (\<lambda>_. finalize_then_reconcile env r))"
  by (simp add: Reconcile_def finalize_then_reconcile_def bindIO_assoc)

lemma Reconcile_found:
  "get_application (e_kube env) (w_trace w) ns name = Inr app \<Longrightarrow>
     Reconcile env r ns name w =
       bindIO (SetReconciling env ''Reconciling Application resources'') (\<lambda>_. finalize_then_reconcile env r)
         (w\<lparr>w_trace := w_trace w @ [Kube (GetApplication ns name (Inr app))], w_app := app\<rparr>)"
  unfolding Reconcile_alt bindIO_assoc
  by (simp add: handleIO_def kube_get_application_def call_def Let_def bindIO_step [of "putApp app"] putApp_def)

text \<open>
  C4: no bucket is touched before its deletion is hooked. In every pass over an Application,
  whatever the services answer, each call that creates or changes anything in a bucket comes
  after an answer of the API server that shows the finalizer on the stored object, so an
  Application that is deleted later cannot leave a bucket behind that this pass made.
\<close>

theorem no_bucket_before_finalizer:
  assumes "retry_contract (e_lib env)" and "Reconcile env r ns name w = (res, w')"
  shows "guarded_trace (\<lambda>_. shows_finalizer) bucket_write (w_trace w) (new_events w w')"
proof (cases "get_application (e_kube env) (w_trace w) ns name")
  case (Inl e)
  with assms(2) have "w_trace w' = w_trace w @ [Kube (GetApplication ns name (Inl e))]"
    by (auto simp: Reconcile_def kube_get_application_def io_simps Let_def split: if_splits)
  then show ?thesis by (simp add: new_events_eq)
next
  case (Inr app)
  let ?ev = "Kube (GetApplication ns name (Inr app))"
  let ?w1 = "w\<lparr>w_trace := w_trace w @ [?ev], w_app := app\<rparr>"
  let ?m = "SetReconciling env ''Reconciling Application resources''"
  note run = assms(2) [unfolded Reconcile_found [OF Inr]]
  obtain x w2 where set: "?m ?w1 = (x, w2)" by fastforce
  from learns_SetReconciling [OF assms(1)] set
  have "\<exists>es. w_trace w2 = w_trace ?w1 @ es \<and> list_all (\<lambda>e. \<not> bucket_write e) es \<and>
        (\<not> has_finalizer (w_app w2) \<or> has_finalizer (w_app ?w1) \<or> list_ex shows_finalizer es)"
    unfolding learns_def by (metis snd_conv)
  then obtain es where es: "w_trace w2 = w_trace w @ (?ev # es)" "list_all (\<lambda>e. \<not> bucket_write e) (?ev # es)"
      "\<not> has_finalizer (w_app w2) \<or> list_ex shows_finalizer (?ev # es)"
    by (auto simp: shows_finalizer_def)
  show ?thesis
  proof (cases x)
    case (Inl e)
    with run set have "w' = w2" by (simp add: bindIO_def handleIO_def fail_def)
    with es show ?thesis by (simp add: new_events_eq guarded_none)
  next
    case (Inr u)
    with run set have rest: "finalize_then_reconcile env r w2 = (res, w')" by (simp add: bindIO_step [of ?m ?w1 u w2])
    note tr = emits_trace [OF finalize_then_reconcile_appends [OF assms(1)] rest]
    from tr es(1) have new: "new_events w w' = (?ev # es) @ new_events w2 w'" by (intro new_events_eq) simp
    show ?thesis
    proof (cases "has_finalizer (w_app w2)")
      case True
      with es show ?thesis unfolding new by (intro guarded_after_shown) simp_all
    next
      case False
      from unfinalized_pass_guarded [OF assms(1) this rest] es(1,2) show ?thesis
        unfolding new by (intro guarded_prefix) simp_all
    qed
  qed
qed

theorem no_bucket_before_finalizer_witness:
  "guarded_trace (\<lambda>_. shows_finalizer) bucket_write []
     (new_events sample_world (snd (Reconcile sample_env sample_reconciler ''ns'' ''app'' sample_world)))"
proof -
  obtain res w' where run: "Reconcile sample_env sample_reconciler ''ns'' ''app'' sample_world = (res, w')" by fastforce
  have lib: "retry_contract (e_lib sample_env)" by (simp add: sample_retry_contract)
  from no_bucket_before_finalizer [OF lib run] run show ?thesis by (simp add: sample_world_def)
qed

end
