(* ===== verification/Pass_Properties.thy ===== *)
theory Pass_Properties
  imports Controller_Properties
begin

text \<open>
  How one pass of the controller shows: what it does to the \<open>Ready\<close> condition, that the deletion
  of an Application whose bucket is retained ends in one pass, and that a pass that succeeds
  leaves no unready Application without a further look.
\<close>

section \<open>The Ready condition during a pass\<close>

lemma run_retries_first:
  assumes "appends f"
  shows "\<exists>rest. w_trace (snd (run_retries n f w)) = w_trace (snd (f w)) @ rest"
proof (cases n)
  case (Suc k)
  obtain r w1 where f: "f w = (r, w1)" by fastforce
  obtain rest where "w_trace (snd (run_retries k f w1)) = w_trace w1 @ rest"
    using emits_run_retries [OF assms, of k] unfolding emits_def by blast
  with f Suc show ?thesis by (cases r) (auto simp: handleIO_def ret_def fail_def)
qed simp

text \<open>The first thing that a status update sends: the in-memory object.\<close>

lemma status_update_first:
  assumes "\<And>e. appends (h e)"
  shows "\<exists>x rest. w_trace (snd (handleIO (kube_status_update env) h ret w)) =
    w_trace w @ Kube (StatusUpdate (w_app w) x) # rest"
proof -
  let ?x = "update_application_status (e_kube env) (w_trace w) (w_app w)"
  let ?w1 = "w\<lparr>w_trace := w_trace w @ [Kube (StatusUpdate (w_app w) ?x)]\<rparr>"
  show ?thesis
  proof (cases ?x)
    case (Inl e)
    obtain es where "w_trace (snd (h e ?w1)) = w_trace ?w1 @ es"
      using assms [of e] unfolding emits_def by blast
    with Inl show ?thesis by (simp add: kube_status_update_def io_simps Let_def)
  next
    case (Inr b)
    then show ?thesis by (simp add: kube_status_update_def io_simps Let_def)
  qed
qed

lemma retried_update_first:
  assumes "retry_contract lib" and "\<And>e. appends (h e)"
  shows "\<exists>x rest. w_trace (snd (retry_on_conflict lib (handleIO (kube_status_update env) h ret) w)) =
    w_trace w @ Kube (StatusUpdate (w_app w) x) # rest"
proof -
  let ?f = "handleIO (kube_status_update env) h ret"
  have f: "appends ?f"
    by (rule emits_handleIO, rule emits_kube_status_update, simp, rule assms(2), rule emits_quiet)
  obtain n where n: "retry_on_conflict lib ?f w = run_retries n ?f w"
    using assms(1) unfolding retry_contract_def by blast
  obtain rest where "w_trace (snd (run_retries n ?f w)) = w_trace (snd (?f w)) @ rest"
    using run_retries_first [OF f] by blast
  moreover obtain x more where "w_trace (snd (?f w)) = w_trace w @ Kube (StatusUpdate (w_app w) x) # more"
    using status_update_first [where h = h, OF assms(2)] by blast
  ultimately show ?thesis unfolding n by (intro exI [of _ x] exI [of _ "more @ rest"]) simp
qed

lemma UpdateStatus_first:
  assumes "retry_contract (e_lib env)"
  shows "\<exists>a x rest. w_trace (snd (UpdateStatus env w)) = w_trace w @ Kube (StatusUpdate a x) # rest \<and>
    as_conditions (app_status a) = as_conditions (app_status (w_app w))"
proof -
  let ?g = "\<lambda>a. a\<lparr>app_status := (app_status a)\<lparr>as_observed_generation := app_generation a\<rparr>\<rparr>"
  let ?w = "w\<lparr>w_app := ?g (w_app w)\<rparr>"
  have refetch: "appends (bindIO getApp (\<lambda>a. bindIO (kube_api_get_application env (app_namespace a) (app_name a))
      (\<lambda>fresh. bindIO (putApp (set_conditions_and_generation cs g fresh)) (\<lambda>_. fail err))))" for cs g err
    unfolding kube_api_get_application_def by (intro emits_intros TrueI)
  have "\<exists>x rest. w_trace (snd (UpdateStatus env w)) = w_trace ?w @ Kube (StatusUpdate (w_app ?w) x) # rest"
    unfolding UpdateStatus_def Let_def
    by (simp only: bindIO_step [of "modifyApp ?g" w "()" ?w] bindIO_step [of getApp ?w "w_app ?w" ?w]
          modifyApp_def getApp_def)
       (intro retried_update_first assms emits_if refetch emits_quiet)
  then show ?thesis by auto
qed

text \<open>
  A ready Application is reported not ready by every pass, also by one that finds nothing to
  do. When the object that the pass reads has \<open>Ready\<close> with status \<open>True\<close>, the first
  call after the read sends a status whose \<open>Ready\<close> condition is \<open>False\<close>: the check for
  unchanged conditions in \<open>SetReconciling\<close>, meant to spare a routine pass the write, does
  not spare a ready Application.
\<close>

theorem ready_withdrawn_by_every_pass:
  assumes "retry_contract (e_lib env)" and "condition_contract (e_lib env)"
    and "get_application (e_kube env) (w_trace w) ns name = Inr app"
    and "cond_of (as_conditions (app_status app)) TypeReady = Some c" and "cd_status c = ''True''"
    and "Reconcile env r ns name w = (res, w')"
  shows "\<exists>a x rest d. new_events w w' =
      [Kube (GetApplication ns name (Inr app)), Kube (StatusUpdate a x)] @ rest \<and>
    cond_of (as_conditions (app_status a)) TypeReady = Some d \<and> cd_status d = ''False''"
proof -
  let ?ev = "Kube (GetApplication ns name (Inr app))"
  let ?w1 = "w\<lparr>w_trace := w_trace w @ [?ev], w_app := app\<rparr>"
  let ?m = "SetReconciling env ''Reconciling Application resources''"
  let ?p = "app_condition app TypeProgressing ''True'' ReasonReconciling ''Reconciling Application resources''"
  let ?q = "app_condition app TypeReady ''False'' ReasonReconciling ''Reconciliation in progress''"
  obtain r1 w2 where p: "setStatusCondition env ?p ?w1 = (r1, w2)" by fastforce
  obtain r2 w3 where q: "setStatusCondition env ?q w2 = (r2, w3)" by fastforce
  have ok: "\<exists>b. r1 = Inr b" "\<exists>b. r2 = Inr b"
    using p q by (auto simp: setStatusCondition_def split: prod.splits)
  then obtain b1 b2 where b: "r1 = Inr b1" "r2 = Inr b2" by blast
  have was: "condition_now w2 TypeReady = Some c"
    using setStatusCondition_run(2) [OF assms(2) p, of TypeReady] assms(4)
    by (simp add: app_condition_def condition_now_def)
  obtain d where d: "condition_now w3 TypeReady = Some d" "cd_status d = ''False''"
    using setStatusCondition_run(1) [OF assms(2) q] by (auto simp: app_condition_def same_condition_def)
  have "b2"
  proof (rule ccontr)
    assume "\<not> b2"
    with b setStatusCondition_run(3) [OF assms(2) q] have "w3 = w2" by simp
    with was d assms(5) show False by simp
  qed
  have trace: "w_trace w3 = w_trace w @ [?ev]"
    using setStatusCondition_run(4) [OF assms(2) p] setStatusCondition_run(4) [OF assms(2) q] by simp
  have set: "?m ?w1 = UpdateStatus env w3"
    using \<open>b2\<close> b p q
    by (simp add: SetReconciling_def bindIO_step [of getApp ?w1 app ?w1] getApp_def
        bindIO_step [of "setStatusCondition env ?p" ?w1 b1 w2] bindIO_step [of "setStatusCondition env ?q" w2 b2 w3])
  obtain a x rest where first: "w_trace (snd (?m ?w1)) = (w_trace w @ [?ev]) @ Kube (StatusUpdate a x) # rest"
      "as_conditions (app_status a) = as_conditions (app_status (w_app w3))"
    using UpdateStatus_first [OF assms(1), of w3] trace unfolding set by metis
  have "appends (bindIO ?m (\<lambda>_. finalize_then_reconcile env r))"
    by (intro emits_bindIO status_appends finalize_then_reconcile_appends assms(1))
  obtain y w4 where run: "?m ?w1 = (y, w4)" by fastforce
  have "\<exists>more. w_trace w' = w_trace w4 @ more"
  proof (cases y)
    case (Inl e)
    with run assms(6) [unfolded Reconcile_found [OF assms(3)]] show ?thesis
      by (simp add: bindIO_def handleIO_def fail_def)
  next
    case (Inr u)
    with run assms(6) [unfolded Reconcile_found [OF assms(3)]]
    have "finalize_then_reconcile env r w4 = (res, w')" by (simp add: bindIO_step [of ?m ?w1 u w4])
    from emits_trace [OF finalize_then_reconcile_appends [OF assms(1)] this] show ?thesis by blast
  qed
  with first(1) run have "\<exists>more. w_trace w' = w_trace w @ [?ev, Kube (StatusUpdate a x)] @ more" by auto
  then obtain more where "new_events w w' = [?ev, Kube (StatusUpdate a x)] @ more"
    using new_events_eq by blast
  with first(2) d show ?thesis unfolding condition_now_def by metis
qed

definition ready_app :: application where
  "ready_app = sample_app\<lparr>app_status := \<lparr>as_conditions =
     [\<lparr>cd_type = TypeReady, cd_status = ''True'', cd_reason = ReasonAvailable, cd_message = [],
       cd_observed_generation = 1, cd_last_transition_time = 1\<rparr>], as_observed_generation = 1, as_storage = None\<rparr>\<rparr>"

definition serving :: "application \<Rightarrow> env" where
  "serving a = sample_env\<lparr>e_kube := sample_kube\<lparr>get_application := (\<lambda>h ns n. Inr a)\<rparr>\<rparr>"

lemma serving_lib [simp]: "e_lib (serving a) = sample_lib" "get_application (e_kube (serving a)) h ns n = Inr a"
  by (simp_all add: serving_def)

theorem ready_withdrawn_by_every_pass_witness:
  "\<exists>a x rest. w_trace (snd (Reconcile (serving ready_app) sample_reconciler ''ns'' ''app'' sample_world)) =
     [Kube (GetApplication ''ns'' ''app'' (Inr ready_app)), Kube (StatusUpdate a x)] @ rest"
proof -
  obtain res w' where run: "Reconcile (serving ready_app) sample_reconciler ''ns'' ''app'' sample_world = (res, w')"
    by fastforce
  have cond: "cond_of (as_conditions (app_status ready_app)) TypeReady =
      Some (hd (as_conditions (app_status ready_app)))"
    by (simp add: ready_app_def cond_of_def)
  have "\<exists>a x rest d. new_events sample_world w' =
      [Kube (GetApplication ''ns'' ''app'' (Inr ready_app)), Kube (StatusUpdate a x)] @ rest \<and>
      cond_of (as_conditions (app_status a)) TypeReady = Some d \<and> cd_status d = ''False''"
    by (rule ready_withdrawn_by_every_pass [OF _ _ _ cond _ run])
       (simp_all add: sample_retry_contract sample_condition_contract ready_app_def)
  with run show ?thesis by (auto simp: new_events_def sample_world_def)
qed

section \<open>A deletion that no bucket can block\<close>

lemma setStatusCondition_keeps:
  "setStatusCondition env c w = (r, w') \<Longrightarrow> (\<exists>b. r = Inr b) \<and> app_meta (w_app w') = app_meta (w_app w) \<and>
     app_spec (w_app w') = app_spec (w_app w) \<and> app_status_storage (w_app w') = app_status_storage (w_app w)"
  by (auto simp: setStatusCondition_def set_conditions_def split: prod.splits)

lemma UpdateStatus_accepted:
  assumes "retry_contract (e_lib env)" and "accepts_status env"
  shows "\<exists>w'. UpdateStatus env w = (Inr (), w') \<and> app_meta (w_app w') = app_meta (w_app w) \<and>
    app_spec (w_app w') = app_spec (w_app w) \<and> app_status_storage (w_app w') = app_status_storage (w_app w)"
proof -
  let ?g = "\<lambda>a. a\<lparr>app_status := (app_status a)\<lparr>as_observed_generation := app_generation a\<rparr>\<rparr>"
  let ?w = "w\<lparr>w_app := ?g (w_app w)\<rparr>"
  let ?w' = "?w\<lparr>w_trace := w_trace w @ [Kube (StatusUpdate (w_app ?w) (Inr (w_app ?w)))]\<rparr>"
  have "handleIO (kube_status_update env) h ret ?w = (Inr (), ?w')" for h
    using assms(2) by (simp add: accepts_status_def kube_status_update_def io_simps Let_def)
  then have "UpdateStatus env w = (Inr (), ?w')"
    unfolding UpdateStatus_def Let_def
    by (simp only: bindIO_step [of "modifyApp ?g" w "()" ?w] bindIO_step [of getApp ?w "w_app ?w" ?w]
          modifyApp_def getApp_def)
       (intro retry_first_success assms(1))
  then show ?thesis by simp
qed

lemma SetReconciling_accepted:
  assumes "retry_contract (e_lib env)" and "accepts_status env"
  shows "\<exists>w'. SetReconciling env msg w = (Inr (), w') \<and> app_meta (w_app w') = app_meta (w_app w) \<and>
    app_spec (w_app w') = app_spec (w_app w) \<and> app_status_storage (w_app w') = app_status_storage (w_app w)"
proof -
  let ?p = "app_condition (w_app w) TypeProgressing ''True'' ReasonReconciling msg"
  let ?q = "app_condition (w_app w) TypeReady ''False'' ReasonReconciling ''Reconciliation in progress''"
  obtain r1 w1 where p: "setStatusCondition env ?p w = (r1, w1)" by fastforce
  obtain r2 w2 where q: "setStatusCondition env ?q w1 = (r2, w2)" by fastforce
  note keeps = setStatusCondition_keeps [OF p] setStatusCondition_keeps [OF q]
  then obtain b1 b2 where b: "r1 = Inr b1" "r2 = Inr b2" by blast
  with p q have "SetReconciling env msg w = (if \<not> b1 \<and> \<not> b2 then ret () else UpdateStatus env) w2"
    by (simp add: SetReconciling_def bindIO_step [of getApp w "w_app w" w] getApp_def
        bindIO_step [of "setStatusCondition env ?p" w b1 w1] bindIO_step [of "setStatusCondition env ?q" w1 b2 w2])
  then show ?thesis
    using keeps UpdateStatus_accepted [OF assms, of w2] by (auto simp: ret_def)
qed

lemma finalize_retained_or_none:
  assumes "\<And>s. storage_to_finalize (w_app w) = Some s \<Longrightarrow> ss_deletion_policy s = DeletionPolicyRetain"
  shows "\<exists>w'. finalizeApplication env r w = (Inr (), w')"
proof (cases "storage_to_finalize (w_app w)")
  case None
  then show ?thesis by (simp add: finalizeApplication_def bindIO_def handleIO_def getApp_def ret_def)
next
  case (Some s)
  let ?fin = "bindIO (bindIO (cleanupRetainedStorageCredentials env r s) (\<lambda>_. retainStorage env r (ss_bucket s)))
      (\<lambda>_. bindIO getApp (\<lambda>now. emit (Metric (StorageReadyDelete (app_namespace now) (app_name now) (ss_provider s)))))"
  have eq: "finalizeApplication env r w = ?fin w"
    using assms [OF Some] Some
    by (simp add: finalizeApplication_def finalize_storage_def bindIO_def [of getApp] handleIO_def getApp_def)
  obtain res w' where run: "?fin w = (res, w')" by fastforce
  have "never_fails ?fin" by (intro never_fails_intros finalize_retained_never_fails)
  then have "\<exists>x. res = Inr x" using run by (rule never_failsD [where m = "?fin"])
  with run show ?thesis unfolding eq by auto
qed

lemma retained_deletion_run:
  assumes "retry_contract (e_lib env)" and "accepts_status env"
    and "\<And>h a. \<exists>b. update_application (e_kube env) h a = Inr b"
    and "get_application (e_kube env) (w_trace w) ns name = Inr app"
    and "is_deleting app" and "has_finalizer app"
    and "\<And>s. storage_to_finalize app = Some s \<Longrightarrow> ss_deletion_policy s = DeletionPolicyRetain"
  obtains w2 w3 w4 b where
    "SetReconciling env ''Reconciling Application resources''
       (w\<lparr>w_trace := w_trace w @ [Kube (GetApplication ns name (Inr app))], w_app := app\<rparr>) = (Inr (), w2)"
    "storage_to_finalize (w_app w2) = storage_to_finalize app"
    "finalizeApplication env r w2 = (Inr (), w3)"
    "w_trace w4 = w_trace w3 @ [Kube (Update (remove_finalizer (w_app w3)) (Inr b)),
       Metric (ApplicationReadyDelete (app_namespace b) (app_name b))]"
    "Reconcile env r ns name w = (Inr 0, w4)"
proof -
  let ?w1 = "w\<lparr>w_trace := w_trace w @ [Kube (GetApplication ns name (Inr app))], w_app := app\<rparr>"
  let ?m = "SetReconciling env ''Reconciling Application resources''"
  obtain w2 where set: "?m ?w1 = (Inr (), w2)" and kept: "app_meta (w_app w2) = app_meta app"
      "app_spec (w_app w2) = app_spec app" "app_status_storage (w_app w2) = app_status_storage app"
    using SetReconciling_accepted [OF assms(1,2), of "''Reconciling Application resources''" ?w1] by auto
  have same: "is_deleting (w_app w2)" "has_finalizer (w_app w2)" "storage_to_finalize (w_app w2) = storage_to_finalize app"
    using kept assms(5,6) by (auto simp: is_deleting_def has_finalizer_def storage_to_finalize_def split: option.splits)
  obtain w3 where fin: "finalizeApplication env r w2 = (Inr (), w3)"
    using finalize_retained_or_none [of w2 env r] assms(7) same(3) by auto
  let ?a = "remove_finalizer (w_app w3)"
  obtain b where b: "update_application (e_kube env) (w_trace w3) ?a = Inr b" using assms(3) by blast
  from same(1,2) fin b have "fst (handleFinalizer env r w2) = Inr True \<and>
      w_trace (snd (handleFinalizer env r w2)) = w_trace w3 @ [Kube (Update ?a (Inr b)),
        Metric (ApplicationReadyDelete (app_namespace b) (app_name b))]"
    by (simp add: handleFinalizer_def kube_update_def io_simps Let_def)
  then obtain w4 where last: "handleFinalizer env r w2 = (Inr True, w4)"
      "w_trace w4 = w_trace w3 @ [Kube (Update ?a (Inr b)), Metric (ApplicationReadyDelete (app_namespace b) (app_name b))]"
    by (metis prod.collapse)
  have "Reconcile env r ns name w = (Inr 0, w4)"
    unfolding Reconcile_found [OF assms(4)]
    by (simp add: bindIO_step [of ?m ?w1 "()" w2] set finalize_then_reconcile_def ret_def
        bindIO_step [of "handleFinalizer env r" w2 True w4] last(1))
  with set same(3) fin last(2) show ?thesis by (rule that)
qed

text \<open>
  C12: the deletion of an Application without storage, or whose bucket is to be retained, ends in
  one pass: whatever the cloud answers or refuses, if the API server accepts the updates the
  pass succeeds, asks for no further pass, writes to no bucket and sends an object without the
  finalizer, on which the API server removes the Application.
\<close>

theorem retained_deletion_completes:
  assumes "retry_contract (e_lib env)" and "accepts_status env"
    and "\<And>h a. \<exists>b. update_application (e_kube env) h a = Inr b"
    and "get_application (e_kube env) (w_trace w) ns name = Inr app"
    and "is_deleting app" and "has_finalizer app"
    and "\<And>s. storage_to_finalize app = Some s \<Longrightarrow> ss_deletion_policy s = DeletionPolicyRetain"
    and "Reconcile env r ns name w = (res, w')"
  shows "res = Inr 0 \<and> (\<exists>a b. Kube (Update a (Inr b)) \<in> set (new_events w w') \<and> \<not> has_finalizer a)"
proof -
  obtain w2 w3 w4 b where set: "SetReconciling env ''Reconciling Application resources''
       (w\<lparr>w_trace := w_trace w @ [Kube (GetApplication ns name (Inr app))], w_app := app\<rparr>) = (Inr (), w2)"
    and fin: "finalizeApplication env r w2 = (Inr (), w3)"
    and last: "w_trace w4 = w_trace w3 @ [Kube (Update (remove_finalizer (w_app w3)) (Inr b)),
       Metric (ApplicationReadyDelete (app_namespace b) (app_name b))]" "Reconcile env r ns name w = (Inr 0, w4)"
    by (rule retained_deletion_run [OF assms(1-7)])
  let ?a = "remove_finalizer (w_app w3)"
  have "appends (SetReconciling env msg)" "appends (finalizeApplication env r)" for msg
    by (rule status_appends [OF assms(1)], rule finalizeApplication_emits [OF assms(1)], simp_all)
  from emits_trace [OF this(1) set] emits_trace [OF this(2) fin] last(1)
  have "\<exists>es. w_trace w4 = w_trace w @ es \<and> Kube (Update ?a (Inr b)) \<in> set es" by auto
  then have "Kube (Update ?a (Inr b)) \<in> set (new_events w w4)" using new_events_eq by blast
  moreover have "res = Inr 0" "w' = w4" using assms(8) last(2) by simp_all
  moreover have "\<not> has_finalizer ?a" by (simp add: has_finalizer_def remove_finalizer_def set_finalizers_def)
  ultimately show ?thesis by auto
qed

definition retained_deleting_app :: application where
  "retained_deleting_app = deleting_app\<lparr>app_spec := sample_spec\<lparr>sp_storage :=
     Some (sample_storage\<lparr>ss_deletion_policy := DeletionPolicyRetain\<rparr>)\<rparr>\<rparr>"

theorem retained_deletion_completes_witness:
  "fst (Reconcile (serving retained_deleting_app) sample_reconciler ''ns'' ''app'' sample_world) = Inr 0"
proof -
  obtain res w' where run: "Reconcile (serving retained_deleting_app) sample_reconciler ''ns'' ''app'' sample_world
      = (res, w')" by fastforce
  have accepts: "accepts_status (serving retained_deleting_app)"
    by (simp add: accepts_status_def serving_def sample_kube_def)
  have "res = Inr 0 \<and> (\<exists>a b. Kube (Update a (Inr b)) \<in> set (new_events sample_world w') \<and> \<not> has_finalizer a)"
    by (rule retained_deletion_completes [OF _ accepts _ _ _ _ _ run, where app = retained_deleting_app])
       (simp_all add: sample_retry_contract serving_def sample_kube_def retained_deleting_app_def
         deleting_app_def is_deleting_def has_finalizer_def storage_to_finalize_def sample_now_def second_def)
  with run show ?thesis by simp
qed

section \<open>How a pass ends\<close>

definition applies_child :: "event \<Rightarrow> bool" where
  "applies_child e = (case e of Kube (Apply c r) \<Rightarrow> True | _ \<Rightarrow> False)"

lemma applies_child_simps [simp]:
  "\<not> applies_child (Metric m)" "\<not> applies_child (Kube (Update a r))" "\<not> applies_child (Kube (GetApplication ns n ra))"
  "is_bookkeeping e \<Longrightarrow> \<not> applies_child e" "is_cloud_io e \<Longrightarrow> \<not> applies_child e" "is_status_io e \<Longrightarrow> \<not> applies_child e"
  by (auto simp: applies_child_def is_bookkeeping_def is_status_io_def is_cloud_io_def is_kube_read_def
      is_manager_setup_def split: event.splits kube_event.splits)

lemma handleFinalizer_applies_nothing:
  assumes "retry_contract (e_lib env)"
  shows "emits (\<lambda>e. \<not> applies_child e) (handleFinalizer env r)"
proof -
  have "emits (\<lambda>e. \<not> applies_child e) (finalizeApplication env r)"
    by (rule finalizeApplication_emits [OF assms]) simp_all
  then show ?thesis
    unfolding handleFinalizer_def kube_update_def by (intro emits_intros) simp_all
qed

lemma SetReconciling_applies_nothing:
  assumes "retry_contract (e_lib env)"
  shows "emits (\<lambda>e. \<not> applies_child e) (SetReconciling env msg)"
  unfolding SetReconciling_def by (intro emits_intros assms) simp_all

lemma ready_saw_deployment:
  assumes "EvaluateComputeReadiness env w = (Inr (True, msg), w')"
  shows "\<exists>ns n v. View (GetDeployment ns n (Inr v)) \<in> set (new_events w w') \<and> deployment_healthy v"
proof -
  let ?ns = "app_namespace (w_app w)" and ?n = "deployment_name (w_app w)"
  let ?svc = "View (GetService ?ns (service_name (w_app w)) (Inr ()))"
  let ?rest = "when_set (sp_ingress (app_spec (w_app w)) \<noteq> None) (IsIngressReady env ?ns (ingress_name (w_app w)))
      (when_set (sp_autoscaling (app_spec (w_app w)) \<noteq> None) (IsHPAReady env ?ns (hpa_name (w_app w)))
      (when_set (sp_pdb (app_spec (w_app w)) \<noteq> None) (IsPDBReady env ?ns (pdb_name (w_app w)))
        (ret (True, ''All Compute resources are ready''))))"
  have run: "unless_ready (IsDeploymentReady env ?ns ?n) ?rest (w\<lparr>w_trace := w_trace w @ [?svc]\<rparr>) = (Inr (True, msg), w')"
    using assms
    by (auto simp: EvaluateComputeReadiness_def view_get_service_def bindIO_step [of getApp w "w_app w" w] getApp_def
        handleIO_def [of "call _ _"] call_def Let_def ret_def fail_def split: sum.splits if_splits)
  obtain v w1 where v: "deployment_healthy v" "w_trace w1 = w_trace w @ [?svc, View (GetDeployment ?ns ?n (Inr v))]"
      "?rest w1 = (Inr (True, msg), w')"
    using deployment_check.unless_ready_True [OF run] by auto
  have next_appends: "appends (when_set b c d)" if "appends c" "appends d" for b c d
    unfolding when_set_def unless_ready_def using that by (auto intro!: emits_intros split: prod.splits)
  have "appends ?rest"
    using ingress_check.only_looks hpa_check.only_looks pdb_check.only_looks
    by (intro next_appends) (blast intro: emits_mono emits_quiet)+
  from emits_trace [OF this v(3)] v(2)
  have "new_events w w' = [?svc, View (GetDeployment ?ns ?n (Inr v))] @ new_events w1 w'"
    by (intro new_events_eq) simp
  with v(1) show ?thesis by auto
qed

lemma reconcile_failed_fails: "always_fails (reconcile_failed env reason err)"
  unfolding reconcile_failed_def application_ready_gauge_def
  by (auto intro!: always_fails_bindIO always_fails_fail)

text \<open>
  A pass that asks to be repeated within the readiness interval, or one that saw a ready
  Deployment; the last event is the metric that says which.
\<close>

definition requeued_or_ready :: "duration \<Rightarrow> event list \<Rightarrow> bool" where
  "requeued_or_ready d es \<longleftrightarrow>
     (d = readinessRequeueInterval \<and> (\<exists>ns n. es \<noteq> [] \<and> last es = Metric (ApplicationReadySet ns n 0))) \<or>
     ((\<exists>ns n. es \<noteq> [] \<and> last es = Metric (ApplicationReadySet ns n 1)) \<and>
      (\<exists>ns n v. View (GetDeployment ns n (Inr v)) \<in> set es \<and> deployment_healthy v))"

lemma requeued_or_ready_prefix: "requeued_or_ready d ys \<Longrightarrow> requeued_or_ready d (xs @ ys)"
  unfolding requeued_or_ready_def by (elim disjE conjE exE) auto

lemma reconcile_present_ends:
  assumes "retry_contract (e_lib env)" and "reconcile_present env r w = (Inr d, w')"
  shows "requeued_or_ready d (new_events w w')"
proof -
  have not_failed: "reconcile_failed env reason err v \<noteq> (Inr d, w')" for reason err v
    using reconcile_failed_fails always_failsD by fastforce
  obtain w1 ready reason w2 where steps: "ensureDesiredState env r w = (Inr (), w1)"
      "EvaluateComputeReadiness env w1 = (Inr (ready, reason), w2)"
    and rest: "(if \<not> ready then bindIO (SetReconciling env reason) (\<lambda>_.
        bindIO (application_ready_gauge 0) (\<lambda>_. ret readinessRequeueInterval))
      else reconcile_settled env r reason) w2 = (Inr d, w')"
    using assms(2) not_failed unfolding reconcile_present_def handleIO_Inr_iff by fastforce
  note tr = emits_trace [OF ensureDesiredState_appends [OF assms(1)] steps(1)]
    emits_trace [OF EvaluateComputeReadiness_appends steps(2)]
  show ?thesis
  proof (cases ready)
    case False
    with rest obtain w3 where set: "SetReconciling env reason w2 = (Inr (), w3)"
      and gauge: "bindIO (application_ready_gauge 0) (\<lambda>_. ret readinessRequeueInterval) w3 = (Inr d, w')"
      by (auto simp: bindIO_Inr_iff)
    from gauge obtain ns n where "w_trace w' = w_trace w3 @ [Metric (ApplicationReadySet ns n 0)]"
        "d = readinessRequeueInterval"
      by (auto simp: application_ready_gauge_def io_simps)
    moreover from this tr emits_trace [OF status_appends(3) [OF assms(1)] set]
    have "new_events w w' = (new_events w w1 @ new_events w1 w2 @ new_events w2 w3) @ [Metric (ApplicationReadySet ns n 0)]"
      by (intro new_events_eq) simp
    ultimately show ?thesis by (auto simp: requeued_or_ready_def)
  next
    case True
    with rest obtain w3 where set: "SetAppReady env reason w2 = (Inr (), w3)"
      and gauge: "bindIO (application_ready_gauge 1) (\<lambda>_. bindIO getApp (\<lambda>app.
        if app_storage app \<noteq> None then jitteredStorageResyncInterval env (r_storage_resync_interval r) else ret 0)) w3
        = (Inr d, w')"
      by (auto simp: reconcile_settled_def bindIO_Inr_iff)
    from gauge obtain ns n where "w_trace w' = w_trace w3 @ [Metric (ApplicationReadySet ns n 1)]"
      by (auto simp: application_ready_gauge_def jitteredStorageResyncInterval_def io_simps split: if_splits)
    with tr emits_trace [OF status_appends(4) [OF assms(1)] set]
    have new: "new_events w w' = (new_events w w1 @ new_events w1 w2 @ new_events w2 w3) @ [Metric (ApplicationReadySet ns n 1)]"
      by (intro new_events_eq) simp
    obtain ns' n' v where "View (GetDeployment ns' n' (Inr v)) \<in> set (new_events w1 w2)" "deployment_healthy v"
      using ready_saw_deployment [of env w1 reason w2] steps(2) True by auto
    then have "View (GetDeployment ns' n' (Inr v)) \<in> set (new_events w w')" unfolding new by simp
    moreover have "new_events w w' \<noteq> []" "last (new_events w w') = Metric (ApplicationReadySet ns n 1)"
      unfolding new by simp_all
    ultimately show ?thesis using \<open>deployment_healthy v\<close> unfolding requeued_or_ready_def by blast
  qed
qed


definition released_app :: application where
  "released_app = sample_app\<lparr>app_meta := sample_meta\<lparr>md_deletion_timestamp := Some 1\<rparr>\<rparr>"


end
