(* ===== verification/Predicates.thy ===== *)
theory Predicates
  imports Naming
begin

text \<open>
  \<open>predicates.go\<close>: which update events of the watched objects start a reconcile. Only the
  \<open>UpdateFunc\<close>s are code of the repository; every create and delete event passes. Objects are
  cut down to the parts the predicates compare; \<open>same\<close> stands for
  \<open>apiequality.Semantic.DeepEqual\<close> on a part. An event pairs objects of any two types, as the
  \<open>client.Object\<close> interface does, and a failed type assertion lets the event pass.
\<close>

text \<open>\<open>predicate.GenerationChangedPredicate\<close>, and the two local predicates joined with it.\<close>

definition generation_changed :: "application \<Rightarrow> application \<Rightarrow> bool" where
  "generation_changed old new \<longleftrightarrow> app_generation old \<noteq> app_generation new"

definition applicationChangePredicate :: "application \<Rightarrow> application \<Rightarrow> bool" where
  "applicationChangePredicate old new \<longleftrightarrow>
     generation_changed old new \<or>
     (md_deletion_timestamp (app_meta old) = None \<and> md_deletion_timestamp (app_meta new) \<noteq> None) \<or>
     app_annotation old AdoptBucketAnnotation \<noteq> app_annotation new AdoptBucketAnnotation"

datatype 's owned_object =
    OwnedDeployment int 's
  | OwnedIngress int 's
  | OwnedHpa int 's
  | OwnedPdb int 's
  | OwnedOther int

primrec owned_generation :: "'s owned_object \<Rightarrow> int" where
  "owned_generation (OwnedDeployment g s) = g"
| "owned_generation (OwnedIngress g s) = g"
| "owned_generation (OwnedHpa g s) = g"
| "owned_generation (OwnedPdb g s) = g"
| "owned_generation (OwnedOther g) = g"

definition ownedStatusOrGenerationChangedPredicate ::
  "('s \<Rightarrow> 's \<Rightarrow> bool) \<Rightarrow> 's owned_object \<Rightarrow> 's owned_object \<Rightarrow> bool" where
  "ownedStatusOrGenerationChangedPredicate same old new =
     (if owned_generation old \<noteq> owned_generation new then True
      else case old of
        OwnedDeployment g s \<Rightarrow> (case new of OwnedDeployment g' s' \<Rightarrow> \<not> same s s' | _ \<Rightarrow> True)
      | OwnedIngress g s \<Rightarrow> (case new of OwnedIngress g' s' \<Rightarrow> \<not> same s s' | _ \<Rightarrow> True)
      | OwnedHpa g s \<Rightarrow> (case new of OwnedHpa g' s' \<Rightarrow> \<not> same s s' | _ \<Rightarrow> True)
      | OwnedPdb g s \<Rightarrow> (case new of OwnedPdb g' s' \<Rightarrow> \<not> same s s' | _ \<Rightarrow> True)
      | OwnedOther g \<Rightarrow> True)"

text \<open>The parts of an object without a generation: compared ones, then the rest of it.\<close>

datatype 'p content_object =
    ContentConfigMap 'p 'p \<comment> \<open>data, binaryData\<close>
  | ContentSecret 'p
  | ContentServiceAccount 'p 'p 'p 'p \<comment> \<open>annotations, secrets, imagePullSecrets, automount\<close>
  | ContentService string 'p 'p \<comment> \<open>type, selector, ports\<close>
  | ContentOther

definition ownedContentChangedPredicate ::
  "('p \<Rightarrow> 'p \<Rightarrow> bool) \<Rightarrow> 'p content_object \<Rightarrow> 'p content_object \<Rightarrow> bool" where
  "ownedContentChangedPredicate same old new =
     (case old of
        ContentConfigMap d b \<Rightarrow>
          (case new of ContentConfigMap d' b' \<Rightarrow> \<not> same d d' \<or> \<not> same b b' | _ \<Rightarrow> True)
      | ContentSecret d \<Rightarrow> (case new of ContentSecret d' \<Rightarrow> \<not> same d d' | _ \<Rightarrow> True)
      | ContentServiceAccount a s p m \<Rightarrow>
          (case new of ContentServiceAccount a' s' p' m' \<Rightarrow>
             \<not> same a a' \<or> \<not> same s s' \<or> \<not> same p p' \<or> \<not> same m m' | _ \<Rightarrow> True)
      | ContentService t sel po \<Rightarrow>
          (case new of ContentService t' sel' po' \<Rightarrow> t \<noteq> t' \<or> \<not> same sel sel' \<or> \<not> same po po' | _ \<Rightarrow> True)
      | ContentOther \<Rightarrow> True)"

end
