(* ===== verification/Trigger_Properties.thy ===== *)
theory Trigger_Properties
  imports Predicates Controller_Properties
begin

text \<open>
  The controller does not wake itself: every Application that a pass writes is, in the parts that
  the watch predicate compares, an Application that the server showed earlier in the pass. The
  calculus \<open>echoes\<close> carries the invariant that the in-memory object, and every copy taken of
  it, agrees in those parts with some object shown so far.
\<close>

section \<open>Shown and written Applications\<close>

definition shows_app :: "event \<Rightarrow> application option" where
  "shows_app e =
     (case e of
        Kube (GetApplication ns n (Inr a)) \<Rightarrow> Some a
      | Kube (ApiReaderGetApplication ns n (Inr a)) \<Rightarrow> Some a
      | Kube (StatusUpdate b (Inr a)) \<Rightarrow> Some a
      | Kube (Update b (Inr a)) \<Rightarrow> Some a
      | _ \<Rightarrow> None)"

definition shown :: "event list \<Rightarrow> application set" where
  "shown es = {a. \<exists>e \<in> set es. shows_app e = Some a}"

text \<open>
  A write is ignored by the watch when the predicate rejects the update from some shown object
  to the written one; a write of the whole object also has to keep its spec, which alone makes
  the server count up the generation. The patch of the ownership annotation applies to the object
  that the server has, so it is compared with that object before and after.
\<close>

definition ignored_write :: "application set \<Rightarrow> event \<Rightarrow> bool" where
  "ignored_write X e =
     (case e of
        Kube (StatusUpdate a r) \<Rightarrow> (\<exists>x \<in> X. \<not> applicationChangePredicate x a)
      | Kube (Update a r) \<Rightarrow> (\<exists>x \<in> X. \<not> applicationChangePredicate x a \<and> app_spec x = app_spec a)
      | Kube (ApplyOwnershipID ns n v r) \<Rightarrow>
          (\<forall>x \<in> X. \<not> applicationChangePredicate x (set_annotation StorageOwnershipIDAnnotation v x))
      | _ \<Rightarrow> True)"

fun writes_ignored :: "application set \<Rightarrow> event list \<Rightarrow> bool" where
  "writes_ignored X [] \<longleftrightarrow> True"
| "writes_ignored X (e # es) \<longleftrightarrow> ignored_write X e \<and> writes_ignored (X \<union> set_option (shows_app e)) es"

lemma shown_simps [simp]:
  "shown [] = {}" "shown (e # es) = set_option (shows_app e) \<union> shown es" "shown (es @ fs) = shown es \<union> shown fs"
  by (auto simp: shown_def)

lemma writes_ignored_append:
  "writes_ignored X (es @ fs) \<longleftrightarrow> writes_ignored X es \<and> writes_ignored (X \<union> shown es) fs"
  by (induction X es rule: writes_ignored.induct) (simp_all add: Un_assoc)

definition writes_app :: "event \<Rightarrow> bool" where
  "writes_app e = (case e of Kube (StatusUpdate a r) \<Rightarrow> True | Kube (Update a r) \<Rightarrow> True | _ \<Rightarrow> False)"

lemma ownership_patch_ignored [simp]:
  "\<not> applicationChangePredicate x (set_annotation StorageOwnershipIDAnnotation v x)"
  by (auto simp: applicationChangePredicate_def generation_changed_def set_annotation_def
      StorageOwnershipIDAnnotation_def AdoptBucketAnnotation_def)

lemma writes_ignored_quiet: "list_all (\<lambda>e. \<not> writes_app e) es \<Longrightarrow> writes_ignored X es"
  by (induction es arbitrary: X) (auto simp: writes_app_def ignored_write_def split: event.splits kube_event.splits)

section \<open>The calculus\<close>

text \<open>Equal in what the predicate compares, and in the spec as well when \<open>b\<close> is set.\<close>

definition steady :: "bool \<Rightarrow> application \<Rightarrow> application \<Rightarrow> bool" where
  "steady b x a \<longleftrightarrow>
     app_generation x = app_generation a \<and>
     md_deletion_timestamp (app_meta x) = md_deletion_timestamp (app_meta a) \<and>
     app_annotation x AdoptBucketAnnotation = app_annotation a AdoptBucketAnnotation \<and>
     (b \<longrightarrow> app_spec x = app_spec a)"

lemma steady_ignored: "steady b x a \<Longrightarrow> \<not> applicationChangePredicate x a"
  by (auto simp: steady_def applicationChangePredicate_def generation_changed_def)

lemma steady_refl [simp]: "steady b x x"
  by (simp add: steady_def)

lemma steady_trans: "steady b x y \<Longrightarrow> steady b y z \<Longrightarrow> steady b x z"
  by (simp add: steady_def)

definition based :: "bool \<Rightarrow> application set \<Rightarrow> application \<Rightarrow> bool" where
  "based b X a \<longleftrightarrow> (\<exists>x \<in> X. steady b x a)"

lemma based_mono: "based b X a \<Longrightarrow> X \<subseteq> Y \<Longrightarrow> based b Y a"
  by (auto simp: based_def)

lemma based_steady: "based b X a \<Longrightarrow> steady b a c \<Longrightarrow> based b X c"
  unfolding based_def using steady_trans by blast

definition echoes :: "bool \<Rightarrow> application set \<Rightarrow> 'a io \<Rightarrow> bool" where
  "echoes b A m \<longleftrightarrow>
     (\<forall>w X. (\<forall>a \<in> insert (w_app w) A. based b X a) \<longrightarrow>
        (\<exists>es. w_trace (snd (m w)) = w_trace w @ es \<and> writes_ignored X es \<and>
           based b (X \<union> shown es) (w_app (snd (m w)))))"

lemma echoesD:
  assumes "echoes b A m" "m w = (r, w')" "based b X (w_app w)" "\<And>a. a \<in> A \<Longrightarrow> based b X a"
  obtains es where "w_trace w' = w_trace w @ es" "writes_ignored X es" "based b (X \<union> shown es) (w_app w')"
  using assms unfolding echoes_def by (metis insertE snd_conv)

lemma echoesI:
  assumes "\<And>w X. based b X (w_app w) \<Longrightarrow> (\<And>a. a \<in> A \<Longrightarrow> based b X a) \<Longrightarrow>
    \<exists>es. w_trace (snd (m w)) = w_trace w @ es \<and> writes_ignored X es \<and> based b (X \<union> shown es) (w_app (snd (m w)))"
  shows "echoes b A m"
  unfolding echoes_def using assms by blast

lemma echoes_handleIO:
  assumes "echoes b A m" and "\<And>e. echoes b A (h e)" and "\<And>w x w'. m w = (Inr x, w') \<Longrightarrow> echoes b A (k x)"
  shows "echoes b A (handleIO m h k)"
proof (rule echoesI)
  fix w :: world and X
  assume X: "based b X (w_app w)" "\<And>a. a \<in> A \<Longrightarrow> based b X a"
  obtain r w1 where m: "m w = (r, w1)" by fastforce
  obtain es where es: "w_trace w1 = w_trace w @ es" "writes_ignored X es" "based b (X \<union> shown es) (w_app w1)"
    using echoesD [OF assms(1) m] X by blast
  have A: "based b (X \<union> shown es) a" if "a \<in> A" for a using X(2) [OF that] based_mono by blast
  obtain n where n: "echoes b A n" "handleIO m h k w = n w1"
    using m assms(2) assms(3) [of w _ w1] by (cases r) (auto simp: handleIO_def)
  obtain r' w2 where run: "n w1 = (r', w2)" by fastforce
  obtain es' where "w_trace w2 = w_trace w1 @ es'" "writes_ignored (X \<union> shown es) es'"
      "based b (X \<union> shown es \<union> shown es') (w_app w2)"
    using echoesD [OF n(1) run es(3)] A by blast
  with es n(2) run show "\<exists>es. w_trace (snd (handleIO m h k w)) = w_trace w @ es \<and> writes_ignored X es \<and>
      based b (X \<union> shown es) (w_app (snd (handleIO m h k w)))"
    by (intro exI [of _ "es @ es'"]) (simp add: writes_ignored_append Un_assoc)
qed

text \<open>A part that writes no Application and leaves the in-memory object alone.\<close>

lemma echoes_apart: "emits (\<lambda>e. \<not> writes_app e) m \<Longrightarrow> keeps_app m \<Longrightarrow> echoes b A m"
proof (rule echoesI)
  fix w :: world and X
  assume m: "emits (\<lambda>e. \<not> writes_app e) m" "keeps_app m" and X: "based b X (w_app w)"
  obtain es where "w_trace (snd (m w)) = w_trace w @ es" "list_all (\<lambda>e. \<not> writes_app e) es"
    using m(1) unfolding emits_def by blast
  moreover have "w_app (snd (m w)) = w_app w" using m(2) by (simp add: keeps_app_def)
  ultimately show "\<exists>es. w_trace (snd (m w)) = w_trace w @ es \<and> writes_ignored X es \<and>
      based b (X \<union> shown es) (w_app (snd (m w)))"
    using X writes_ignored_quiet based_mono [OF X] by (metis Un_upper1)
qed

lemma echoes_quiet: "echoes b A (ret x)" "echoes b A (fail e)" "echoes b A (askEnv f)" "echoes b A getApp"
  by (intro echoes_apart emits_intros keeps_intros)+

lemma echoes_emit: "\<not> writes_app e \<Longrightarrow> echoes b A (emit e)"
  by (intro echoes_apart emits_intros keeps_intros)

lemma echoes_modify:
  assumes "\<And>a. steady b a (f a)" shows "echoes b A (modifyApp f)"
  by (rule echoesI) (auto simp: modifyApp_def intro: based_steady [OF _ assms])

lemma echoes_bind: "echoes b A m \<Longrightarrow> (\<And>w x w'. m w = (Inr x, w') \<Longrightarrow> echoes b A (k x)) \<Longrightarrow> echoes b A (bindIO m k)"
  unfolding bindIO_def by (intro echoes_handleIO echoes_quiet)

text \<open>The object that \<open>getApp\<close> gives is a copy that stays based.\<close>

lemma echoes_get:
  assumes "\<And>a. echoes b (insert a A) (k a)" shows "echoes b A (bindIO getApp k)"
proof (rule echoesI)
  fix w :: world and X
  assume "based b X (w_app w)" "\<And>a. a \<in> A \<Longrightarrow> based b X a"
  with assms [of "w_app w"] show "\<exists>es. w_trace (snd (bindIO getApp k w)) = w_trace w @ es \<and> writes_ignored X es \<and>
      based b (X \<union> shown es) (w_app (snd (bindIO getApp k w)))"
    unfolding echoes_def by (simp add: bindIO_def handleIO_def getApp_def)
qed

lemma echoes_copy:
  assumes "a \<in> A" "steady b a c" "echoes b A m" shows "echoes b A (with_app c m)"
proof (rule echoesI)
  fix w :: world and X
  assume X: "based b X (w_app w)" "\<And>a. a \<in> A \<Longrightarrow> based b X a"
  obtain r w1 where run: "m (w\<lparr>w_app := c\<rparr>) = (r, w1)" by fastforce
  have "based b X (w_app (w\<lparr>w_app := c\<rparr>))" using X(2) [OF assms(1)] assms(2) based_steady by simp
  from echoesD [OF assms(3) run this X(2)] obtain es where "w_trace w1 = w_trace w @ es" "writes_ignored X es"
    by auto
  with run show "\<exists>es. w_trace (snd (with_app c m w)) = w_trace w @ es \<and> writes_ignored X es \<and>
      based b (X \<union> shown es) (w_app (snd (with_app c m w)))"
    using based_mono [OF X(1)] by (auto simp: with_app_def)
qed

lemma echoes_wrap: "echoes b A m \<Longrightarrow> echoes b A (wrapIO p m)"
  unfolding wrapIO_def by (intro echoes_handleIO echoes_quiet)

lemma echoes_ignore: "echoes b A m \<Longrightarrow> echoes b A (ignoreIO m)"
  unfolding ignoreIO_def by (intro echoes_handleIO echoes_quiet)

lemma echoes_defer: "echoes b A d \<Longrightarrow> echoes b A m \<Longrightarrow> echoes b A (deferIO d m)"
  unfolding deferIO_def by (intro echoes_handleIO echoes_bind echoes_quiet)

lemma echoes_when: "(c \<Longrightarrow> echoes b A m) \<Longrightarrow> echoes b A (whenIO c m)"
  by (simp add: whenIO_def echoes_quiet)

lemma echoes_if: "(c \<Longrightarrow> echoes b A m) \<Longrightarrow> (\<not> c \<Longrightarrow> echoes b A n) \<Longrightarrow> echoes b A (if c then m else n)"
  by simp

lemma echoes_option:
  "(x = None \<Longrightarrow> echoes b A m) \<Longrightarrow> (\<And>y. x = Some y \<Longrightarrow> echoes b A (k y)) \<Longrightarrow>
     echoes b A (case x of None \<Rightarrow> m | Some y \<Rightarrow> k y)"
  by (cases x) simp_all

lemma echoes_prod: "(\<And>x y. echoes b A (f x y)) \<Longrightarrow> echoes b A (case z of (x, y) \<Rightarrow> f x y)"
  by (cases z) simp

lemma echoes_let: "(\<And>x. echoes b A (f x)) \<Longrightarrow> echoes b A (let x = t in f x)"
  by (simp add: Let_def)

lemma echoes_mono: "echoes b A m \<Longrightarrow> A \<subseteq> B \<Longrightarrow> echoes b B m"
  unfolding echoes_def by (meson insert_mono subset_iff)

text \<open>A call that shows an object, which then becomes the one in memory.\<close>

lemma echoes_fetch:
  assumes "\<And>a. shows_app (ev (Inr a)) = Some a" and "\<And>r. \<not> writes_app (ev r)"
    and "\<And>a. steady b a (g a)" and "\<And>x. echoes b A (k x)"
  shows "echoes b A (bindIO (call f ev) (\<lambda>a. bindIO (putApp (g a)) k))"
proof -
  have "echoes b A (bindIO (call f ev) (\<lambda>a. putApp (g a)))"
  proof (rule echoesI)
    fix w :: world and X
    assume X: "based b X (w_app w)"
    show "\<exists>es. w_trace (snd (bindIO (call f ev) (\<lambda>a. putApp (g a)) w)) = w_trace w @ es \<and> writes_ignored X es \<and>
        based b (X \<union> shown es) (w_app (snd (bindIO (call f ev) (\<lambda>a. putApp (g a)) w)))"
    proof (cases "f (w_trace w)")
      case (Inl e)
      then show ?thesis using X assms(2) writes_ignored_quiet [of "[ev (Inl e)]" X] based_mono [OF X]
        by (intro exI [of _ "[ev (Inl e)]"]) (simp add: io_simps Let_def)
    next
      case (Inr a)
      have "based b {a} (g a)" using assms(3) by (simp add: based_def)
      then show ?thesis using Inr assms(1,2) writes_ignored_quiet [of "[ev (Inr a)]" X]
        by (intro exI [of _ "[ev (Inr a)]"]) (auto simp: io_simps Let_def intro: based_mono)
    qed
  qed
  from echoes_bind [OF this] assms(4) show ?thesis by (simp add: bindIO_assoc)
qed

text \<open>The two writes: the object is based, and the answer becomes the one in memory.\<close>

lemma echoes_status_update: "echoes b A (kube_status_update env)"
proof (rule echoesI)
  fix w :: world and X
  assume X: "based b X (w_app w)"
  let ?r = "update_application_status (e_kube env) (w_trace w) (w_app w)"
  have "ignored_write X (Kube (StatusUpdate (w_app w) ?r))"
    using X steady_ignored unfolding based_def by (auto simp: ignored_write_def)
  moreover have "shows_app (Kube (StatusUpdate (w_app w) (Inr a))) = Some a" for a by (simp add: shows_app_def)
  ultimately show "\<exists>es. w_trace (snd (kube_status_update env w)) = w_trace w @ es \<and> writes_ignored X es \<and>
      based b (X \<union> shown es) (w_app (snd (kube_status_update env w)))"
    using based_mono [OF X] by (intro exI [of _ "[Kube (StatusUpdate (w_app w) ?r)]"])
      (auto simp: kube_status_update_def io_simps Let_def based_def split: sum.splits)
qed

lemma echoes_update: "echoes True A (kube_update env)"
proof (rule echoesI)
  fix w :: world and X
  assume X: "based True X (w_app w)"
  let ?r = "update_application (e_kube env) (w_trace w) (w_app w)"
  have "ignored_write X (Kube (Update (w_app w) ?r))"
    using X steady_ignored unfolding based_def by (fastforce simp: ignored_write_def steady_def)
  moreover have "shows_app (Kube (Update (w_app w) (Inr a))) = Some a" for a by (simp add: shows_app_def)
  ultimately show "\<exists>es. w_trace (snd (kube_update env w)) = w_trace w @ es \<and> writes_ignored X es \<and>
      based True (X \<union> shown es) (w_app (snd (kube_update env w)))"
    using based_mono [OF X] by (intro exI [of _ "[Kube (Update (w_app w) ?r)]"])
      (auto simp: kube_update_def io_simps Let_def based_def split: sum.splits)
qed

lemma echoes_retry:
  assumes "retry_contract lib" and "echoes b A f" shows "echoes b A (retry_on_conflict lib f)"
proof -
  have "echoes b A (run_retries n f)" for n
    by (induction n) (auto intro!: echoes_handleIO echoes_quiet assms(2))
  then show ?thesis using assms(1) unfolding echoes_def retry_contract_def by metis
qed

lemmas echo_rules = echoes_get echoes_bind echoes_handleIO echoes_wrap echoes_ignore echoes_defer echoes_when
  echoes_if echoes_option echoes_prod echoes_let echoes_quiet

section \<open>Status writes\<close>

lemma steady_status [simp]:
  "steady b a (a\<lparr>app_status := s\<rparr>)" "steady b a (set_conditions cs a)" "steady b a (set_conditions_and_generation cs g a)"
  "steady b a (set_status_storage st a)" "steady b a (clear_storage_status env a)"
  by (simp_all add: steady_def set_conditions_def set_conditions_and_generation_def set_status_storage_def
      clear_storage_status_def)

lemma steady_metadata [simp]:
  "steady b a (remove_finalizer a)" "steady b a (add_finalizer a)"
  "steady b a (set_annotation StorageOwnershipIDAnnotation v a)" "steady False a (set_spec_storage st a)"
  by (simp_all add: steady_def remove_finalizer_def add_finalizer_def set_finalizers_def set_annotation_def
      set_spec_storage_def StorageOwnershipIDAnnotation_def AdoptBucketAnnotation_def)

lemma echoes_condition: "echoes b A (setStatusCondition env c)"
  by (rule echoesI) (auto simp: setStatusCondition_def intro: based_steady split: prod.splits)

lemma echoes_retryStatusUpdate:
  assumes "retry_contract (e_lib env)" shows "echoes b A (retryStatusUpdate env)"
proof -
  have fetch: "echoes b A (bindIO (kube_get_application env ns n) (\<lambda>fresh. bindIO (putApp fresh) (\<lambda>_. fail err)))"
    for A ns n err
    unfolding kube_get_application_def
    by (rule echoes_fetch [where g = "\<lambda>a. a"]) (simp_all add: shows_app_def writes_app_def echoes_quiet)
  show ?thesis
    unfolding retryStatusUpdate_def
    by (rule echoes_get, rule echoes_let, rule echoes_retry [OF assms], rule echoes_bind, rule echoes_modify, simp,
        rule echoes_handleIO, rule echoes_status_update, rule echoes_if, rule echoes_quiet, rule echoes_get,
        rule fetch, rule echoes_quiet)
qed

lemma echoes_UpdateStatus:
  assumes "retry_contract (e_lib env)" shows "echoes b A (UpdateStatus env)"
proof -
  have fetch: "echoes b A (bindIO (kube_api_get_application env ns n) (\<lambda>fresh.
      bindIO (putApp (set_conditions_and_generation cs g fresh)) (\<lambda>_. fail err)))" for A ns n err cs g
    unfolding kube_api_get_application_def
    by (rule echoes_fetch) (simp_all add: shows_app_def writes_app_def echoes_quiet)
  show ?thesis
    unfolding UpdateStatus_def
    by (rule echoes_bind, rule echoes_modify, simp, rule echoes_get, (rule echoes_let)+, rule echoes_retry [OF assms],
        rule echoes_handleIO, rule echoes_status_update, rule echoes_if, rule echoes_quiet, rule echoes_get,
        rule fetch, rule echoes_quiet)
qed

lemma echoes_setters:
  assumes "retry_contract (e_lib env)"
  shows "echoes b A (SetReconciling env msg)" "echoes b A (SetAppReady env msg)" "echoes b A (SetFailed env reason err)"
  unfolding SetReconciling_def SetAppReady_def SetFailed_def
  by (rule echo_rules echoes_condition echoes_UpdateStatus [OF assms])+

lemma echoes_storage_condition: "echoes b A (set_storage_condition env st reason msg)"
  unfolding set_storage_condition_def by (rule echo_rules echoes_condition)+

lemma echoes_log:
  assumes "retry_contract (e_lib env)" shows "echoes b A (log_status_update env)"
  unfolding log_status_update_def by (rule echo_rules echoes_retryStatusUpdate [OF assms])+

section \<open>Finalization\<close>

lemma not_writes_app [simp]:
  "is_cloud_io e \<Longrightarrow> \<not> writes_app e" "\<not> writes_app (Metric m)" "\<not> writes_app (Recorder t r x)"
  "\<not> writes_app (S3 se)" "\<not> writes_app (Iam ie)" "\<not> writes_app (Linode le)" "\<not> writes_app (View ve)"
  "is_kube_read e \<Longrightarrow> \<not> writes_app e" "is_manager_setup e \<Longrightarrow> \<not> writes_app e" "child_call k a e \<Longrightarrow> \<not> writes_app e"
  by (auto simp: writes_app_def is_cloud_io_def is_kube_read_def is_manager_setup_def child_call_def
      split: event.splits kube_event.splits)

lemma echoes_cloud_copy: "emits P m \<Longrightarrow> (\<And>e. P e \<Longrightarrow> \<not> writes_app e) \<Longrightarrow> echoes b A (with_app c m)"
  by (intro echoes_apart emits_with_app keeps_intros) (erule emits_mono, blast)

lemma echoes_metric: "echoes b A (cleanup_metrics p outcome)" "echoes b A (record_event r ty reason msg)"
  unfolding cleanup_metrics_def record_event_def
  by (intro echoes_apart emits_intros keeps_intros; simp)+

lemma echoes_cleanup_provider:
  assumes "retry_contract (e_lib env)" and "\<And>sa. emits is_manager_setup (mk sa)" and "\<And>m. emits is_cloud_io (cleanup m)"
  shows "echoes b A (cleanup_provider env r c provider mk cleanup classify cm dm reason msg)"
  unfolding cleanup_provider_def failStorageCleanup_def SetCleanupInProgress_def SetCleanupFailed_def
  by (rule echo_rules echoes_storage_condition echoes_log [OF assms(1)] echoes_metric
        echoes_cloud_copy [OF assms(2)] echoes_cloud_copy [OF assms(3)] not_writes_app | assumption)+

lemma echoes_retained:
  assumes "\<And>sa. emits is_manager_setup (mk sa)" and "\<And>m. emits is_cloud_io (cred m)"
  shows "echoes b A (retained_credentials env r c mk cred reason msg)"
  unfolding retained_credentials_def
  by (rule echo_rules echoes_metric echoes_cloud_copy [OF assms(1)] echoes_cloud_copy [OF assms(2)] not_writes_app
      | assumption)+

lemma echoes_finalizeApplication:
  assumes "retry_contract (e_lib env)" shows "echoes b A (finalizeApplication env r)"
proof -
  have prepares: "emits is_manager_setup (cleanup_s3_manager env r sa)" "emits is_manager_setup (cleanup_akamai_manager env r sa)"
    for sa unfolding cleanup_s3_manager_def cleanup_akamai_manager_def by (rule NewS3Manager_emits NewAkamaiManager_emits)+
  have storage: "echoes b A (finalize_storage env r app st)" for A app st
    unfolding finalize_storage_def cleanupRetainedStorageCredentials_def retainStorage_def SetRetained_def
      aws_cleanup_def akamai_cleanup_def
    by (rule echo_rules echoes_storage_condition echoes_log [OF assms] echoes_metric
          echoes_retained [OF prepares(1) credentials_only_cloud(1)] echoes_retained [OF prepares(2) credentials_only_cloud(2)]
          echoes_cleanup_provider [OF assms prepares(1) CleanupBucket_cloud]
          echoes_cleanup_provider [OF assms prepares(2) ak_DeleteBucket_cloud])+
  show ?thesis
    unfolding finalizeApplication_def
    by (rule echo_rules storage echoes_emit not_writes_app)+
qed

lemma echoes_handleFinalizer:
  assumes "retry_contract (e_lib env)" shows "echoes True A (handleFinalizer env r)"
  unfolding handleFinalizer_def
  by (rule echo_rules echoes_finalizeApplication [OF assms] echoes_modify steady_metadata echoes_update
      echoes_emit not_writes_app)+

section \<open>Provisioning\<close>

lemma echoes_s3_ReconcileBucket:
  assumes "\<And>cb. m_record_created m = Some cb \<Longrightarrow> echoes b A cb"
  shows "echoes b A (s3_ReconcileBucket env m)"
proof -
  have tag: "emits (\<lambda>e. \<not> writes_app e) (tagAsOwned env m ts)" "keeps_app (tagAsOwned env m ts)" for ts
    unfolding tagAsOwned_def s3_put_bucket_tagging_def by (intro emits_intros keeps_intros; simp)+
  have untagged: "emits (\<lambda>e. \<not> writes_app e) (claimUntagged env m ts)" "keeps_app (claimUntagged env m ts)" for ts
    unfolding claimUntagged_def record_adopted_def by (intro emits_intros keeps_intros tag; simp)+
  have claim: "echoes b A (claimOrVerifyOwnership env m)"
    unfolding claimOrVerifyOwnership_def s3_get_bucket_tagging_def record_adopted_def record_reclaimed_def Let_def
    by (intro echoes_apart emits_intros keeps_intros tag untagged) simp_all
  have made: "echoes b A (recordBucketCreated env m)"
    unfolding recordBucketCreated_def by (rule echo_rules assms | assumption)+
  have ensured: "echoes b A (ensureBucketExists env m)"
    unfolding ensureBucketExists_def create_and_claim_def s3_CreateBucket_def s3_head_bucket_def s3_create_bucket_def
    by (rule echo_rules claim made | (rule echoes_apart; intro emits_intros keeps_intros; simp))+
  have rest: "echoes b A (ensureVersioning env m)" "echoes b A (ensureLifecyclePolicy env m)"
      "echoes b A (ReconcileAppIRSA env m)"
    unfolding ensureVersioning_def ensureLifecyclePolicy_def ReconcileAppIRSA_def s3_call_defs Let_def
    by (intro echoes_apart emits_intros keeps_intros; simp)+
  show ?thesis
    unfolding s3_ReconcileBucket_def by (rule echo_rules ensured rest)+
qed

lemma echoes_ak_ReconcileBucket:
  assumes "\<And>cb. k_record_created m = Some cb \<Longrightarrow> echoes b A cb"
  shows "echoes b A (ak_ReconcileBucket env m)"
proof -
  have own: "emits (\<lambda>e. \<not> writes_app e) (ak_claimOwnership env m)" "keeps_app (ak_claimOwnership env m)"
    unfolding ak_claimOwnership_def object_put_def by (intro emits_intros keeps_intros; simp)+
  have claim: "echoes b A (ak_claimOrVerifyOwnership env m)"
    unfolding ak_claimOrVerifyOwnership_def object_get_def ak_record_adopted_def ak_record_reclaimed_def Let_def
    by (intro echoes_apart emits_intros keeps_intros own ak_ask_created_quiet) simp_all
  have made: "echoes b A (ak_recordBucketCreated env m)"
    unfolding ak_recordBucketCreated_def by (rule echo_rules assms | assumption)+
  have ensured: "echoes b A (ak_ensureBucketExists env m)"
    unfolding ak_ensureBucketExists_def linode_get_bucket_def linode_create_bucket_def
    by (rule echo_rules made | (rule echoes_apart; intro emits_intros keeps_intros; simp))+
  have keys: "echoes b A (ensureAccessKey env m)" "echoes b A (deleteApplicationAccessKey env)"
    by (intro echoes_apart ensureAccessKey_emits ensureAccessKey_keeps deleteApplicationAccessKey_emits
        deleteApplicationAccessKey_keeps; simp)+
  show ?thesis
    unfolding ak_ReconcileBucket_def by (rule echo_rules ensured keys claim)+
qed

lemma echoes_storage_steps:
  assumes "retry_contract (e_lib env)"
  shows "echoes b A spec_storage" "echoes b A (record_created env provider)"
    "echoes b A (manager_failed env provider classify msg err)"
    "echoes b A (bucket_failed env provider classify msg err)" "echoes b A (storage_settled env provider status msg)"
proof -
  have spec: "echoes b A spec_storage" for A unfolding spec_storage_def by (rule echo_rules)+
  have gauge: "echoes b A (storage_ready_gauge p v)" for A p v
    unfolding storage_ready_gauge_def by (rule echo_rules echoes_emit not_writes_app)+
  have conditions: "echoes b A (SetNotReady env e)" "echoes b A (SetNotOwned env e)" "echoes b A (SetReady env st m)"
    for A e st m
    unfolding SetNotReady_def SetNotOwned_def SetReady_def
    by (rule echoes_storage_condition echo_rules echoes_modify steady_status)+
  have failed: "echoes b A (storage_failed env provider outcome mark err)"
    if "echoes b A mark" for A outcome and mark :: "unit io" and err
    unfolding storage_failed_def
    by (rule echo_rules that echoes_log [OF assms] echoes_emit gauge not_writes_app)+
  show "echoes b A spec_storage" by (rule spec)
  show "echoes b A (record_created env provider)"
    unfolding record_created_def
    by (rule echo_rules spec echoes_modify steady_status echoes_retryStatusUpdate [OF assms])+
  show "echoes b A (manager_failed env provider classify msg err)"
    unfolding manager_failed_def by (rule failed conditions)+
  show "echoes b A (bucket_failed env provider classify msg err)"
    unfolding bucket_failed_def Let_def by (rule failed echoes_if conditions)+
  show "echoes b A (storage_settled env provider status msg)"
    unfolding storage_settled_def
    by (rule echo_rules spec conditions gauge echoes_retryStatusUpdate [OF assms] echoes_emit not_writes_app)+
qed

lemma echoes_child:
  assumes "emits_as (child_call k) m" and "keeps_app m" shows "echoes b A m"
proof -
  have "emits (\<lambda>e. \<not> writes_app e) m"
    unfolding emits_def
  proof
    fix w :: world
    obtain es where "w_trace (snd (m w)) = w_trace w @ es" "list_all (child_call k (w_app w)) es"
      using assms(1) unfolding emits_as_def by blast
    then show "\<exists>es. w_trace (snd (m w)) = w_trace w @ es \<and> list_all (\<lambda>e. \<not> writes_app e) es"
      by (auto simp: list_all_iff)
  qed
  then show ?thesis using assms(2) by (rule echoes_apart)
qed

lemma echoes_children:
  "echoes b A (reconcileServiceAccount env)" "echoes b A (reconcileConfigMap env)" "echoes b A (reconcileService env)"
  "echoes b A (reconcileDeployment env)" "echoes b A (reconcileIngress env)" "echoes b A (reconcilePDB env)"
  "echoes b A (reconcileHPA env)" "echoes b A (reconcileStorageSecret env creds)"
  by (rule echoes_child service_account_child.calls service_account_child.keeps config_map_child.calls
      config_map_child.keeps service_child.calls service_child.keeps deployment_child.calls deployment_child.keeps
      ingress_child.calls ingress_child.keeps pdb_child.calls pdb_child.keeps hpa_child.calls hpa_child.keeps
      storage_secret_child.calls storage_secret_child.keeps)+

lemma echoes_annotate: "echoes b A (annotateServiceAccountWithIRSA env arn)"
  unfolding annotateServiceAccountWithIRSA_def apply_owned_def kube_apply_def Let_def
  by (intro echoes_apart emits_intros keeps_intros; simp add: writes_app_def split: sum.splits)

lemma echoes_reconcileAWSStorage:
  assumes "retry_contract (e_lib env)" shows "echoes b A (reconcileAWSStorage env r)"
proof -
  note steps = echoes_storage_steps [OF assms]
  have mk: "echoes b A (provisioning_s3_manager env r)"
    unfolding provisioning_s3_manager_def newS3StorageManager_def
    by (rule echo_rules echoes_apart emits_mono [OF NewS3Manager_emits] NewS3Manager_keeps not_writes_app | assumption)+
  have callback: "m_record_created m = Some (record_created env ProviderAWSS3)"
    if "provisioning_s3_manager env r w = (Inr m, w')" for w m w'
    using that NewManager_callback(1)
    by (auto simp: provisioning_s3_manager_def newS3StorageManager_def bindIO_step [of getApp w "w_app w" w] getApp_def)
  have bucket: "echoes b A (s3_ReconcileBucket env m)"
    if "provisioning_s3_manager env r w = (Inr m, w')" for w m w'
    by (rule echoes_s3_ReconcileBucket) (use callback [OF that] steps(2) in simp)
  show ?thesis
    unfolding reconcileAWSStorage_def
    by (rule echoes_defer echoes_emit not_writes_app echoes_handleIO mk steps echoes_bind echoes_if echoes_quiet
        echoes_annotate bucket | assumption)+
qed

lemma echoes_reconcileAkamaiStorage:
  assumes "retry_contract (e_lib env)" shows "echoes b A (reconcileAkamaiStorage env r)"
proof -
  note steps = echoes_storage_steps [OF assms]
  have mk: "echoes b A (provisioning_akamai_manager env r)"
    unfolding provisioning_akamai_manager_def newAkamaiStorageManager_def
    by (rule echoes_apart emits_mono [OF NewAkamaiManager_emits] NewAkamaiManager_keeps not_writes_app | assumption)+
  have bucket: "echoes b A (ak_ReconcileBucket env m)"
    if "provisioning_akamai_manager env r w = (Inr m, w')" for w m w'
    using that NewManager_callback(2) steps(2)
    by (intro echoes_ak_ReconcileBucket) (auto simp: provisioning_akamai_manager_def newAkamaiStorageManager_def)
  have recall: "echoes b A (recall_secret_key env first)" for first
    unfolding recall_secret_key_def kube_get_secret_def
    by (intro echoes_apart emits_intros keeps_intros) (simp_all add: writes_app_def)
  show ?thesis
    unfolding reconcileAkamaiStorage_def
    by (rule echoes_defer echoes_emit not_writes_app echoes_handleIO mk steps echoes_bind recall echoes_quiet bucket
        | assumption)+
qed

lemma echoes_reconcileStorage:
  assumes "retry_contract (e_lib env)" shows "echoes False A (reconcileStorage env r)"
proof -
  have call: "echoes False A (call (\<lambda>h. f h) (\<lambda>x. Kube (ApplyOwnershipID ns n i x)))"
    for A ns n i and f :: "history \<Rightarrow> gerror + unit"
    by (intro echoes_apart emits_intros keeps_intros) (simp add: writes_app_def)
  have own: "echoes False A (ensureStorageOwnershipID env)" for A
    unfolding ensureStorageOwnershipID_def by (rule echo_rules call echoes_modify steady_metadata)+
  have copied: "echoes False (insert a A) (with_app (set_spec_storage st a) (finalizeApplication env r))" for a A st
    by (rule echoes_copy [OF insertI1 steady_metadata(4) echoes_finalizeApplication [OF assms]])
  have clean: "echoes False A (cleanupPreviousStorage env r old)" for A old
    unfolding cleanupPreviousStorage_def
    by (rule copied echo_rules echoes_modify steady_status echoes_retryStatusUpdate [OF assms])+
  have unsupported: "echoes False A (SetNotReady env e)" for A e
    unfolding SetNotReady_def by (rule echoes_storage_condition)
  have provision: "echoes False A (provision_storage env r p)" for A p
    unfolding provision_storage_def
    by (rule echo_rules echoes_reconcileAWSStorage [OF assms] echoes_reconcileAkamaiStorage [OF assms] unsupported
        echoes_log [OF assms])+
  show ?thesis
    unfolding reconcileStorage_def cleanup_replaced_storage_def
    by (rule echo_rules clean own provision echoes_children echoes_storage_steps(1) [OF assms])+
qed

section \<open>One pass\<close>

lemma echoes_EvaluateComputeReadiness: "echoes b A (EvaluateComputeReadiness env)"
proof -
  have look: "emits (\<lambda>e. \<not> writes_app e) m"
    if "emits (\<lambda>e. case e of View x \<Rightarrow> True | _ \<Rightarrow> False) m" for m :: "(bool \<times> string) io"
    by (rule emits_mono [OF that]) (simp split: event.splits)
  have checks: "echoes b A (IsDeploymentReady env ns n)" "echoes b A (IsIngressReady env ns n)"
      "echoes b A (IsHPAReady env ns n)" "echoes b A (IsPDBReady env ns n)" for A ns n
    by (rule echoes_apart look deployment_check.only_looks deployment_check.keeps ingress_check.only_looks
        ingress_check.keeps hpa_check.only_looks hpa_check.keeps pdb_check.only_looks pdb_check.keeps)+
  have service: "echoes b A (view_get_service env ns n)" for A ns n
    unfolding view_get_service_def by (intro echoes_apart emits_intros keeps_intros) simp
  show ?thesis
    unfolding EvaluateComputeReadiness_def when_set_def unless_ready_def
    by (rule echo_rules checks service)+
qed

lemma echoes_reconcile_present:
  assumes "retry_contract (e_lib env)" shows "echoes False A (reconcile_present env r)"
proof -
  have gauge: "echoes False A (application_ready_gauge v)" for A v
    unfolding application_ready_gauge_def by (rule echo_rules echoes_emit not_writes_app)+
  have failed: "echoes False A (reconcile_failed env reason err)" for A reason err
    unfolding reconcile_failed_def by (rule echo_rules gauge echoes_setters [OF assms])+
  have settled: "echoes False A (reconcile_settled env r reason)" for A reason
    unfolding reconcile_settled_def jitteredStorageResyncInterval_def
    by (rule echo_rules gauge echoes_setters [OF assms])+
  have ensured: "echoes False A (ensureDesiredState env r)" for A
    unfolding ensureDesiredState_def by (rule echoes_bind echoes_children echoes_reconcileStorage [OF assms])+
  show ?thesis
    unfolding reconcile_present_def
    by (rule echo_rules ensured failed settled gauge echoes_EvaluateComputeReadiness echoes_setters [OF assms])+
qed

text \<open>After the last write of the whole object the spec may differ from what the server has.\<close>

lemma echoes_then:
  assumes "echoes True {} m" and "\<And>x. echoes False {} (k x)" and "based True X (w_app w)"
  shows "\<exists>es. w_trace (snd (bindIO m k w)) = w_trace w @ es \<and> writes_ignored X es"
proof -
  obtain r w1 where m: "m w = (r, w1)" by fastforce
  obtain es where es: "w_trace w1 = w_trace w @ es" "writes_ignored X es" "based True (X \<union> shown es) (w_app w1)"
    using echoesD [OF assms(1) m assms(3)] by auto
  then have weak: "based False (X \<union> shown es) (w_app w1)" by (auto simp: based_def steady_def)
  show ?thesis
  proof (cases r)
    case (Inl e)
    with m es show ?thesis by (simp add: bindIO_def handleIO_def fail_def)
  next
    case (Inr x)
    obtain r' w2 where run: "k x w1 = (r', w2)" by fastforce
    obtain es' where "w_trace w2 = w_trace w1 @ es'" "writes_ignored (X \<union> shown es) es'"
      using echoesD [OF assms(2) run weak] by auto
    with m es run Inr show ?thesis
      by (intro exI [of _ "es @ es'"]) (simp add: bindIO_step [of m w x w1] writes_ignored_append)
  qed
qed

text \<open>
  C9: the controller does not wake itself. Whatever the services answer, every write that a pass
  makes to its Application is one that the watch predicate drops: the status writes, the update
  that adds or removes the finalizer and the patch of the ownership annotation leave the
  generation, the deletion timestamp and the adopt annotation of an object that the server
  showed in this pass as they were, and an update of the whole object leaves its spec, so the
  generation does not grow either. A pass that fails therefore returns by the rate limited
  queue and never by its own status update.
\<close>

theorem own_writes_do_not_retrigger:
  assumes "retry_contract (e_lib env)"
  shows "writes_ignored {} (new_events w (snd (Reconcile env r ns name w)))"
proof (cases "get_application (e_kube env) (w_trace w) ns name")
  case (Inl e)
  then have "w_trace (snd (Reconcile env r ns name w)) = w_trace w @ [Kube (GetApplication ns name (Inl e))]"
    by (simp add: Reconcile_def kube_get_application_def io_simps Let_def)
  then show ?thesis by (simp add: new_events_eq ignored_write_def)
next
  case (Inr app)
  let ?ev = "Kube (GetApplication ns name (Inr app))"
  let ?w1 = "w\<lparr>w_trace := w_trace w @ [?ev], w_app := app\<rparr>"
  let ?m = "bindIO (SetReconciling env ''Reconciling Application resources'') (\<lambda>_. handleFinalizer env r)"
  let ?k = "\<lambda>isDeleting. if isDeleting then ret 0 else reconcile_present env r"
  have "Reconcile env r ns name w = bindIO ?m ?k ?w1"
    unfolding Reconcile_found [OF Inr] finalize_then_reconcile_def bindIO_assoc by (rule refl)
  moreover have "echoes True {} ?m"
    by (rule echoes_bind echoes_setters [OF assms] echoes_handleFinalizer [OF assms])+
  moreover have "echoes False {} (?k d)" for d
    by (rule echoes_if echoes_quiet echoes_reconcile_present [OF assms])+
  moreover have "based True {app} (w_app ?w1)" by (simp add: based_def)
  ultimately obtain es where "w_trace (snd (Reconcile env r ns name w)) = w_trace ?w1 @ es" "writes_ignored {app} es"
    using echoes_then [of ?m ?k "{app}" ?w1] by auto
  then have "new_events w (snd (Reconcile env r ns name w)) = ?ev # es" by (intro new_events_eq) simp
  with \<open>writes_ignored {app} es\<close> show ?thesis by (simp add: shows_app_def ignored_write_def)
qed

theorem own_writes_do_not_retrigger_witness:
  "writes_ignored {} (new_events sample_world
     (snd (Reconcile sample_env sample_reconciler ''ns'' ''app'' sample_world)))"
  by (rule own_writes_do_not_retrigger) (simp add: sample_retry_contract)

end
