(* ===== verification/Go_Float.thy ===== *)
theory Go_Float
  imports Complex_Main Go_Prelude
begin

text \<open>
  Go's \<open>float64\<close>: the binary64 numbers of IEEE 754 with rounding to nearest, ties to even,
  as the exact rational they stand for. A finite number is \<open>Fin x\<close>; the two zeros are one value
  here, which no operation of the program can tell apart (none divides by a zero). The
  arithmetic rounds the exact result once, as Go does for operations that it does not fuse.
\<close>

section \<open>Rounding\<close>

text \<open>The number of binary digits.\<close>

function bits :: "int \<Rightarrow> nat" where
  "bits n = (if n \<le> 0 then 0 else Suc (bits (n div 2)))"
  by auto
termination by (relation "measure nat") auto

declare bits.simps [simp del]

lemma bits_bounds: "0 < n \<Longrightarrow> 2 ^ (bits n - 1) \<le> n \<and> n < 2 ^ bits n"
proof (induction n rule: bits.induct)
  case (1 n)
  show ?case
  proof (cases "n div 2 \<le> 0")
    case True
    with 1(2) have "n = 1" by simp
    then show ?thesis by (simp add: bits.simps)
  next
    case False
    then have IH: "2 ^ (bits (n div 2) - 1) \<le> n div 2" "n div 2 < 2 ^ bits (n div 2)"
      using 1 by auto
    have pos: "bits (n div 2) = Suc (bits (n div 2) - 1)"
      using False bits.simps [of "n div 2"] by simp
    have "bits n = Suc (bits (n div 2))" using 1(2) by (simp add: bits.simps)
    moreover have "2 ^ bits (n div 2) \<le> n"
      using IH(1) by (subst pos) simp
    moreover have "n < 2 * 2 ^ bits (n div 2)" using IH(2) by linarith
    ultimately show ?thesis by simp
  qed
qed

definition pow2 :: "int \<Rightarrow> rat" where
  "pow2 e = 2 powi e"

text \<open>The exponent of a positive number: the largest power of two that is not above it.\<close>

definition exponent :: "rat \<Rightarrow> int" where
  "exponent x =
     (let (n, d) = quotient_of x; e = int (bits n) - int (bits d)
      in if pow2 e \<le> x then e else e - 1)"

text \<open>Binary64 keeps 53 digits; below its normal range the spacing stays at \<open>2 ^ -1074\<close>.\<close>

definition spacing :: "rat \<Rightarrow> rat" where
  "spacing x = pow2 (max (exponent x - 52) (- 1074))"

definition round_even :: "rat \<Rightarrow> int" where
  "round_even x =
     (let f = \<lfloor>x\<rfloor>; d = x - of_int f
      in if d < 1 / 2 then f else if 1 / 2 < d then f + 1 else if even f then f else f + 1)"

definition round_pos :: "rat \<Rightarrow> rat" where
  "round_pos x = of_int (round_even (x / spacing x)) * spacing x"

definition round_rat :: "rat \<Rightarrow> rat" where
  "round_rat x = (if x = 0 then 0 else if x < 0 then - round_pos (- x) else round_pos x)"

section \<open>Rounding is monotone and exact on binary64 numbers\<close>

lemma pow2_pos [simp]: "0 < pow2 e"
  by (simp add: pow2_def)

lemma pow2_not_neg [simp]: "\<not> pow2 e < 0" "pow2 e \<noteq> 0"
  using pow2_pos [of e] by linarith+

lemma pow2_less [simp]: "pow2 a < pow2 b \<longleftrightarrow> a < b"
proof -
  have mono: "pow2 a < pow2 b" if "a < b" for a b
    using that by (simp add: pow2_def power_int_strict_increasing)
  show ?thesis using mono [of a b] mono [of b a] by (metis less_irrefl linorder_less_linear less_asym)
qed

lemma pow2_le [simp]: "pow2 a \<le> pow2 b \<longleftrightarrow> a \<le> b"
  using pow2_less [of b a] by linarith

lemma pow2_add: "pow2 (a + b) = pow2 a * pow2 b"
  by (simp add: pow2_def power_int_add)

lemma pow2_divide: "pow2 a / pow2 b = pow2 (a - b)"
  by (simp add: pow2_def power_int_diff)

lemma pow2_of_nat: "pow2 (int k) = of_int (2 ^ k)"
  by (simp add: pow2_def)

lemma pow2_numeral:
  "pow2 (numeral k) = 2 ^ numeral k" "pow2 (- numeral k) = 1 / 2 ^ numeral k"
  "pow2 0 = 1" "pow2 1 = 2" "pow2 (- 1) = 1 / 2"
  by (simp_all add: pow2_def power_int_def power_one_over inverse_eq_divide)

lemma exponent_bounds:
  assumes "0 < x"
  shows "pow2 (exponent x) \<le> x" and "x < pow2 (exponent x + 1)"
proof -
  obtain n d where q: "quotient_of x = (n, d)" by fastforce
  have d: "0 < d" and x: "x = of_int n / of_int d"
    using q quotient_of_denom_pos quotient_of_div by blast+
  have n: "0 < n" using assms x d by (simp add: zero_less_divide_iff)
  have bn: "pow2 (int (bits n) - 1) \<le> of_int n" "of_int n < pow2 (int (bits n))"
    and bd: "pow2 (int (bits d) - 1) \<le> of_int d" "of_int d < pow2 (int (bits d))"
  proof -
    have "pow2 (int (bits k) - 1) \<le> of_int k \<and> of_int k < pow2 (int (bits k))" if "0 < k" for k
    proof -
      have pos: "0 < bits k" using that by (simp add: bits.simps)
      then have e: "int (bits k) - 1 = int (bits k - 1)" by simp
      have "(of_int (2 ^ (bits k - 1)) :: rat) \<le> of_int k" "(of_int k :: rat) < of_int (2 ^ bits k)"
        using bits_bounds [OF that] by (simp_all only: of_int_le_iff of_int_less_iff)
      then show ?thesis by (simp only: e pow2_of_nat)
    qed
    with n d show "pow2 (int (bits n) - 1) \<le> of_int n" "of_int n < pow2 (int (bits n))"
      "pow2 (int (bits d) - 1) \<le> of_int d" "of_int d < pow2 (int (bits d))" by blast+
  qed
  let ?e = "int (bits n) - int (bits d)"
  have "pow2 (?e - 1) = pow2 (int (bits n) - 1) / pow2 (int (bits d))"
    by (simp add: pow2_divide algebra_simps)
  also have "\<dots> \<le> x"
    unfolding x using bn bd d n by (intro frac_le) simp_all
  finally have lo: "pow2 (?e - 1) \<le> x" .
  have "x \<le> of_int n / pow2 (int (bits d) - 1)"
    unfolding x using bn bd d n by (intro divide_left_mono) simp_all
  also have "\<dots> < pow2 (int (bits n)) / pow2 (int (bits d) - 1)"
    using bn by (intro divide_strict_right_mono) simp_all
  also have "\<dots> = pow2 (?e + 1)" by (simp add: pow2_divide algebra_simps)
  finally have hi: "x < pow2 (?e + 1)" .
  have e: "exponent x = (if pow2 ?e \<le> x then ?e else ?e - 1)"
    by (simp add: exponent_def q)
  show "pow2 (exponent x) \<le> x" "x < pow2 (exponent x + 1)"
    using lo hi by (simp_all add: e)
qed

lemma exponent_less_iff: "0 < x \<Longrightarrow> exponent x < e \<longleftrightarrow> x < pow2 e"
  using exponent_bounds [of x] pow2_le [of e "exponent x"] pow2_le [of "exponent x + 1" e]
  by (meson linorder_not_less order_less_le_trans order_trans zless_imp_add1_zle)

lemma exponent_unique: "pow2 e \<le> x \<Longrightarrow> x < pow2 (e + 1) \<Longrightarrow> exponent x = e"
  using exponent_less_iff [of x "e + 1"] exponent_less_iff [of x e] less_le_trans [OF pow2_pos, of e x]
  by fastforce

lemma exponent_mono: "0 < x \<Longrightarrow> x \<le> y \<Longrightarrow> exponent x \<le> exponent y"
  using exponent_less_iff [of y "exponent x"] exponent_less_iff [of x "exponent x"] by fastforce

lemma spacing_pos [simp]: "0 < spacing x"
  by (simp add: spacing_def)

lemma round_even_of_int [simp]: "round_even (of_int k) = k"
  by (simp add: round_even_def)

lemma round_even_floor: "\<lfloor>x\<rfloor> \<le> round_even x" "round_even x \<le> \<lfloor>x\<rfloor> + 1"
  by (simp_all add: round_even_def Let_def)

lemma round_even_mono:
  assumes "x \<le> y" shows "round_even x \<le> round_even y"
proof (cases "\<lfloor>x\<rfloor> = \<lfloor>y\<rfloor>")
  case True
  with assms show ?thesis by (auto simp: round_even_def Let_def)
next
  case False
  with assms have "\<lfloor>x\<rfloor> + 1 \<le> \<lfloor>y\<rfloor>" using floor_mono [of x y] by linarith
  then show ?thesis using round_even_floor(2) [of x] round_even_floor(1) [of y] by linarith
qed

lemma round_even_le: "x \<le> of_int k \<Longrightarrow> round_even x \<le> k"
  using round_even_mono [of x "of_int k"] by simp

lemma round_even_ge: "of_int k \<le> x \<Longrightarrow> k \<le> round_even x"
  using round_even_mono [of "of_int k" x] by simp

lemma round_pos_nonneg: "0 < x \<Longrightarrow> 0 \<le> round_pos x"
  using round_even_ge [of 0 "x / spacing x"] by (simp add: round_pos_def less_imp_le)

text \<open>Below or above a number that is a multiple of the spacing, the rounding stays there.\<close>

lemma round_pos_le: "x \<le> of_int k * spacing x \<Longrightarrow> round_pos x \<le> of_int k * spacing x"
  unfolding round_pos_def
  by (intro mult_right_mono) (simp_all add: round_even_le divide_le_eq less_imp_le)

lemma round_pos_ge: "of_int k * spacing x \<le> x \<Longrightarrow> of_int k * spacing x \<le> round_pos x"
  unfolding round_pos_def
  by (intro mult_right_mono) (simp_all add: round_even_ge le_divide_eq less_imp_le)

lemma round_pos_mono:
  assumes "0 < x" "x \<le> y" shows "round_pos x \<le> round_pos y"
proof (cases "spacing x = spacing y")
  case True
  with assms(2) show ?thesis
    unfolding round_pos_def True by (intro mult_right_mono) (simp_all add: round_even_mono divide_right_mono less_imp_le)
next
  case False
  let ?B = "pow2 (exponent y)"
  have ex: "exponent x \<le> exponent y" using assms by (rule exponent_mono)
  have e: "exponent x < exponent y" "- 1074 < exponent y - 52"
    using ex False by (cases "exponent x = exponent y"; force simp: spacing_def max_def split: if_splits)+
  have k: "?B = of_int (2 ^ nat (exponent y - s)) * pow2 s" if "s \<le> exponent y" for s
    using that pow2_of_nat [of "nat (exponent y - s)"] pow2_add [of "exponent y - s" s] by simp
  have "x < ?B" using exponent_less_iff [OF assms(1)] e(1) by simp
  moreover obtain k1 where "?B = of_int k1 * spacing x"
    using k [of "max (exponent x - 52) (- 1074)"] e unfolding spacing_def by auto
  ultimately have "round_pos x \<le> ?B" using round_pos_le [of x k1] by simp
  moreover have "?B \<le> y" using exponent_bounds(1) [of y] assms by simp
  moreover have "?B = of_int (2 ^ 52) * spacing y"
    using e(2) k [of "exponent y - 52"] by (simp add: spacing_def max_def)
  ultimately show ?thesis using round_pos_ge [of "2 ^ 52" y] by simp
qed

lemma round_rat_mono: "x \<le> y \<Longrightarrow> round_rat x \<le> round_rat y"
  using round_pos_mono [of x y] round_pos_mono [of "- y" "- x"] round_pos_nonneg [of "- x"] round_pos_nonneg [of y]
  by (auto simp: round_rat_def)

text \<open>
  A multiple of \<open>2 ^ e\<close> by at most 53 digits is a binary64 number, and rounding leaves it
  as it is; every result of rounding is one.
\<close>

lemma spacing_nonzero [simp]: "spacing x \<noteq> 0"
  using spacing_pos [of x] by (metis less_irrefl)

lemma round_pos_multiple:
  assumes "x = of_int k * spacing x" shows "round_pos x = x"
proof -
  have "x / spacing x = of_int k"
    using assms spacing_nonzero by (metis nonzero_mult_div_cancel_right)
  then show ?thesis using assms by (simp add: round_pos_def)
qed

lemma round_pos_exact:
  assumes "0 < m" "m \<le> 2 ^ 53" "- 1074 \<le> e"
  shows "round_pos (of_int m * pow2 e) = of_int m * pow2 e"
proof -
  let ?x = "of_int m * pow2 e"
  show ?thesis
  proof (cases "m = 2 ^ 53")
    case True
    then have x: "?x = pow2 (53 + e)" using pow2_add [of 53 e] pow2_of_nat [of 53] by simp
    then have "exponent ?x = 53 + e" by (intro exponent_unique) simp_all
    then have "spacing ?x = pow2 (e + 1)" using assms(3) by (simp add: spacing_def max_def add.commute)
    moreover have "?x = of_int (2 ^ 52) * pow2 (e + 1)"
      using x pow2_add [of 52 "e + 1"] pow2_of_nat [of 52] by (simp add: add.commute)
    ultimately show ?thesis by (intro round_pos_multiple [of _ "2 ^ 52"]) simp
  next
    case False
    with assms have "of_int m < (of_int (2 ^ 53) :: rat)" by (simp only: of_int_less_iff)
    then have "?x < pow2 (53 + e)" using pow2_add [of 53 e] pow2_of_nat [of 53] by simp
    then have "exponent ?x < 53 + e" using exponent_less_iff [of ?x "53 + e"] assms(1) by simp
    then obtain s where s: "spacing ?x = pow2 s" "s \<le> e"
      using assms(3) unfolding spacing_def by fastforce
    have "?x = of_int (m * 2 ^ nat (e - s)) * pow2 s"
      using s(2) pow2_of_nat [of "nat (e - s)"] pow2_add [of "e - s" s] by simp
    then show ?thesis using round_pos_multiple [of ?x "m * 2 ^ nat (e - s)"] s(1) by metis
  qed
qed

lemma round_rat_zero [simp]: "round_rat 0 = 0"
  by (simp add: round_rat_def)

lemma round_rat_minus: "round_rat (- x) = - round_rat x"
  by (auto simp: round_rat_def)

lemma round_rat_exact:
  assumes "\<bar>m\<bar> \<le> 2 ^ 53" "- 1074 \<le> e"
  shows "round_rat (of_int m * pow2 e) = of_int m * pow2 e"
proof -
  have pos: "round_rat (of_int m * pow2 e) = of_int m * pow2 e" if "0 < m" "m \<le> 2 ^ 53" for m
    using round_pos_exact [OF that assms(2)] that(1) by (simp add: round_rat_def mult_less_0_iff)
  show ?thesis
    using pos [of m] pos [of "- m"] assms(1) round_rat_minus [of "of_int m * pow2 e"]
    by (cases m "0 :: int" rule: linorder_cases) auto
qed

lemma round_rat_of_int: "\<bar>m\<bar> \<le> 2 ^ 53 \<Longrightarrow> round_rat (of_int m) = of_int m"
  using round_rat_exact [of m 0] by (simp add: pow2_def)

lemma round_pos_form:
  assumes "0 < x"
  obtains m e where "round_pos x = of_int m * pow2 e" "0 \<le> m" "m \<le> 2 ^ 53" "- 1074 \<le> e"
proof
  let ?e = "max (exponent x - 52) (- 1074)" and ?m = "round_even (x / spacing x)"
  show "round_pos x = of_int ?m * pow2 ?e" by (simp add: round_pos_def spacing_def)
  show "0 \<le> ?m" using assms by (intro round_even_ge) (simp add: less_imp_le)
  have "exponent x < 53 + ?e" by linarith
  then have "x < pow2 (53 + ?e)" using exponent_less_iff [OF assms] by blast
  then have "x / spacing x \<le> of_int (2 ^ 53)"
    using pow2_add [of 53 ?e] pow2_of_nat [of 53] by (simp add: divide_le_eq spacing_def)
  then show "?m \<le> 2 ^ 53" by (rule round_even_le)
  show "- 1074 \<le> ?e" by simp
qed

lemma round_rat_idem [simp]: "round_rat (round_rat x) = round_rat x"
proof -
  have pos: "round_rat (round_pos x) = round_pos x" if x: "0 < x" for x
    using round_pos_form [OF x] round_rat_exact by (metis abs_of_nonneg)
  show ?thesis
    using pos [of x] pos [of "- x"] round_rat_minus [of "round_pos (- x)"] by (simp add: round_rat_def)
qed

text \<open>Evaluating a rounding: the digits are given and only have to be checked.\<close>

lemma round_rat_eqI:
  assumes "2 ^ 52 \<le> m" "m < 2 ^ 53" "- 1074 \<le> e"
    and "pow2 (52 + e) \<le> x" "x < pow2 (53 + e)" and "\<bar>x / pow2 e - of_int m\<bar> < 1 / 2"
  shows "round_rat x = of_int m * pow2 e"
proof -
  have x: "0 < x" using assms(4) pow2_pos less_le_trans by blast
  have "exponent x = 52 + e" using assms(4,5) by (intro exponent_unique) (simp_all add: add.commute)
  then have s: "spacing x = pow2 e" using assms(3) by (simp add: spacing_def max_def)
  have "round_even (x / pow2 e) = m"
  proof (cases "of_int m \<le> x / pow2 e")
    case True
    with assms(6) have "\<lfloor>x / pow2 e\<rfloor> = m" by (intro floor_unique) linarith+
    with True assms(6) show ?thesis by (simp add: round_even_def)
  next
    case False
    with assms(6) have "\<lfloor>x / pow2 e\<rfloor> = m - 1" by (intro floor_unique) (simp, linarith)+
    with False assms(6) show ?thesis by (simp add: round_even_def)
  qed
  then show ?thesis using x s by (simp add: round_rat_def round_pos_def)
qed

section \<open>Values and operations\<close>

datatype float64 = NaN | PInf | NInf | Fin rat

definition to_float :: "rat \<Rightarrow> float64" where
  "to_float x =
     (let r = round_rat x
      in if pow2 1024 \<le> r then PInf else if r \<le> - pow2 1024 then NInf else Fin r)"

text \<open>Every comparison with \<open>NaN\<close> is false.\<close>

instantiation float64 :: ord
begin

fun less_eq_float64 :: "float64 \<Rightarrow> float64 \<Rightarrow> bool" where
  "less_eq_float64 (Fin x) (Fin y) = (x \<le> y)"
| "less_eq_float64 NaN b = False"
| "less_eq_float64 a NaN = False"
| "less_eq_float64 NInf b = True"
| "less_eq_float64 a PInf = True"
| "less_eq_float64 PInf b = False"
| "less_eq_float64 (Fin x) NInf = False"

fun less_float64 :: "float64 \<Rightarrow> float64 \<Rightarrow> bool" where
  "less_float64 (Fin x) (Fin y) = (x < y)"
| "less_float64 NaN b = False"
| "less_float64 a NaN = False"
| "less_float64 PInf b = False"
| "less_float64 a NInf = False"
| "less_float64 NInf b = True"
| "less_float64 (Fin x) PInf = True"

instance ..

end

text \<open>The product of an infinity with a finite number, and sums with infinities.\<close>

definition signed_inf :: "rat \<Rightarrow> float64" where
  "signed_inf x = (if x = 0 then NaN else if 0 < x then PInf else NInf)"

definition sign_of :: "float64 \<Rightarrow> rat" where
  "sign_of f = (case f of NaN \<Rightarrow> 0 | PInf \<Rightarrow> 1 | NInf \<Rightarrow> - 1 | Fin x \<Rightarrow> x)"

instantiation float64 :: "{zero, one, plus, times}"
begin

definition zero_float64 :: float64 where "zero_float64 = Fin 0"

definition one_float64 :: float64 where "one_float64 = Fin 1"

definition plus_float64 :: "float64 \<Rightarrow> float64 \<Rightarrow> float64" where
  "plus_float64 a b =
     (case (a, b) of
        (NaN, _) \<Rightarrow> NaN
      | (_, NaN) \<Rightarrow> NaN
      | (Fin x, Fin y) \<Rightarrow> to_float (x + y)
      | (Fin x, _) \<Rightarrow> b
      | (_, Fin y) \<Rightarrow> a
      | _ \<Rightarrow> if a = b then a else NaN)"

definition times_float64 :: "float64 \<Rightarrow> float64 \<Rightarrow> float64" where
  "times_float64 a b =
     (case (a, b) of
        (NaN, _) \<Rightarrow> NaN
      | (_, NaN) \<Rightarrow> NaN
      | (Fin x, Fin y) \<Rightarrow> to_float (x * y)
      | _ \<Rightarrow> signed_inf (sign_of a * sign_of b))"

instance ..

end

text \<open>Division by a number that is finite and not zero.\<close>

definition float_div :: "float64 \<Rightarrow> rat \<Rightarrow> float64" where
  "float_div a y =
     (case a of
        NaN \<Rightarrow> NaN
      | Fin x \<Rightarrow> to_float (x / y)
      | _ \<Rightarrow> signed_inf (sign_of a * y))"

text \<open>
  The conversions \<open>float64(i)\<close>, and \<open>int(f)\<close>, which drops the fraction; what it gives for a value
  that no \<open>int\<close> holds is left to the implementation and a parameter here.
\<close>

definition float_of_int :: "int \<Rightarrow> float64" where
  "float_of_int i = to_float (of_int i)"

definition trunc_rat :: "rat \<Rightarrow> int" where
  "trunc_rat x = (if 0 \<le> x then \<lfloor>x\<rfloor> else \<lceil>x\<rceil>)"

definition int_of_float :: "(float64 \<Rightarrow> int) \<Rightarrow> float64 \<Rightarrow> int" where
  "int_of_float out_of_range f =
     (case f of
        Fin x \<Rightarrow> if - (2 ^ 63) \<le> trunc_rat x \<and> trunc_rat x < 2 ^ 63 then trunc_rat x else out_of_range f
      | _ \<Rightarrow> out_of_range f)"

section \<open>Order and exactness of the operations\<close>

text \<open>The values a \<open>float64\<close> can have.\<close>

fun is_float :: "float64 \<Rightarrow> bool" where
  "is_float (Fin x) \<longleftrightarrow> round_rat x = x \<and> \<bar>x\<bar> < pow2 1024"
| "is_float _ \<longleftrightarrow> True"

lemma is_float_to_float [simp]: "is_float (to_float x)"
  by (auto simp: to_float_def Let_def)

lemma to_float_exact: "round_rat x = x \<Longrightarrow> \<bar>x\<bar> < pow2 1024 \<Longrightarrow> to_float x = Fin x"
  by (auto simp: to_float_def)

lemma to_float_mono: "x \<le> y \<Longrightarrow> to_float x \<le> to_float y"
  using round_rat_mono [of x y] pow2_pos [of 1024] by (auto simp: to_float_def Let_def)

lemma to_float_le: "is_float (Fin y) \<Longrightarrow> x \<le> y \<Longrightarrow> to_float x \<le> Fin y"
  using to_float_mono [of x y] by (simp add: to_float_exact)

lemma to_float_ge: "is_float (Fin x) \<Longrightarrow> x \<le> y \<Longrightarrow> Fin x \<le> to_float y"
  using to_float_mono [of x y] by (simp add: to_float_exact)

lemma is_float_of_int: "\<bar>i\<bar> \<le> 2 ^ 53 \<Longrightarrow> is_float (Fin (of_int i))"
proof -
  assume i: "\<bar>i\<bar> \<le> 2 ^ 53"
  then have "\<bar>of_int i\<bar> \<le> (of_int (2 ^ 53) :: rat)" by (simp only: of_int_abs [symmetric] of_int_le_iff)
  also have "\<dots> < pow2 1024" using pow2_of_nat [of 53] pow2_less [of 53 1024] by simp
  finally show ?thesis using i by (simp add: round_rat_of_int)
qed

lemma float_of_int_exact: "\<bar>i\<bar> \<le> 2 ^ 53 \<Longrightarrow> float_of_int i = Fin (of_int i)"
  using is_float_of_int [of i] by (simp add: float_of_int_def to_float_exact)

lemma trunc_rat_mono:
  assumes "x \<le> y" shows "trunc_rat x \<le> trunc_rat y"
proof (cases "\<not> 0 \<le> x \<and> 0 \<le> y")
  case True
  then have "\<lceil>x\<rceil> \<le> 0" "0 \<le> \<lfloor>y\<rfloor>" by (simp_all add: ceiling_le_iff)
  then have "\<lceil>x\<rceil> \<le> \<lfloor>y\<rfloor>" by linarith
  with True show ?thesis by (simp add: trunc_rat_def)
next
  case False
  with assms show ?thesis by (auto simp: trunc_rat_def floor_mono ceiling_mono)
qed

lemma trunc_rat_of_int [simp]: "trunc_rat (of_int i) = i"
  by (simp add: trunc_rat_def)

lemma float_le_trans: "(a :: float64) \<le> b \<Longrightarrow> b \<le> c \<Longrightarrow> a \<le> c"
  by (cases a; cases b; cases c) auto

lemma float_le_refl: "f \<noteq> NaN \<Longrightarrow> f \<le> f"
  by (cases f) auto

lemma Fin_chain:
  "Fin a \<le> f \<Longrightarrow> f \<le> g \<Longrightarrow> g \<le> Fin b \<Longrightarrow>
    \<exists>x y. f = Fin x \<and> g = Fin y \<and> a \<le> x \<and> x \<le> y \<and> y \<le> b"
  by (cases f; cases g) auto

text \<open>The conversion back to an \<open>int\<close> keeps the order of finite values in its range.\<close>

lemma int_of_float_between:
  assumes "Fin (of_int a) \<le> f" "f \<le> g" "g \<le> Fin (of_int b)" "- (2 ^ 63) \<le> a" "b < 2 ^ 63"
  shows "a \<le> int_of_float oor f \<and> int_of_float oor f \<le> int_of_float oor g \<and> int_of_float oor g \<le> b"
proof -
  obtain x y where fg: "f = Fin x" "g = Fin y" using assms(1-3) by (cases f; cases g) auto
  have "a \<le> trunc_rat x" "trunc_rat x \<le> trunc_rat y" "trunc_rat y \<le> b"
    using trunc_rat_mono [of "of_int a" x] trunc_rat_mono [of x y] trunc_rat_mono [of y "of_int b"] assms(1-3) fg
    by simp_all
  then show ?thesis using assms(4,5) fg by (simp add: int_of_float_def)
qed

end
