(* ===== verification/Observability.thy ===== *)
theory Observability
  imports Error_Class Go_Float
begin

text \<open>
  \<open>internal/controller/observability\<close>: the Prometheus collectors of \<open>metrics.go\<close> as data, with
  the series that each recorded metric belongs to, and the set-up of tracing of \<open>tracing.go\<close>.
  The Prometheus registry, the OTLP exporter and the OpenTelemetry SDK are outside the
  repository: what they answer is a parameter.
\<close>

section \<open>Collectors\<close>

datatype collector_kind = CounterVec | GaugeVec | HistogramVec "rat list"

record collector =
  cl_kind :: collector_kind
  cl_name :: string
  cl_labels :: "string list"

definition providerLabel :: string where "providerLabel = ''provider''"

definition StorageReconcileTotal_vec :: collector where
  "StorageReconcileTotal_vec =
     \<lparr>cl_kind = CounterVec, cl_name = ''forge_storage_reconcile_total'', cl_labels = [providerLabel, ''outcome'']\<rparr>"

definition StorageReconcileDuration_vec :: collector where
  "StorageReconcileDuration_vec =
     \<lparr>cl_kind = HistogramVec [1 / 2, 1, 5 / 2, 5, 10, 20, 30, 45, 60, 75, 90],
      cl_name = ''forge_storage_reconcile_duration_seconds'', cl_labels = [providerLabel]\<rparr>"

definition StorageReady_vec :: collector where
  "StorageReady_vec =
     \<lparr>cl_kind = GaugeVec, cl_name = ''forge_storage_ready'', cl_labels = [''namespace'', ''name'', providerLabel]\<rparr>"

definition StorageBucketAdoptedTotal_vec :: collector where
  "StorageBucketAdoptedTotal_vec =
     \<lparr>cl_kind = CounterVec, cl_name = ''forge_storage_bucket_adopted_total'', cl_labels = [providerLabel]\<rparr>"

definition StorageOwnershipReclaimedTotal_vec :: collector where
  "StorageOwnershipReclaimedTotal_vec =
     \<lparr>cl_kind = CounterVec, cl_name = ''forge_storage_ownership_reclaimed_total'', cl_labels = [providerLabel]\<rparr>"

definition FinalizerCleanupTotal_vec :: collector where
  "FinalizerCleanupTotal_vec =
     \<lparr>cl_kind = CounterVec, cl_name = ''forge_finalizer_cleanup_total'', cl_labels = [providerLabel, ''outcome'']\<rparr>"

definition FinalizerCleanupDuration_vec :: collector where
  "FinalizerCleanupDuration_vec =
     \<lparr>cl_kind = HistogramVec [1, 5, 15, 30, 60, 120, 180, 240, 270, 300],
      cl_name = ''forge_finalizer_cleanup_duration_seconds'', cl_labels = [providerLabel]\<rparr>"

definition ApplicationReady_vec :: collector where
  "ApplicationReady_vec =
     \<lparr>cl_kind = GaugeVec, cl_name = ''forge_application_ready'', cl_labels = [''namespace'', ''name'']\<rparr>"

definition RateLimitWaitDuration_vec :: collector where
  "RateLimitWaitDuration_vec =
     \<lparr>cl_kind = HistogramVec [0, 1 / 100, 1 / 20, 1 / 10, 1 / 4, 1 / 2, 1, 5 / 2, 5, 10, 30],
      cl_name = ''forge_rate_limit_wait_duration_seconds'', cl_labels = [''limiter'']\<rparr>"

text \<open>What \<open>init\<close> registers.\<close>

definition registered_collectors :: "collector list" where
  "registered_collectors =
     [StorageReconcileTotal_vec, StorageReconcileDuration_vec, StorageReady_vec, StorageBucketAdoptedTotal_vec,
      StorageOwnershipReclaimedTotal_vec, FinalizerCleanupTotal_vec, FinalizerCleanupDuration_vec,
      ApplicationReady_vec, RateLimitWaitDuration_vec]"

lemmas collector_defs = StorageReconcileTotal_vec_def StorageReconcileDuration_vec_def StorageReady_vec_def
  StorageBucketAdoptedTotal_vec_def StorageOwnershipReclaimedTotal_vec_def FinalizerCleanupTotal_vec_def
  FinalizerCleanupDuration_vec_def ApplicationReady_vec_def RateLimitWaitDuration_vec_def providerLabel_def

text \<open>The collector and the label values of each recorded metric, in the order of the call.\<close>

fun series_of :: "metric \<Rightarrow> collector \<times> string list" where
  "series_of (StorageReconcileTotal p outcome) = (StorageReconcileTotal_vec, [p, outcome])"
| "series_of (StorageReadySet ns n p v) = (StorageReady_vec, [ns, n, p])"
| "series_of (StorageReadyDelete ns n p) = (StorageReady_vec, [ns, n, p])"
| "series_of (StorageBucketAdoptedTotal p) = (StorageBucketAdoptedTotal_vec, [p])"
| "series_of (StorageOwnershipReclaimedTotal p) = (StorageOwnershipReclaimedTotal_vec, [p])"
| "series_of (FinalizerCleanupTotal p outcome) = (FinalizerCleanupTotal_vec, [p, outcome])"
| "series_of (ApplicationReadySet ns n v) = (ApplicationReady_vec, [ns, n])"
| "series_of (ApplicationReadyDelete ns n) = (ApplicationReady_vec, [ns, n])"
| "series_of (StorageReconcileDuration p) = (StorageReconcileDuration_vec, [p])"
| "series_of (FinalizerCleanupDuration p) = (FinalizerCleanupDuration_vec, [p])"
| "series_of (RateLimitWaitDuration l) = (RateLimitWaitDuration_vec, [l])"

text \<open>
  What the registry demands: no two collectors of one name, distinct labels, histogram buckets
  in increasing order, and as many label values as labels in every use.
\<close>

definition registry_accepts :: "collector list \<Rightarrow> bool" where
  "registry_accepts cs \<longleftrightarrow>
     distinct (map cl_name cs) \<and>
     list_all (\<lambda>c. distinct (cl_labels c) \<and>
       (case cl_kind c of HistogramVec buckets \<Rightarrow> sorted_wrt (<) buckets | _ \<Rightarrow> True)) cs"

lemma registry_accepts_registered: "registry_accepts registered_collectors"
  by (simp add: registry_accepts_def registered_collectors_def collector_defs)

lemma series_of_registered:
  "series_of m = (c, vs) \<Longrightarrow> c \<in> set registered_collectors \<and> length vs = length (cl_labels c)"
  by (cases m) (auto simp: registered_collectors_def collector_defs)

section \<open>Tracing\<close>

definition tracerName :: string where "tracerName = ''forge-operator''"

definition serviceAccountNamespaceFile :: string where
  "serviceAccountNamespaceFile = ''/var/run/secrets/kubernetes.io/serviceaccount/namespace''"

text \<open>Attributes of the resource, and \<open>resource.WithFromEnv\<close>.\<close>

datatype resource_option = WithAttribute string string | WithFromEnv

definition buildResourceOptions ::
  "(string \<Rightarrow> string) \<Rightarrow> (string \<Rightarrow> string option) \<Rightarrow> resource_option list" where
  "buildResourceOptions Getenv ReadFile =
     (let opts = [WithAttribute ''service.name'' tracerName,
                  WithAttribute ''service.instance.id'' (Getenv ''HOSTNAME''), WithFromEnv]
      in case ReadFile serviceAccountNamespaceFile of
           Some data \<Rightarrow>
             (let ns = trim_space data
              in if ns \<noteq> [] then opts @ [WithAttribute ''k8s.namespace.name'' ns] else opts)
         | None \<Rightarrow> opts)"

text \<open>
  \<open>Init\<close>, given the outcomes of \<open>otlptracegrpc.New\<close> and \<open>resource.New\<close>: the options of the
  provider that becomes the global one.
\<close>

definition Init ::
  "gerror option \<Rightarrow> (resource_option list \<Rightarrow> gerror option) \<Rightarrow>
     (string \<Rightarrow> string) \<Rightarrow> (string \<Rightarrow> string option) \<Rightarrow> gerror + resource_option list" where
  "Init exporter_error resource_error Getenv ReadFile =
     (case exporter_error of
        Some err \<Rightarrow> Inl (Errorf ''failed to create OTLP trace exporter: '' err [])
      | None \<Rightarrow>
          (let opts = buildResourceOptions Getenv ReadFile
           in case resource_error opts of
                Some err \<Rightarrow> Inl (Errorf ''failed to build OpenTelemetry resource: '' err [])
              | None \<Rightarrow> Inr opts))"

end
