(* ===== verification/Metric_Properties.thy ===== *)
theory Metric_Properties
  imports Observability Pass_Properties
begin

text \<open>
  The gauges of \<open>observability/metrics.go\<close> over a history: one series for each collector and
  each list of label values, present from the first \<open>Set\<close> to the next
  \<open>DeleteLabelValues\<close>. The history starts with the process, which is when the registry is empty.
\<close>

type_synonym series = "collector \<times> string list"

definition record_metric :: "event \<Rightarrow> (series \<rightharpoonup> int) \<Rightarrow> (series \<rightharpoonup> int)" where
  "record_metric e g =
     (case e of
        Metric (StorageReadySet ns n p v) \<Rightarrow> g(series_of (StorageReadySet ns n p v) \<mapsto> v)
      | Metric (StorageReadyDelete ns n p) \<Rightarrow> g(series_of (StorageReadyDelete ns n p) := None)
      | Metric (ApplicationReadySet ns n v) \<Rightarrow> g(series_of (ApplicationReadySet ns n v) \<mapsto> v)
      | Metric (ApplicationReadyDelete ns n) \<Rightarrow> g(series_of (ApplicationReadyDelete ns n) := None)
      | _ \<Rightarrow> g)"

definition gauges :: "history \<Rightarrow> (series \<rightharpoonup> int)" where
  "gauges h = fold record_metric h Map.empty"

abbreviation storage_series :: "application \<Rightarrow> string \<Rightarrow> series" where
  "storage_series app provider \<equiv> (StorageReady_vec, [app_namespace app, app_name app, provider])"

abbreviation application_series :: "application \<Rightarrow> series" where
  "application_series app \<equiv> (ApplicationReady_vec, [app_namespace app, app_name app])"

lemma gauges_append: "gauges (h @ es) = fold record_metric es (gauges h)"
  by (simp add: gauges_def)

lemma gauge_collectors [simp]: "StorageReady_vec \<noteq> ApplicationReady_vec" "ApplicationReady_vec \<noteq> StorageReady_vec"
  by (simp_all add: collector_defs)

text \<open>Events that leave the gauges of storage alone.\<close>

definition sets_storage_gauge :: "event \<Rightarrow> bool" where
  "sets_storage_gauge e =
     (case e of Metric (StorageReadySet ns n p v) \<Rightarrow> True | Metric (StorageReadyDelete ns n p) \<Rightarrow> True | _ \<Rightarrow> False)"

lemma gauges_untouched:
  "list_all (\<lambda>e. \<not> sets_storage_gauge e) es \<Longrightarrow> fold record_metric es g (StorageReady_vec, ls) = g (StorageReady_vec, ls)"
  by (induction es arbitrary: g)
     (auto simp: record_metric_def sets_storage_gauge_def split: event.splits metric.splits)

lemma status_io_no_gauge: "is_status_io e \<Longrightarrow> \<not> sets_storage_gauge e"
  by (auto simp: is_status_io_def sets_storage_gauge_def split: event.splits kube_event.splits)

section \<open>Series of Applications that are gone\<close>

lemma finalizeApplication_drops:
  assumes "finalizeApplication env r w = (Inr (), w1)" and "storage_to_finalize (w_app w) = Some s"
  shows "\<exists>h. w_trace w1 = h @ [Metric (StorageReadyDelete (app_namespace (w_app w1)) (app_name (w_app w1)) (ss_provider s))]"
  using assms by (auto simp: finalizeApplication_def bindIO_Inr_iff getApp_def emit_def)

lemma remove_finalizer_names [simp]:
  "app_namespace (remove_finalizer a) = app_namespace a" "app_name (remove_finalizer a) = app_name a"
  by (simp_all add: remove_finalizer_def set_finalizers_def)

text \<open>
  C30: a finished deletion leaves no ready series behind. When \<open>handleFinalizer\<close> releases an
  Application, the object it sent without the finalizer was accepted and, at that point, the
  gauge of the Application and the gauge of its storage for the provider that was cleaned up or
  retained are gone from the registry, whatever was set before.
\<close>

theorem released_application_has_no_series:
  assumes "is_deleting (w_app w)" and "has_finalizer (w_app w)" and "handleFinalizer env r w = (Inr d, w')"
  shows "\<exists>a b h. w_trace w' = h @ [Kube (Update a (Inr b)), Metric (ApplicationReadyDelete (app_namespace b) (app_name b))] \<and>
    \<not> has_finalizer a \<and> gauges (w_trace w') (application_series b) = None \<and>
    (\<forall>s. storage_to_finalize (w_app w) = Some s \<longrightarrow> gauges (w_trace w') (storage_series a (ss_provider s)) = None)"
proof -
  obtain w1 where fin: "finalizeApplication env r w = (Inr (), w1)"
    using assms by (cases "finalizeApplication env r w"; cases "fst (finalizeApplication env r w)")
      (auto simp: handleFinalizer_failed)
  let ?a = "remove_finalizer (w_app w1)"
  obtain b where b: "update_application (e_kube env) (w_trace w1) ?a = Inr b"
      "w_trace w' = w_trace w1 @ [Kube (Update ?a (Inr b)), Metric (ApplicationReadyDelete (app_namespace b) (app_name b))]"
    using assms fin by (auto simp: handleFinalizer_def kube_update_def io_simps Let_def split: sum.splits)
  have "gauges (w_trace w') (application_series b) = None"
    unfolding b(2) gauges_append by (simp add: record_metric_def)
  moreover have "gauges (w_trace w') (storage_series ?a (ss_provider s)) = None"
    if "storage_to_finalize (w_app w) = Some s" for s
    using finalizeApplication_drops [OF fin that] unfolding b(2)
    by (auto simp: gauges_append record_metric_def)
  moreover have "\<not> has_finalizer ?a" by (simp add: has_finalizer_def remove_finalizer_def set_finalizers_def)
  ultimately show ?thesis using b(2) by blast
qed

text \<open>The retained sample Application, in the world that the finalizer meets.\<close>

lemma retained_deleting_app_simps [simp]:
  "is_deleting retained_deleting_app" "has_finalizer retained_deleting_app"
  "storage_to_finalize retained_deleting_app = Some (sample_storage\<lparr>ss_deletion_policy := DeletionPolicyRetain\<rparr>)"
  by (simp_all add: retained_deleting_app_def deleting_app_def is_deleting_def has_finalizer_def
      storage_to_finalize_def sample_now_def second_def)

theorem released_application_has_no_series_witness:
  "\<exists>w' b. handleFinalizer (serving retained_deleting_app) sample_reconciler
      (sample_world\<lparr>w_app := retained_deleting_app\<rparr>) = (Inr True, w') \<and>
    gauges (w_trace w') (application_series b) = None"
proof -
  let ?env = "serving retained_deleting_app" and ?w = "sample_world\<lparr>w_app := retained_deleting_app\<rparr>"
  obtain w1 where "finalizeApplication ?env sample_reconciler ?w = (Inr (), w1)"
    using finalize_retained_or_none [of ?w ?env sample_reconciler] by auto
  then have "fst (handleFinalizer ?env sample_reconciler ?w) = Inr True"
    by (simp add: handleFinalizer_def kube_update_def io_simps Let_def serving_def sample_kube_def)
  then obtain w' where run: "handleFinalizer ?env sample_reconciler ?w = (Inr True, w')" by (metis prod.collapse)
  then show ?thesis using released_application_has_no_series [OF _ _ run] by auto
qed

section \<open>A series that stays\<close>

text \<open>
  A pass that cannot even build its AWS manager sets the gauge of the storage to 0 and records
  nothing in \<open>status.storage\<close>.
\<close>

lemma storage_failed_run:
  assumes "never_fails mark"
  shows "\<exists>h w1. storage_failed env p outcome mark err w = (Inl err, w1) \<and>
    w_trace w1 = h @ [Metric (StorageReadySet (app_namespace (w_app w1)) (app_name (w_app w1)) p 0)]"
proof -
  obtain u w1 where mark: "mark w = (Inr u, w1)"
    using assms unfolding never_fails_def by (metis prod.collapse)
  have "never_fails (log_status_update env)"
    unfolding log_status_update_def by (intro never_fails_intros)
  then obtain v w2 where log: "log_status_update env w1 = (Inr v, w2)"
    unfolding never_fails_def by (metis prod.collapse)
  show ?thesis
    by (simp add: storage_failed_def mark log bindIO_step [of mark w u w1] bindIO_step [of "log_status_update env" w1 v w2])
       (simp add: storage_ready_gauge_def io_simps)
qed

lemma failed_manager_sets_gauge:
  assumes "provisioning_s3_manager env r w = (Inl err, w1)" and "reconcileAWSStorage env r w = (res, w')"
  shows "(\<exists>e. res = Inl e) \<and> gauges (w_trace w') (storage_series (w_app w') ProviderAWSS3) = Some 0"
proof -
  have "never_fails (SetNotReady env (Some err))" unfolding SetNotReady_def by (intro never_fails_intros)
  from storage_failed_run [OF this] obtain h w2 e where failed:
    "(manager_failed env ProviderAWSS3 classifyAWSStorageError ''failed to create S3 storage manager: '' err :: unit io) w1
       = (Inl e, w2)"
    "w_trace w2 = h @ [Metric (StorageReadySet (app_namespace (w_app w2)) (app_name (w_app w2)) ProviderAWSS3 0)]"
    unfolding manager_failed_def by blast
  from assms failed(1) have "res = Inl e \<and> w' = w2\<lparr>w_trace := w_trace w2 @ [Metric (StorageReconcileDuration ProviderAWSS3)]\<rparr>"
    by (auto simp: reconcileAWSStorage_def deferIO_def handleIO_def bindIO_def emit_def fail_def)
  with failed(2) show ?thesis by (auto simp: gauges_append record_metric_def)
qed

text \<open>
  C31: the gauge of a storage that was never provisioned outlives its Application. When
  \<open>spec.storage\<close> is removed before a bucket was recorded in the status, which is what remains
  of an Application whose storage only ever failed, the pass that finishes its deletion
  succeeds and releases it, but leaves every series of \<open>forge_storage_ready\<close> as it was, so the
  series of this Application stays in the registry until the process ends, although the comment
  in \<open>metrics.go\<close> says that stale entries never accumulate.
\<close>

theorem storage_gauge_outlives_application:
  assumes "retry_contract (e_lib env)" and "accepts_status env"
    and "\<And>h a. \<exists>b. update_application (e_kube env) h a = Inr b"
    and "get_application (e_kube env) (w_trace w) ns name = Inr app"
    and "is_deleting app" and "has_finalizer app"
    and "app_storage app = None" and "app_status_storage app = None"
    and "Reconcile env r ns name w = (res, w')"
  shows "res = Inr 0 \<and> (\<exists>a b. Kube (Update a (Inr b)) \<in> set (w_trace w') \<and> \<not> has_finalizer a) \<and>
    (\<forall>ls. gauges (w_trace w') (StorageReady_vec, ls) = gauges (w_trace w) (StorageReady_vec, ls))"
proof -
  have none: "storage_to_finalize app = None" using assms(7,8) by (simp add: storage_to_finalize_def)
  obtain w2 w3 w4 b where set: "SetReconciling env ''Reconciling Application resources''
       (w\<lparr>w_trace := w_trace w @ [Kube (GetApplication ns name (Inr app))], w_app := app\<rparr>) = (Inr (), w2)"
    and none2: "storage_to_finalize (w_app w2) = None" and fin: "finalizeApplication env r w2 = (Inr (), w3)"
    and last: "w_trace w4 = w_trace w3 @ [Kube (Update (remove_finalizer (w_app w3)) (Inr b)),
       Metric (ApplicationReadyDelete (app_namespace b) (app_name b))]" "Reconcile env r ns name w = (Inr 0, w4)"
    by (rule retained_deletion_run [OF assms(1-6), where r = r]) (use none in simp_all)
  have "w3 = w2" using fin none2 by (simp add: finalizeApplication_def bindIO_def handleIO_def getApp_def ret_def)
  have quiet: "emits (\<lambda>e. \<not> sets_storage_gauge e) (SetReconciling env msg)" for msg
    unfolding SetReconciling_def by (intro emits_intros assms(1) status_io_no_gauge)
  from emits_new_events [OF quiet set] emits_trace [OF quiet set] last(1) \<open>w3 = w2\<close>
  obtain es where es: "w_trace w4 = w_trace w @ es" "list_all (\<lambda>e. \<not> sets_storage_gauge e) es"
    by (auto simp: sets_storage_gauge_def)
  moreover have "res = Inr 0" "w' = w4" using assms(9) last(2) by simp_all
  moreover have "\<not> has_finalizer (remove_finalizer (w_app w3))"
    by (simp add: has_finalizer_def remove_finalizer_def set_finalizers_def)
  moreover have "Kube (Update (remove_finalizer (w_app w3)) (Inr b)) \<in> set (w_trace w4)" using last(1) by simp
  ultimately show ?thesis by (metis gauges_append gauges_untouched)
qed

definition storageless_app :: application where
  "storageless_app = deleting_app\<lparr>app_spec := sample_spec\<lparr>sp_storage := None\<rparr>\<rparr>"

theorem storage_gauge_outlives_application_witness:
  "\<exists>w'. Reconcile (serving storageless_app) sample_reconciler ''ns'' ''app''
      (sample_world\<lparr>w_trace := [Metric (StorageReadySet ''ns'' ''app'' ProviderAWSS3 0)]\<rparr>) = (Inr 0, w') \<and>
    gauges (w_trace w') (StorageReady_vec, [''ns'', ''app'', ProviderAWSS3]) = Some 0"
proof -
  let ?w = "sample_world\<lparr>w_trace := [Metric (StorageReadySet ''ns'' ''app'' ProviderAWSS3 0)]\<rparr>"
  obtain res w' where run: "Reconcile (serving storageless_app) sample_reconciler ''ns'' ''app'' ?w = (res, w')" by fastforce
  have accepts: "accepts_status (serving storageless_app)"
    by (simp add: accepts_status_def serving_def sample_kube_def)
  have "res = Inr 0 \<and> (\<exists>a b. Kube (Update a (Inr b)) \<in> set (w_trace w') \<and> \<not> has_finalizer a) \<and>
      (\<forall>ls. gauges (w_trace w') (StorageReady_vec, ls) = gauges (w_trace ?w) (StorageReady_vec, ls))"
    by (rule storage_gauge_outlives_application [OF _ accepts _ _ _ _ _ _ run, where app = storageless_app])
       (simp_all add: sample_retry_contract serving_def sample_kube_def storageless_app_def deleting_app_def
         sample_app_def is_deleting_def has_finalizer_def sample_now_def second_def)
  moreover have "gauges (w_trace ?w) (StorageReady_vec, [''ns'', ''app'', ProviderAWSS3]) = Some 0"
    by (simp add: gauges_def record_metric_def)
  ultimately show ?thesis using run by simp
qed

end
