(* ===== verification/Watches.thy ===== *)
theory Watches
  imports Predicates Controller
begin

text \<open>
  \<open>SetupWithManager\<close> of \<open>application_controller.go\<close>: which objects the controller watches, with
  which predicate, and which Applications an event enqueues. A watched object is an Application
  or an object of one of the kinds the operator applies, cut down to what the predicates and
  the handlers look at. The handlers \<open>EnqueueRequestForObject\<close> and \<open>EnqueueRequestForOwner\<close> are
  those of controller-runtime, of which the code uses that they enqueue the object itself and
  the Application that controls it.
\<close>

section \<open>Events\<close>

record 'p watched_object =
  wo_namespace :: string
  wo_name :: string
  wo_labels :: smap
  wo_controller :: "string option" \<comment> \<open>name of the Application in the controller reference\<close>
  wo_status :: "'p owned_object"
  wo_content :: "'p content_object"

datatype 'o watch_event = CreateEvent 'o | UpdateEvent 'o 'o | DeleteEvent 'o

text \<open>\<open>predicate.Funcs\<close> with only an \<open>UpdateFunc\<close>: every other event passes.\<close>

fun passes :: "('o \<Rightarrow> 'o \<Rightarrow> bool) \<Rightarrow> 'o watch_event \<Rightarrow> bool" where
  "passes update_func (UpdateEvent old new) \<longleftrightarrow> update_func old new"
| "passes update_func _ \<longleftrightarrow> True"

text \<open>The objects a handler looks at: both, for an update.\<close>

fun event_objects :: "'o watch_event \<Rightarrow> 'o list" where
  "event_objects (CreateEvent obj) = [obj]"
| "event_objects (UpdateEvent old new) = [old, new]"
| "event_objects (DeleteEvent obj) = [obj]"

section \<open>Registrations\<close>

datatype watch_predicate = StatusOrGeneration | ContentChanged
datatype watch_handler = EnqueueOwner | EnqueueMapFunc

text \<open>The \<open>Owns\<close> and \<open>Watches\<close> calls, in order; \<open>For\<close> is the Application itself.\<close>

definition controller_watches :: "(kind \<times> watch_handler \<times> watch_predicate) list" where
  "controller_watches =
     [(DeploymentKind, EnqueueOwner, StatusOrGeneration),
      (ServiceKind, EnqueueOwner, ContentChanged),
      (ConfigMapKind, EnqueueOwner, ContentChanged),
      (SecretKind, EnqueueOwner, ContentChanged),
      (IngressKind, EnqueueOwner, StatusOrGeneration),
      (HpaKind, EnqueueOwner, StatusOrGeneration),
      (PdbKind, EnqueueOwner, StatusOrGeneration),
      (ServiceAccountKind, EnqueueOwner, ContentChanged),
      (SecretKind, EnqueueMapFunc, ContentChanged)]"

definition predicate_passes ::
  "('p \<Rightarrow> 'p \<Rightarrow> bool) \<Rightarrow> watch_predicate \<Rightarrow> 'p watched_object watch_event \<Rightarrow> bool" where
  "predicate_passes same p ev =
     (case p of
        StatusOrGeneration \<Rightarrow>
          passes (\<lambda>old new. ownedStatusOrGenerationChangedPredicate same (wo_status old) (wo_status new)) ev
      | ContentChanged \<Rightarrow>
          passes (\<lambda>old new. ownedContentChangedPredicate same (wo_content old) (wo_content new)) ev)"

text \<open>A request is a name and a namespace.\<close>

type_synonym request = "string \<times> string"

definition enqueue_owner :: "'p watched_object watch_event \<Rightarrow> request list" where
  "enqueue_owner ev =
     List.maps (\<lambda>obj. case wo_controller obj of
        Some owner \<Rightarrow> [(owner, wo_namespace obj)] | None \<Rightarrow> []) (event_objects ev)"

fun concat_io :: "'a list io list \<Rightarrow> 'a list io" where
  "concat_io [] = ret []"
| "concat_io (m # ms) = bindIO m (\<lambda>xs. bindIO (concat_io ms) (\<lambda>ys. ret (xs @ ys)))"

definition enqueue_mapped :: "env \<Rightarrow> 'p watched_object watch_event \<Rightarrow> request list io" where
  "enqueue_mapped env ev =
     concat_io (map (\<lambda>obj. findApplicationsForSecret env (wo_namespace obj) (wo_name obj)) (event_objects ev))"

definition run_watch ::
  "env \<Rightarrow> ('p \<Rightarrow> 'p \<Rightarrow> bool) \<Rightarrow> kind \<Rightarrow> 'p watched_object watch_event \<Rightarrow>
     kind \<times> watch_handler \<times> watch_predicate \<Rightarrow> request list io" where
  "run_watch env same k ev = (\<lambda>(k', h, p).
     if k' = k \<and> predicate_passes same p ev then
       (case h of EnqueueOwner \<Rightarrow> ret (enqueue_owner ev) | EnqueueMapFunc \<Rightarrow> enqueue_mapped env ev)
     else ret [])"

text \<open>What an event of an owned kind enqueues, through all registrations of that kind.\<close>

definition requests_for ::
  "env \<Rightarrow> ('p \<Rightarrow> 'p \<Rightarrow> bool) \<Rightarrow> kind \<Rightarrow> 'p watched_object watch_event \<Rightarrow> request list io" where
  "requests_for env same k ev = concat_io (map (run_watch env same k ev) controller_watches)"

text \<open>What an event of an Application enqueues.\<close>

definition application_requests :: "application watch_event \<Rightarrow> request list" where
  "application_requests ev =
     (if passes applicationChangePredicate ev
      then map (\<lambda>app. (app_name app, app_namespace app)) (event_objects ev) else [])"

text \<open>The registration as a whole, with the number of workers that is put in force.\<close>

record controller_setup =
  cs_reconciler :: reconciler
  cs_workers :: int
  cs_watches :: "(kind \<times> watch_handler \<times> watch_predicate) list"

definition SetupWithManager :: "reconciler \<Rightarrow> controller_setup" where
  "SetupWithManager r =
     \<lparr>cs_reconciler = r, cs_workers = resolveMaxConcurrentReconciles (r_max_concurrent_reconciles r),
      cs_watches = controller_watches\<rparr>"

section \<open>Which Applications an event wakes\<close>

definition returns :: "'a io \<Rightarrow> bool" where
  "returns m \<longleftrightarrow> (\<forall>w. \<exists>x w'. m w = (Inr x, w'))"

lemma returnsE: "returns m \<Longrightarrow> (\<And>x w'. m w = (Inr x, w') \<Longrightarrow> P) \<Longrightarrow> P"
  unfolding returns_def by blast

lemma concat_io_returns:
  assumes "\<And>m. m \<in> set ms \<Longrightarrow> returns m"
  shows "\<exists>xs w'. concat_io ms w = (Inr xs, w') \<and> (\<forall>ys. ret ys \<in> set ms \<longrightarrow> set ys \<subseteq> set xs)"
  using assms
proof (induction ms arbitrary: w)
  case Nil
  then show ?case by (simp add: ret_def)
next
  case (Cons m ms)
  have "returns m" by (rule Cons.prems) simp
  then obtain xs w1 where m: "m w = (Inr xs, w1)" by (rule returnsE)
  obtain ys w2 where ms: "concat_io ms w1 = (Inr ys, w2)" "\<forall>zs. ret zs \<in> set ms \<longrightarrow> set zs \<subseteq> set ys"
    using Cons.IH [of w1] Cons.prems by auto
  have "concat_io (m # ms) w = (Inr (xs @ ys), w2)"
    using m ms(1) by (simp add: bindIO_step [of m w xs w1] bindIO_step [of "concat_io ms" w1 ys w2] ret_def)
  moreover have "set zs \<subseteq> set (xs @ ys)" if "ret zs \<in> set (m # ms)" for zs
  proof (cases "m = ret zs")
    case True
    with m show ?thesis by (simp add: ret_def)
  next
    case False
    with that ms(2) show ?thesis by auto
  qed
  ultimately show ?case by blast
qed

lemma returns_concat_io: "(\<And>m. m \<in> set ms \<Longrightarrow> returns m) \<Longrightarrow> returns (concat_io ms)"
  unfolding returns_def [of "concat_io ms"] using concat_io_returns by blast

lemma findApplicationsForSecret_returns: "returns (findApplicationsForSecret env ns name)"
  by (auto simp: returns_def findApplicationsForSecret_def handleIO_def ret_def split: sum.splits prod.splits)

lemma run_watch_returns: "returns (run_watch env same k ev watch)"
proof -
  obtain k' h p where watch: "watch = (k', h, p)" by (cases watch)
  have "returns (enqueue_mapped env ev)"
    unfolding enqueue_mapped_def by (rule returns_concat_io) (auto intro: findApplicationsForSecret_returns)
  then show ?thesis by (simp add: watch run_watch_def returns_def ret_def split: watch_handler.splits)
qed

lemma concat_io_quiet: "(\<And>m. m \<in> set ms \<Longrightarrow> m = ret []) \<Longrightarrow> concat_io ms = ret []"
proof (induction ms)
  case (Cons m ms)
  then have "m = ret []" "concat_io ms = ret []" by simp_all
  then show ?case by simp
qed simp

text \<open>The predicate that an owned kind is watched with.\<close>

definition owned_predicate :: "kind \<Rightarrow> watch_predicate" where
  "owned_predicate k =
     (if k \<in> {DeploymentKind, IngressKind, HpaKind, PdbKind} then StatusOrGeneration else ContentChanged)"

lemma owned_watch: "(k, EnqueueOwner, owned_predicate k) \<in> set controller_watches"
  by (cases k) (simp_all add: controller_watches_def owned_predicate_def)

lemma watch_predicate_of_kind: "(k, h, p) \<in> set controller_watches \<Longrightarrow> p = owned_predicate k"
  by (auto simp: controller_watches_def owned_predicate_def)

text \<open>
  C10: drift of any object that the operator applies wakes the Application it belongs to, and
  nothing else does. Whatever its kind, an event that passes the predicate of the kind, in
  particular every deletion and every creation, enqueues the Application in the controller
  reference, even when the List call for the Secret mapping fails; an update that leaves the
  compared parts alone enqueues nothing and makes no call.
\<close>

theorem owner_woken_by_change:
  "if predicate_passes same (owned_predicate k) ev
   then \<exists>reqs w'. requests_for env same k ev w = (Inr reqs, w') \<and> set (enqueue_owner ev) \<subseteq> set reqs
   else requests_for env same k ev = ret []"
proof (cases "predicate_passes same (owned_predicate k) ev")
  case True
  have "ret (enqueue_owner ev) = run_watch env same k ev (k, EnqueueOwner, owned_predicate k)"
    using True by (simp add: run_watch_def)
  then have "ret (enqueue_owner ev) \<in> set (map (run_watch env same k ev) controller_watches)"
    using owned_watch by (metis image_eqI list.set_map)
  moreover have "returns m" if "m \<in> set (map (run_watch env same k ev) controller_watches)" for m
    using that run_watch_returns by auto
  with concat_io_returns [of "map (run_watch env same k ev) controller_watches" w]
  obtain reqs w' where "requests_for env same k ev w = (Inr reqs, w')"
      "\<forall>ys. ret ys \<in> set (map (run_watch env same k ev) controller_watches) \<longrightarrow> set ys \<subseteq> set reqs"
    unfolding requests_for_def by blast
  ultimately show ?thesis using True by auto
next
  case False
  have "run_watch env same k ev watch = ret []" if "watch \<in> set controller_watches" for watch
    using False that watch_predicate_of_kind [of k] by (cases watch) (auto simp: run_watch_def)
  then have "requests_for env same k ev = ret []"
    unfolding requests_for_def by (intro concat_io_quiet) (auto simp del: split_paired_All)
  with False show ?thesis by simp
qed

end
