(* ===== verification/Rate_Limit.thy ===== *)
theory Rate_Limit
  imports Error_Class Go_Float
begin

text \<open>
  \<open>internal/controller/ratelimit\<close>: the floor of a limiter's configuration, the ramp-up of a
  new leader, and the two wrappers that make a call wait for its limiter. A limiter of
  \<open>golang.org/x/time/rate\<close> is its limit and burst here; how long a call waits is its answer to
  \<open>Wait\<close>. The arithmetic is that of \<open>float64\<close> (\<open>Go_Float\<close>); only what the conversion to \<open>int\<close>
  makes of a number that is out of range is a parameter, as Go leaves it open.
\<close>

section \<open>Limiters\<close>

record limiter =
  lim_limit :: float64
  lim_burst :: int

definition NewLimiter :: "float64 \<Rightarrow> int \<Rightarrow> limiter" where
  "NewLimiter qps burst =
     (let qps' = (if qps \<le> 0 then 1 else qps);
          burst' = (if burst \<le> 0 then 1 else burst)
      in \<lparr>lim_limit = qps', lim_burst = burst'\<rparr>)"

text \<open>No limiter is closed for good, with the one exception that \<open>NaN\<close> is below no floor.\<close>

lemma NewLimiter_floor:
  "1 \<le> lim_burst (NewLimiter qps burst)"
  "lim_limit (NewLimiter qps burst) = NaN \<longleftrightarrow> qps = NaN"
  "qps \<noteq> NaN \<Longrightarrow> 0 < lim_limit (NewLimiter qps burst)"
proof -
  show "1 \<le> lim_burst (NewLimiter qps burst)" by (simp add: NewLimiter_def)
  show "lim_limit (NewLimiter qps burst) = NaN \<longleftrightarrow> qps = NaN"
      "qps \<noteq> NaN \<Longrightarrow> 0 < lim_limit (NewLimiter qps burst)"
    by (cases qps; auto simp: NewLimiter_def zero_float64_def one_float64_def)+
qed

section \<open>Ramp-up of a new leader\<close>

definition rampSteps :: nat where "rampSteps = 20"

text \<open>
  The untyped constants \<open>rampStartFraction\<close> and \<open>1 - rampStartFraction\<close>, which the compiler
  computes exactly and rounds where they meet a \<open>float64\<close>, and the fraction of step \<open>i\<close>.
\<close>

definition rampStartFraction :: rat where "rampStartFraction = 1 / 10"

definition ramp_fraction :: "nat \<Rightarrow> float64" where
  "ramp_fraction i =
     to_float rampStartFraction +
     float_div (to_float (1 - rampStartFraction) * float_of_int (int i)) (of_nat rampSteps)"

text \<open>One setting of the limiter: a fraction of the target, with a burst of at least 1.\<close>

definition ramp_setting :: "(float64 \<Rightarrow> int) \<Rightarrow> limiter \<Rightarrow> float64 \<Rightarrow> limiter" where
  "ramp_setting out_of_range target fraction =
     \<lparr>lim_limit = lim_limit target * fraction,
      lim_burst = max 1 (int_of_float out_of_range (float_of_int (lim_burst target) * fraction))\<rparr>"

text \<open>What the goroutine receives, in order: a tick or the end of its context.\<close>

datatype ramp_signal = Tick | CtxDone

text \<open>The loop at step \<open>i\<close>, with \<open>n\<close> steps left; the result says whether the ramp was completed.\<close>

fun ramp_loop :: "(nat \<Rightarrow> limiter) \<Rightarrow> nat \<Rightarrow> nat \<Rightarrow> ramp_signal list \<Rightarrow> limiter list \<times> bool" where
  "ramp_loop setting i 0 signals = ([], True)"
| "ramp_loop setting i (Suc n) [] = ([], False)"
| "ramp_loop setting i (Suc n) (CtxDone # signals) = ([], False)"
| "ramp_loop setting i (Suc n) (Tick # signals) =
     (let (ls, ended) = ramp_loop setting (i + 1) n signals in (setting i # ls, ended))"

text \<open>
  Every setting of the limiter that \<open>RampUp\<close> makes, in order; \<open>None\<close> for the panic of
  \<open>time.NewTicker\<close> on a step that is not positive, after the first setting was made.
\<close>

definition RampUp :: "(float64 \<Rightarrow> int) \<Rightarrow> limiter \<Rightarrow> duration \<Rightarrow> ramp_signal list \<Rightarrow> limiter list option" where
  "RampUp out_of_range limiter rampDuration signals =
     (let start = ramp_setting out_of_range limiter (to_float rampStartFraction)
      in if rampDuration div int rampSteps \<le> 0 then None
         else let (ls, ended) = ramp_loop (\<lambda>i. ramp_setting out_of_range limiter (ramp_fraction i)) 1 rampSteps signals
              in Some (start # ls @ (if ended then [limiter] else [])))"

subsection \<open>The fractions\<close>

definition tenth :: rat where "tenth = 7205759403792794 / 72057594037927936"
definition nine_tenths :: rat where "nine_tenths = 8106479329266893 / 9007199254740992"

lemma ramp_constants:
  "to_float (1 / 10) = Fin tenth" "to_float (9 / 10) = Fin nine_tenths"
  "to_float (nine_tenths * 20) = Fin 18" "to_float (tenth + nine_tenths) = Fin 1"
proof -
  have "round_rat (1 / 10) = of_int 7205759403792794 * pow2 (- 56)"
    by (rule round_rat_eqI) (simp_all add: pow2_numeral)
  then show "to_float (1 / 10) = Fin tenth" by (simp add: to_float_def pow2_numeral tenth_def)
  have "round_rat (9 / 10) = of_int 8106479329266893 * pow2 (- 53)"
    by (rule round_rat_eqI) (simp_all add: pow2_numeral)
  then show "to_float (9 / 10) = Fin nine_tenths" by (simp add: to_float_def pow2_numeral nine_tenths_def)
  have "round_rat (nine_tenths * 20) = of_int 5066549580791808 * pow2 (- 48)"
    by (rule round_rat_eqI) (simp_all add: pow2_numeral nine_tenths_def)
  then show "to_float (nine_tenths * 20) = Fin 18" by (simp add: to_float_def pow2_numeral)
  have "round_rat (tenth + nine_tenths) = of_int 4503599627370496 * pow2 (- 52)"
    by (rule round_rat_eqI) (simp_all add: pow2_numeral tenth_def nine_tenths_def)
  then show "to_float (tenth + nine_tenths) = Fin 1" by (simp add: to_float_def pow2_numeral)
qed

lemma is_float_constants: "is_float (Fin tenth)" "is_float (Fin 0)"
  using is_float_to_float [of "1 / 10"] is_float_of_int [of 0] unfolding ramp_constants by simp_all

text \<open>The fractions grow from a tenth to exactly 1: every rounding on the way is monotone.\<close>

lemma ramp_fraction_mono:
  assumes "i \<le> j" "j \<le> 20"
  obtains x y where "ramp_fraction i = Fin x" "ramp_fraction j = Fin y" "tenth \<le> x" "x \<le> y" "y \<le> 1"
proof -
  let ?p = "\<lambda>i. to_float (nine_tenths * of_nat i)"
  have pos: "0 < nine_tenths" by (simp add: nine_tenths_def)
  with assms have "Fin 0 \<le> ?p i" "?p i \<le> ?p j" "?p j \<le> Fin 18"
    unfolding ramp_constants(3) [symmetric]
    by (intro to_float_ge is_float_constants to_float_mono mult_left_mono; simp)+
  then obtain a b where ab: "?p i = Fin a" "?p j = Fin b" "0 \<le> a" "a \<le> b" "b \<le> 18"
    using Fin_chain by blast
  then have "Fin 0 \<le> to_float (a / 20)" "to_float (a / 20) \<le> to_float (b / 20)" "to_float (b / 20) \<le> Fin nine_tenths"
    unfolding ramp_constants(2) [symmetric]
    by (intro to_float_ge is_float_constants to_float_mono; simp)+
  then obtain c d where cd: "to_float (a / 20) = Fin c" "to_float (b / 20) = Fin d" "0 \<le> c" "c \<le> d" "d \<le> nine_tenths"
    using Fin_chain by blast
  then have "Fin tenth \<le> to_float (tenth + c)" "to_float (tenth + c) \<le> to_float (tenth + d)" "to_float (tenth + d) \<le> Fin 1"
    unfolding ramp_constants(4) [symmetric]
    by (intro to_float_ge is_float_constants to_float_mono; simp)+
  then obtain x y where xy: "to_float (tenth + c) = Fin x" "to_float (tenth + d) = Fin y" "tenth \<le> x" "x \<le> y" "y \<le> 1"
    using Fin_chain by blast
  have f: "ramp_fraction k = to_float (tenth + z)" if "?p k = Fin v" "to_float (v / 20) = Fin z" "k \<le> 20" for k v z
    using that by (simp add: ramp_fraction_def rampStartFraction_def ramp_constants times_float64_def plus_float64_def
        float_of_int_exact float_div_def rampSteps_def)
  have "ramp_fraction i = Fin x" "ramp_fraction j = Fin y"
    using f [OF ab(1) cd(1)] f [OF ab(2) cd(2)] xy(1,2) assms by simp_all
  with xy(3-5) show ?thesis by (intro that)
qed

subsection \<open>The settings\<close>

lemma ramp_setting_mono:
  assumes "0 \<le> lim_limit l" "is_float (lim_limit l)" "1 \<le> lim_burst l" "lim_burst l \<le> 2 ^ 53"
    and "tenth \<le> x" "x \<le> y" "y \<le> 1"
  shows "lim_limit (ramp_setting oor l (Fin x)) \<le> lim_limit (ramp_setting oor l (Fin y))"
    and "lim_limit (ramp_setting oor l (Fin y)) \<le> lim_limit l"
    and "lim_burst (ramp_setting oor l (Fin x)) \<le> lim_burst (ramp_setting oor l (Fin y))"
    and "lim_burst (ramp_setting oor l (Fin y)) \<le> lim_burst l"
proof -
  let ?b = "lim_burst l"
  have pos: "0 < x" "0 < y" using assms(5,6) by (simp_all add: tenth_def)
  show "lim_limit (ramp_setting oor l (Fin x)) \<le> lim_limit (ramp_setting oor l (Fin y))"
      "lim_limit (ramp_setting oor l (Fin y)) \<le> lim_limit l"
    using assms pos to_float_mono to_float_le
    by (cases "lim_limit l"; simp add: ramp_setting_def times_float64_def signed_inf_def sign_of_def zero_float64_def
        mult_left_mono mult_left_le)+
  have b: "float_of_int ?b * Fin z = to_float (of_int ?b * z)" for z
    using assms(3,4) by (simp add: float_of_int_exact times_float64_def)
  have "Fin (of_int 0) \<le> float_of_int ?b * Fin x" "float_of_int ?b * Fin x \<le> float_of_int ?b * Fin y"
      "float_of_int ?b * Fin y \<le> Fin (of_int ?b)"
    unfolding b using assms pos
    by (intro to_float_ge to_float_mono to_float_le is_float_of_int; simp add: mult_left_mono mult_left_le)+
  from int_of_float_between [OF this, of oor] assms(3,4)
  show "lim_burst (ramp_setting oor l (Fin x)) \<le> lim_burst (ramp_setting oor l (Fin y))"
      "lim_burst (ramp_setting oor l (Fin y)) \<le> lim_burst l"
    by (auto simp: ramp_setting_def)
qed

lemma ramp_loop_settings:
  "\<exists>m \<le> n. fst (ramp_loop setting i n signals) = map setting [i..<i + m]"
proof (induction setting i n signals rule: ramp_loop.induct)
  case (4 setting i n signals)
  then obtain m where "m \<le> n" "fst (ramp_loop setting (i + 1) n signals) = map setting [i + 1..<i + 1 + m]" by blast
  then show ?case
    by (intro exI [of _ "Suc m"]) (simp add: case_prod_beta upt_conv_Cons del: upt_Suc)
qed (auto intro: exI [of _ 0])

lemma ramp_loop_ended:
  "snd (ramp_loop setting i n signals) \<longleftrightarrow> (\<exists>rest. signals = replicate n Tick @ rest)"
  by (induction setting i n signals rule: ramp_loop.induct) (simp_all add: case_prod_beta)

lemma RampUp_settings:
  assumes "RampUp oor l d signals = Some ls"
  obtains m ended where "m \<le> rampSteps"
    and "ls = ramp_setting oor l (to_float rampStartFraction) #
      map (\<lambda>i. ramp_setting oor l (ramp_fraction i)) [1..<1 + m] @ (if ended then [l] else [])"
    and "ended \<longleftrightarrow> (\<exists>rest. signals = replicate rampSteps Tick @ rest)"
proof -
  let ?loop = "ramp_loop (\<lambda>i. ramp_setting oor l (ramp_fraction i)) 1 rampSteps signals"
  obtain m where "m \<le> rampSteps" "fst ?loop = map (\<lambda>i. ramp_setting oor l (ramp_fraction i)) [1..<1 + m]"
    using ramp_loop_settings by blast
  with assms that [of m "snd ?loop"] ramp_loop_ended show ?thesis
    by (simp add: RampUp_def case_prod_beta Let_def split: if_splits)
qed

lemma ramp_setting_burst: "1 \<le> lim_burst (ramp_setting oor l f)"
  by (simp add: ramp_setting_def)

text \<open>
  A new leader is slowed down and then released. Started on a limiter with a positive burst,
  \<open>RampUp\<close> never sets a burst below 1, which would refuse every call, and after twenty ticks
  its last setting is the limit and burst it found; when its context ends earlier it stops
  within the steps of the ramp.
\<close>

theorem ramp_ends_at_target:
  assumes "1 \<le> lim_burst l" and "RampUp out_of_range l d signals = Some ls"
  shows "list_all (\<lambda>m. 1 \<le> lim_burst m) ls \<and> length ls \<le> rampSteps + 2 \<and>
    ((\<exists>rest. signals = replicate rampSteps Tick @ rest) \<longrightarrow> last ls = l)"
proof -
  obtain m ended where ls: "m \<le> rampSteps" "ls = ramp_setting out_of_range l (to_float rampStartFraction) #
      map (\<lambda>i. ramp_setting out_of_range l (ramp_fraction i)) [1..<1 + m] @ (if ended then [l] else [])"
    and ended: "ended \<longleftrightarrow> (\<exists>rest. signals = replicate rampSteps Tick @ rest)"
    by (rule RampUp_settings [OF assms(2)])
  have "last ls = l" if ended using that unfolding ls(2) by simp
  then show ?thesis
    using ls assms(1) ended by (auto simp: list_all_iff ramp_setting_burst)
qed

lemma RampUp_runs: "\<exists>ls. RampUp oor l (30 * second) signals = Some ls"
  by (simp add: RampUp_def case_prod_beta Let_def rampSteps_def second_def)

theorem ramp_ends_at_target_witness:
  "\<exists>ls. RampUp (\<lambda>_. 0) (NewLimiter (Fin 40) 10) (30 * second) (replicate 20 Tick) = Some ls \<and>
     last ls = NewLimiter (Fin 40) 10"
proof -
  obtain ls where run: "RampUp (\<lambda>_. 0) (NewLimiter (Fin 40) 10) (30 * second) (replicate 20 Tick) = Some ls"
    using RampUp_runs by blast
  from ramp_ends_at_target [OF NewLimiter_floor(1) run] have "last ls = NewLimiter (Fin 40) 10"
    by (simp add: rampSteps_def)
  with run show ?thesis by blast
qed

text \<open>
  C29: the ramp climbs and never overshoots. Every setting that \<open>RampUp\<close> makes is at most the
  configured limit and burst and at least the setting before it, although each fraction and each
  product is rounded to a \<open>float64\<close>; the burst is a number that \<open>float64\<close> holds exactly.
\<close>

theorem ramp_climbs:
  assumes "0 \<le> lim_limit l" and "is_float (lim_limit l)" and "1 \<le> lim_burst l" and "lim_burst l \<le> 2 ^ 53"
    and "RampUp out_of_range l d signals = Some ls"
  shows "sorted_wrt (\<lambda>a b. lim_limit a \<le> lim_limit b \<and> lim_burst a \<le> lim_burst b) ls \<and>
    list_all (\<lambda>m. lim_limit m \<le> lim_limit l \<and> lim_burst m \<le> lim_burst l) ls"
proof -
  let ?set = "\<lambda>i. ramp_setting out_of_range l (ramp_fraction i)" and ?start = "ramp_setting out_of_range l (Fin tenth)"
  let ?le = "\<lambda>a b. lim_limit a \<le> lim_limit b \<and> lim_burst a \<le> lim_burst b"
  obtain m ended where m: "m \<le> 20" and ls: "ls = ?start # map ?set [1..<1 + m] @ (if ended then [l] else [])"
    using RampUp_settings [OF assms(5)] by (metis rampSteps_def rampStartFraction_def ramp_constants(1))
  note mono = ramp_setting_mono [OF assms(1-4)]
  have chain: "?le ?start (?set j) \<and> ?le (?set i) (?set j) \<and> ?le (?set j) l" if ij: "i \<le> j" "j \<le> 20" for i j
  proof -
    obtain x y where xy: "ramp_fraction i = Fin x" "ramp_fraction j = Fin y" "tenth \<le> x" "x \<le> y" "y \<le> 1"
      using ramp_fraction_mono [OF ij] by blast
    then show ?thesis using mono [of x y] mono [of tenth y] by auto
  qed
  have refl: "lim_limit l \<le> lim_limit l"
    using assms(1) by (intro float_le_refl) (auto simp: zero_float64_def)
  have start: "?le ?start l" using mono(2,4) [of tenth tenth] by (simp add: tenth_def)
  have steps: "sorted_wrt ?le (map ?set [1..<1 + m])"
    unfolding sorted_wrt_map by (rule sorted_wrt_mono_rel [OF _ sorted_wrt_upt]) (use chain m in auto)
  show ?thesis
    using start steps chain m refl unfolding ls by (auto simp: sorted_wrt_append list_all_iff)
qed

theorem ramp_climbs_witness:
  "\<exists>ls. RampUp (\<lambda>_. 0) (NewLimiter (Fin 8) 16) (30 * second) [Tick, Tick, CtxDone] = Some ls \<and>
     list_all (\<lambda>m. lim_limit m \<le> Fin 8 \<and> lim_burst m \<le> 16) ls"
proof -
  obtain ls where run: "RampUp (\<lambda>_. 0) (NewLimiter (Fin 8) 16) (30 * second) [Tick, Tick, CtxDone] = Some ls"
    using RampUp_runs by blast
  have l: "NewLimiter (Fin 8) 16 = \<lparr>lim_limit = Fin 8, lim_burst = 16\<rparr>"
    by (simp add: NewLimiter_def zero_float64_def)
  show ?thesis
    using ramp_climbs [OF _ _ _ _ run] is_float_of_int [of 8] run by (simp add: l zero_float64_def)
qed

section \<open>Waiting before a call\<close>

type_synonym rate_wait = "history \<Rightarrow> gerror + unit"

definition limiter_wait :: "rate_wait \<Rightarrow> unit io" where
  "limiter_wait answer w = (answer (w_trace w), w)"

text \<open>The body that both wrappers have around their next handler; a nil limiter does not wait.\<close>

definition wait_then :: "rate_wait option \<Rightarrow> string \<Rightarrow> 'a io \<Rightarrow> 'a io" where
  "wait_then limiter name next_handler =
     (case limiter of
        Some answer \<Rightarrow>
          bindIO (wrapIO ''rate limit wait: ''
            (deferIO (emit (Metric (RateLimitWaitDuration name))) (limiter_wait answer)))
            (\<lambda>_. next_handler)
      | None \<Rightarrow> next_handler)"

definition AWSMiddleware :: "rate_wait option \<Rightarrow> string \<Rightarrow> 'a io \<Rightarrow> 'a io" where
  "AWSMiddleware limiter name HandleFinalize = wait_then limiter name HandleFinalize"

text \<open>\<open>RoundTripper\<close> with the request it is given; an absent \<open>next\<close> is the default transport.\<close>

record 'a round_tripper =
  rt_limiter :: "rate_wait option"
  rt_next :: "'a io"
  rt_name :: string

definition NewRoundTripper :: "'a io \<Rightarrow> rate_wait option \<Rightarrow> 'a io option \<Rightarrow> string \<Rightarrow> 'a round_tripper" where
  "NewRoundTripper DefaultTransport limiter next_transport name =
     \<lparr>rt_limiter = limiter,
      rt_next = (case next_transport of None \<Rightarrow> DefaultTransport | Some t \<Rightarrow> t),
      rt_name = name\<rparr>"

definition RoundTrip :: "'a round_tripper \<Rightarrow> 'a io" where
  "RoundTrip rt = wait_then (rt_limiter rt) (rt_name rt) (rt_next rt)"

text \<open>
  A call whose limiter refuses to wait is not made, and its error is sorted like the error
  of the limiter: as a timeout exactly when that has \<open>context.DeadlineExceeded\<close> in its chain.
  The limiter has another error for a wait that would be longer than the deadline, and returns
  it at once; with that error the label of the metric is \<open>other_error\<close>, not \<open>timeout\<close>.
\<close>

theorem refused_wait_is_no_timeout:
  assumes "answer (w_trace w) = Inl err" and "\<And>s. \<not> errors_is err s"
    and "\<not> isAWSAccessDenied err" and "\<not> isAkamaiAccessDenied err"
  shows "fst (AWSMiddleware (Some answer) name m w) = Inl (Errorf ''rate limit wait: '' err []) \<and>
    new_events w (snd (AWSMiddleware (Some answer) name m w)) = [Metric (RateLimitWaitDuration name)] \<and>
    RoundTrip (NewRoundTripper transport (Some answer) (Some m) name) w = AWSMiddleware (Some answer) name m w \<and>
    classifyAWSStorageError (Errorf ''rate limit wait: '' err []) =
      (if is_deadline err then outcomeTimeout else outcomeOther) \<and>
    classifyAkamaiStorageError (Errorf ''rate limit wait: '' err []) =
      (if is_deadline err then outcomeTimeout else outcomeOther)"
proof -
  have "classifyAWSStorageError err = (if is_deadline err then outcomeTimeout else outcomeOther)"
      "classifyAkamaiStorageError err = (if is_deadline err then outcomeTimeout else outcomeOther)"
    using assms by (simp_all add: classifyAWSStorageError_def classifyAkamaiStorageError_def)
  then show ?thesis
    using assms(1) by (simp add: AWSMiddleware_def RoundTrip_def NewRoundTripper_def wait_then_def
        limiter_wait_def new_events_def io_simps)
qed

definition rate_wait_error :: gerror where
  "rate_wait_error = ErrorText ''rate: Wait(n=1) would exceed context deadline''"

theorem refused_wait_is_no_timeout_witness:
  "classifyAWSStorageError (Errorf ''rate limit wait: '' rate_wait_error []) = outcomeOther"
  using refused_wait_is_no_timeout [of "\<lambda>_. Inl rate_wait_error" undefined rate_wait_error "''iam''" "ret ()" "ret ()"]
  by (simp add: rate_wait_error_def isAWSAccessDenied_def isAkamaiAccessDenied_def response_status_def
      api_error_code_def linode_code_def)

end
