(* ===== verification/Go_Strconv.thy ===== *)
theory Go_Strconv
  imports Go_Float
begin

text \<open>
  The parsers of Go's standard library that the manager binary reads its environment with:
  \<open>strconv.Atoi\<close>, \<open>strconv.ParseFloat\<close> (64 bits) and \<open>time.ParseDuration\<close>. Strings are bytes.
  An error is \<open>None\<close>: the callers replace every one of them by a default and look at none.
\<close>

section \<open>Characters\<close>

definition digit_value :: "char \<Rightarrow> int option" where
  "digit_value c = (let n = (of_char c :: nat) in if 48 \<le> n \<and> n \<le> 57 then Some (int (n - 48)) else None)"

definition is_digit :: "char \<Rightarrow> bool" where
  "is_digit c \<longleftrightarrow> digit_value c \<noteq> None"

definition lower_ascii :: "char \<Rightarrow> char" where
  "lower_ascii c = (let n = (of_char c :: nat) in if 65 \<le> n \<and> n \<le> 90 then char_of (n + 32) else c)"

definition hex_value :: "char \<Rightarrow> int option" where
  "hex_value c =
     (case digit_value c of
        Some d \<Rightarrow> Some d
      | None \<Rightarrow> let n = (of_char (lower_ascii c) :: nat) in if 97 \<le> n \<and> n \<le> 102 then Some (int (n - 87)) else None)"

text \<open>An optional sign: whether it is a minus, and the rest.\<close>

definition take_sign :: "string \<Rightarrow> bool \<times> string" where
  "take_sign s =
     (case s of
        c # cs \<Rightarrow> if c = CHR ''-'' then (True, cs) else if c = CHR ''+'' then (False, cs) else (False, s)
      | [] \<Rightarrow> (False, []))"

text \<open>The value of a string of decimal digits, \<open>None\<close> when another character is among them.\<close>

fun decimal_value :: "int \<Rightarrow> string \<Rightarrow> int option" where
  "decimal_value n [] = Some n"
| "decimal_value n (c # cs) =
     (case digit_value c of None \<Rightarrow> None | Some d \<Rightarrow> decimal_value (n * 10 + d) cs)"

section \<open>\<open>strconv.Atoi\<close>\<close>

definition Atoi :: "string \<Rightarrow> int option" where
  "Atoi s =
     (let (neg, body) = take_sign s
      in if body = [] then None
         else case decimal_value 0 body of
                None \<Rightarrow> None
              | Some n \<Rightarrow>
                  let i = (if neg then - n else n)
                  in if - (2 ^ 63) \<le> i \<and> i < 2 ^ 63 then Some i else None)"

lemma Atoi_range: "Atoi s = Some i \<Longrightarrow> - (2 ^ 63) \<le> i \<and> i < 2 ^ 63"
  by (auto simp: Atoi_def Let_def split: prod.splits option.splits if_splits)

text \<open>What \<open>%d\<close> prints, \<open>Atoi\<close> reads back.\<close>

lemma decimal_value_append:
  "decimal_value n (s @ t) = (case decimal_value n s of None \<Rightarrow> None | Some m \<Rightarrow> decimal_value m t)"
  by (induction n s rule: decimal_value.induct) (auto split: option.splits)

lemma digit_value_digit: "d < 10 \<Longrightarrow> digit_value (char_of (48 + d)) = Some (int d)"
  by (simp add: digit_value_def)

lemma decimal_value_show: "decimal_value 0 (show_nat n) = Some (int n)"
proof (induction n rule: less_induct)
  case (less n)
  show ?case
  proof (cases "n < 10")
    case True
    then show ?thesis by (simp add: show_nat.simps [of n] digit_value_digit)
  next
    case False
    then have "decimal_value 0 (show_nat (n div 10)) = Some (int (n div 10))" by (intro less) simp
    then have "decimal_value 0 (show_nat n) = Some (int (n div 10) * 10 + int (n mod 10))"
      using False by (simp add: show_nat.simps [of n] decimal_value_append digit_value_digit)
    moreover have "int (n div 10) * 10 + int (n mod 10) = int n" by presburger
    ultimately show ?thesis by simp
  qed
qed

lemma show_nat_first: "show_nat n \<noteq> [] \<and> is_digit (hd (show_nat n))"
proof (induction n rule: less_induct)
  case (less n)
  then show ?case
    using less [of "n div 10"] by (simp add: show_nat.simps [of n] is_digit_def digit_value_digit)
qed

lemma take_sign_show: "take_sign (show_nat n) = (False, show_nat n)"
proof -
  have "hd (show_nat n) \<noteq> CHR ''-''" "hd (show_nat n) \<noteq> CHR ''+''"
    using show_nat_first [of n] by (auto simp: is_digit_def digit_value_def)
  with show_nat_first [of n] show ?thesis by (cases "show_nat n") (simp_all add: take_sign_def)
qed

lemma Atoi_show:
  assumes "- (2 ^ 63) \<le> i" "i < 2 ^ 63" shows "Atoi (show_int i) = Some i"
proof (cases "i < 0")
  case True
  then have "take_sign (show_int i) = (True, show_nat (nat (- i)))" by (simp add: show_int_def take_sign_def)
  with True assms show_nat_first [of "nat (- i)"] show ?thesis by (simp add: Atoi_def decimal_value_show)
next
  case False
  then have "take_sign (show_int i) = (False, show_nat (nat i))" by (simp add: show_int_def take_sign_show)
  with False assms show_nat_first [of "nat i"] show ?thesis by (simp add: Atoi_def decimal_value_show)
qed

section \<open>\<open>strconv.ParseFloat\<close>\<close>

text \<open>
  \<open>underscoreOK\<close>: an underscore stands between digits, or after a base prefix. \<open>saw\<close> is the
  class of the character before: a digit, an underscore, another one or none.
\<close>

datatype saw = SawNothing | SawDigit | SawUnderscore | SawOther

fun underscore_scan :: "bool \<Rightarrow> saw \<Rightarrow> string \<Rightarrow> bool" where
  "underscore_scan hex saw [] \<longleftrightarrow> saw \<noteq> SawUnderscore"
| "underscore_scan hex saw (c # cs) \<longleftrightarrow>
     (if is_digit c \<or> (hex \<and> hex_value c \<noteq> None) then underscore_scan hex SawDigit cs
      else if c = CHR ''_'' then saw = SawDigit \<and> underscore_scan hex SawUnderscore cs
      else saw \<noteq> SawUnderscore \<and> underscore_scan hex SawOther cs)"

definition underscoreOK :: "string \<Rightarrow> bool" where
  "underscoreOK s =
     (let body = snd (take_sign s)
      in case body of
           c # p # cs \<Rightarrow>
             if c = CHR ''0'' \<and> lower_ascii p \<in> {CHR ''b'', CHR ''o'', CHR ''x''}
             then underscore_scan (lower_ascii p = CHR ''x'') SawDigit cs
             else underscore_scan False SawNothing body
         | _ \<Rightarrow> underscore_scan False SawNothing body)"

text \<open>
  The mantissa: its digits as one number, how many of them follow the point, and what was seen.
  The nineteen digits that \<open>readFloat\<close> keeps, and its slow path for longer ones, are a way to
  compute the same number rounded once; here all digits are kept.
\<close>

record mantissa =
  mt_digits :: int
  mt_fraction :: nat
  mt_sawdot :: bool
  mt_sawdigits :: bool
  mt_underscores :: bool

fun scan_mantissa :: "bool \<Rightarrow> mantissa \<Rightarrow> string \<Rightarrow> mantissa \<times> string" where
  "scan_mantissa hex m [] = (m, [])"
| "scan_mantissa hex m (c # cs) =
     (if c = CHR ''_'' then scan_mantissa hex (m\<lparr>mt_underscores := True\<rparr>) cs
      else if c = CHR ''.'' then
        if mt_sawdot m then (m, c # cs) else scan_mantissa hex (m\<lparr>mt_sawdot := True\<rparr>) cs
      else case (if hex then hex_value c else digit_value c) of
             None \<Rightarrow> (m, c # cs)
           | Some d \<Rightarrow>
               scan_mantissa hex
                 (m\<lparr>mt_digits := mt_digits m * (if hex then 16 else 10) + d,
                    mt_fraction := (if mt_sawdot m then mt_fraction m + 1 else mt_fraction m),
                    mt_sawdigits := True\<rparr>) cs)"

text \<open>The digits of the exponent, which stops growing at 10000; the flag is for an underscore.\<close>

fun scan_exponent :: "int \<Rightarrow> bool \<Rightarrow> string \<Rightarrow> int \<times> bool \<times> string" where
  "scan_exponent e u [] = (e, u, [])"
| "scan_exponent e u (c # cs) =
     (if c = CHR ''_'' then scan_exponent e True cs
      else case digit_value c of
             None \<Rightarrow> (e, u, c # cs)
           | Some d \<Rightarrow> scan_exponent (if e < 10000 then e * 10 + d else e) u cs)"

text \<open>The exponent part after the mantissa: its value, whether it has an underscore, the rest.\<close>

definition read_exponent :: "bool \<Rightarrow> string \<Rightarrow> (int \<times> bool \<times> string) option" where
  "read_exponent hex s =
     (case s of
        c # cs \<Rightarrow>
          if lower_ascii c = (if hex then CHR ''p'' else CHR ''e'') then
            let (neg, digits) = take_sign cs
            in if digits = [] \<or> \<not> is_digit (hd digits) then None
               else let (e, u, rest) = scan_exponent 0 False digits
                    in Some (if neg then - e else e, u, rest)
          else if hex then None else Some (0, False, s)
      | [] \<Rightarrow> if hex then None else Some (0, False, []))"

definition power_of :: "int \<Rightarrow> int \<Rightarrow> rat" where
  "power_of b e = (if 0 \<le> e then of_int (b ^ nat e) else 1 / of_int (b ^ nat (- e)))"

text \<open>A whole string that is a number: its exact value.\<close>

definition readFloat :: "string \<Rightarrow> rat option" where
  "readFloat s =
     (let (neg, body) = take_sign s;
          hex = (2 < length body \<and> hd body = CHR ''0'' \<and> lower_ascii (body ! 1) = CHR ''x'');
          start = \<lparr>mt_digits = 0, mt_fraction = 0, mt_sawdot = False, mt_sawdigits = False, mt_underscores = False\<rparr>;
          (m, rest) = scan_mantissa hex start (if hex then drop 2 body else body)
      in if \<not> mt_sawdigits m then None
         else case read_exponent hex rest of
                None \<Rightarrow> None
              | Some (e, u, rest') \<Rightarrow>
                  if (mt_underscores m \<or> u) \<and> \<not> underscoreOK s then None
                  else if rest' \<noteq> [] then None
                  else let x = of_int (mt_digits m) * power_of (if hex then 16 else 10) (- int (mt_fraction m)) *
                               power_of (if hex then 2 else 10) e
                       in Some (if neg then - x else x))"

text \<open>Infinities and \<open>NaN\<close> by name, and a number that is not rounded to an infinity.\<close>

definition ParseFloat :: "string \<Rightarrow> float64 option" where
  "ParseFloat s =
     (let (neg, body) = take_sign s; name = map lower_ascii body
      in if name = ''inf'' \<or> name = ''infinity'' then Some (if neg then NInf else PInf)
         else if map lower_ascii s = ''nan'' then Some NaN
         else case readFloat s of
                None \<Rightarrow> None
              | Some x \<Rightarrow> (case to_float x of Fin y \<Rightarrow> Some (Fin y) | _ \<Rightarrow> None))"

lemma ParseFloat_is_float: "ParseFloat s = Some f \<Longrightarrow> is_float f"
  using is_float_to_float
  by (auto simp: ParseFloat_def Let_def split: if_splits option.splits float64.splits prod.splits)

lemma ParseFloat_NaN: "ParseFloat s = Some NaN \<longleftrightarrow> map lower_ascii s = ''nan''"
proof
  assume "ParseFloat s = Some NaN"
  then show "map lower_ascii s = ''nan''"
    by (auto simp: ParseFloat_def Let_def split: if_splits option.splits float64.splits prod.splits)
next
  assume nan: "map lower_ascii s = ''nan''"
  then obtain c cs where s: "s = c # cs" "lower_ascii c = CHR ''n''" by (cases s) auto
  then have "c \<noteq> CHR ''-''" "c \<noteq> CHR ''+''" by (auto simp: lower_ascii_def)
  with s have "take_sign s = (False, s)" by (simp add: take_sign_def)
  with nan show "ParseFloat s = Some NaN" by (simp add: ParseFloat_def)
qed

section \<open>\<open>time.ParseDuration\<close>\<close>

text \<open>
  The code computes with \<open>uint64\<close>; every product and sum below it is checked before it could
  wrap, except the sum over the components, which is taken modulo \<open>2 ^ 64\<close>.
\<close>

fun leadingInt :: "int \<Rightarrow> string \<Rightarrow> (int \<times> string) option" where
  "leadingInt x [] = Some (x, [])"
| "leadingInt x (c # cs) =
     (case digit_value c of
        None \<Rightarrow> Some (x, c # cs)
      | Some d \<Rightarrow>
          if 2 ^ 63 div 10 < x then None
          else let y = x * 10 + d in if 2 ^ 63 < y then None else leadingInt y cs)"

text \<open>Digits of a fraction that no longer fit are read and dropped; the scale is a power of ten.\<close>

fun leadingFraction :: "bool \<Rightarrow> int \<Rightarrow> rat \<Rightarrow> string \<Rightarrow> int \<times> rat \<times> string" where
  "leadingFraction over x scale [] = (x, scale, [])"
| "leadingFraction over x scale (c # cs) =
     (case digit_value c of
        None \<Rightarrow> (x, scale, c # cs)
      | Some d \<Rightarrow>
          if over \<or> (2 ^ 63 - 1) div 10 < x then leadingFraction True x scale cs
          else let y = x * 10 + d
               in if 2 ^ 63 < y then leadingFraction True x scale cs
                  else leadingFraction False y (scale * 10) cs)"

text \<open>The units by their bytes: the micro sign and the Greek letter mu are two spellings.\<close>

definition unitMap :: "string \<Rightarrow> int option" where
  "unitMap =
     map_of [(''ns'', 1), (''us'', 1000), ([CHR 0xC2, CHR 0xB5, CHR ''s''], 1000),
       ([CHR 0xCE, CHR 0xBC, CHR ''s''], 1000), (''ms'', 1000000), (''s'', second), (''m'', minute), (''h'', hour)]"

definition starts_number :: "char \<Rightarrow> bool" where
  "starts_number c \<longleftrightarrow> c = CHR ''.'' \<or> is_digit c"

text \<open>One component, a number with its unit: its nanoseconds and the rest.\<close>

definition fraction_part :: "string \<Rightarrow> int \<times> rat \<times> bool \<times> string" where
  "fraction_part s =
     (case s of
        c # cs \<Rightarrow>
          if c = CHR ''.'' then
            let (f, scale, rest) = leadingFraction False 0 1 cs in (f, scale, rest \<noteq> cs, rest)
          else (0, 1, False, s)
      | [] \<Rightarrow> (0, 1, False, []))"

definition with_unit :: "int \<Rightarrow> int \<Rightarrow> rat \<Rightarrow> int \<Rightarrow> int option" where
  "with_unit v f scale unit =
     (if 2 ^ 63 div unit < v then None
      else let w = v * unit;
               w' = (if 0 < f then w + int_of_float (\<lambda>_. 0) (float_of_int f * float_div (float_of_int unit) scale)
                     else w)
           in if 0 < f \<and> 2 ^ 63 < w' then None else Some w')"

definition duration_component :: "string \<Rightarrow> (int \<times> string) option" where
  "duration_component s =
     (if s = [] \<or> \<not> starts_number (hd s) then None
      else case leadingInt 0 s of
             None \<Rightarrow> None
           | Some (v, s1) \<Rightarrow>
               let (f, scale, post, s2) = fraction_part s1;
                   unit_name = takeWhile (\<lambda>c. \<not> starts_number c) s2;
                   rest = dropWhile (\<lambda>c. \<not> starts_number c) s2
               in if s1 = s \<and> \<not> post then None
                  else if unit_name = [] then None
                  else case unitMap unit_name of
                         None \<Rightarrow> None
                       | Some unit \<Rightarrow> map_option (\<lambda>w. (w, rest)) (with_unit v f scale unit))"

text \<open>Every component takes a character away, so the loop ends.\<close>

lemma leadingInt_length: "leadingInt x s = Some (v, t) \<Longrightarrow> length t \<le> length s"
  by (induction x s rule: leadingInt.induct) (fastforce simp: Let_def split: option.splits if_splits)+

lemma leadingFraction_length: "length (snd (snd (leadingFraction over x scale s))) \<le> length s"
  by (induction over x scale s rule: leadingFraction.induct) (fastforce simp: Let_def split: option.splits)+

lemma fraction_part_length: "fraction_part s = (f, scale, post, t) \<Longrightarrow> length t \<le> length s"
  using leadingFraction_length [of False 0 1 "tl s"]
  by (auto simp: fraction_part_def case_prod_beta Let_def split: list.splits if_splits)

lemma duration_component_length:
  assumes "duration_component s = Some (w, rest)" shows "length rest < length s"
proof -
  obtain v s1 where s1: "leadingInt 0 s = Some (v, s1)"
    using assms by (auto simp: duration_component_def split: if_splits option.splits)
  obtain f scale post s2 where s2: "fraction_part s1 = (f, scale, post, s2)" by (cases "fraction_part s1")
  have "takeWhile (\<lambda>c. \<not> starts_number c) s2 \<noteq> []" and rest: "rest = dropWhile (\<lambda>c. \<not> starts_number c) s2"
    using assms s1 s2 by (auto simp: duration_component_def Let_def split: if_splits option.splits)
  then have "length rest < length s2"
    by (metis add_diff_cancel_left' diff_less length_append length_greater_0_conv takeWhile_dropWhile_id
        append_Nil takeWhile.simps(1) less_add_same_cancel2)
  then show ?thesis using leadingInt_length [OF s1] fraction_part_length [OF s2] by linarith
qed

function duration_loop :: "int \<Rightarrow> string \<Rightarrow> int option" where
  "duration_loop d s =
     (if s = [] then Some d
      else case duration_component s of
             None \<Rightarrow> None
           | Some (v, rest) \<Rightarrow>
               let d' = (d + v) mod 2 ^ 64 in if 2 ^ 63 < d' then None else duration_loop d' rest)"
  by auto
termination
  by (relation "measure (\<lambda>(d, s). length s)") (auto dest: duration_component_length)

declare duration_loop.simps [simp del]

definition ParseDuration :: "string \<Rightarrow> duration option" where
  "ParseDuration s =
     (let (neg, body) = take_sign s
      in if body = ''0'' then Some 0
         else if body = [] then None
         else case duration_loop 0 body of
                None \<Rightarrow> None
              | Some d \<Rightarrow> if neg then Some (- d) else if 2 ^ 63 - 1 < d then None else Some d)"

lemma duration_loop_range: "duration_loop d s = Some r \<Longrightarrow> 0 \<le> d \<Longrightarrow> d \<le> 2 ^ 63 \<Longrightarrow> 0 \<le> r \<and> r \<le> 2 ^ 63"
proof (induction d s rule: duration_loop.induct)
  case (1 d s)
  show ?case
  proof (cases "s = []")
    case True
    with 1 show ?thesis by (simp add: duration_loop.simps)
  next
    case False
    with 1(2) obtain v rest where c: "duration_component s = Some (v, rest)"
      by (subst (asm) duration_loop.simps) (auto split: option.splits)
    with 1(2) False have "(d + v) mod 2 ^ 64 \<le> 2 ^ 63" "duration_loop ((d + v) mod 2 ^ 64) rest = Some r"
      by (subst (asm) duration_loop.simps; simp add: Let_def split: if_splits)+
    with 1(1) [OF False c refl] show ?thesis by simp
  qed
qed

text \<open>A parsed duration fits the 64 bits of \<open>time.Duration\<close>.\<close>

lemma ParseDuration_range: "ParseDuration s = Some d \<Longrightarrow> - (2 ^ 63) \<le> d \<and> d < 2 ^ 63"
  using duration_loop_range [of 0 "snd (take_sign s)"]
  by (auto simp: ParseDuration_def Let_def split: prod.splits option.splits if_splits)

text \<open>A whole number of a unit is read as such.\<close>

lemma decimal_value_ge: "decimal_value x s = Some n \<Longrightarrow> 0 \<le> x \<Longrightarrow> x \<le> n"
proof (induction x s rule: decimal_value.induct)
  case (2 x c cs)
  then obtain d where d: "digit_value c = Some d" by (auto split: option.splits)
  then have "0 \<le> d" by (auto simp: digit_value_def Let_def split: if_splits)
  with 2 d show ?case by fastforce
qed simp

lemma leadingInt_decimal:
  assumes "decimal_value x s = Some n" "0 \<le> x" "n \<le> 2 ^ 63 div 10" "t = [] \<or> \<not> is_digit (hd t)"
  shows "leadingInt x (s @ t) = Some (n, t)"
  using assms
proof (induction x s rule: decimal_value.induct)
  case (1 x)
  then show ?case by (cases t) (auto simp: is_digit_def)
next
  case (2 x c cs)
  then obtain d where d: "digit_value c = Some d" by (auto split: option.splits)
  then have "0 \<le> d" by (auto simp: digit_value_def Let_def split: if_splits)
  with 2 d decimal_value_ge [of "x * 10 + d" cs n] show ?case by (simp add: Let_def)
qed

lemma ParseDuration_show:
  assumes "unitMap u = Some unit" "u \<noteq> []" "list_all (\<lambda>c. \<not> starts_number c) u"
    and "1 \<le> unit" "int n \<le> 2 ^ 63 div 10" "int n * unit < 2 ^ 63"
  shows "ParseDuration (show_nat n @ u) = Some (int n * unit)"
proof -
  obtain c cs where c: "show_nat n = c # cs" "is_digit c" using show_nat_first [of n] by (cases "show_nat n") auto
  then have c': "c \<noteq> CHR ''-''" "c \<noteq> CHR ''+''" by (auto simp: is_digit_def digit_value_def)
  have u: "\<not> starts_number (hd u)" "takeWhile (\<lambda>c. \<not> starts_number c) u = u" "dropWhile (\<lambda>c. \<not> starts_number c) u = []"
    using assms(2,3) by (simp_all add: list.pred_set takeWhile_eq_all_conv)
  have first: "starts_number (hd (show_nat n @ u))" "show_nat n @ u \<noteq> []" "show_nat n @ u \<noteq> u"
    using c by (simp_all add: starts_number_def)
  have frac: "fraction_part u = (0, 1, False, u)"
    using u(1) assms(2) by (cases u) (auto simp: fraction_part_def starts_number_def)
  have "leadingInt 0 (show_nat n @ u) = Some (int n, u)"
    using assms(5) u(1) by (intro leadingInt_decimal decimal_value_show) (simp_all add: starts_number_def)
  moreover have "with_unit (int n) 0 1 unit = Some (int n * unit)"
    using assms(4,6) zdiv_mono1 [of "int n * unit" "2 ^ 63" unit] by (simp add: with_unit_def)
  ultimately have comp: "duration_component (show_nat n @ u) = Some (int n * unit, [])"
    using first frac assms(1,2) by (simp add: duration_component_def Let_def u del: takeWhile_eq_all_conv)
  have "duration_loop 0 (show_nat n @ u) = Some (int n * unit)"
    using c comp assms(4,6) by (subst duration_loop.simps) (simp add: duration_loop.simps [of _ "[]"])
  moreover have "show_nat n @ u \<noteq> ''0''"
  proof
    assume "show_nat n @ u = ''0''"
    with c(1) assms(2) show False by (cases cs) auto
  qed
  ultimately show ?thesis
    using c c' assms(2,6) by (simp add: ParseDuration_def take_sign_def)
qed

text \<open>The scale of a fraction never needs more than 53 digits, so its products are exact.\<close>

lemma scale_exact: "k \<le> 22 \<Longrightarrow> to_float (10 ^ k) = Fin (10 ^ k)"
proof -
  assume k: "k \<le> 22"
  then have "(5 :: int) ^ k \<le> 5 ^ 22" by (intro power_increasing) simp_all
  then have "round_rat (of_int (5 ^ k) * pow2 (int k)) = of_int (5 ^ k) * pow2 (int k)"
    by (intro round_rat_exact) simp_all
  then have "round_rat (10 ^ k) = 10 ^ k" by (simp add: pow2_of_nat flip: power_mult_distrib)
  moreover have "(10 :: rat) ^ k < pow2 1024"
  proof -
    have "(10 :: rat) ^ k \<le> 10 ^ 22" using k by (intro power_increasing) simp_all
    also have "\<dots> < pow2 74" by (simp add: pow2_numeral)
    also have "\<dots> \<le> pow2 1024" by simp
    finally show ?thesis .
  qed
  ultimately show ?thesis by (intro to_float_exact) simp_all
qed

end
