(* ===== verification/Manager.thy ===== *)
theory Manager
  imports Watches Webhook Rate_Limit Go_Strconv Observability
begin

text \<open>
  \<open>cmd/main.go\<close>: from the parsed flags and the environment to the configuration of the manager
  and its start. The result is the list of steps that were taken and how the process ended. What
  the libraries answer (a client configuration, a manager, an exporter, the registrations, the
  run itself) is the parameter \<open>platform\<close>; \<open>flag.Parse\<close>, the logger, and the flags that the
  libraries add are left out.
\<close>

section \<open>Settings\<close>

type_synonym getenv = "string \<Rightarrow> string" \<comment> \<open>\<open>os.Getenv\<close>: empty when unset\<close>

definition env_setting :: "(string \<Rightarrow> 'a option) \<Rightarrow> getenv \<Rightarrow> string \<Rightarrow> 'a \<Rightarrow> 'a" where
  "env_setting parse getenv name fallback =
     (let v = getenv name
      in if v = [] then fallback else case parse v of None \<Rightarrow> fallback | Some x \<Rightarrow> x)"

definition envFloat :: "getenv \<Rightarrow> string \<Rightarrow> float64 \<Rightarrow> float64" where
  "envFloat = env_setting ParseFloat"

definition envInt :: "getenv \<Rightarrow> string \<Rightarrow> int \<Rightarrow> int" where
  "envInt = env_setting Atoi"

definition envDuration :: "getenv \<Rightarrow> string \<Rightarrow> duration \<Rightarrow> duration" where
  "envDuration = env_setting ParseDuration"

record flags =
  fl_metrics_bind_address :: string
  fl_health_probe_bind_address :: string
  fl_leader_elect :: bool
  fl_metrics_secure :: bool
  fl_webhook_cert_path :: string
  fl_webhook_cert_name :: string
  fl_webhook_cert_key :: string
  fl_metrics_cert_path :: string
  fl_metrics_cert_name :: string
  fl_metrics_cert_key :: string
  fl_enable_http2 :: bool

definition default_flags :: flags where
  "default_flags =
     \<lparr>fl_metrics_bind_address = ''0'', fl_health_probe_bind_address = '':8081'', fl_leader_elect = False,
      fl_metrics_secure = True, fl_webhook_cert_path = [], fl_webhook_cert_name = ''tls.crt'',
      fl_webhook_cert_key = ''tls.key'', fl_metrics_cert_path = [], fl_metrics_cert_name = ''tls.crt'',
      fl_metrics_cert_key = ''tls.key'', fl_enable_http2 = False\<rparr>"

text \<open>Certificates of a server: directory, certificate and key, where a directory was given.\<close>

type_synonym certificates = "(string \<times> string \<times> string) option"

definition certificates_of :: "string \<Rightarrow> string \<Rightarrow> string \<Rightarrow> certificates" where
  "certificates_of path name key = (if 0 < length path then Some (path, name, key) else None)"

text \<open>The protocols a TLS server is restricted to; the empty list is no restriction.\<close>

definition tls_next_protos :: "flags \<Rightarrow> string list" where
  "tls_next_protos fl = (if fl_enable_http2 fl then [] else [''http/1.1''])"

record manager_options =
  mo_metrics_address :: string
  mo_metrics_secure :: bool
  mo_metrics_authorized :: bool \<comment> \<open>authentication and authorization of the metrics endpoint\<close>
  mo_metrics_certificates :: certificates
  mo_webhook_certificates :: certificates
  mo_next_protos :: "string list"
  mo_probe_address :: string
  mo_leader_election :: bool
  mo_leader_election_id :: string
  mo_secret_label :: string \<comment> \<open>the label a Secret must have to enter the cache\<close>
  mo_uncached_reads :: "kind list"

definition manager_options :: "flags \<Rightarrow> manager_options" where
  "manager_options fl =
     \<lparr>mo_metrics_address = fl_metrics_bind_address fl, mo_metrics_secure = fl_metrics_secure fl,
      mo_metrics_authorized = fl_metrics_secure fl,
      mo_metrics_certificates =
        certificates_of (fl_metrics_cert_path fl) (fl_metrics_cert_name fl) (fl_metrics_cert_key fl),
      mo_webhook_certificates =
        certificates_of (fl_webhook_cert_path fl) (fl_webhook_cert_name fl) (fl_webhook_cert_key fl),
      mo_next_protos = tls_next_protos fl, mo_probe_address = fl_health_probe_bind_address fl,
      mo_leader_election = fl_leader_elect fl, mo_leader_election_id = ''9429151e.ningendo7.github.io'',
      mo_secret_label = SecretRoleLabel, mo_uncached_reads = [SecretKind]\<rparr>"

text \<open>The four limiters, in the order in which they are ramped up.\<close>

definition s3_limiter :: "getenv \<Rightarrow> limiter" where
  "s3_limiter getenv =
     NewLimiter (envFloat getenv ''AWS_S3_RATE_LIMIT_QPS'' (Fin 20)) (envInt getenv ''AWS_S3_RATE_LIMIT_BURST'' 40)"

definition iam_limiter :: "getenv \<Rightarrow> limiter" where
  "iam_limiter getenv =
     NewLimiter (envFloat getenv ''AWS_IAM_RATE_LIMIT_QPS'' (Fin 8)) (envInt getenv ''AWS_IAM_RATE_LIMIT_BURST'' 16)"

definition akamai_account_limiter :: "getenv \<Rightarrow> limiter" where
  "akamai_account_limiter getenv =
     NewLimiter (envFloat getenv ''AKAMAI_ACCOUNT_RATE_LIMIT_QPS'' (Fin 5))
       (envInt getenv ''AKAMAI_ACCOUNT_RATE_LIMIT_BURST'' 10)"

definition akamai_object_limiter :: "getenv \<Rightarrow> limiter" where
  "akamai_object_limiter getenv =
     NewLimiter (envFloat getenv ''AKAMAI_OBJECT_RATE_LIMIT_QPS'' (Fin 20))
       (envInt getenv ''AKAMAI_OBJECT_RATE_LIMIT_BURST'' 40)"

definition rate_limiters :: "getenv \<Rightarrow> limiter list" where
  "rate_limiters getenv =
     [s3_limiter getenv, iam_limiter getenv, akamai_account_limiter getenv, akamai_object_limiter getenv]"

definition configured_reconciler :: "getenv \<Rightarrow> reconciler" where
  "configured_reconciler getenv =
     \<lparr>r_oidc_arn = getenv ''OIDC_PROVIDER_ARN'', r_oidc_url = getenv ''OIDC_PROVIDER_URL'',
      r_boundary_arn = getenv ''APP_IRSA_PERMISSIONS_BOUNDARY_ARN'',
      r_default_akamai_region = getenv ''DEFAULT_AKAMAI_REGION'', r_has_recorder = True,
      r_storage_resync_interval = envDuration getenv ''STORAGE_RESYNC_INTERVAL'' (10 * minute),
      r_max_concurrent_reconciles = envInt getenv ''MAX_CONCURRENT_RECONCILES'' 5\<rparr>"

definition rateLimitRampDuration :: duration where "rateLimitRampDuration = 30 * second"

section \<open>The start of the process\<close>

record platform =
  pf_kubeconfig :: "gerror option"
  pf_new_manager :: "manager_options \<Rightarrow> gerror option"
  pf_exporter :: "gerror option"
  pf_resource :: "resource_option list \<Rightarrow> gerror option"
  pf_read_file :: "string \<Rightarrow> string option"
  pf_requirement :: "string \<Rightarrow> gerror option" \<comment> \<open>\<open>labels.NewRequirement\<close>\<close>
  pf_controller :: "controller_setup \<Rightarrow> gerror option"
  pf_webhook :: "gerror option"
  pf_healthz :: "gerror option"
  pf_readyz :: "gerror option"
  pf_run :: "gerror option"

datatype startup_step =
    ManagerCreated manager_options
  | TracingStarted "resource_option list"
  | ControllerRegistered controller_setup "limiter list"
  | WebhooksRegistered
  | CheckAdded string
  | RampsWaiting "limiter list" duration \<comment> \<open>the goroutine that ramps up once elected\<close>
  | ManagerStarted
  | TracingFlushed

text \<open>\<open>os.Exit(1)\<close> with the message logged before it, or the return of \<open>main\<close>.\<close>

datatype process_end = Exited string | Returned

type_synonym startup = "startup_step list \<times> process_end"

text \<open>\<open>if err != nil { setupLog.Error(err, message); os.Exit(1) }\<close> around a step and what follows.\<close>

definition or_exit :: "gerror option \<Rightarrow> string \<Rightarrow> startup_step list \<Rightarrow> startup \<Rightarrow> startup" where
  "or_exit err message steps rest =
     (case err of Some e \<Rightarrow> ([], Exited message) | None \<Rightarrow> (steps @ fst rest, snd rest))"

text \<open>A deferred call runs when \<open>main\<close> returns, and not at \<open>os.Exit\<close>.\<close>

definition deferring :: "startup_step \<Rightarrow> startup \<Rightarrow> startup" where
  "deferring step rest =
     (case snd rest of Returned \<Rightarrow> (fst rest @ [step], Returned) | Exited message \<Rightarrow> rest)"

definition start_manager :: "platform \<Rightarrow> getenv \<Rightarrow> startup" where
  "start_manager pf getenv =
     (let setup = SetupWithManager (configured_reconciler getenv);
          webhooks = getenv ''ENABLE_WEBHOOKS'' \<noteq> ''false''
      in or_exit (pf_controller pf setup) ''Failed to create controller''
           [ControllerRegistered setup (rate_limiters getenv)]
         (or_exit (if webhooks then pf_webhook pf else None) ''Failed to create webhook''
           (if webhooks then [WebhooksRegistered] else [])
         (or_exit (pf_healthz pf) ''Failed to set up health check'' [CheckAdded ''healthz'']
         (or_exit (pf_readyz pf) ''Failed to set up ready check'' [CheckAdded ''readyz'']
         ([RampsWaiting (rate_limiters getenv) rateLimitRampDuration, ManagerStarted],
          case pf_run pf of Some e \<Rightarrow> Exited ''Failed to run manager'' | None \<Rightarrow> Returned)))))"

definition with_tracing :: "platform \<Rightarrow> getenv \<Rightarrow> startup \<Rightarrow> startup" where
  "with_tracing pf getenv rest =
     (if getenv ''OTEL_EXPORTER_OTLP_ENDPOINT'' \<noteq> [] then
        (case Init (pf_exporter pf) (pf_resource pf) getenv (pf_read_file pf) of
           Inl err \<Rightarrow> ([], Exited ''Failed to initialize OpenTelemetry tracing'')
         | Inr opts \<Rightarrow>
             (let (steps, outcome) = deferring TracingFlushed rest in (TracingStarted opts # steps, outcome)))
      else rest)"

definition main :: "platform \<Rightarrow> flags \<Rightarrow> getenv \<Rightarrow> startup" where
  "main pf fl getenv =
     (let options = manager_options fl
      in or_exit (pf_requirement pf SecretRoleLabel) ''Failed to build Secret cache label selector'' []
         (or_exit (pf_kubeconfig pf) ''unable to get kubeconfig'' []
         (or_exit (pf_new_manager pf options) ''Failed to start manager'' [ManagerCreated options]
         (with_tracing pf getenv (start_manager pf getenv)))))"

end
