(* ===== verification/Manager_Properties.thy ===== *)
theory Manager_Properties
  imports Manager
begin

text \<open>
  What holds of the manager binary for every environment: its settings stay in bounds, a setting
  that cannot be read is like one that is not there, and the process starts the manager only
  when all that goes before it succeeded.
\<close>

section \<open>Steps of a start\<close>

lemma or_exit_steps:
  "s \<in> set (fst (or_exit err message steps rest)) \<longleftrightarrow> err = None \<and> (s \<in> set steps \<or> s \<in> set (fst rest))"
  "snd (or_exit err message steps rest) = Returned \<longleftrightarrow> err = None \<and> snd rest = Returned"
  by (auto simp: or_exit_def split: option.splits)

lemma with_tracing_steps:
  "ManagerStarted \<in> set (fst (with_tracing pf getenv rest)) \<longleftrightarrow>
     (getenv ''OTEL_EXPORTER_OTLP_ENDPOINT'' = [] \<or>
      (\<exists>opts. Init (pf_exporter pf) (pf_resource pf) getenv (pf_read_file pf) = Inr opts)) \<and>
     ManagerStarted \<in> set (fst rest)"
  "ControllerRegistered c ls \<in> set (fst (with_tracing pf getenv rest)) \<longleftrightarrow>
     (getenv ''OTEL_EXPORTER_OTLP_ENDPOINT'' = [] \<or>
      (\<exists>opts. Init (pf_exporter pf) (pf_resource pf) getenv (pf_read_file pf) = Inr opts)) \<and>
     ControllerRegistered c ls \<in> set (fst rest)"
  "snd (with_tracing pf getenv rest) = Returned \<longleftrightarrow>
     (getenv ''OTEL_EXPORTER_OTLP_ENDPOINT'' = [] \<or>
      (\<exists>opts. Init (pf_exporter pf) (pf_resource pf) getenv (pf_read_file pf) = Inr opts)) \<and>
     snd rest = Returned"
  "TracingFlushed \<notin> set (fst rest) \<Longrightarrow>
     TracingFlushed \<in> set (fst (with_tracing pf getenv rest)) \<longleftrightarrow>
     getenv ''OTEL_EXPORTER_OTLP_ENDPOINT'' \<noteq> [] \<and>
     snd (with_tracing pf getenv rest) = Returned"
  by (cases rest; auto simp: with_tracing_def deferring_def split: sum.splits process_end.splits)+

lemma start_manager_steps:
  "ManagerStarted \<in> set (fst (start_manager pf getenv)) \<longleftrightarrow>
     pf_controller pf (SetupWithManager (configured_reconciler getenv)) = None \<and>
     (getenv ''ENABLE_WEBHOOKS'' = ''false'' \<or> pf_webhook pf = None) \<and> pf_healthz pf = None \<and> pf_readyz pf = None"
  "snd (start_manager pf getenv) = Returned \<longleftrightarrow>
     ManagerStarted \<in> set (fst (start_manager pf getenv)) \<and> pf_run pf = None"
  "TracingFlushed \<notin> set (fst (start_manager pf getenv))"
  "ControllerRegistered c ls \<in> set (fst (start_manager pf getenv)) \<longleftrightarrow>
     pf_controller pf c = None \<and> c = SetupWithManager (configured_reconciler getenv) \<and> ls = rate_limiters getenv"
  by (auto simp: start_manager_def Let_def or_exit_steps split: option.splits)


section \<open>Settings in bounds\<close>

lemma envFloat_NaN:
  "d \<noteq> NaN \<Longrightarrow> envFloat getenv name d = NaN \<longleftrightarrow> map lower_ascii (getenv name) = ''nan''"
  using ParseFloat_NaN [of "getenv name"]
  by (cases "getenv name") (auto simp: envFloat_def env_setting_def Let_def split: option.splits)

lemma envInt_range: "- (2 ^ 63) \<le> d \<Longrightarrow> d < 2 ^ 63 \<Longrightarrow> - (2 ^ 63) \<le> envInt getenv name d \<and> envInt getenv name d < 2 ^ 63"
  using Atoi_range [of "getenv name"] by (auto simp: envInt_def env_setting_def Let_def split: option.splits)

lemma envDuration_range:
  "- (2 ^ 63) \<le> d \<Longrightarrow> d < 2 ^ 63 \<Longrightarrow> - (2 ^ 63) \<le> envDuration getenv name d \<and> envDuration getenv name d < 2 ^ 63"
  using ParseDuration_range [of "getenv name"] by (auto simp: envDuration_def env_setting_def Let_def split: option.splits)

definition qps_settings :: "string list" where
  "qps_settings = [''AWS_S3_RATE_LIMIT_QPS'', ''AWS_IAM_RATE_LIMIT_QPS'', ''AKAMAI_ACCOUNT_RATE_LIMIT_QPS'',
     ''AKAMAI_OBJECT_RATE_LIMIT_QPS'']"

text \<open>A limiter that lets calls through, with the exception described below.\<close>

definition limiter_open :: "getenv \<Rightarrow> limiter \<Rightarrow> string \<Rightarrow> bool" where
  "limiter_open getenv l name \<longleftrightarrow>
     1 \<le> lim_burst l \<and>
     (if map lower_ascii (getenv name) = ''nan'' then lim_limit l = NaN else 0 < lim_limit l)"

lemma limiter_open_NewLimiter: "d \<noteq> NaN \<Longrightarrow> limiter_open getenv (NewLimiter (envFloat getenv name d) b) name"
  using NewLimiter_floor [of "envFloat getenv name d" b] envFloat_NaN [of d getenv name]
  by (auto simp: limiter_open_def)

text \<open>
  C33: whatever the environment holds, the controller that is registered runs with at least one
  worker and a positive resync interval, both within 64 bits, and every limiter has a burst of at
  least 1 and a positive limit; the one exception is a limit of \<open>NaN\<close>, which passes the floor
  of \<open>NewLimiter\<close> and which a limiter has exactly when its variable spells it.
\<close>

theorem manager_settings_in_bounds:
  assumes "ControllerRegistered cs ls \<in> set (fst (main pf fl getenv))"
  shows "1 \<le> cs_workers cs \<and> cs_workers cs < 2 ^ 63 \<and>
    0 < resolveStorageResyncInterval (r_storage_resync_interval (cs_reconciler cs)) \<and>
    resolveStorageResyncInterval (r_storage_resync_interval (cs_reconciler cs)) < 2 ^ 63 \<and>
    list_all2 (limiter_open getenv) ls qps_settings"
proof -
  have c: "cs = SetupWithManager (configured_reconciler getenv)" "ls = rate_limiters getenv"
    using assms by (auto simp: main_def Let_def or_exit_steps with_tracing_steps start_manager_steps)
  have "list_all2 (limiter_open getenv) ls qps_settings"
    by (simp add: c rate_limiters_def qps_settings_def s3_limiter_def iam_limiter_def akamai_account_limiter_def
        akamai_object_limiter_def limiter_open_NewLimiter)
  moreover have "1 \<le> cs_workers cs" "cs_workers cs < 2 ^ 63"
    using envInt_range [of 5 getenv "''MAX_CONCURRENT_RECONCILES''"]
    by (auto simp: c SetupWithManager_def configured_reconciler_def resolveMaxConcurrentReconciles_def
        defaultMaxConcurrentReconciles_def)
  moreover have "0 < resolveStorageResyncInterval (r_storage_resync_interval (cs_reconciler cs))"
      "resolveStorageResyncInterval (r_storage_resync_interval (cs_reconciler cs)) < 2 ^ 63"
    using envDuration_range [of "10 * minute" getenv "''STORAGE_RESYNC_INTERVAL''"]
    by (auto simp: c SetupWithManager_def configured_reconciler_def resolveStorageResyncInterval_def
        defaultStorageResyncInterval_def duration_values)
  ultimately show ?thesis by blast
qed

definition quiet_platform :: platform where
  "quiet_platform =
     \<lparr>pf_kubeconfig = None, pf_new_manager = (\<lambda>_. None), pf_exporter = None, pf_resource = (\<lambda>_. None),
      pf_read_file = (\<lambda>_. None), pf_requirement = (\<lambda>_. None), pf_controller = (\<lambda>_. None), pf_webhook = None,
      pf_healthz = None, pf_readyz = None, pf_run = None\<rparr>"

definition odd_environment :: getenv where
  "odd_environment =
     (\<lambda>_. [])(''AWS_S3_RATE_LIMIT_QPS'' := ''NaN'', ''MAX_CONCURRENT_RECONCILES'' := ''-3'',
       ''AWS_IAM_RATE_LIMIT_BURST'' := ''0'')"

theorem manager_settings_in_bounds_witness:
  "\<exists>cs ls. ControllerRegistered cs ls \<in> set (fst (main quiet_platform default_flags odd_environment)) \<and>
     lim_limit (hd ls) = NaN \<and> 1 \<le> cs_workers cs"
proof -
  let ?cs = "SetupWithManager (configured_reconciler odd_environment)" and ?ls = "rate_limiters odd_environment"
  have reg: "ControllerRegistered ?cs ?ls \<in> set (fst (main quiet_platform default_flags odd_environment))"
    by (simp add: main_def Let_def or_exit_steps with_tracing_steps start_manager_steps quiet_platform_def odd_environment_def)
  have "map lower_ascii ''NaN'' = ''nan''" by code_simp
  then have "map lower_ascii (odd_environment ''AWS_S3_RATE_LIMIT_QPS'') = ''nan''"
    by (simp add: odd_environment_def)
  with manager_settings_in_bounds [OF reg] have "lim_limit (hd ?ls) = NaN" "1 \<le> cs_workers ?cs"
    by (simp_all add: qps_settings_def rate_limiters_def limiter_open_def)
  with reg show ?thesis by blast
qed

section \<open>Settings that cannot be read\<close>

definition int_settings :: "string list" where
  "int_settings = [''AWS_S3_RATE_LIMIT_BURST'', ''AWS_IAM_RATE_LIMIT_BURST'', ''AKAMAI_ACCOUNT_RATE_LIMIT_BURST'',
     ''AKAMAI_OBJECT_RATE_LIMIT_BURST'', ''MAX_CONCURRENT_RECONCILES'']"

definition readable :: "getenv \<Rightarrow> string \<Rightarrow> bool" where
  "readable getenv name \<longleftrightarrow>
     (if name \<in> set qps_settings then ParseFloat (getenv name) \<noteq> None
      else if name \<in> set int_settings then Atoi (getenv name) \<noteq> None
      else name = ''STORAGE_RESYNC_INTERVAL'' \<longrightarrow> ParseDuration (getenv name) \<noteq> None)"

lemma env_setting_unset:
  "(n = name \<Longrightarrow> parse (getenv name) = None) \<Longrightarrow>
     env_setting parse (getenv(name := [])) n d = env_setting parse getenv n d"
  by (auto simp: env_setting_def Let_def)

lemma settings_disjoint:
  "n \<in> set int_settings \<Longrightarrow> n \<notin> set qps_settings" "''STORAGE_RESYNC_INTERVAL'' \<notin> set qps_settings"
  "''STORAGE_RESYNC_INTERVAL'' \<notin> set int_settings"
  by (auto simp: int_settings_def qps_settings_def)

lemma unreadable_is_unset:
  assumes "\<not> readable getenv name"
  shows "n \<in> set qps_settings \<Longrightarrow> envFloat (getenv(name := [])) n d = envFloat getenv n d"
    and "n \<in> set int_settings \<Longrightarrow> envInt (getenv(name := [])) n i = envInt getenv n i"
    and "envDuration (getenv(name := [])) ''STORAGE_RESYNC_INTERVAL'' u = envDuration getenv ''STORAGE_RESYNC_INTERVAL'' u"
  unfolding envFloat_def envInt_def envDuration_def
  using assms settings_disjoint by (intro env_setting_unset; auto simp: readable_def)+

lemma main_depends:
  assumes "rate_limiters g = rate_limiters h" "configured_reconciler g = configured_reconciler h"
    and "g ''ENABLE_WEBHOOKS'' = h ''ENABLE_WEBHOOKS''" "g ''HOSTNAME'' = h ''HOSTNAME''"
    and "g ''OTEL_EXPORTER_OTLP_ENDPOINT'' = h ''OTEL_EXPORTER_OTLP_ENDPOINT''"
  shows "main pf fl g = main pf fl h"
proof -
  have "buildResourceOptions g rf = buildResourceOptions h rf" for rf
    using assms(4) by (simp add: buildResourceOptions_def)
  then have "Init e r g rf = Init e r h rf" for e r rf by (simp add: Init_def cong: option.case_cong)
  moreover have "start_manager pf g = start_manager pf h"
    using assms(1-3) by (simp add: start_manager_def)
  ultimately show ?thesis using assms(5) by (simp add: main_def with_tracing_def)
qed

text \<open>
  A typo in a setting degrades it to its default and nothing else. With a numeric variable
  that cannot be parsed the process starts step by step as if that variable were not set.
\<close>

theorem unreadable_setting_is_unset:
  assumes "name \<in> set (qps_settings @ int_settings @ [''STORAGE_RESYNC_INTERVAL''])" and "\<not> readable getenv name"
  shows "main pf fl getenv = main pf fl (getenv(name := []))"
proof (rule main_depends)
  note same = unreadable_is_unset [OF assms(2)]
  show "rate_limiters getenv = rate_limiters (getenv(name := []))"
    by (simp add: rate_limiters_def s3_limiter_def iam_limiter_def akamai_account_limiter_def
        akamai_object_limiter_def same qps_settings_def int_settings_def)
  have other: "(getenv(name := [])) k = getenv k"
    if "k \<notin> set (qps_settings @ int_settings @ [''STORAGE_RESYNC_INTERVAL''])" for k
    using that assms(1) by auto
  show "configured_reconciler getenv = configured_reconciler (getenv(name := []))"
    by (simp add: configured_reconciler_def same int_settings_def other qps_settings_def del: fun_upd_apply)
  show "getenv ''ENABLE_WEBHOOKS'' = (getenv(name := [])) ''ENABLE_WEBHOOKS''"
      "getenv ''HOSTNAME'' = (getenv(name := [])) ''HOSTNAME''"
      "getenv ''OTEL_EXPORTER_OTLP_ENDPOINT'' = (getenv(name := [])) ''OTEL_EXPORTER_OTLP_ENDPOINT''"
    by (simp_all add: other int_settings_def qps_settings_def del: fun_upd_apply)
qed

theorem unreadable_setting_is_unset_witness:
  "main quiet_platform default_flags ((\<lambda>_. [])(''MAX_CONCURRENT_RECONCILES'' := ''ten'')) =
     main quiet_platform default_flags (\<lambda>_. [])"
proof -
  let ?g = "(\<lambda>_. [])(''MAX_CONCURRENT_RECONCILES'' := ''ten'')"
  have "\<not> readable ?g ''MAX_CONCURRENT_RECONCILES''"
    by (simp add: readable_def qps_settings_def int_settings_def Atoi_def take_sign_def digit_value_def)
  then show ?thesis
    using unreadable_setting_is_unset [of "''MAX_CONCURRENT_RECONCILES''" ?g]
    by (simp add: int_settings_def fun_upd_idem)
qed

text \<open>
  A setting that is written down is the one in force: every 64 bit integer in decimal, and
  every whole number of a unit of time that fits a duration, is read back as itself.
\<close>

theorem settings_read_back:
  assumes "getenv ''MAX_CONCURRENT_RECONCILES'' = show_int i" and "1 \<le> i" and "i < 2 ^ 63"
    and "getenv ''STORAGE_RESYNC_INTERVAL'' = show_nat n @ u"
    and "(u, unit) \<in> {(''ms'', 1000000), (''s'', second), (''m'', minute), (''h'', hour)}"
    and "1 \<le> n" and "int n * unit < 2 ^ 63"
  shows "cs_workers (SetupWithManager (configured_reconciler getenv)) = i \<and>
    resolveStorageResyncInterval (r_storage_resync_interval (configured_reconciler getenv)) = int n * unit"
proof -
  have "show_int i \<noteq> []" using assms(2) show_nat_first [of "nat i"] by (simp add: show_int_def)
  then have "envInt getenv ''MAX_CONCURRENT_RECONCILES'' 5 = i"
    using assms(1-3) Atoi_show [of i] by (simp add: envInt_def env_setting_def)
  moreover have "ParseDuration (show_nat n @ u) = Some (int n * unit)"
  proof (rule ParseDuration_show)
    have unit: "1000000 \<le> unit" using assms(5) by (auto simp: duration_values)
    then show "1 \<le> unit" by simp
    have "int n * 1000000 \<le> int n * unit" using unit by (intro mult_left_mono) simp_all
    then show "int n \<le> 2 ^ 63 div 10" using assms(7) by simp
    show "unitMap u = Some unit" "u \<noteq> []" "list_all (\<lambda>c. \<not> starts_number c) u"
      using assms(5) by (auto simp: unitMap_def starts_number_def is_digit_def digit_value_def)
  qed (rule assms(7))
  moreover have "show_nat n @ u \<noteq> []" using show_nat_first [of n] by simp
  ultimately have "envDuration getenv ''STORAGE_RESYNC_INTERVAL'' (10 * minute) = int n * unit"
    using assms(4) show_nat_first [of n] by (simp add: envDuration_def env_setting_def Let_def)
  moreover have "0 < int n * unit" using assms(5,6) by (auto simp: duration_values)
  ultimately show ?thesis
    using \<open>envInt getenv ''MAX_CONCURRENT_RECONCILES'' 5 = i\<close> assms(2)
    by (simp add: SetupWithManager_def configured_reconciler_def resolveMaxConcurrentReconciles_def
        resolveStorageResyncInterval_def)
qed

theorem settings_read_back_witness:
  "resolveStorageResyncInterval (r_storage_resync_interval (configured_reconciler
     ((\<lambda>_. [])(''MAX_CONCURRENT_RECONCILES'' := ''12'', ''STORAGE_RESYNC_INTERVAL'' := ''15s'')))) = 15 * second"
proof -
  have printed: "show_int 12 = ''12''" "show_nat 15 = ''15''" by code_simp+
  show ?thesis
    using settings_read_back [of "(\<lambda>_. [])(''MAX_CONCURRENT_RECONCILES'' := ''12'', ''STORAGE_RESYNC_INTERVAL'' := ''15s'')"
        12 15 "''s''" second]
    by (simp add: printed second_def)
qed

section \<open>The Secret cache\<close>

text \<open>
  An informer that is restricted to objects with a label. What it delivers of an event is the
  library's; the code relies on it to deliver nothing about objects without the label.
\<close>

definition cached_requests ::
  "env \<Rightarrow> ('p \<Rightarrow> 'p \<Rightarrow> bool) \<Rightarrow> manager_options \<Rightarrow>
     (('p watched_object \<Rightarrow> bool) \<Rightarrow> 'p watched_object watch_event \<Rightarrow> 'p watched_object watch_event option) \<Rightarrow>
     kind \<Rightarrow> 'p watched_object watch_event \<Rightarrow> request list io" where
  "cached_requests env same mo deliver k ev =
     (let selected = (\<lambda>obj. k = SecretKind \<longrightarrow> map_of (wo_labels obj) (mo_secret_label mo) \<noteq> None)
      in case deliver selected ev of None \<Rightarrow> ret [] | Some ev' \<Rightarrow> requests_for env same k ev')"


definition simple_cache ::
  "('o \<Rightarrow> bool) \<Rightarrow> 'o watch_event \<Rightarrow> 'o watch_event option" where
  "simple_cache selected ev = (if list_all selected (event_objects ev) then Some ev else None)"

definition user_secret :: "string \<Rightarrow> string watched_object" where
  "user_secret data =
     \<lparr>wo_namespace = ''shop'', wo_name = ''aws-keys'', wo_labels = [], wo_controller = None,
      wo_status = OwnedOther 0, wo_content = ContentSecret data\<rparr>"


end
