(* ===== verification/Go_Heap.thy ===== *)
theory Go_Heap
  imports Main "HOL-Library.State_Monad"
begin

text \<open>
  Pointers, slices and maps of Go, for the one place where sharing matters: a deep copy. The
  store is a list of cells, an address is a position in it, and allocation appends, so an
  address that was once handed out stays valid, as it does under the garbage collector. A
  \<open>reader\<close> turns a structure of pointers into the value it stands for, together with the addresses
  that it went through; it is undefined where a pointer dangles or has the wrong type.
\<close>

type_synonym addr = nat
type_synonym ('c, 'v) reader = "'c list \<Rightarrow> ('v \<times> addr set) option"
type_synonym ('c, 'a) alloc = "('c list, 'a) state"

section \<open>Readers\<close>

definition read_ret :: "'v \<Rightarrow> ('c, 'v) reader" where
  "read_ret v h = Some (v, {})"

definition read_ap :: "('c, 'a \<Rightarrow> 'b) reader \<Rightarrow> ('c, 'a) reader \<Rightarrow> ('c, 'b) reader" where
  "read_ap rf rx h =
     (case rf h of None \<Rightarrow> None
      | Some (f, A) \<Rightarrow> (case rx h of None \<Rightarrow> None | Some (x, B) \<Rightarrow> Some (f x, A \<union> B)))"

text \<open>A pointer, with the selector of the cells it may point to and the reader of what is there.\<close>

definition read_at :: "('c \<Rightarrow> 'a option) \<Rightarrow> ('a \<Rightarrow> ('c, 'v) reader) \<Rightarrow> addr \<Rightarrow> ('c, 'v) reader" where
  "read_at sel rd a h =
     (if a < length h then
        (case sel (h ! a) of None \<Rightarrow> None
         | Some x \<Rightarrow> (case rd x h of None \<Rightarrow> None | Some (v, A) \<Rightarrow> Some (v, insert a A)))
      else None)"

definition read_ptr :: "('c \<Rightarrow> 'a option) \<Rightarrow> ('a \<Rightarrow> ('c, 'v) reader) \<Rightarrow> addr option \<Rightarrow> ('c, 'v option) reader" where
  "read_ptr sel rd p =
     (case p of None \<Rightarrow> read_ret None | Some a \<Rightarrow> read_ap (read_ret Some) (read_at sel rd a))"

fun read_list :: "('a \<Rightarrow> ('c, 'v) reader) \<Rightarrow> 'a list \<Rightarrow> ('c, 'v list) reader" where
  "read_list rd [] = read_ret []"
| "read_list rd (x # xs) = read_ap (read_ap (read_ret (#)) (rd x)) (read_list rd xs)"

section \<open>Copies\<close>

definition new :: "'c \<Rightarrow> ('c, addr) alloc" where
  "new c = State (\<lambda>h. (length h, h @ [c]))"

definition load :: "addr \<Rightarrow> ('c, 'c option) alloc" where
  "load a = State (\<lambda>h. (if a < length h then Some (h ! a) else None, h))"

text \<open>
  \<open>if in.X != nil { *out = new(T); (*in).DeepCopyInto(*out) }\<close>. What is copied is put into the
  new cell at once, so a half-filled cell is never seen; a cell of another type, which Go
  excludes, is not copied.
\<close>

definition copy_ptr :: "('c \<Rightarrow> 'a option) \<Rightarrow> ('a \<Rightarrow> 'c) \<Rightarrow> ('a \<Rightarrow> ('c, 'a) alloc) \<Rightarrow> addr option \<Rightarrow> ('c, addr option) alloc" where
  "copy_ptr sel mk DeepCopyInto p =
     (case p of
        None \<Rightarrow> State_Monad.return None
      | Some a \<Rightarrow>
          State_Monad.bind (load a) (\<lambda>c.
          case Option.bind c sel of
            None \<Rightarrow> State_Monad.return None
          | Some x \<Rightarrow>
              State_Monad.bind (DeepCopyInto x) (\<lambda>y.
              State_Monad.bind (new (mk y)) (\<lambda>b. State_Monad.return (Some b)))))"

text \<open>\<open>for i := range *in { (*in)[i].DeepCopyInto(&(*out)[i]) }\<close>\<close>

fun copy_list :: "('a \<Rightarrow> ('c, 'a) alloc) \<Rightarrow> 'a list \<Rightarrow> ('c, 'a list) alloc" where
  "copy_list DeepCopyInto [] = State_Monad.return []"
| "copy_list DeepCopyInto (x # xs) =
     State_Monad.bind (DeepCopyInto x) (\<lambda>y.
     State_Monad.bind (copy_list DeepCopyInto xs) (\<lambda>ys. State_Monad.return (y # ys)))"

section \<open>What a reader depends on\<close>

definition framed :: "('c, 'v) reader \<Rightarrow> bool" where
  "framed r \<longleftrightarrow>
     (\<forall>h v A. r h = Some (v, A) \<longrightarrow>
        A \<subseteq> {..<length h} \<and> (\<forall>g. (\<forall>a \<in> A. a < length g \<and> g ! a = h ! a) \<longrightarrow> r g = Some (v, A)))"

lemma framedD:
  "framed r \<Longrightarrow> r h = Some (v, A) \<Longrightarrow> A \<subseteq> {..<length h}"
  "framed r \<Longrightarrow> r h = Some (v, A) \<Longrightarrow> (\<And>a. a \<in> A \<Longrightarrow> a < length g \<and> g ! a = h ! a) \<Longrightarrow> r g = Some (v, A)"
  unfolding framed_def by blast+

lemma framed_append:
  assumes "framed r" and "r h = Some (v, A)" shows "r (h @ ext) = Some (v, A)"
proof (rule framedD(2) [OF assms])
  fix a
  assume "a \<in> A"
  then have "a < length h" using framedD(1) [OF assms] by auto
  then show "a < length (h @ ext) \<and> (h @ ext) ! a = h ! a" by (simp add: nth_append)
qed

lemma read_ap_Some:
  "read_ap rf rx h = Some (v, A) \<longleftrightarrow>
     (\<exists>f x B C. rf h = Some (f, B) \<and> rx h = Some (x, C) \<and> v = f x \<and> A = B \<union> C)"
  by (auto simp: read_ap_def split: option.splits prod.splits)

lemma framed_ret: "framed (read_ret v)"
  by (simp add: framed_def read_ret_def)

lemma framed_ap:
  assumes "framed rf" and "framed rx" shows "framed (read_ap rf rx)"
  unfolding framed_def
proof (intro allI impI)
  fix h v A
  assume "read_ap rf rx h = Some (v, A)"
  then obtain f x B C where r: "rf h = Some (f, B)" "rx h = Some (x, C)" "v = f x" "A = B \<union> C"
    unfolding read_ap_Some by blast
  have "read_ap rf rx g = Some (v, A)" if "\<forall>a \<in> A. a < length g \<and> g ! a = h ! a" for g
    using framedD(2) [OF assms(1) r(1), of g] framedD(2) [OF assms(2) r(2), of g] that r(3,4)
    by (simp add: read_ap_def)
  with framedD(1) [OF assms(1) r(1)] framedD(1) [OF assms(2) r(2)] r(4)
  show "A \<subseteq> {..<length h} \<and> (\<forall>g. (\<forall>a \<in> A. a < length g \<and> g ! a = h ! a) \<longrightarrow> read_ap rf rx g = Some (v, A))"
    by blast
qed

lemma read_at_Some:
  "read_at sel rd a h = Some (v, A) \<longleftrightarrow>
     a < length h \<and> (\<exists>x B. sel (h ! a) = Some x \<and> rd x h = Some (v, B) \<and> A = insert a B)"
  by (auto simp: read_at_def split: option.splits prod.splits)

lemma framed_at:
  assumes "\<And>x. framed (rd x)" shows "framed (read_at sel rd a)"
  unfolding framed_def
proof (intro allI impI)
  fix h v A
  assume "read_at sel rd a h = Some (v, A)"
  then obtain x B where r: "a < length h" "sel (h ! a) = Some x" "rd x h = Some (v, B)" "A = insert a B"
    unfolding read_at_Some by blast
  have "read_at sel rd a g = Some (v, A)" if "\<forall>a \<in> A. a < length g \<and> g ! a = h ! a" for g
    using framedD(2) [OF assms r(3), of g] that r unfolding read_at_Some by auto
  with framedD(1) [OF assms r(3)] r(1,4)
  show "A \<subseteq> {..<length h} \<and> (\<forall>g. (\<forall>a \<in> A. a < length g \<and> g ! a = h ! a) \<longrightarrow> read_at sel rd a g = Some (v, A))"
    by blast
qed

lemma framed_ptr: "(\<And>x. framed (rd x)) \<Longrightarrow> framed (read_ptr sel rd p)"
  unfolding read_ptr_def by (cases p) (simp_all add: framed_ret framed_ap framed_at)

lemma framed_list: "(\<And>x. framed (rd x)) \<Longrightarrow> framed (read_list rd xs)"
  by (induction xs) (simp_all add: framed_ret framed_ap)

lemmas framed_rules = framed_ret framed_ap framed_ptr framed_list

section \<open>Faithful copies\<close>

text \<open>
  The computation \<open>m\<close> builds a structure of new cells that stands for what \<open>r\<close> reads: the cells
  that were there keep their contents, the structure is read to the same value, and it goes
  through new addresses only. The result of \<open>m\<close> is the reader of the structure.
\<close>

definition copies :: "('c, 'v) reader \<Rightarrow> ('c, ('c, 'v) reader) alloc \<Rightarrow> bool" where
  "copies r m \<longleftrightarrow>
     (\<forall>h v A. r h = Some (v, A) \<longrightarrow>
        (\<exists>r' ext B. run_state m h = (r', h @ ext) \<and> framed r' \<and> r' (h @ ext) = Some (v, B) \<and> (\<forall>b \<in> B. length h \<le> b)))"

definition clones :: "('a \<Rightarrow> ('c, 'v) reader) \<Rightarrow> ('a \<Rightarrow> ('c, 'a) alloc) \<Rightarrow> bool" where
  "clones rd DeepCopyInto \<longleftrightarrow>
     (\<forall>x. framed (rd x) \<and> copies (rd x) (State_Monad.bind (DeepCopyInto x) (\<lambda>y. State_Monad.return (rd y))))"

lemma clonesI:
  assumes "\<And>x. framed (rd x)" and "\<And>x. copies (rd x) (M x)"
    and "\<And>x. State_Monad.bind (DeepCopyInto x) (\<lambda>y. State_Monad.return (rd y)) = M x"
  shows "clones rd DeepCopyInto"
  using assms by (simp add: clones_def)

lemma clones_framed: "clones rd cp \<Longrightarrow> framed (rd x)"
  by (simp add: clones_def)

lemma clonesD:
  assumes "clones rd cp" and "rd x h = Some (v, A)"
  obtains y ext B where "run_state (cp x) h = (y, h @ ext)" "rd y (h @ ext) = Some (v, B)" "\<And>b. b \<in> B \<Longrightarrow> length h \<le> b"
proof -
  have "copies (rd x) (State_Monad.bind (cp x) (\<lambda>y. State_Monad.return (rd y)))"
    using assms(1) by (simp add: clones_def)
  with assms(2) obtain r' ext B where "run_state (State_Monad.bind (cp x) (\<lambda>y. State_Monad.return (rd y))) h = (r', h @ ext)"
      "r' (h @ ext) = Some (v, B)" "\<forall>b \<in> B. length h \<le> b"
    unfolding copies_def by blast
  with that show ?thesis by (cases "run_state (cp x) h") auto
qed

lemma copies_ret: "copies (read_ret v) (State_Monad.return (read_ret v))"
  by (auto simp: copies_def read_ret_def framed_def intro: exI [of _ "[]"])

text \<open>Field after field: the copy of one is not touched by the copy of the next.\<close>

definition ap_copy ::
  "('c, ('c, 'a \<Rightarrow> 'b) reader) alloc \<Rightarrow> ('c, ('c, 'a) reader) alloc \<Rightarrow> ('c, ('c, 'b) reader) alloc" where
  "ap_copy m n = State_Monad.bind m (\<lambda>f. State_Monad.bind n (\<lambda>r. State_Monad.return (read_ap f r)))"

lemma copies_seq:
  assumes "copies rf m" and "copies rx n" and "framed rx" shows "copies (read_ap rf rx) (ap_copy m n)"
  unfolding copies_def
proof (intro allI impI)
  fix h v A
  assume "read_ap rf rx h = Some (v, A)"
  then obtain f u B C where r: "rf h = Some (f, B)" "rx h = Some (u, C)" "v = f u"
    unfolding read_ap_Some by blast
  obtain r1 e1 B' where m: "run_state m h = (r1, h @ e1)" "framed r1" "r1 (h @ e1) = Some (f, B')" "\<forall>b \<in> B'. length h \<le> b"
    using assms(1) r(1) unfolding copies_def by blast
  have "rx (h @ e1) = Some (u, C)" using assms(3) r(2) by (rule framed_append)
  then obtain r2 e2 C' where c: "run_state n (h @ e1) = (r2, (h @ e1) @ e2)" "framed r2"
      "r2 ((h @ e1) @ e2) = Some (u, C')" "\<forall>b \<in> C'. length (h @ e1) \<le> b"
    using assms(2) unfolding copies_def by blast
  have "framed (read_ap r1 r2)" using m(2) c(2) by (rule framed_ap)
  moreover have "read_ap r1 r2 (h @ e1 @ e2) = Some (v, B' \<union> C')"
    using framed_append [OF m(2,3), of e2] c(3) r(3) by (simp add: read_ap_def)
  moreover have "\<forall>b \<in> B' \<union> C'. length h \<le> b" using m(4) c(4) by fastforce
  moreover have "run_state (ap_copy m n) h = (read_ap r1 r2, h @ e1 @ e2)"
    using m(1) c(1) by (simp add: ap_copy_def)
  ultimately show "\<exists>r' ext B. run_state (ap_copy m n) h = (r', h @ ext) \<and> framed r' \<and>
      r' (h @ ext) = Some (v, B) \<and> (\<forall>b \<in> B. length h \<le> b)" by blast
qed

text \<open>The copy of a field, as a copy of what its reader reads.\<close>

definition field_copy :: "('a \<Rightarrow> ('c, 'v) reader) \<Rightarrow> ('a \<Rightarrow> ('c, 'a) alloc) \<Rightarrow> 'a \<Rightarrow> ('c, ('c, 'v) reader) alloc" where
  "field_copy rd cp x = State_Monad.bind (cp x) (\<lambda>y. State_Monad.return (rd y))"

lemma clones_def_field: "clones rd cp \<longleftrightarrow> (\<forall>x. framed (rd x) \<and> copies (rd x) (field_copy rd cp x))"
  by (simp add: clones_def field_copy_def)

lemma copies_ap: "clones rd cp \<Longrightarrow> copies rf m \<Longrightarrow> copies (read_ap rf (rd x)) (ap_copy m (field_copy rd cp x))"
  unfolding clones_def_field by (intro copies_seq) simp_all

lemmas copy_monad = ap_copy_def field_copy_def State_Monad.bind_assoc State_Monad.bind_left_identity

lemma clones_plain: "clones read_ret State_Monad.return"
  by (simp add: clones_def framed_ret copies_ret)

lemma clones_ptr:
  assumes "clones rd cp" and "\<And>x. sel (mk x) = Some x"
  shows "clones (read_ptr sel rd) (copy_ptr sel mk cp)"
proof -
  have fr: "framed (rd x)" for x by (rule clones_framed [OF assms(1)])
  have "copies (read_ptr sel rd p) (State_Monad.bind (copy_ptr sel mk cp p) (\<lambda>y. State_Monad.return (read_ptr sel rd y)))" for p
  proof (cases p)
    case None
    then show ?thesis using copies_ret by (simp add: copy_ptr_def read_ptr_def)
  next
    case (Some a)
    show ?thesis
      unfolding copies_def
    proof (intro allI impI)
      fix h v A
      assume "read_ptr sel rd p h = Some (v, A)"
      then obtain x u B where r: "a < length h" "sel (h ! a) = Some x" "rd x h = Some (u, B)" "v = Some u"
        by (auto simp: Some read_ptr_def read_ap_Some read_ret_def read_at_Some)
      obtain y ext C where c: "run_state (cp x) h = (y, h @ ext)" "rd y (h @ ext) = Some (u, C)" "\<And>b. b \<in> C \<Longrightarrow> length h \<le> b"
        using clonesD [OF assms(1) r(3)] by blast
      let ?b = "length (h @ ext)" and ?h = "h @ ext @ [mk y]"
      have "rd y ?h = Some (u, C)" using framed_append [OF fr c(2), of "[mk y]"] by simp
      moreover have "?h ! ?b = mk y" by (metis append_assoc nth_append_length)
      ultimately have "read_at sel rd ?b ?h = Some (u, insert ?b C)"
        unfolding read_at_Some using assms(2) by auto
      then have "read_ptr sel rd (Some ?b) ?h = Some (v, insert ?b C)"
        using r(4) by (simp add: read_ptr_def read_ap_def read_ret_def)
      moreover have "framed (read_ptr sel rd (Some ?b))" by (intro framed_ptr fr)
      moreover have "\<forall>b \<in> insert ?b C. length h \<le> b" using c(3) by auto
      moreover have "run_state (State_Monad.bind (copy_ptr sel mk cp p) (\<lambda>y. State_Monad.return (read_ptr sel rd y))) h =
          (read_ptr sel rd (Some ?b), ?h)"
        using r c(1) by (simp add: Some copy_ptr_def load_def new_def)
      ultimately show "\<exists>r' ext B. run_state (State_Monad.bind (copy_ptr sel mk cp p) (\<lambda>y. State_Monad.return (read_ptr sel rd y))) h
          = (r', h @ ext) \<and> framed r' \<and> r' (h @ ext) = Some (v, B) \<and> (\<forall>b \<in> B. length h \<le> b)" by blast
    qed
  qed
  then show ?thesis by (simp add: clones_def framed_ptr fr)
qed

lemma clones_list:
  assumes "clones rd cp" shows "clones (read_list rd) (copy_list cp)"
proof -
  have fr: "framed (read_list rd xs)" for xs by (rule framed_list [OF clones_framed [OF assms]])
  have "copies (read_list rd xs) (field_copy (read_list rd) (copy_list cp) xs)" for xs
  proof (induction xs)
    case Nil
    then show ?case using copies_ret [of "[]"] by (simp add: copy_monad)
  next
    case (Cons x xs)
    have "copies (read_ap (read_ap (read_ret (#)) (rd x)) (read_list rd xs))
        (ap_copy (ap_copy (State_Monad.return (read_ret (#))) (field_copy rd cp x)) (field_copy (read_list rd) (copy_list cp) xs))"
      by (intro copies_seq copies_ap [OF assms copies_ret] Cons fr)
    then show ?case by (simp add: copy_monad)
  qed
  with fr show ?thesis by (simp add: clones_def_field)
qed

section \<open>Writes\<close>

definition write_all :: "(addr \<times> 'c) list \<Rightarrow> 'c list \<Rightarrow> 'c list" where
  "write_all ws h = fold (\<lambda>(a, c) h. h[a := c]) ws h"

lemma write_all_other: "a \<notin> fst ` set ws \<Longrightarrow> write_all ws h ! a = h ! a"
  by (induction ws arbitrary: h) (auto simp: write_all_def)

lemma length_write_all [simp]: "length (write_all ws h) = length h"
  by (induction ws arbitrary: h) (auto simp: write_all_def)

lemma framed_write:
  assumes "framed r" and "r h = Some (v, A)" and "fst ` set ws \<inter> A = {}"
  shows "r (write_all ws h) = Some (v, A)"
proof (rule framedD(2) [OF assms(1,2)])
  fix a
  assume "a \<in> A"
  then have "a < length h" "a \<notin> fst ` set ws" using framedD(1) [OF assms(1,2)] assms(3) by auto
  then show "a < length (write_all ws h) \<and> write_all ws h ! a = h ! a" by (simp add: write_all_other)
qed

text \<open>After a copy, writing through one structure is not seen through the other.\<close>

lemma clones_independent:
  assumes "clones rd cp" and "rd x h = Some (v, A)" and "run_state (cp x) h = (y, h')"
  shows "\<exists>B. rd y h' = Some (v, B) \<and> A \<inter> B = {} \<and>
    (\<forall>ws. fst ` set ws \<subseteq> A \<longrightarrow> rd y (write_all ws h') = Some (v, B)) \<and>
    (\<forall>ws. fst ` set ws \<subseteq> B \<longrightarrow> rd x (write_all ws h') = Some (v, A))"
proof -
  note fr = clones_framed [OF assms(1)]
  obtain ext B where c: "h' = h @ ext" "rd y h' = Some (v, B)" "\<And>b. b \<in> B \<Longrightarrow> length h \<le> b"
    using clonesD [OF assms(1,2)] assms(3) by (metis prod.inject)
  have x: "rd x h' = Some (v, A)" using framed_append [OF fr assms(2)] c(1) by simp
  have "A \<inter> B = {}" using framedD(1) [OF fr assms(2)] c(3) by fastforce
  then show ?thesis
    using framed_write [OF fr c(2)] framed_write [OF fr x] c(2) by (intro exI [of _ B]) blast
qed

end
