(* ===== verification/Deep_Copy.thy ===== *)
theory Deep_Copy
  imports Go_Heap Crd_Types
begin

text \<open>
  \<open>api/v1alpha1/zz_generated.deepcopy.go\<close>: the deep copies of the custom resource, on a store with
  pointers, slices and maps. The rest of the development takes a deep copy for the value
  itself; the property of this theory is what allows that: the copy stands for the same value
  and shares no cell with the original, so no later write through one shows in the other.
\<close>

section \<open>The structs as Go holds them\<close>

text \<open>
  A pointer, a slice or a map is an address or nil (\<open>None\<close>). Structs of the Kubernetes libraries
  are values of a type \<open>'x\<close> that is a parameter, with their own \<open>DeepCopyInto\<close>; \<open>metav1.Time\<close> is
  copied by assignment.
\<close>

record go_service_account_spec =
  gsa_name :: string
  gsa_create :: "addr option"

record go_autoscaling_spec =
  gas_min_replicas :: int
  gas_max_replicas :: int
  gas_cpu_utilization :: "addr option"

record go_pdb_spec =
  gpd_min_available :: "addr option"
  gpd_max_unavailable :: "addr option"

record go_ingress_spec =
  gin_host :: string
  gin_path :: string
  gin_path_type :: "addr option"
  gin_class_name :: "addr option"
  gin_annotations :: "addr option"
  gin_tls :: "addr option"

record go_service_spec =
  gsv_type :: string
  gsv_port :: int
  gsv_target_port :: "addr option"

record go_config_spec =
  gcf_name :: string
  gcf_data :: "addr option"

record go_container_spec =
  gco_port :: int
  gco_config_map_name :: string
  gco_secret_name :: string
  gco_config_mount_path :: string
  gco_secret_mount_path :: string
  gco_security_context :: "addr option"
  gco_liveness_probe :: "addr option"
  gco_readiness_probe :: "addr option"
  gco_startup_probe :: "addr option"

record go_lifecycle_rule =
  glr_id :: string
  glr_enabled :: "addr option"
  glr_prefix :: string
  glr_expiration_days :: "addr option"
  glr_noncurrent_version_expiration_days :: "addr option"
  glr_abort_incomplete_multipart_upload_days :: "addr option"
  glr_transitions :: "addr option"

record go_aws_storage_spec =
  gaws_credentials_secret_ref :: string
  gaws_versioning_enabled :: "addr option"
  gaws_lifecycle_rules :: "addr option"

record go_storage_spec =
  gss_provider :: storage_provider
  gss_bucket :: string
  gss_deletion_policy :: deletion_policy
  gss_region :: string
  gss_endpoint :: string
  gss_secret_name :: string
  gss_aws :: "addr option"
  gss_akamai :: "addr option"

record 'x go_application_spec =
  gsp_image :: string
  gsp_replicas :: "addr option"
  gsp_container :: go_container_spec
  gsp_config_map :: "addr option"
  gsp_service :: go_service_spec
  gsp_ingress :: "addr option"
  gsp_autoscaling :: "addr option"
  gsp_pdb :: "addr option"
  gsp_storage :: "addr option"
  gsp_service_account :: "addr option"
  gsp_env :: "addr option"
  gsp_resources :: 'x
  gsp_pod_security_context :: "addr option"

record go_storage_status =
  gst_provider :: storage_provider
  gst_bucket :: string
  gst_created :: bool
  gst_created_at :: gotime
  gst_region :: string
  gst_secret_name :: string
  gst_deletion_policy :: deletion_policy
  gst_aws :: "addr option"
  gst_akamai :: "addr option"

record go_application_status =
  gas_conditions :: "addr option"
  gas_observed_generation :: int
  gas_storage :: "addr option"

record 'x go_application =
  gap_type_meta :: "string \<times> string" \<comment> \<open>\<open>TypeMeta\<close>: kind and API version\<close>
  gap_meta :: 'x
  gap_spec :: "'x go_application_spec"
  gap_status :: go_application_status

record 'x go_application_list =
  gal_type_meta :: "string \<times> string"
  gal_meta :: 'x
  gal_items :: "addr option"

text \<open>What a pointer, a slice or a map may refer to; a slice refers to its elements.\<close>

datatype 'x cell =
    BoolCell (the_Bool: "bool")
  | IntCell (the_Int: "int")
  | StringCell (the_String: "string")
  | IntOrStringCell (the_IntOrString: "int_or_string")
  | MapCell (the_Map: "smap")
  | LibCell (the_Lib: "'x")
  | LibSliceCell (the_LibSlice: "'x list")
  | ServiceAccountSpecCell (the_ServiceAccountSpec: "go_service_account_spec")
  | AutoscalingSpecCell (the_AutoscalingSpec: "go_autoscaling_spec")
  | PDBSpecCell (the_PDBSpec: "go_pdb_spec")
  | IngressSpecCell (the_IngressSpec: "go_ingress_spec")
  | ServiceSpecCell (the_ServiceSpec: "go_service_spec")
  | ConfigSpecCell (the_ConfigSpec: "go_config_spec")
  | ContainerSpecCell (the_ContainerSpec: "go_container_spec")
  | LifecycleTransitionCell (the_LifecycleTransition: "lifecycle_transition")
  | LifecycleTransitionsCell (the_LifecycleTransitions: "lifecycle_transition list")
  | LifecycleRuleCell (the_LifecycleRule: "go_lifecycle_rule")
  | LifecycleRulesCell (the_LifecycleRules: "go_lifecycle_rule list")
  | AWSStorageSpecCell (the_AWSStorageSpec: "go_aws_storage_spec")
  | AkamaiStorageSpecCell (the_AkamaiStorageSpec: "akamai_storage_spec")
  | StorageSpecCell (the_StorageSpec: "go_storage_spec")
  | ApplicationSpecCell (the_ApplicationSpec: "'x go_application_spec")
  | AWSStorageStatusCell (the_AWSStorageStatus: "aws_storage_status")
  | AkamaiStorageStatusCell (the_AkamaiStorageStatus: "akamai_storage_status")
  | StorageStatusCell (the_StorageStatus: "go_storage_status")
  | ApplicationStatusCell (the_ApplicationStatus: "go_application_status")
  | ApplicationCell (the_Application: "'x go_application")
  | ApplicationsCell (the_Applications: "'x go_application list")
  | ApplicationListCell (the_ApplicationList: "'x go_application_list")

definition cell_of :: "('c \<Rightarrow> bool) \<Rightarrow> ('c \<Rightarrow> 'a) \<Rightarrow> 'c \<Rightarrow> 'a option" where
  "cell_of is_it the_it c = (if is_it c then Some (the_it c) else None)"

text \<open>The structs of the libraries: how they are copied and what they stand for.\<close>

record 'x kube_lib =
  kl_copy :: "'x \<Rightarrow> ('x cell, 'x) alloc"
  kl_env_var :: "'x \<Rightarrow> ('x cell, env_var) reader"
  kl_resources :: "'x \<Rightarrow> ('x cell, resource_requirements) reader"
  kl_pod_security_context :: "'x \<Rightarrow> ('x cell, pod_security_context) reader"
  kl_security_context :: "'x \<Rightarrow> ('x cell, container_security_context) reader"
  kl_probe :: "'x \<Rightarrow> ('x cell, probe) reader"
  kl_ingress_tls :: "'x \<Rightarrow> ('x cell, ingress_tls) reader"
  kl_condition :: "'x \<Rightarrow> ('x cell, condition) reader"
  kl_object_meta :: "'x \<Rightarrow> ('x cell, object_meta) reader"
  kl_list_meta :: "'x \<Rightarrow> ('x cell, string) reader"

text \<open>The documented behaviour of their \<open>DeepCopyInto\<close>.\<close>

definition kube_copies :: "'x kube_lib \<Rightarrow> bool" where
  "kube_copies L \<longleftrightarrow>
     clones (kl_env_var L) (kl_copy L) \<and> clones (kl_resources L) (kl_copy L) \<and>
     clones (kl_pod_security_context L) (kl_copy L) \<and> clones (kl_security_context L) (kl_copy L) \<and>
     clones (kl_probe L) (kl_copy L) \<and> clones (kl_ingress_tls L) (kl_copy L) \<and>
     clones (kl_condition L) (kl_copy L) \<and> clones (kl_object_meta L) (kl_copy L) \<and> clones (kl_list_meta L) (kl_copy L)"

text \<open>Nil slices and nil maps stand for empty ones where the code does not tell them apart.\<close>

definition or_empty :: "'a list option \<Rightarrow> 'a list" where
  "or_empty p = (case p of None \<Rightarrow> [] | Some xs \<Rightarrow> xs)"

section \<open>What the structs stand for\<close>

definition read_service_account_spec :: "go_service_account_spec \<Rightarrow> ('x cell, service_account_spec) reader" where
  "read_service_account_spec r =
     read_ap 
       (read_ret (\<lambda>a. \<lparr>sa_name = gsa_name r, sa_create = a\<rparr>))
       (read_ptr (cell_of is_BoolCell the_Bool) read_ret (gsa_create r))"

definition read_autoscaling_spec :: "go_autoscaling_spec \<Rightarrow> ('x cell, autoscaling_spec) reader" where
  "read_autoscaling_spec r =
     read_ap 
       (read_ret (\<lambda>a. \<lparr>as_min_replicas = gas_min_replicas r, as_max_replicas = gas_max_replicas r,
        as_cpu_utilization = a\<rparr>))
       (read_ptr (cell_of is_IntCell the_Int) read_ret (gas_cpu_utilization r))"

definition read_pdb_spec :: "go_pdb_spec \<Rightarrow> ('x cell, pdb_spec) reader" where
  "read_pdb_spec r =
     read_ap (read_ap 
       (read_ret (\<lambda>a b. \<lparr>pd_min_available = a, pd_max_unavailable = b\<rparr>))
       (read_ptr (cell_of is_IntOrStringCell the_IntOrString) read_ret (gpd_min_available r)))
       (read_ptr (cell_of is_IntOrStringCell the_IntOrString) read_ret (gpd_max_unavailable r))"

definition read_ingress_spec :: "'x kube_lib \<Rightarrow> go_ingress_spec \<Rightarrow> ('x cell, ingress_spec) reader" where
  "read_ingress_spec L r =
     read_ap (read_ap (read_ap (read_ap 
       (read_ret (\<lambda>a b c d. \<lparr>in_host = gin_host r, in_path = gin_path r, in_path_type = a, in_class_name =
        b, in_annotations = or_empty c, in_tls = or_empty d\<rparr>))
       (read_ptr (cell_of is_StringCell the_String) read_ret (gin_path_type r)))
       (read_ptr (cell_of is_StringCell the_String) read_ret (gin_class_name r)))
       (read_ptr (cell_of is_MapCell the_Map) read_ret (gin_annotations r)))
       (read_ptr (cell_of is_LibSliceCell the_LibSlice) (read_list (kl_ingress_tls L)) (gin_tls r))"

definition read_service_spec :: "go_service_spec \<Rightarrow> ('x cell, service_spec) reader" where
  "read_service_spec r =
     read_ap 
       (read_ret (\<lambda>a. \<lparr>sv_type = gsv_type r, sv_port = gsv_port r, sv_target_port = a\<rparr>))
       (read_ptr (cell_of is_IntCell the_Int) read_ret (gsv_target_port r))"

definition read_config_spec :: "go_config_spec \<Rightarrow> ('x cell, config_spec) reader" where
  "read_config_spec r =
     read_ap 
       (read_ret (\<lambda>a. \<lparr>cf_name = gcf_name r, cf_data = or_empty a\<rparr>))
       (read_ptr (cell_of is_MapCell the_Map) read_ret (gcf_data r))"

definition read_container_spec :: "'x kube_lib \<Rightarrow> go_container_spec \<Rightarrow> ('x cell, container_spec) reader" where
  "read_container_spec L r =
     read_ap (read_ap (read_ap (read_ap 
       (read_ret (\<lambda>a b c d. \<lparr>co_port = gco_port r, co_config_map_name = gco_config_map_name r,
        co_secret_name = gco_secret_name r, co_config_mount_path = gco_config_mount_path r,
        co_secret_mount_path = gco_secret_mount_path r, co_security_context = a,
        co_liveness_probe = b, co_readiness_probe = c, co_startup_probe = d\<rparr>))
       (read_ptr (cell_of is_LibCell the_Lib) (kl_security_context L) (gco_security_context r)))
       (read_ptr (cell_of is_LibCell the_Lib) (kl_probe L) (gco_liveness_probe r)))
       (read_ptr (cell_of is_LibCell the_Lib) (kl_probe L) (gco_readiness_probe r)))
       (read_ptr (cell_of is_LibCell the_Lib) (kl_probe L) (gco_startup_probe r))"

definition read_lifecycle_rule :: "go_lifecycle_rule \<Rightarrow> ('x cell, lifecycle_rule) reader" where
  "read_lifecycle_rule r =
     read_ap (read_ap (read_ap (read_ap (read_ap 
       (read_ret (\<lambda>a b c d e. \<lparr>lr_id = glr_id r, lr_enabled = a, lr_prefix = glr_prefix r,
        lr_expiration_days = b, lr_noncurrent_version_expiration_days = c,
        lr_abort_incomplete_multipart_upload_days = d, lr_transitions = or_empty e\<rparr>))
       (read_ptr (cell_of is_BoolCell the_Bool) read_ret (glr_enabled r)))
       (read_ptr (cell_of is_IntCell the_Int) read_ret (glr_expiration_days r)))
       (read_ptr (cell_of is_IntCell the_Int) read_ret (glr_noncurrent_version_expiration_days r)))
       (read_ptr (cell_of is_IntCell the_Int) read_ret (glr_abort_incomplete_multipart_upload_days r)))
       (read_ptr (cell_of is_LifecycleTransitionsCell the_LifecycleTransitions) read_ret (glr_transitions r))"

definition read_aws_storage_spec :: "go_aws_storage_spec \<Rightarrow> ('x cell, aws_storage_spec) reader" where
  "read_aws_storage_spec r =
     read_ap (read_ap 
       (read_ret (\<lambda>a b. \<lparr>aws_credentials_secret_ref = gaws_credentials_secret_ref r,
        aws_versioning_enabled = a, aws_lifecycle_rules = b\<rparr>))
       (read_ptr (cell_of is_BoolCell the_Bool) read_ret (gaws_versioning_enabled r)))
       (read_ptr (cell_of is_LifecycleRulesCell the_LifecycleRules) (read_list read_lifecycle_rule) (gaws_lifecycle_rules r))"

definition read_storage_spec :: "go_storage_spec \<Rightarrow> ('x cell, storage_spec) reader" where
  "read_storage_spec r =
     read_ap (read_ap 
       (read_ret (\<lambda>a b. \<lparr>ss_provider = gss_provider r, ss_bucket = gss_bucket r, ss_deletion_policy =
        gss_deletion_policy r, ss_region = gss_region r, ss_endpoint = gss_endpoint r,
        ss_secret_name = gss_secret_name r, ss_aws = a, ss_akamai = b\<rparr>))
       (read_ptr (cell_of is_AWSStorageSpecCell the_AWSStorageSpec) read_aws_storage_spec (gss_aws r)))
       (read_ptr (cell_of is_AkamaiStorageSpecCell the_AkamaiStorageSpec) read_ret (gss_akamai r))"

definition read_application_spec :: "'x kube_lib \<Rightarrow> 'x go_application_spec \<Rightarrow> ('x cell, application_spec) reader" where
  "read_application_spec L r =
     read_ap (read_ap (read_ap (read_ap (read_ap (read_ap (read_ap (read_ap (read_ap (read_ap (read_ap (read_ap 
       (read_ret (\<lambda>a b c d e f g h i j k l. \<lparr>sp_image = gsp_image r, sp_replicas = a, sp_container = b,
        sp_config_map = c, sp_service = d, sp_ingress = e, sp_autoscaling = f, sp_pdb = g,
        sp_storage = h, sp_service_account = i, sp_env = or_empty j, sp_resources = k,
        sp_pod_security_context = l\<rparr>))
       (read_ptr (cell_of is_IntCell the_Int) read_ret (gsp_replicas r)))
       (read_container_spec L (gsp_container r)))
       (read_ptr (cell_of is_ConfigSpecCell the_ConfigSpec) read_config_spec (gsp_config_map r)))
       (read_service_spec (gsp_service r)))
       (read_ptr (cell_of is_IngressSpecCell the_IngressSpec) (read_ingress_spec L) (gsp_ingress r)))
       (read_ptr (cell_of is_AutoscalingSpecCell the_AutoscalingSpec) read_autoscaling_spec (gsp_autoscaling r)))
       (read_ptr (cell_of is_PDBSpecCell the_PDBSpec) read_pdb_spec (gsp_pdb r)))
       (read_ptr (cell_of is_StorageSpecCell the_StorageSpec) read_storage_spec (gsp_storage r)))
       (read_ptr (cell_of is_ServiceAccountSpecCell the_ServiceAccountSpec) read_service_account_spec (gsp_service_account r)))
       (read_ptr (cell_of is_LibSliceCell the_LibSlice) (read_list (kl_env_var L)) (gsp_env r)))
       (kl_resources L (gsp_resources r)))
       (read_ptr (cell_of is_LibCell the_Lib) (kl_pod_security_context L) (gsp_pod_security_context r))"

definition read_storage_status :: "go_storage_status \<Rightarrow> ('x cell, storage_status) reader" where
  "read_storage_status r =
     read_ap (read_ap 
       (read_ret (\<lambda>a b. \<lparr>st_provider = gst_provider r, st_bucket = gst_bucket r, st_created = gst_created
        r, st_created_at = gst_created_at r, st_region = gst_region r, st_secret_name =
        gst_secret_name r, st_deletion_policy = gst_deletion_policy r, st_aws = a, st_akamai =
        b\<rparr>))
       (read_ptr (cell_of is_AWSStorageStatusCell the_AWSStorageStatus) read_ret (gst_aws r)))
       (read_ptr (cell_of is_AkamaiStorageStatusCell the_AkamaiStorageStatus) read_ret (gst_akamai r))"

definition read_application_status :: "'x kube_lib \<Rightarrow> go_application_status \<Rightarrow> ('x cell, application_status) reader" where
  "read_application_status L r =
     read_ap (read_ap 
       (read_ret (\<lambda>a b. \<lparr>as_conditions = or_empty a, as_observed_generation = gas_observed_generation r,
        as_storage = b\<rparr>))
       (read_ptr (cell_of is_LibSliceCell the_LibSlice) (read_list (kl_condition L)) (gas_conditions r)))
       (read_ptr (cell_of is_StorageStatusCell the_StorageStatus) read_storage_status (gas_storage r))"

definition read_application :: "'x kube_lib \<Rightarrow> 'x go_application \<Rightarrow> ('x cell, application) reader" where
  "read_application L r =
     read_ap (read_ap (read_ap 
       (read_ret (\<lambda>a b c. \<lparr>app_meta = a, app_spec = b, app_status = c\<rparr>))
       (kl_object_meta L (gap_meta r)))
       (read_application_spec L (gap_spec r)))
       (read_application_status L (gap_status r))"

section \<open>DeepCopyInto\<close>

text \<open>
  \<open>*out = *in\<close> and then each field that is a pointer, a slice, a map or such a struct. The
  receiver is the struct that \<open>in\<close> points to, the result the one that \<open>out\<close> points to.
\<close>

definition AWSStorageStatus_DeepCopyInto :: "aws_storage_status \<Rightarrow> ('x cell, aws_storage_status) alloc" where
  "AWSStorageStatus_DeepCopyInto inp = State_Monad.return inp"

definition AkamaiStorageSpec_DeepCopyInto :: "akamai_storage_spec \<Rightarrow> ('x cell, akamai_storage_spec) alloc" where
  "AkamaiStorageSpec_DeepCopyInto inp = State_Monad.return inp"

definition AkamaiStorageStatus_DeepCopyInto :: "akamai_storage_status \<Rightarrow> ('x cell, akamai_storage_status) alloc" where
  "AkamaiStorageStatus_DeepCopyInto inp = State_Monad.return inp"

definition LifecycleTransition_DeepCopyInto :: "lifecycle_transition \<Rightarrow> ('x cell, lifecycle_transition) alloc" where
  "LifecycleTransition_DeepCopyInto inp = State_Monad.return inp"

definition ServiceAccountSpec_DeepCopyInto :: "go_service_account_spec \<Rightarrow> ('x cell, go_service_account_spec) alloc" where
  "ServiceAccountSpec_DeepCopyInto inp = do {
     a \<leftarrow> copy_ptr (cell_of is_BoolCell the_Bool) BoolCell State_Monad.return (gsa_create inp);
     State_Monad.return (inp\<lparr>gsa_create := a\<rparr>)}"

definition AutoscalingSpec_DeepCopyInto :: "go_autoscaling_spec \<Rightarrow> ('x cell, go_autoscaling_spec) alloc" where
  "AutoscalingSpec_DeepCopyInto inp = do {
     a \<leftarrow> copy_ptr (cell_of is_IntCell the_Int) IntCell State_Monad.return (gas_cpu_utilization inp);
     State_Monad.return (inp\<lparr>gas_cpu_utilization := a\<rparr>)}"

definition PDBSpec_DeepCopyInto :: "go_pdb_spec \<Rightarrow> ('x cell, go_pdb_spec) alloc" where
  "PDBSpec_DeepCopyInto inp = do {
     a \<leftarrow> copy_ptr (cell_of is_IntOrStringCell the_IntOrString) IntOrStringCell State_Monad.return (gpd_min_available inp);
     b \<leftarrow> copy_ptr (cell_of is_IntOrStringCell the_IntOrString) IntOrStringCell State_Monad.return (gpd_max_unavailable inp);
     State_Monad.return (inp\<lparr>gpd_min_available := a, gpd_max_unavailable := b\<rparr>)}"

definition IngressSpec_DeepCopyInto :: "'x kube_lib \<Rightarrow> go_ingress_spec \<Rightarrow> ('x cell, go_ingress_spec) alloc" where
  "IngressSpec_DeepCopyInto L inp = do {
     a \<leftarrow> copy_ptr (cell_of is_StringCell the_String) StringCell State_Monad.return (gin_path_type inp);
     b \<leftarrow> copy_ptr (cell_of is_StringCell the_String) StringCell State_Monad.return (gin_class_name inp);
     c \<leftarrow> copy_ptr (cell_of is_MapCell the_Map) MapCell State_Monad.return (gin_annotations inp);
     d \<leftarrow> copy_ptr (cell_of is_LibSliceCell the_LibSlice) LibSliceCell (copy_list (kl_copy L)) (gin_tls inp);
     State_Monad.return (inp\<lparr>gin_path_type := a, gin_class_name := b, gin_annotations := c, gin_tls := d\<rparr>)}"

definition ServiceSpec_DeepCopyInto :: "go_service_spec \<Rightarrow> ('x cell, go_service_spec) alloc" where
  "ServiceSpec_DeepCopyInto inp = do {
     a \<leftarrow> copy_ptr (cell_of is_IntCell the_Int) IntCell State_Monad.return (gsv_target_port inp);
     State_Monad.return (inp\<lparr>gsv_target_port := a\<rparr>)}"

definition ConfigSpec_DeepCopyInto :: "go_config_spec \<Rightarrow> ('x cell, go_config_spec) alloc" where
  "ConfigSpec_DeepCopyInto inp = do {
     a \<leftarrow> copy_ptr (cell_of is_MapCell the_Map) MapCell State_Monad.return (gcf_data inp);
     State_Monad.return (inp\<lparr>gcf_data := a\<rparr>)}"

definition ContainerSpec_DeepCopyInto :: "'x kube_lib \<Rightarrow> go_container_spec \<Rightarrow> ('x cell, go_container_spec) alloc" where
  "ContainerSpec_DeepCopyInto L inp = do {
     a \<leftarrow> copy_ptr (cell_of is_LibCell the_Lib) LibCell (kl_copy L) (gco_security_context inp);
     b \<leftarrow> copy_ptr (cell_of is_LibCell the_Lib) LibCell (kl_copy L) (gco_liveness_probe inp);
     c \<leftarrow> copy_ptr (cell_of is_LibCell the_Lib) LibCell (kl_copy L) (gco_readiness_probe inp);
     d \<leftarrow> copy_ptr (cell_of is_LibCell the_Lib) LibCell (kl_copy L) (gco_startup_probe inp);
     State_Monad.return (inp\<lparr>gco_security_context := a, gco_liveness_probe := b, gco_readiness_probe := c,
       gco_startup_probe := d\<rparr>)}"

definition LifecycleRule_DeepCopyInto :: "go_lifecycle_rule \<Rightarrow> ('x cell, go_lifecycle_rule) alloc" where
  "LifecycleRule_DeepCopyInto inp = do {
     a \<leftarrow> copy_ptr (cell_of is_BoolCell the_Bool) BoolCell State_Monad.return (glr_enabled inp);
     b \<leftarrow> copy_ptr (cell_of is_IntCell the_Int) IntCell State_Monad.return (glr_expiration_days inp);
     c \<leftarrow> copy_ptr (cell_of is_IntCell the_Int) IntCell State_Monad.return (glr_noncurrent_version_expiration_days inp);
     d \<leftarrow> copy_ptr (cell_of is_IntCell the_Int) IntCell State_Monad.return (glr_abort_incomplete_multipart_upload_days inp);
     e \<leftarrow> copy_ptr (cell_of is_LifecycleTransitionsCell the_LifecycleTransitions) LifecycleTransitionsCell State_Monad.return (glr_transitions inp);
     State_Monad.return (inp\<lparr>glr_enabled := a, glr_expiration_days := b, glr_noncurrent_version_expiration_days := c,
       glr_abort_incomplete_multipart_upload_days := d, glr_transitions := e\<rparr>)}"

definition AWSStorageSpec_DeepCopyInto :: "go_aws_storage_spec \<Rightarrow> ('x cell, go_aws_storage_spec) alloc" where
  "AWSStorageSpec_DeepCopyInto inp = do {
     a \<leftarrow> copy_ptr (cell_of is_BoolCell the_Bool) BoolCell State_Monad.return (gaws_versioning_enabled inp);
     b \<leftarrow> copy_ptr (cell_of is_LifecycleRulesCell the_LifecycleRules) LifecycleRulesCell (copy_list LifecycleRule_DeepCopyInto) (gaws_lifecycle_rules inp);
     State_Monad.return (inp\<lparr>gaws_versioning_enabled := a, gaws_lifecycle_rules := b\<rparr>)}"

definition StorageSpec_DeepCopyInto :: "go_storage_spec \<Rightarrow> ('x cell, go_storage_spec) alloc" where
  "StorageSpec_DeepCopyInto inp = do {
     a \<leftarrow> copy_ptr (cell_of is_AWSStorageSpecCell the_AWSStorageSpec) AWSStorageSpecCell AWSStorageSpec_DeepCopyInto (gss_aws inp);
     b \<leftarrow> copy_ptr (cell_of is_AkamaiStorageSpecCell the_AkamaiStorageSpec) AkamaiStorageSpecCell State_Monad.return (gss_akamai inp);
     State_Monad.return (inp\<lparr>gss_aws := a, gss_akamai := b\<rparr>)}"

definition ApplicationSpec_DeepCopyInto :: "'x kube_lib \<Rightarrow> 'x go_application_spec \<Rightarrow> ('x cell, 'x go_application_spec) alloc" where
  "ApplicationSpec_DeepCopyInto L inp = do {
     a \<leftarrow> copy_ptr (cell_of is_IntCell the_Int) IntCell State_Monad.return (gsp_replicas inp);
     b \<leftarrow> ContainerSpec_DeepCopyInto L (gsp_container inp);
     c \<leftarrow> copy_ptr (cell_of is_ConfigSpecCell the_ConfigSpec) ConfigSpecCell ConfigSpec_DeepCopyInto (gsp_config_map inp);
     d \<leftarrow> ServiceSpec_DeepCopyInto (gsp_service inp);
     e \<leftarrow> copy_ptr (cell_of is_IngressSpecCell the_IngressSpec) IngressSpecCell (IngressSpec_DeepCopyInto L) (gsp_ingress inp);
     f \<leftarrow> copy_ptr (cell_of is_AutoscalingSpecCell the_AutoscalingSpec) AutoscalingSpecCell AutoscalingSpec_DeepCopyInto (gsp_autoscaling inp);
     g \<leftarrow> copy_ptr (cell_of is_PDBSpecCell the_PDBSpec) PDBSpecCell PDBSpec_DeepCopyInto (gsp_pdb inp);
     h \<leftarrow> copy_ptr (cell_of is_StorageSpecCell the_StorageSpec) StorageSpecCell StorageSpec_DeepCopyInto (gsp_storage inp);
     i \<leftarrow> copy_ptr (cell_of is_ServiceAccountSpecCell the_ServiceAccountSpec) ServiceAccountSpecCell ServiceAccountSpec_DeepCopyInto (gsp_service_account inp);
     j \<leftarrow> copy_ptr (cell_of is_LibSliceCell the_LibSlice) LibSliceCell (copy_list (kl_copy L)) (gsp_env inp);
     k \<leftarrow> kl_copy L (gsp_resources inp);
     l \<leftarrow> copy_ptr (cell_of is_LibCell the_Lib) LibCell (kl_copy L) (gsp_pod_security_context inp);
     State_Monad.return (inp\<lparr>gsp_replicas := a, gsp_container := b, gsp_config_map := c, gsp_service := d,
       gsp_ingress := e, gsp_autoscaling := f, gsp_pdb := g, gsp_storage := h,
       gsp_service_account := i, gsp_env := j, gsp_resources := k, gsp_pod_security_context :=
       l\<rparr>)}"

definition StorageStatus_DeepCopyInto :: "go_storage_status \<Rightarrow> ('x cell, go_storage_status) alloc" where
  "StorageStatus_DeepCopyInto inp = do {
     a \<leftarrow> copy_ptr (cell_of is_AWSStorageStatusCell the_AWSStorageStatus) AWSStorageStatusCell State_Monad.return (gst_aws inp);
     b \<leftarrow> copy_ptr (cell_of is_AkamaiStorageStatusCell the_AkamaiStorageStatus) AkamaiStorageStatusCell State_Monad.return (gst_akamai inp);
     State_Monad.return (inp\<lparr>gst_aws := a, gst_akamai := b\<rparr>)}"

definition ApplicationStatus_DeepCopyInto :: "'x kube_lib \<Rightarrow> go_application_status \<Rightarrow> ('x cell, go_application_status) alloc" where
  "ApplicationStatus_DeepCopyInto L inp = do {
     a \<leftarrow> copy_ptr (cell_of is_LibSliceCell the_LibSlice) LibSliceCell (copy_list (kl_copy L)) (gas_conditions inp);
     b \<leftarrow> copy_ptr (cell_of is_StorageStatusCell the_StorageStatus) StorageStatusCell StorageStatus_DeepCopyInto (gas_storage inp);
     State_Monad.return (inp\<lparr>gas_conditions := a, gas_storage := b\<rparr>)}"

definition Application_DeepCopyInto :: "'x kube_lib \<Rightarrow> 'x go_application \<Rightarrow> ('x cell, 'x go_application) alloc" where
  "Application_DeepCopyInto L inp = do {
     a \<leftarrow> kl_copy L (gap_meta inp);
     b \<leftarrow> ApplicationSpec_DeepCopyInto L (gap_spec inp);
     c \<leftarrow> ApplicationStatus_DeepCopyInto L (gap_status inp);
     State_Monad.return (inp\<lparr>gap_meta := a, gap_spec := b, gap_status := c\<rparr>)}"

definition read_application_list :: "'x kube_lib \<Rightarrow> 'x go_application_list \<Rightarrow> ('x cell, string \<times> application list) reader" where
  "read_application_list L r =
     read_ap (read_ap (read_ret (\<lambda>a b. (a, or_empty b))) (kl_list_meta L (gal_meta r)))
       (read_ptr (cell_of is_ApplicationsCell the_Applications) (read_list (read_application L)) (gal_items r))"

definition ApplicationList_DeepCopyInto :: "'x kube_lib \<Rightarrow> 'x go_application_list \<Rightarrow> ('x cell, 'x go_application_list) alloc" where
  "ApplicationList_DeepCopyInto L inp = do {
     a \<leftarrow> kl_copy L (gal_meta inp);
     b \<leftarrow> copy_ptr (cell_of is_ApplicationsCell the_Applications) ApplicationsCell
            (copy_list (Application_DeepCopyInto L)) (gal_items inp);
     State_Monad.return (inp\<lparr>gal_meta := a, gal_items := b\<rparr>)}"

section \<open>DeepCopy\<close>

text \<open>\<open>nil\<close> for \<open>nil\<close>, and otherwise a new struct filled by \<open>DeepCopyInto\<close>.\<close>

definition AWSStorageStatus_DeepCopy :: "addr option \<Rightarrow> ('x cell, addr option) alloc" where
  "AWSStorageStatus_DeepCopy = copy_ptr (cell_of is_AWSStorageStatusCell the_AWSStorageStatus) AWSStorageStatusCell AWSStorageStatus_DeepCopyInto"

definition AkamaiStorageSpec_DeepCopy :: "addr option \<Rightarrow> ('x cell, addr option) alloc" where
  "AkamaiStorageSpec_DeepCopy = copy_ptr (cell_of is_AkamaiStorageSpecCell the_AkamaiStorageSpec) AkamaiStorageSpecCell AkamaiStorageSpec_DeepCopyInto"

definition AkamaiStorageStatus_DeepCopy :: "addr option \<Rightarrow> ('x cell, addr option) alloc" where
  "AkamaiStorageStatus_DeepCopy = copy_ptr (cell_of is_AkamaiStorageStatusCell the_AkamaiStorageStatus) AkamaiStorageStatusCell AkamaiStorageStatus_DeepCopyInto"

definition LifecycleTransition_DeepCopy :: "addr option \<Rightarrow> ('x cell, addr option) alloc" where
  "LifecycleTransition_DeepCopy = copy_ptr (cell_of is_LifecycleTransitionCell the_LifecycleTransition) LifecycleTransitionCell LifecycleTransition_DeepCopyInto"

definition ServiceAccountSpec_DeepCopy :: "addr option \<Rightarrow> ('x cell, addr option) alloc" where
  "ServiceAccountSpec_DeepCopy = copy_ptr (cell_of is_ServiceAccountSpecCell the_ServiceAccountSpec) ServiceAccountSpecCell ServiceAccountSpec_DeepCopyInto"

definition AutoscalingSpec_DeepCopy :: "addr option \<Rightarrow> ('x cell, addr option) alloc" where
  "AutoscalingSpec_DeepCopy = copy_ptr (cell_of is_AutoscalingSpecCell the_AutoscalingSpec) AutoscalingSpecCell AutoscalingSpec_DeepCopyInto"

definition PDBSpec_DeepCopy :: "addr option \<Rightarrow> ('x cell, addr option) alloc" where
  "PDBSpec_DeepCopy = copy_ptr (cell_of is_PDBSpecCell the_PDBSpec) PDBSpecCell PDBSpec_DeepCopyInto"

definition IngressSpec_DeepCopy :: "'x kube_lib \<Rightarrow> addr option \<Rightarrow> ('x cell, addr option) alloc" where
  "IngressSpec_DeepCopy L = copy_ptr (cell_of is_IngressSpecCell the_IngressSpec) IngressSpecCell (IngressSpec_DeepCopyInto L)"

definition ServiceSpec_DeepCopy :: "addr option \<Rightarrow> ('x cell, addr option) alloc" where
  "ServiceSpec_DeepCopy = copy_ptr (cell_of is_ServiceSpecCell the_ServiceSpec) ServiceSpecCell ServiceSpec_DeepCopyInto"

definition ConfigSpec_DeepCopy :: "addr option \<Rightarrow> ('x cell, addr option) alloc" where
  "ConfigSpec_DeepCopy = copy_ptr (cell_of is_ConfigSpecCell the_ConfigSpec) ConfigSpecCell ConfigSpec_DeepCopyInto"

definition ContainerSpec_DeepCopy :: "'x kube_lib \<Rightarrow> addr option \<Rightarrow> ('x cell, addr option) alloc" where
  "ContainerSpec_DeepCopy L = copy_ptr (cell_of is_ContainerSpecCell the_ContainerSpec) ContainerSpecCell (ContainerSpec_DeepCopyInto L)"

definition LifecycleRule_DeepCopy :: "addr option \<Rightarrow> ('x cell, addr option) alloc" where
  "LifecycleRule_DeepCopy = copy_ptr (cell_of is_LifecycleRuleCell the_LifecycleRule) LifecycleRuleCell LifecycleRule_DeepCopyInto"

definition AWSStorageSpec_DeepCopy :: "addr option \<Rightarrow> ('x cell, addr option) alloc" where
  "AWSStorageSpec_DeepCopy = copy_ptr (cell_of is_AWSStorageSpecCell the_AWSStorageSpec) AWSStorageSpecCell AWSStorageSpec_DeepCopyInto"

definition StorageSpec_DeepCopy :: "addr option \<Rightarrow> ('x cell, addr option) alloc" where
  "StorageSpec_DeepCopy = copy_ptr (cell_of is_StorageSpecCell the_StorageSpec) StorageSpecCell StorageSpec_DeepCopyInto"

definition ApplicationSpec_DeepCopy :: "'x kube_lib \<Rightarrow> addr option \<Rightarrow> ('x cell, addr option) alloc" where
  "ApplicationSpec_DeepCopy L = copy_ptr (cell_of is_ApplicationSpecCell the_ApplicationSpec) ApplicationSpecCell (ApplicationSpec_DeepCopyInto L)"

definition StorageStatus_DeepCopy :: "addr option \<Rightarrow> ('x cell, addr option) alloc" where
  "StorageStatus_DeepCopy = copy_ptr (cell_of is_StorageStatusCell the_StorageStatus) StorageStatusCell StorageStatus_DeepCopyInto"

definition ApplicationStatus_DeepCopy :: "'x kube_lib \<Rightarrow> addr option \<Rightarrow> ('x cell, addr option) alloc" where
  "ApplicationStatus_DeepCopy L = copy_ptr (cell_of is_ApplicationStatusCell the_ApplicationStatus) ApplicationStatusCell (ApplicationStatus_DeepCopyInto L)"

definition Application_DeepCopy :: "'x kube_lib \<Rightarrow> addr option \<Rightarrow> ('x cell, addr option) alloc" where
  "Application_DeepCopy L = copy_ptr (cell_of is_ApplicationCell the_Application) ApplicationCell (Application_DeepCopyInto L)"

definition ApplicationList_DeepCopy :: "'x kube_lib \<Rightarrow> addr option \<Rightarrow> ('x cell, addr option) alloc" where
  "ApplicationList_DeepCopy L = copy_ptr (cell_of is_ApplicationListCell the_ApplicationList) ApplicationListCell (ApplicationList_DeepCopyInto L)"

definition Application_DeepCopyObject :: "'x kube_lib \<Rightarrow> addr option \<Rightarrow> ('x cell, addr option) alloc" where
  "Application_DeepCopyObject L inp = do {
     c \<leftarrow> Application_DeepCopy L inp;
     State_Monad.return (if c \<noteq> None then c else None)}"

definition ApplicationList_DeepCopyObject :: "'x kube_lib \<Rightarrow> addr option \<Rightarrow> ('x cell, addr option) alloc" where
  "ApplicationList_DeepCopyObject L inp = do {
     c \<leftarrow> ApplicationList_DeepCopy L inp;
     State_Monad.return (if c \<noteq> None then c else None)}"

end
