(* ===== verification/Deep_Copy_Properties.thy ===== *)
theory Deep_Copy_Properties
  imports Deep_Copy
begin

text \<open>
  The generated deep copies are faithful and share nothing: \<open>clones\<close> for each struct, from the
  leaves to the Application, and what it means for writes after a copy.
\<close>

section \<open>Leaves\<close>

named_theorems leaf_clones "copies of pointers, slices and maps of plain values"

lemma cell_of_mk: "is_it (mk x) \<Longrightarrow> the_it (mk x) = x \<Longrightarrow> cell_of is_it the_it (mk x) = Some x"
  by (simp add: cell_of_def)

lemma clones_plain_ptr [leaf_clones]:
  "clones (read_ptr (cell_of is_BoolCell the_Bool) read_ret) (copy_ptr (cell_of is_BoolCell the_Bool) BoolCell State_Monad.return)"
  "clones (read_ptr (cell_of is_IntCell the_Int) read_ret) (copy_ptr (cell_of is_IntCell the_Int) IntCell State_Monad.return)"
  "clones (read_ptr (cell_of is_StringCell the_String) read_ret) (copy_ptr (cell_of is_StringCell the_String) StringCell State_Monad.return)"
  "clones (read_ptr (cell_of is_IntOrStringCell the_IntOrString) read_ret)
     (copy_ptr (cell_of is_IntOrStringCell the_IntOrString) IntOrStringCell State_Monad.return)"
  "clones (read_ptr (cell_of is_MapCell the_Map) read_ret) (copy_ptr (cell_of is_MapCell the_Map) MapCell State_Monad.return)"
  "clones (read_ptr (cell_of is_LifecycleTransitionsCell the_LifecycleTransitions) read_ret)
     (copy_ptr (cell_of is_LifecycleTransitionsCell the_LifecycleTransitions) LifecycleTransitionsCell State_Monad.return)"
  "clones (read_ptr (cell_of is_AkamaiStorageSpecCell the_AkamaiStorageSpec) read_ret)
     (copy_ptr (cell_of is_AkamaiStorageSpecCell the_AkamaiStorageSpec) AkamaiStorageSpecCell State_Monad.return)"
  "clones (read_ptr (cell_of is_AWSStorageStatusCell the_AWSStorageStatus) read_ret)
     (copy_ptr (cell_of is_AWSStorageStatusCell the_AWSStorageStatus) AWSStorageStatusCell State_Monad.return)"
  "clones (read_ptr (cell_of is_AkamaiStorageStatusCell the_AkamaiStorageStatus) read_ret)
     (copy_ptr (cell_of is_AkamaiStorageStatusCell the_AkamaiStorageStatus) AkamaiStorageStatusCell State_Monad.return)"
  by (intro clones_ptr clones_plain; simp add: cell_of_def)+

lemma clones_lib:
  assumes "clones rd cp"
  shows "clones (read_ptr (cell_of is_LibCell the_Lib) rd) (copy_ptr (cell_of is_LibCell the_Lib) LibCell cp)"
    and "clones (read_ptr (cell_of is_LibSliceCell the_LibSlice) (read_list rd))
      (copy_ptr (cell_of is_LibSliceCell the_LibSlice) LibSliceCell (copy_list cp))"
  by (intro clones_ptr clones_list assms; simp add: cell_of_def)+

section \<open>Structs\<close>

lemmas leaf_steps = leaf_clones [THEN copies_ap]
lemmas leaf_framed = leaf_clones [THEN clones_framed]

lemma kube_clones:
  assumes "kube_copies L"
  shows "clones (kl_env_var L) (kl_copy L)" "clones (kl_resources L) (kl_copy L)"
    "clones (kl_pod_security_context L) (kl_copy L)" "clones (kl_security_context L) (kl_copy L)"
    "clones (kl_probe L) (kl_copy L)" "clones (kl_ingress_tls L) (kl_copy L)" "clones (kl_condition L) (kl_copy L)"
    "clones (kl_object_meta L) (kl_copy L)" "clones (kl_list_meta L) (kl_copy L)"
  using assms by (simp_all add: kube_copies_def)

lemmas kube_pointers = kube_clones [THEN clones_lib(1)] kube_clones [THEN clones_lib(2)]

text \<open>Pointers to structs and slices of structs that are copied by functions of their own.\<close>

lemma clones_struct:
  "clones rd1 cp1 \<Longrightarrow> clones (read_ptr (cell_of is_ServiceAccountSpecCell the_ServiceAccountSpec) rd1)
     (copy_ptr (cell_of is_ServiceAccountSpecCell the_ServiceAccountSpec) ServiceAccountSpecCell cp1)"
  "clones rd2 cp2 \<Longrightarrow> clones (read_ptr (cell_of is_AutoscalingSpecCell the_AutoscalingSpec) rd2)
     (copy_ptr (cell_of is_AutoscalingSpecCell the_AutoscalingSpec) AutoscalingSpecCell cp2)"
  "clones rd3 cp3 \<Longrightarrow> clones (read_ptr (cell_of is_PDBSpecCell the_PDBSpec) rd3)
     (copy_ptr (cell_of is_PDBSpecCell the_PDBSpec) PDBSpecCell cp3)"
  "clones rd4 cp4 \<Longrightarrow> clones (read_ptr (cell_of is_IngressSpecCell the_IngressSpec) rd4)
     (copy_ptr (cell_of is_IngressSpecCell the_IngressSpec) IngressSpecCell cp4)"
  "clones rd5 cp5 \<Longrightarrow> clones (read_ptr (cell_of is_ConfigSpecCell the_ConfigSpec) rd5)
     (copy_ptr (cell_of is_ConfigSpecCell the_ConfigSpec) ConfigSpecCell cp5)"
  "clones rd6 cp6 \<Longrightarrow> clones (read_ptr (cell_of is_AWSStorageSpecCell the_AWSStorageSpec) rd6)
     (copy_ptr (cell_of is_AWSStorageSpecCell the_AWSStorageSpec) AWSStorageSpecCell cp6)"
  "clones rd7 cp7 \<Longrightarrow> clones (read_ptr (cell_of is_StorageSpecCell the_StorageSpec) rd7)
     (copy_ptr (cell_of is_StorageSpecCell the_StorageSpec) StorageSpecCell cp7)"
  "clones rd8 cp8 \<Longrightarrow> clones (read_ptr (cell_of is_StorageStatusCell the_StorageStatus) rd8)
     (copy_ptr (cell_of is_StorageStatusCell the_StorageStatus) StorageStatusCell cp8)"
  "clones rd9 cp9 \<Longrightarrow> clones (read_ptr (cell_of is_ApplicationCell the_Application) rd9)
     (copy_ptr (cell_of is_ApplicationCell the_Application) ApplicationCell cp9)"
  "clones rd10 cp10 \<Longrightarrow> clones (read_ptr (cell_of is_ApplicationListCell the_ApplicationList) rd10)
     (copy_ptr (cell_of is_ApplicationListCell the_ApplicationList) ApplicationListCell cp10)"
  "clones rd11 cp11 \<Longrightarrow> clones (read_ptr (cell_of is_LifecycleRulesCell the_LifecycleRules) (read_list rd11))
     (copy_ptr (cell_of is_LifecycleRulesCell the_LifecycleRules) LifecycleRulesCell (copy_list cp11))"
  "clones rd12 cp12 \<Longrightarrow> clones (read_ptr (cell_of is_ApplicationsCell the_Applications) (read_list rd12))
     (copy_ptr (cell_of is_ApplicationsCell the_Applications) ApplicationsCell (copy_list cp12))"
  by (intro clones_ptr clones_list; simp add: cell_of_def)+

lemma clones_service_account_spec: "clones read_service_account_spec ServiceAccountSpec_DeepCopyInto"
proof -
  note facts = leaf_clones
  note steps = facts [THEN copies_ap] and frames = facts [THEN clones_framed]
  show ?thesis
    by (rule clonesI, unfold read_service_account_spec_def, intro framed_ap framed_ret frames, (rule steps copies_ret)+,
        simp add: ServiceAccountSpec_DeepCopyInto_def copy_monad)
qed

lemma clones_autoscaling_spec: "clones read_autoscaling_spec AutoscalingSpec_DeepCopyInto"
proof -
  note facts = leaf_clones
  note steps = facts [THEN copies_ap] and frames = facts [THEN clones_framed]
  show ?thesis
    by (rule clonesI, unfold read_autoscaling_spec_def, intro framed_ap framed_ret frames, (rule steps copies_ret)+,
        simp add: AutoscalingSpec_DeepCopyInto_def copy_monad)
qed

lemma clones_pdb_spec: "clones read_pdb_spec PDBSpec_DeepCopyInto"
proof -
  note facts = leaf_clones
  note steps = facts [THEN copies_ap] and frames = facts [THEN clones_framed]
  show ?thesis
    by (rule clonesI, unfold read_pdb_spec_def, intro framed_ap framed_ret frames, (rule steps copies_ret)+,
        simp add: PDBSpec_DeepCopyInto_def copy_monad)
qed

lemma clones_service_spec: "clones read_service_spec ServiceSpec_DeepCopyInto"
proof -
  note facts = leaf_clones
  note steps = facts [THEN copies_ap] and frames = facts [THEN clones_framed]
  show ?thesis
    by (rule clonesI, unfold read_service_spec_def, intro framed_ap framed_ret frames, (rule steps copies_ret)+,
        simp add: ServiceSpec_DeepCopyInto_def copy_monad)
qed

lemma clones_config_spec: "clones read_config_spec ConfigSpec_DeepCopyInto"
proof -
  note facts = leaf_clones
  note steps = facts [THEN copies_ap] and frames = facts [THEN clones_framed]
  show ?thesis
    by (rule clonesI, unfold read_config_spec_def, intro framed_ap framed_ret frames, (rule steps copies_ret)+,
        simp add: ConfigSpec_DeepCopyInto_def copy_monad)
qed

lemma clones_storage_status: "clones read_storage_status StorageStatus_DeepCopyInto"
proof -
  note facts = leaf_clones
  note steps = facts [THEN copies_ap] and frames = facts [THEN clones_framed]
  show ?thesis
    by (rule clonesI, unfold read_storage_status_def, intro framed_ap framed_ret frames, (rule steps copies_ret)+,
        simp add: StorageStatus_DeepCopyInto_def copy_monad)
qed

lemma clones_lifecycle_rule: "clones read_lifecycle_rule LifecycleRule_DeepCopyInto"
proof -
  note facts = leaf_clones
  note steps = facts [THEN copies_ap] and frames = facts [THEN clones_framed]
  show ?thesis
    by (rule clonesI, unfold read_lifecycle_rule_def, intro framed_ap framed_ret frames, (rule steps copies_ret)+,
        simp add: LifecycleRule_DeepCopyInto_def copy_monad)
qed

lemma clones_aws_storage_spec: "clones read_aws_storage_spec AWSStorageSpec_DeepCopyInto"
proof -
  note facts = leaf_clones clones_struct(11) [OF clones_lifecycle_rule]
  note steps = facts [THEN copies_ap] and frames = facts [THEN clones_framed]
  show ?thesis
    by (rule clonesI, unfold read_aws_storage_spec_def, intro framed_ap framed_ret frames, (rule steps copies_ret)+,
        simp add: AWSStorageSpec_DeepCopyInto_def copy_monad)
qed

lemma clones_storage_spec: "clones read_storage_spec StorageSpec_DeepCopyInto"
proof -
  note facts = leaf_clones clones_struct(6) [OF clones_aws_storage_spec]
  note steps = facts [THEN copies_ap] and frames = facts [THEN clones_framed]
  show ?thesis
    by (rule clonesI, unfold read_storage_spec_def, intro framed_ap framed_ret frames, (rule steps copies_ret)+,
        simp add: StorageSpec_DeepCopyInto_def copy_monad)
qed

lemma clones_ingress_spec:
  assumes "kube_copies L" shows "clones (read_ingress_spec L) (IngressSpec_DeepCopyInto L)"
proof -
  note facts = leaf_clones kube_pointers [OF assms]
  note steps = facts [THEN copies_ap] and frames = facts [THEN clones_framed]
  show ?thesis
    by (rule clonesI, unfold read_ingress_spec_def, intro framed_ap framed_ret frames, (rule steps copies_ret)+,
        simp add: IngressSpec_DeepCopyInto_def copy_monad)
qed

lemma clones_container_spec:
  assumes "kube_copies L" shows "clones (read_container_spec L) (ContainerSpec_DeepCopyInto L)"
proof -
  note facts = kube_pointers [OF assms]
  note steps = facts [THEN copies_ap] and frames = facts [THEN clones_framed]
  show ?thesis
    by (rule clonesI, unfold read_container_spec_def, intro framed_ap framed_ret frames, (rule steps copies_ret)+,
        simp add: ContainerSpec_DeepCopyInto_def copy_monad)
qed

lemma clones_application_spec:
  assumes "kube_copies L" shows "clones (read_application_spec L) (ApplicationSpec_DeepCopyInto L)"
proof -
  note facts = leaf_clones kube_pointers [OF assms] clones_service_spec kube_clones(2) [OF assms]
    clones_container_spec [OF assms] clones_struct(1) [OF clones_service_account_spec]
    clones_struct(2) [OF clones_autoscaling_spec] clones_struct(3) [OF clones_pdb_spec]
    clones_struct(4) [OF clones_ingress_spec [OF assms]] clones_struct(5) [OF clones_config_spec]
    clones_struct(7) [OF clones_storage_spec]
  note steps = facts [THEN copies_ap] and frames = facts [THEN clones_framed]
  show ?thesis
    by (rule clonesI, unfold read_application_spec_def, intro framed_ap framed_ret frames, (rule steps copies_ret)+,
        simp add: ApplicationSpec_DeepCopyInto_def copy_monad)
qed

lemma clones_application_status:
  assumes "kube_copies L" shows "clones (read_application_status L) (ApplicationStatus_DeepCopyInto L)"
proof -
  note facts = kube_pointers [OF assms] clones_struct(8) [OF clones_storage_status]
  note steps = facts [THEN copies_ap] and frames = facts [THEN clones_framed]
  show ?thesis
    by (rule clonesI, unfold read_application_status_def, intro framed_ap framed_ret frames, (rule steps copies_ret)+,
        simp add: ApplicationStatus_DeepCopyInto_def copy_monad)
qed

lemma clones_application:
  assumes "kube_copies L" shows "clones (read_application L) (Application_DeepCopyInto L)"
proof -
  note facts = kube_clones(8) [OF assms] clones_application_spec [OF assms] clones_application_status [OF assms]
  note steps = facts [THEN copies_ap] and frames = facts [THEN clones_framed]
  show ?thesis
    by (rule clonesI, unfold read_application_def, intro framed_ap framed_ret frames, (rule steps copies_ret)+,
        simp add: Application_DeepCopyInto_def copy_monad)
qed

lemma clones_application_list:
  assumes "kube_copies L" shows "clones (read_application_list L) (ApplicationList_DeepCopyInto L)"
proof -
  note facts = kube_clones(9) [OF assms] clones_struct(12) [OF clones_application [OF assms]]
  note steps = facts [THEN copies_ap] and frames = facts [THEN clones_framed]
  show ?thesis
    by (rule clonesI, unfold read_application_list_def, intro framed_ap framed_ret frames, (rule steps copies_ret)+,
        simp add: ApplicationList_DeepCopyInto_def copy_monad)
qed

text \<open>\<open>DeepCopy\<close> of every struct.\<close>

lemma clones_every_DeepCopy:
  assumes "kube_copies L"
  shows
    "clones (read_ptr (cell_of is_AWSStorageStatusCell the_AWSStorageStatus) read_ret) AWSStorageStatus_DeepCopy"
    and "clones (read_ptr (cell_of is_AkamaiStorageSpecCell the_AkamaiStorageSpec) read_ret)
        AkamaiStorageSpec_DeepCopy"
    and "clones (read_ptr (cell_of is_AkamaiStorageStatusCell the_AkamaiStorageStatus) read_ret)
        AkamaiStorageStatus_DeepCopy"
    and "clones (read_ptr (cell_of is_LifecycleTransitionCell the_LifecycleTransition) read_ret)
        LifecycleTransition_DeepCopy"
    and "clones (read_ptr (cell_of is_ServiceAccountSpecCell the_ServiceAccountSpec) read_service_account_spec)
        ServiceAccountSpec_DeepCopy"
    and "clones (read_ptr (cell_of is_AutoscalingSpecCell the_AutoscalingSpec) read_autoscaling_spec)
        AutoscalingSpec_DeepCopy"
    and "clones (read_ptr (cell_of is_PDBSpecCell the_PDBSpec) read_pdb_spec) PDBSpec_DeepCopy"
    and "clones (read_ptr (cell_of is_IngressSpecCell the_IngressSpec) (read_ingress_spec L)) (IngressSpec_DeepCopy
        L)"
    and "clones (read_ptr (cell_of is_ServiceSpecCell the_ServiceSpec) read_service_spec) ServiceSpec_DeepCopy"
    and "clones (read_ptr (cell_of is_ConfigSpecCell the_ConfigSpec) read_config_spec) ConfigSpec_DeepCopy"
    and "clones (read_ptr (cell_of is_ContainerSpecCell the_ContainerSpec) (read_container_spec L))
        (ContainerSpec_DeepCopy L)"
    and "clones (read_ptr (cell_of is_LifecycleRuleCell the_LifecycleRule) read_lifecycle_rule)
        LifecycleRule_DeepCopy"
    and "clones (read_ptr (cell_of is_AWSStorageSpecCell the_AWSStorageSpec) read_aws_storage_spec)
        AWSStorageSpec_DeepCopy"
    and "clones (read_ptr (cell_of is_StorageSpecCell the_StorageSpec) read_storage_spec) StorageSpec_DeepCopy"
    and "clones (read_ptr (cell_of is_ApplicationSpecCell the_ApplicationSpec) (read_application_spec L))
        (ApplicationSpec_DeepCopy L)"
    and "clones (read_ptr (cell_of is_StorageStatusCell the_StorageStatus) read_storage_status)
        StorageStatus_DeepCopy"
    and "clones (read_ptr (cell_of is_ApplicationStatusCell the_ApplicationStatus) (read_application_status L))
        (ApplicationStatus_DeepCopy L)"
    and "clones (read_ptr (cell_of is_ApplicationListCell the_ApplicationList) (read_application_list L))
        (ApplicationList_DeepCopy L)"
  unfolding AWSStorageStatus_DeepCopy_def AkamaiStorageSpec_DeepCopy_def AkamaiStorageStatus_DeepCopy_def
      LifecycleTransition_DeepCopy_def ServiceAccountSpec_DeepCopy_def AutoscalingSpec_DeepCopy_def
      PDBSpec_DeepCopy_def IngressSpec_DeepCopy_def ServiceSpec_DeepCopy_def ConfigSpec_DeepCopy_def
      ContainerSpec_DeepCopy_def LifecycleRule_DeepCopy_def AWSStorageSpec_DeepCopy_def StorageSpec_DeepCopy_def
      ApplicationSpec_DeepCopy_def StorageStatus_DeepCopy_def ApplicationStatus_DeepCopy_def
      ApplicationList_DeepCopy_def
    AWSStorageStatus_DeepCopyInto_def AkamaiStorageSpec_DeepCopyInto_def AkamaiStorageStatus_DeepCopyInto_def
        LifecycleTransition_DeepCopyInto_def
  by (intro clones_ptr clones_plain clones_service_account_spec clones_autoscaling_spec clones_pdb_spec
      clones_ingress_spec [OF assms] clones_service_spec clones_config_spec clones_container_spec [OF assms]
      clones_lifecycle_rule clones_aws_storage_spec clones_storage_spec clones_application_spec [OF assms]
      clones_storage_status clones_application_status [OF assms] clones_application_list [OF assms]; simp add:
      cell_of_def)+

section \<open>The copy of an Application\<close>

definition read_application_at :: "'x kube_lib \<Rightarrow> addr option \<Rightarrow> ('x cell, application option) reader" where
  "read_application_at L = read_ptr (cell_of is_ApplicationCell the_Application) (read_application L)"

lemma nil_stays_nil: "(\<lambda>c. State_Monad.return (if c \<noteq> None then c else None)) = State_Monad.return"
  by auto

lemma clones_application_at:
  assumes "kube_copies L" shows "clones (read_application_at L) (Application_DeepCopyObject L)"
proof -
  have "Application_DeepCopyObject L = Application_DeepCopy L"
    by (intro ext) (simp only: Application_DeepCopyObject_def nil_stays_nil State_Monad.bind_right_identity)
  then show ?thesis
    unfolding read_application_at_def Application_DeepCopy_def
    by (simp only:) (rule clones_struct(9) [OF clones_application [OF assms]])
qed

text \<open>
  C28: a deep copy is the value itself. Where a pointer leads to an Application, \<open>DeepCopy\<close> (and
  \<open>DeepCopyObject\<close>) gives a pointer to an Application with the same metadata, spec and status,
  through pointers, slices and maps down to every leaf; the two have no cell in common, so
  whatever is written later into cells of the original, as a status update does that decodes the
  answer into it, the copy still reads the same, and the other way round.
\<close>

theorem deep_copy_is_independent:
  assumes "kube_copies L" and "read_application_at L p h = Some (v, A)"
    and "run_state (Application_DeepCopyObject L p) h = (q, h')"
  shows "\<exists>B. read_application_at L q h' = Some (v, B) \<and> A \<inter> B = {} \<and>
    (\<forall>ws. fst ` set ws \<subseteq> A \<longrightarrow> read_application_at L q (write_all ws h') = Some (v, B)) \<and>
    (\<forall>ws. fst ` set ws \<subseteq> B \<longrightarrow> read_application_at L p (write_all ws h') = Some (v, A))"
  by (rule clones_independent [OF clones_application_at [OF assms(1)] assms(2,3)])

subsection \<open>An instance\<close>

text \<open>Library structs without pointers, which are copied by assignment.\<close>

datatype plain =
    PlainEnvVar (plain_env_var: env_var) | PlainResources (plain_resources: resource_requirements)
  | PlainPodContext (plain_pod_context: pod_security_context)
  | PlainContext (plain_context: container_security_context) | PlainProbe (plain_probe: probe)
  | PlainTls (plain_tls: ingress_tls) | PlainCondition (plain_condition: condition)
  | PlainMeta (plain_meta: object_meta) | PlainListMeta (plain_list_meta: string)

definition read_plain :: "('x \<Rightarrow> 'v option) \<Rightarrow> 'x \<Rightarrow> ('c, 'v) reader" where
  "read_plain f x = (case f x of Some v \<Rightarrow> read_ret v | None \<Rightarrow> (\<lambda>h. None))"

definition plain_lib :: "plain kube_lib" where
  "plain_lib =
     \<lparr>kl_copy = State_Monad.return,
      kl_env_var = read_plain (cell_of is_PlainEnvVar plain_env_var),
      kl_resources = read_plain (cell_of is_PlainResources plain_resources),
      kl_pod_security_context = read_plain (cell_of is_PlainPodContext plain_pod_context),
      kl_security_context = read_plain (cell_of is_PlainContext plain_context),
      kl_probe = read_plain (cell_of is_PlainProbe plain_probe),
      kl_ingress_tls = read_plain (cell_of is_PlainTls plain_tls),
      kl_condition = read_plain (cell_of is_PlainCondition plain_condition),
      kl_object_meta = read_plain (cell_of is_PlainMeta plain_meta),
      kl_list_meta = read_plain (cell_of is_PlainListMeta plain_list_meta)\<rparr>"

lemma read_plain_copied: "framed (read_plain f x)" "copies (read_plain f x) (State_Monad.return (read_plain f x))"
  by (cases "f x"; simp add: read_plain_def framed_ret copies_ret; simp add: framed_def copies_def)+

lemma clones_read_plain: "clones (read_plain f) State_Monad.return"
  by (simp add: clones_def read_plain_copied)

lemma plain_lib_copies: "kube_copies plain_lib"
  by (simp add: kube_copies_def plain_lib_def clones_read_plain)

text \<open>An Application with storage and replicas, in a store of four cells.\<close>

definition stored_meta :: object_meta where
  "stored_meta = \<lparr>md_name = ''app'', md_namespace = ''ns'', md_uid = ''uid-1'', md_generation = 1,
     md_deletion_timestamp = None, md_finalizers = [], md_annotations = []\<rparr>"

definition stored_go_app :: "plain go_application" where
  "stored_go_app = \<lparr>gap_type_meta = (''Application'', ''v1alpha1''), gap_meta = PlainMeta stored_meta,
     gap_spec = \<lparr>gsp_image = ''img'', gsp_replicas = Some 1,
       gsp_container = \<lparr>gco_port = 80, gco_config_map_name = [], gco_secret_name = [], gco_config_mount_path = [],
         gco_secret_mount_path = [], gco_security_context = None, gco_liveness_probe = None,
         gco_readiness_probe = None, gco_startup_probe = None\<rparr>,
       gsp_config_map = None, gsp_service = \<lparr>gsv_type = [], gsv_port = 80, gsv_target_port = None\<rparr>,
       gsp_ingress = None, gsp_autoscaling = None, gsp_pdb = None, gsp_storage = Some 2, gsp_service_account = None,
       gsp_env = None, gsp_resources = PlainResources \<lparr>rr_requests = [], rr_limits = []\<rparr>,
       gsp_pod_security_context = None\<rparr>,
     gap_status = \<lparr>gas_conditions = None, gas_observed_generation = 0, gas_storage = None\<rparr>\<rparr>"

definition stored_bucket :: "string \<Rightarrow> go_storage_spec" where
  "stored_bucket b = \<lparr>gss_provider = ProviderAWSS3, gss_bucket = b, gss_deletion_policy = DeletionPolicyDelete,
     gss_region = [], gss_endpoint = [], gss_secret_name = [], gss_aws = Some 3, gss_akamai = None\<rparr>"

definition stored_heap :: "plain cell list" where
  "stored_heap = [ApplicationCell stored_go_app, IntCell 2, StorageSpecCell (stored_bucket ''data''),
     AWSStorageSpecCell \<lparr>gaws_credentials_secret_ref = ''aws'', gaws_versioning_enabled = None, gaws_lifecycle_rules = None\<rparr>]"

lemmas stored_defs = stored_heap_def stored_go_app_def stored_bucket_def plain_lib_def read_plain_def cell_of_def
  read_application_at_def read_ptr_def read_at_def read_ap_def read_ret_def read_application_def read_application_spec_def
  read_application_status_def read_container_spec_def read_service_spec_def read_storage_spec_def
  read_aws_storage_spec_def or_empty_def

lemma stored_read:
  "\<exists>app. read_application_at plain_lib (Some 0) stored_heap = Some (Some app, {0, 1, 2, 3}) \<and>
     app_meta app = stored_meta \<and> map_option ss_bucket (app_storage app) = Some ''data''"
  by (simp add: stored_defs insert_commute)

text \<open>The bucket of the original is renamed in place; the copy keeps the name.\<close>

theorem deep_copy_is_independent_witness:
  "\<exists>q h' app B. run_state (Application_DeepCopyObject plain_lib (Some 0)) stored_heap = (q, h') \<and>
     read_application_at plain_lib q (h'[2 := StorageSpecCell (stored_bucket ''other'')]) = Some (Some app, B) \<and>
     map_option ss_bucket (app_storage app) = Some ''data''"
proof -
  obtain app where app: "read_application_at plain_lib (Some 0) stored_heap = Some (Some app, {0, 1, 2, 3})"
      "map_option ss_bucket (app_storage app) = Some ''data''"
    using stored_read by blast
  obtain q h' where run: "run_state (Application_DeepCopyObject plain_lib (Some 0)) stored_heap = (q, h')" by fastforce
  from deep_copy_is_independent [OF plain_lib_copies app(1) run] obtain B where
    "\<forall>ws. fst ` set ws \<subseteq> {0, 1, 2, 3} \<longrightarrow> read_application_at plain_lib q (write_all ws h') = Some (Some app, B)"
    by blast
  from this [rule_format, of "[(2, StorageSpecCell (stored_bucket ''other''))]"] app(2) run
  show ?thesis by (auto simp: write_all_def)
qed

end
