(* ===== verification/Object_Client.thy ===== *)
theory Object_Client
  imports Akamai_Manager Children Rate_Limit
begin

text \<open>
  The S3 client that \<open>akamaiobjstr/client.go\<close> builds for the cluster a bucket lives on. The SDK
  makes a client of these options; what the development uses of its answers is \<open>get_object\<close> and
  its siblings in \<open>e_linode\<close>.
\<close>

datatype checksums = WhenSupported | WhenRequired

text \<open>The limiter is its wait and the label of its metric, as \<open>AWSMiddleware\<close> takes them.\<close>

record object_client =
  oc_region :: string
  oc_credentials :: "string \<times> string"
  oc_base_endpoint :: string
  oc_use_path_style :: bool
  oc_request_checksums :: checksums
  oc_response_checksums :: checksums
  oc_middleware :: "rate_wait option \<times> string"

definition newS3ObjectClient :: "string \<Rightarrow> string \<Rightarrow> string \<Rightarrow> string \<Rightarrow> rate_wait option \<Rightarrow> object_client" where
  "newS3ObjectClient region clusterEndpoint accessKey secretKey objectLimiter =
     \<lparr>oc_region = region, oc_credentials = (accessKey, secretKey),
      oc_base_endpoint = ''https://'' @ clusterEndpoint, oc_use_path_style = True,
      oc_request_checksums = WhenRequired, oc_response_checksums = WhenRequired,
      oc_middleware = (objectLimiter, ''akamai_object'')\<rparr>"

definition s3ClientFor :: "akamai_manager \<Rightarrow> rate_wait option \<Rightarrow> string \<Rightarrow> string \<Rightarrow> string \<Rightarrow> object_client" where
  "s3ClientFor m objectLimiter bucketHostname accessKey secretKey =
     (let clusterEndpoint = trim_prefix bucketHostname (k_bucket m @ ''.'')
      in newS3ObjectClient (k_region m) clusterEndpoint accessKey secretKey objectLimiter)"

text \<open>
  The operator and the workload talk to one host: the endpoint in the storage Secret, which is
  injected as \<open>AWS_ENDPOINT_URL\<close>, is the one the marker is read and written through, whether
  it comes from the spec, from the API or from the region.
\<close>

theorem workload_shares_the_endpoint:
  assumes "k_bucket m = ss_bucket storage" and "ar_endpoint creds = resolveEndpoint m hostname"
  shows "smap_get (storage_secret_data app storage (Some creds)) ''endpoint_url'' =
    oc_base_endpoint (s3ClientFor m limiter (resolveEndpoint m hostname) accessKey secretKey)"
  using assms by (simp add: storage_secret_data_def s3ClientFor_def newS3ObjectClient_def Let_def)

text \<open>The bucket is not named twice: a hostname that the API reports leads with the bucket.\<close>

lemma cluster_of_reported_host:
  assumes "ss_endpoint (k_storage m) = []"
  shows "oc_base_endpoint (s3ClientFor m limiter (resolveEndpoint m (k_bucket m @ ''.'' @ cluster)) accessKey secretKey) =
    ''https://'' @ cluster"
  using assms trim_prefix_append [of "k_bucket m @ ''.''" cluster]
  by (simp add: s3ClientFor_def newS3ObjectClient_def resolveEndpoint_def)

text \<open>
  \<open>spec.storage.endpoint\<close> is a host here, while the AWS client takes it for a URL; an override
  that is written as a URL gets the scheme twice.
\<close>

lemma endpoint_url_doubles_the_scheme:
  assumes "ss_endpoint (k_storage m) = ''https://'' @ host" and "\<not> has_prefix (''https://'' @ host) (k_bucket m @ ''.'')"
  shows "oc_base_endpoint (s3ClientFor m limiter (resolveEndpoint m hostname) accessKey secretKey) =
    ''https://https://'' @ host"
  using assms by (simp add: s3ClientFor_def newS3ObjectClient_def resolveEndpoint_def trim_prefix_def)

end
