(* ===== verification/Scheme_Setup.thy ===== *)
theory Scheme_Setup
  imports Go_Error
begin

text \<open>
  The registration of the resource types: \<open>api/v1alpha1/groupversion_info.go\<close>, the \<open>init\<close> of
  \<open>application_types.go\<close> and that of \<open>cmd/main.go\<close>. \<open>AddToScheme\<close> of the package is a method value
  bound to the address of the variable \<open>SchemeBuilder\<close>, which \<open>init\<close> extends after it was bound; so
  a call reads the variable as it is then.
\<close>

section \<open>The library\<close>

type_synonym group_version = "string \<times> string"

text \<open>
  \<open>runtime.Scheme\<close>, \<open>runtime.SchemeBuilder\<close> and the registration of client-go are parameters: \<open>'s\<close>
  is a scheme and \<open>'b\<close> a builder. A registration gives an error or nothing, and the scheme after it.
\<close>

type_synonym 's registration = "'s \<Rightarrow> gerror option \<times> 's"

record ('s, 'b) scheme_lib =
  sl_NewScheme :: 's
  sl_NewSchemeBuilder :: "'s registration list \<Rightarrow> 'b"
  sl_Register :: "'b \<Rightarrow> 's registration \<Rightarrow> 'b"
  sl_AddToScheme :: "'b \<Rightarrow> 's registration"
  sl_AddKnownTypes :: "group_version \<Rightarrow> string list \<Rightarrow> 's \<Rightarrow> 's"
  sl_AddToGroupVersion :: "group_version \<Rightarrow> 's \<Rightarrow> 's"
  sl_clientgo_AddToScheme :: "'s registration"
  sl_Recognizes :: "'s \<Rightarrow> group_version \<Rightarrow> string \<Rightarrow> bool"

section \<open>The package\<close>

definition SchemeGroupVersion :: group_version where
  "SchemeGroupVersion = (''forge.ningendo7.github.io'', ''v1alpha1'')"

definition GroupVersion :: group_version where "GroupVersion = SchemeGroupVersion"

text \<open>The value \<open>SchemeBuilder\<close> is declared with, and what \<open>init\<close> makes of it.\<close>

definition SchemeBuilder :: "('s, 'b) scheme_lib \<Rightarrow> 'b" where
  "SchemeBuilder L =
     sl_NewSchemeBuilder L [\<lambda>scheme. (None, sl_AddToGroupVersion L SchemeGroupVersion scheme)]"

definition register_types :: "('s, 'b) scheme_lib \<Rightarrow> 'b \<Rightarrow> 'b" where
  "register_types L builder =
     sl_Register L builder
       (\<lambda>s. (None, sl_AddKnownTypes L SchemeGroupVersion [''Application'', ''ApplicationList''] s))"

definition AddToScheme :: "('s, 'b) scheme_lib \<Rightarrow> 'b \<Rightarrow> 's registration" where
  "AddToScheme L builder = sl_AddToScheme L builder"

text \<open>\<open>utilruntime.Must\<close> panics on an error; \<open>Inl\<close> is the panic.\<close>

definition must :: "'s registration \<Rightarrow> 's \<Rightarrow> gerror + 's" where
  "must f s = (case f s of (Some err, _) \<Rightarrow> Inl err | (None, s') \<Rightarrow> Inr s')"

text \<open>\<open>init\<close> of the main package, which runs after those of the packages it imports.\<close>

definition main_scheme :: "('s, 'b) scheme_lib \<Rightarrow> 'b \<Rightarrow> gerror + 's" where
  "main_scheme L builder =
     (case must (sl_clientgo_AddToScheme L) (sl_NewScheme L) of
        Inl err \<Rightarrow> Inl err
      | Inr s \<Rightarrow> must (AddToScheme L builder) s)"

definition start_scheme :: "('s, 'b) scheme_lib \<Rightarrow> gerror + 's" where
  "start_scheme L = main_scheme L (register_types L (SchemeBuilder L))"

section \<open>What the scheme knows\<close>

fun run_registrations :: "'s registration list \<Rightarrow> 's registration" where
  "run_registrations [] s = (None, s)"
| "run_registrations (f # fs) s = (case f s of (Some err, s') \<Rightarrow> (Some err, s') | (None, s') \<Rightarrow> run_registrations fs s')"

text \<open>
  Documented behaviour: a builder collects functions and applies them in order up to the first
  error; \<open>AddKnownTypes\<close> makes a scheme recognise the kinds it names, and no registration takes a
  kind away.
\<close>

definition builder_contract :: "('s, 'b) scheme_lib \<Rightarrow> bool" where
  "builder_contract L \<longleftrightarrow>
     (\<exists>fns. (\<forall>fs. fns (sl_NewSchemeBuilder L fs) = fs) \<and> (\<forall>b f. fns (sl_Register L b f) = fns b @ [f]) \<and>
        (\<forall>b. sl_AddToScheme L b = run_registrations (fns b)))"

definition known_types_contract :: "('s, 'b) scheme_lib \<Rightarrow> bool" where
  "known_types_contract L \<longleftrightarrow>
     (\<forall>gv ks s gv' k. sl_Recognizes L (sl_AddKnownTypes L gv ks s) gv' k \<longleftrightarrow>
        gv' = gv \<and> k \<in> set ks \<or> sl_Recognizes L s gv' k) \<and>
     (\<forall>gv s gv' k. sl_Recognizes L s gv' k \<longrightarrow> sl_Recognizes L (sl_AddToGroupVersion L gv s) gv' k)"

text \<open>
  The process panics before \<open>main\<close> exactly when client-go's types cannot be added, and otherwise
  has a scheme that knows both kinds of the package and everything client-go added.
\<close>

theorem started_scheme_knows_the_types:
  assumes "builder_contract L" and "known_types_contract L"
    and clientgo: "sl_clientgo_AddToScheme L (sl_NewScheme L) = (err, s)"
  shows "case start_scheme L of
      Inl e \<Rightarrow> err = Some e
    | Inr scheme \<Rightarrow> err = None \<and> sl_Recognizes L scheme GroupVersion ''Application'' \<and>
        sl_Recognizes L scheme GroupVersion ''ApplicationList'' \<and>
        (\<forall>gv k. sl_Recognizes L s gv k \<longrightarrow> sl_Recognizes L scheme gv k)"
proof (cases err)
  case (Some e)
  with clientgo show ?thesis by (simp add: start_scheme_def main_scheme_def must_def)
next
  case None
  obtain fns where fns: "\<And>fs. fns (sl_NewSchemeBuilder L fs) = fs" "\<And>b f. fns (sl_Register L b f) = fns b @ [f]"
      "\<And>b. sl_AddToScheme L b = run_registrations (fns b)"
    using assms(1) unfolding builder_contract_def by blast
  have "start_scheme L = Inr (sl_AddKnownTypes L SchemeGroupVersion [''Application'', ''ApplicationList'']
      (sl_AddToGroupVersion L SchemeGroupVersion s))"
    using clientgo None
    by (simp add: start_scheme_def main_scheme_def must_def AddToScheme_def register_types_def SchemeBuilder_def fns)
  moreover have "sl_Recognizes L (sl_AddKnownTypes L gv ks s) gv' k \<longleftrightarrow> gv' = gv \<and> k \<in> set ks \<or> sl_Recognizes L s gv' k"
      "sl_Recognizes L s gv' k \<Longrightarrow> sl_Recognizes L (sl_AddToGroupVersion L gv s) gv' k" for gv ks s gv' k
    using assms(2) unfolding known_types_contract_def by blast+
  ultimately show ?thesis using None by (simp add: GroupVersion_def del: split_paired_All)
qed

text \<open>An instance: schemes that list what they know.\<close>

definition listed_scheme :: "((group_version \<times> string) list, (group_version \<times> string) list registration list) scheme_lib" where
  "listed_scheme =
     \<lparr>sl_NewScheme = [], sl_NewSchemeBuilder = (\<lambda>fs. fs), sl_Register = (\<lambda>b f. b @ [f]),
      sl_AddToScheme = run_registrations, sl_AddKnownTypes = (\<lambda>gv ks s. map (Pair gv) ks @ s),
      sl_AddToGroupVersion = (\<lambda>gv s. (gv, ''WatchEvent'') # s),
      sl_clientgo_AddToScheme = (\<lambda>s. (None, (([], ''v1''), ''Pod'') # s)),
      sl_Recognizes = (\<lambda>s gv k. (gv, k) \<in> set s)\<rparr>"

lemma listed_scheme_contracts: "builder_contract listed_scheme" "known_types_contract listed_scheme"
  by (auto simp: builder_contract_def known_types_contract_def listed_scheme_def intro: exI [of _ "\<lambda>fs. fs"])

theorem started_scheme_knows_the_types_witness:
  "\<exists>scheme. start_scheme listed_scheme = Inr scheme \<and> sl_Recognizes listed_scheme scheme GroupVersion ''Application''"
proof -
  have c: "sl_clientgo_AddToScheme listed_scheme (sl_NewScheme listed_scheme) = (None, [(([], ''v1''), ''Pod'')])"
    by (simp add: listed_scheme_def)
  show ?thesis
    using started_scheme_knows_the_types [OF listed_scheme_contracts c] by (cases "start_scheme listed_scheme") auto
qed

end
