(* ===== verification/Desired_State.thy ===== *)
theory Desired_State
  imports Controller_Properties
begin

text \<open>
  What a pass that reports no error did to the owned objects: exactly the desired ones were
  applied, each once and in the order of \<open>ensureDesiredState\<close>, and what is switched off is gone.
\<close>

section \<open>Applied and removed objects\<close>

text \<open>The objects the API server accepted, oldest first.\<close>

definition applied_by :: "event \<Rightarrow> child list" where
  "applied_by e = (case e of Kube (Apply c (Inr u)) \<Rightarrow> [c] | _ \<Rightarrow> [])"

definition applied :: "event list \<Rightarrow> child list" where
  "applied es = concat (map applied_by es)"

lemma applied_append [simp]: "applied (xs @ ys) = applied xs @ applied ys"
  by (simp add: applied_def)

lemma applied_none: "list_all (\<lambda>e. applied_by e = []) es \<Longrightarrow> applied es = []"
  by (auto simp: applied_def list_all_iff)

text \<open>A deletion that was accepted, or of an object that is not there.\<close>

definition removed :: "kind \<Rightarrow> string \<Rightarrow> string \<Rightarrow> event list \<Rightarrow> bool" where
  "removed k ns n es \<longleftrightarrow>
     Kube (Delete k ns n (Inr ())) \<in> set es \<or>
     (\<exists>err. Kube (Delete k ns n (Inl err)) \<in> set es \<and> kube_not_found err)"

lemma removed_append: "removed k ns n ys \<Longrightarrow> removed k ns n (xs @ ys @ zs)"
  by (auto simp: removed_def)

section \<open>The steps of the reconcilers\<close>

lemma apply_owned_run:
  "apply_owned env m1 m2 c w = (Inr u, w') \<Longrightarrow>
     w' = w\<lparr>w_trace := w_trace w @ [Kube (Apply (set_controller (app_uid (w_app w)) c) (Inr ()))]\<rparr>"
  by (auto simp: apply_owned_def kube_apply_def io_simps Let_def split: sum.splits)

lemma apply_owned_applies:
  assumes "apply_owned env m1 m2 c w = (Inr u, w')"
  shows "applied (new_events w w') = [set_controller (app_uid (w_app w)) c]"
  using apply_owned_run [OF assms] by (simp add: new_events_def applied_def applied_by_def)

lemma delete_or_gone_run:
  assumes "delete_or_gone env k ns n msg w = (Inr u, w')"
  shows "removed k ns n (new_events w w')" and "applied (new_events w w') = []"
  using assms
  by (auto simp: delete_or_gone_def kube_delete_def io_simps Let_def new_events_def removed_def applied_def
      applied_by_def split: sum.splits if_splits)

lemma delete_stale_items_applies: "emits (\<lambda>e. applied_by e = []) (delete_stale_items env k what keep app xs)"
  by (induction xs) (auto simp: delete_or_gone_def kube_delete_def applied_by_def intro!: emits_intros)

lemma delete_stale_applies: "emits (\<lambda>e. applied_by e = []) (delete_stale env k what ls keep)"
  unfolding delete_stale_def kube_list_def
  by (intro emits_intros delete_stale_items_applies) (simp add: applied_by_def)

lemma delete_stale_run:
  "delete_stale env k what ls keep w = (x, w') \<Longrightarrow>
     applied (new_events w w') = [] \<and> w_trace w' = w_trace w @ new_events w w'"
  using emits_new_events [OF delete_stale_applies] emits_trace [OF delete_stale_applies] applied_none by blast

text \<open>Runs one after the other.\<close>

lemma new_events_trans:
  "w_trace w1 = w_trace w @ new_events w w1 \<Longrightarrow> w_trace w2 = w_trace w1 @ new_events w1 w2 \<Longrightarrow>
     new_events w w2 = new_events w w1 @ new_events w1 w2"
  by (metis append_assoc new_events_eq)

lemma apply_then_clean_applies:
  assumes "bindIO (apply_owned env m1 m2 c) (\<lambda>_. wrapIO m3 (delete_stale env k what ls keep)) w = (Inr u, w')"
  shows "applied (new_events w w') = [set_controller (app_uid (w_app w)) c]"
proof -
  obtain v w1 where steps: "apply_owned env m1 m2 c w = (Inr v, w1)" "delete_stale env k what ls keep w1 = (Inr u, w')"
    using assms unfolding bindIO_Inr_iff wrapIO_Inr_iff by blast
  have "w_trace w1 = w_trace w @ new_events w w1" using apply_owned_run [OF steps(1)] by (simp add: new_events_def)
  from new_events_trans [OF this] delete_stale_run [OF steps(2)] have "new_events w w' = new_events w w1 @ new_events w1 w'"
    by blast
  with apply_owned_applies [OF steps(1)] delete_stale_run [OF steps(2)] show ?thesis by simp
qed

section \<open>What each reconciler applies\<close>

definition optional :: "'a option \<Rightarrow> ('a \<Rightarrow> child) \<Rightarrow> child list" where
  "optional x f = (case x of None \<Rightarrow> [] | Some y \<Rightarrow> [f y])"

lemma optional_simps [simp]: "optional None f = []" "optional (Some y) f = [f y]"
  by (simp_all add: optional_def)

lemma reconcileServiceAccount_applies:
  assumes "reconcileServiceAccount env w = (Inr u, w')"
  shows "applied (new_events w w') =
    (if shouldCreateServiceAccount (w_app w)
     then [set_controller (app_uid (w_app w)) (desiredServiceAccount (w_app w))] else [])"
  using assms apply_then_clean_applies delete_stale_run
  by (fastforce simp: reconcileServiceAccount_def deleteStaleServiceAccounts_def Let_def getApp_def
      bindIO_step [of getApp w "w_app w" w] split: if_splits)

lemma reconcileConfigMap_applies:
  assumes "reconcileConfigMap env w = (Inr u, w')"
  shows "applied (new_events w w') = map (set_controller (app_uid (w_app w)))
    (optional (sp_config_map (app_spec (w_app w))) (\<lambda>_. desiredConfigMap (w_app w)))"
  using assms apply_then_clean_applies delete_stale_run
  by (cases "sp_config_map (app_spec (w_app w))")
     (fastforce simp: reconcileConfigMap_def deleteStaleConfigMaps_def Let_def getApp_def
       bindIO_step [of getApp w "w_app w" w])+

lemma reconcileStorageSecret_applies:
  assumes "reconcileStorageSecret env creds w = (Inr u, w')"
  shows "applied (new_events w w') =
    map (set_controller (app_uid (w_app w))) (optional (desiredStorage (w_app w) creds) (\<lambda>c. c))"
  using assms apply_then_clean_applies delete_stale_run
  by (cases "desiredStorage (w_app w) creds")
     (fastforce simp: reconcileStorageSecret_def delete_stale_secrets_def getApp_def
       bindIO_step [of getApp w "w_app w" w])+

lemma reconcileService_applies:
  "reconcileService env w = (Inr u, w') \<Longrightarrow>
     applied (new_events w w') = [set_controller (app_uid (w_app w)) (desiredService (w_app w))]"
  using apply_owned_applies
  by (simp add: reconcileService_def getApp_def bindIO_step [of getApp w "w_app w" w])

text \<open>The switched objects: applied, or removed.\<close>

lemma reconcileIngress_applies:
  assumes "reconcileIngress env w = (Inr u, w')"
  shows "applied (new_events w w') = map (set_controller (app_uid (w_app w)))
      (optional (sp_ingress (app_spec (w_app w))) (desiredIngress (w_app w)))"
    and "sp_ingress (app_spec (w_app w)) = None \<longrightarrow>
      removed IngressKind (app_namespace (w_app w)) (ingress_name (w_app w)) (new_events w w')"
  using assms apply_owned_applies delete_or_gone_run
  by (auto simp: reconcileIngress_def getApp_def bindIO_step [of getApp w "w_app w" w] split: option.splits)

lemma reconcilePDB_applies:
  assumes "reconcilePDB env w = (Inr u, w')"
  shows "applied (new_events w w') = map (set_controller (app_uid (w_app w)))
      (optional (sp_pdb (app_spec (w_app w))) (\<lambda>_. desiredPDB (w_app w)))"
    and "sp_pdb (app_spec (w_app w)) = None \<longrightarrow>
      removed PdbKind (app_namespace (w_app w)) (pdb_name (w_app w)) (new_events w w')"
  using assms apply_owned_applies delete_or_gone_run
  by (auto simp: reconcilePDB_def getApp_def bindIO_step [of getApp w "w_app w" w] split: option.splits)

lemma reconcileHPA_applies:
  assumes "reconcileHPA env w = (Inr u, w')"
  shows "applied (new_events w w') = map (set_controller (app_uid (w_app w)))
      (optional (desiredHPA (w_app w)) (\<lambda>c. c))"
    and "sp_autoscaling (app_spec (w_app w)) = None \<longrightarrow>
      removed HpaKind (app_namespace (w_app w)) (hpa_name (w_app w)) (new_events w w')"
  using assms apply_owned_applies delete_or_gone_run
  by (auto simp: reconcileHPA_def desiredHPA_def getApp_def bindIO_step [of getApp w "w_app w" w]
      split: option.splits prod.splits)

text \<open>Whether the Deployment exists decides on its replicas.\<close>

definition deployment_found :: "application \<Rightarrow> event list \<Rightarrow> bool" where
  "deployment_found app es \<longleftrightarrow>
     (\<exists>d. View (GetDeployment (app_namespace app) (deployment_name app) (Inr d)) \<in> set es)"

lemma reconcileDeployment_applies:
  assumes "reconcileDeployment env w = (Inr u, w')"
  shows "applied (new_events w w') = [set_controller (app_uid (w_app w))
    (desiredDeployment (w_app w) (deployment_found (w_app w) (new_events w w')))]"
  using assms
  by (auto simp: reconcileDeployment_def view_get_deployment_def apply_owned_def kube_apply_def io_simps Let_def
      new_events_def deployment_found_def applied_def applied_by_def split: sum.splits if_splits)

section \<open>The whole pass\<close>

text \<open>The storage part ends in the storage Secret; before it no object but the ServiceAccount is applied.\<close>

lemma reconcileStorage_then_secret:
  assumes "retry_contract (e_lib env)" and "reconcileStorage env r w = (Inr u, w')"
  obtains w1 creds where "w_trace w1 = w_trace w @ new_events w w1" "list_all storage_event (new_events w w1)"
    "reconcileStorageSecret env creds w1 = (Inr u, w')"
proof (cases "app_storage (w_app w)")
  case None
  let ?pre = "case app_status_storage (w_app w) of Some old \<Rightarrow> cleanupPreviousStorage env r old | None \<Rightarrow> ret ()"
  have pre: "emits storage_event ?pre" by (intro emits_intros reconcileStorage_parts [OF assms(1)])
  from None assms(2) obtain v w1 where "?pre w = (Inr v, w1)" "reconcileStorageSecret env None w1 = (Inr u, w')"
    by (auto simp: reconcileStorage_def getApp_def bindIO_step [of getApp w "w_app w" w] bindIO_Inr_iff [of ?pre])
  with emits_trace [OF pre] emits_new_events [OF pre] that show ?thesis by blast
next
  case (Some storage)
  let ?pre = "bindIO (cleanup_replaced_storage env r storage) (\<lambda>_.
    bindIO (wrapIO ''failed to ensure storage ownership ID: '' (ensureStorageOwnershipID env)) (\<lambda>_.
    bindIO spec_storage (\<lambda>now_storage. provision_storage env r (ss_provider now_storage))))"
  have pre: "emits storage_event ?pre" by (intro emits_intros reconcileStorage_parts [OF assms(1)])
  have "reconcileStorage env r w = bindIO ?pre (\<lambda>creds.
      wrapIO ''failed to reconcile storage secret: '' (reconcileStorageSecret env creds)) w"
    using Some by (simp add: reconcileStorage_def getApp_def bindIO_step [of getApp w "w_app w" w] bindIO_assoc)
  from assms(2) [unfolded this] obtain creds w1 where "?pre w = (Inr creds, w1)" "reconcileStorageSecret env creds w1 = (Inr u, w')"
    unfolding bindIO_Inr_iff [of ?pre] wrapIO_Inr_iff by auto
  with emits_trace [OF pre] emits_new_events [OF pre] that show ?thesis by blast
qed

lemma storage_event_applies: "storage_event e \<Longrightarrow> c \<in> set (applied_by e) \<Longrightarrow> child_kind (child_body c) = ServiceAccountKind"
  by (auto simp: storage_event_def applied_by_def split: event.splits kube_event.splits sum.splits)

lemma storage_applies_service_account:
  "list_all storage_event es \<Longrightarrow> list_all (\<lambda>c. child_kind (child_body c) = ServiceAccountKind) (applied es)"
  using storage_event_applies by (auto simp: applied_def list_all_iff)

text \<open>Only \<open>reconcileDeployment\<close> looks at the Deployment before the readiness is evaluated.\<close>

definition looks_at_deployment :: "event \<Rightarrow> bool" where
  "looks_at_deployment e \<longleftrightarrow> (\<exists>ns n x. e = View (GetDeployment ns n x))"

lemma deployment_found_append:
  "list_all (\<lambda>e. \<not> looks_at_deployment e) xs \<Longrightarrow> deployment_found app (xs @ ys) = deployment_found app ys"
  "list_all (\<lambda>e. \<not> looks_at_deployment e) ys \<Longrightarrow> deployment_found app (xs @ ys) = deployment_found app xs"
  by (auto simp: deployment_found_def looks_at_deployment_def list_all_iff)

lemma child_call_blind: "child_call k app e \<Longrightarrow> k \<noteq> DeploymentKind \<Longrightarrow> \<not> looks_at_deployment e"
  by (auto simp: child_call_def looks_at_deployment_def)

lemma storage_event_blind: "storage_event e \<Longrightarrow> \<not> looks_at_deployment e"
  by (auto simp: storage_event_def looks_at_deployment_def)

lemma blind_steps:
  "reconcileServiceAccount env w = (Inr u, w') \<Longrightarrow> list_all (\<lambda>e. \<not> looks_at_deployment e) (new_events w w')"
  "reconcileConfigMap env w = (Inr u, w') \<Longrightarrow> list_all (\<lambda>e. \<not> looks_at_deployment e) (new_events w w')"
  "reconcileStorageSecret env creds w = (Inr u, w') \<Longrightarrow> list_all (\<lambda>e. \<not> looks_at_deployment e) (new_events w w')"
  "reconcileService env w = (Inr u, w') \<Longrightarrow> list_all (\<lambda>e. \<not> looks_at_deployment e) (new_events w w')"
  "reconcileIngress env w = (Inr u, w') \<Longrightarrow> list_all (\<lambda>e. \<not> looks_at_deployment e) (new_events w w')"
  "reconcilePDB env w = (Inr u, w') \<Longrightarrow> list_all (\<lambda>e. \<not> looks_at_deployment e) (new_events w w')"
  "reconcileHPA env w = (Inr u, w') \<Longrightarrow> list_all (\<lambda>e. \<not> looks_at_deployment e) (new_events w w')"
  using emits_as_run [OF service_account_child.calls] emits_as_run [OF config_map_child.calls]
    emits_as_run [OF storage_secret_child.calls] emits_as_run [OF service_child.calls]
    emits_as_run [OF ingress_child.calls] emits_as_run [OF pdb_child.calls] emits_as_run [OF hpa_child.calls]
  by (fastforce simp: list_all_iff dest: child_call_blind)+

section \<open>The desired objects\<close>

text \<open>In the order they are applied in: before the storage, the storage Secret, after the storage.\<close>

definition desired_before :: "application \<Rightarrow> child list" where
  "desired_before app =
     (if shouldCreateServiceAccount app then [desiredServiceAccount app] else []) @
     optional (sp_config_map (app_spec app)) (\<lambda>_. desiredConfigMap app)"

definition desired_after :: "application \<Rightarrow> akamai_result option \<Rightarrow> bool \<Rightarrow> child list" where
  "desired_after app creds deploymentExists =
     optional (desiredStorage app creds) (\<lambda>c. c) @ [desiredService app, desiredDeployment app deploymentExists] @
     optional (sp_ingress (app_spec app)) (desiredIngress app) @
     optional (sp_pdb (app_spec app)) (\<lambda>_. desiredPDB app) @ optional (desiredHPA app) (\<lambda>c. c)"

text \<open>The runs a pass without error consists of, with what they append.\<close>

lemma ensureDesiredState_runs:
  assumes "retry_contract (e_lib env)" and "ensureDesiredState env r w = (Inr (), w')"
  obtains w1 w2 w3 w4 w5 w6 w7 w8 creds where "reconcileServiceAccount env w = (Inr (), w1)"
    "reconcileConfigMap env w1 = (Inr (), w2)" "list_all storage_event (new_events w2 w3)"
    "reconcileStorageSecret env creds w3 = (Inr (), w4)" "reconcileService env w4 = (Inr (), w5)"
    "reconcileDeployment env w5 = (Inr (), w6)" "reconcileIngress env w6 = (Inr (), w7)"
    "reconcilePDB env w7 = (Inr (), w8)" "reconcileHPA env w8 = (Inr (), w')"
    "new_events w w' = new_events w w1 @ new_events w1 w2 @ new_events w2 w3 @ new_events w3 w4 @
       new_events w4 w5 @ new_events w5 w6 @ new_events w6 w7 @ new_events w7 w8 @ new_events w8 w'"
proof -
  obtain w1 w2 w4 w5 w6 w7 w8 where runs: "reconcileServiceAccount env w = (Inr (), w1)" "reconcileConfigMap env w1 = (Inr (), w2)"
      "reconcileStorage env r w2 = (Inr (), w4)" "reconcileService env w4 = (Inr (), w5)"
      "reconcileDeployment env w5 = (Inr (), w6)" "reconcileIngress env w6 = (Inr (), w7)"
      "reconcilePDB env w7 = (Inr (), w8)" "reconcileHPA env w8 = (Inr (), w')"
    using assms(2) unfolding ensureDesiredState_def bindIO_Inr_iff by auto
  obtain w3 creds where storage: "w_trace w3 = w_trace w2 @ new_events w2 w3" "list_all storage_event (new_events w2 w3)"
      "reconcileStorageSecret env creds w3 = (Inr (), w4)"
    using reconcileStorage_then_secret [OF assms(1) runs(3)] by blast
  note tr = child_appends [THEN emits_trace]
  have "w_trace w' = w_trace w @ new_events w w1 @ new_events w1 w2 @ new_events w2 w3 @ new_events w3 w4 @
      new_events w4 w5 @ new_events w5 w6 @ new_events w6 w7 @ new_events w7 w8 @ new_events w8 w'"
    using tr(1) [OF runs(1)] tr(2) [OF runs(2)] storage(1) tr(8) [OF storage(3)] tr(3) [OF runs(4)]
      tr(4) [OF runs(5)] tr(5) [OF runs(6)] tr(6) [OF runs(7)] tr(7) [OF runs(8)] by (metis append_assoc)
  from that [OF runs(1,2) storage(2,3) runs(4-8) new_events_eq [OF this]] show ?thesis .
qed


text \<open>An Application with a ConfigMap and without storage, Ingress, budget and autoscaler.\<close>

definition stateless_app :: application where
  "stateless_app = sample_app\<lparr>app_spec := sample_spec\<lparr>sp_storage := None,
     sp_config_map := Some \<lparr>cf_name = ''conf'', cf_data = []\<rparr>\<rparr>\<rparr>"


end
