(* ===== verification/Claim_Race.thy ===== *)
theory Claim_Race
  imports Tenancy
begin

text \<open>
  What the ownership protocol of the AWS package does not exclude: two claims whose calls
  interleave, and the access that an Application keeps to a bucket it has lost. \<open>Tenancy\<close> shows
  that whole runs, one after the other, keep a bucket with its tenant.
\<close>

section \<open>Interleaved runs\<close>

text \<open>What a read of the tags was answered is what S3 stored of the bucket at that point.\<close>

definition true_read :: "string \<Rightarrow> stored \<Rightarrow> event \<Rightarrow> bool" where
  "true_read b st e =
     (case e of
        S3 (GetBucketTagging b' r) \<Rightarrow> b' = b \<longrightarrow>
          (case r of
             Inr ts \<Rightarrow> st = Stored (Some ts)
           | Inl err \<Rightarrow> (api_error_code err = Some noSuchTagSetErrorCode \<longrightarrow> st = Stored None) \<and>
               (api_error_code err = Some noSuchBucketErrorCode \<longrightarrow> st = Lost))
      | _ \<Rightarrow> True)"

fun reads_truly :: "string \<Rightarrow> stored \<Rightarrow> event list \<Rightarrow> bool" where
  "reads_truly b st [] = True"
| "reads_truly b st (e # es) = (true_read b st e \<and> reads_truly b (after_event b e st) es)"

lemma reads_truly_append: "reads_truly b st (xs @ ys) \<longleftrightarrow> reads_truly b st xs \<and> reads_truly b (after_run b xs st) ys"
  by (induction xs arbitrary: st) auto

lemma shuffle_after: "zs \<in> shuffles xs ys \<Longrightarrow> us @ zs \<in> shuffles (us @ xs) ys"
  by (induction us) (auto intro: Cons_in_shuffles_leftI)

section \<open>Two claims of one bucket\<close>

text \<open>The calls of a claim that finds no tags and is asked to adopt.\<close>

lemma adopting_claim_run:
  assumes "tags_answer env m w = Inl err" and "api_error_code err = Some noSuchTagSetErrorCode"
    and "adoptBucketRequested (w_app w)" and "\<And>h ts. put_bucket_tagging (e_s3 env) h (m_bucket m) ts = Inr ()"
  obtains ms w' where "claimOrVerifyOwnership env m w = (Inr (), w')" "list_all (\<lambda>e. \<exists>x. e = Metric x) ms"
    "new_events w w' = S3 (GetBucketTagging (m_bucket m) (Inl err)) #
       ms @ [S3 (PutBucketTagging (m_bucket m) (owner_tags (w_app w)) (Inr ()))]"
proof -
  let ?ms = "if created_recently env m w then [] else [Metric (StorageBucketAdoptedTotal ProviderAWSS3)]"
  have "claimOrVerifyOwnership env m w = (Inr (), w\<lparr>w_trace := w_trace w @ S3 (GetBucketTagging (m_bucket m) (Inl err)) #
       ?ms @ [S3 (PutBucketTagging (m_bucket m) (owner_tags (w_app w)) (Inr ()))]\<rparr>)"
    using assms
    by (simp add: claimOrVerifyOwnership_def claimUntagged_def s3_get_bucket_tagging_def tags_answer_def
        after_tags_answer_def ask_previously_created_def tagAsOwned_def s3_put_bucket_tagging_def
        record_adopted_def io_simps Let_def)
  from that [OF this, of ?ms] show ?thesis by (simp add: new_events_def)
qed

lemma metrics_quiet:
  assumes "list_all (\<lambda>e. \<exists>x. e = Metric x) ms"
  shows "after_run b ms st = st" and "reads_truly b st ms"
proof -
  show "after_run b ms st = st" using assms by (intro after_run_quiet) (auto simp: list_all_iff)
  show "reads_truly b st ms"
    using assms by (induction ms) (auto simp: true_read_def after_event_quiet)
qed

lemma after_get [simp]: "after_event b (S3 (GetBucketTagging b' r)) st = st"
  by (simp add: after_event_quiet)

lemma after_put [simp]:
  "after_event b (S3 (PutBucketTagging b ts (Inr u))) (Stored old) = Stored (Some ts)"
  by (simp add: after_event_def)

lemma true_put [simp]: "true_read b st (S3 (PutBucketTagging b' ts r))"
  by (simp add: true_read_def)

text \<open>
  C37: two claims of one untagged bucket can both succeed. Each reads that there are no tags, is
  allowed to adopt the bucket and writes its own; S3 takes an unconditional write from both. There is an
  interleaving of the calls of the two runs in which every answer is what S3 stored at that
  point, both Applications go on as the owner and only the second is recorded. No order in which
  one run follows the other explains these answers.
\<close>

theorem racing_claims_both_succeed:
  assumes "m_bucket m1 = b" and "m_bucket m2 = b"
    and "tags_answer env1 m1 w1 = Inl err1" and "api_error_code err1 = Some noSuchTagSetErrorCode"
    and "tags_answer env2 m2 w2 = Inl err2" and "api_error_code err2 = Some noSuchTagSetErrorCode"
    and "adoptBucketRequested (w_app w1)" and "adoptBucketRequested (w_app w2)"
    and "\<And>h ts. put_bucket_tagging (e_s3 env1) h b ts = Inr ()"
    and "\<And>h ts. put_bucket_tagging (e_s3 env2) h b ts = Inr ()"
    and "claimOrVerifyOwnership env1 m1 w1 = (r1, v1)" and "claimOrVerifyOwnership env2 m2 w2 = (r2, v2)"
  shows "r1 = Inr () \<and> r2 = Inr () \<and>
    (\<exists>es \<in> shuffles (new_events w1 v1) (new_events w2 v2). reads_truly b (Stored None) es \<and>
       after_run b es (Stored None) = Stored (Some (owner_tags (w_app w2)))) \<and>
    \<not> reads_truly b (Stored None) (new_events w1 v1 @ new_events w2 v2) \<and>
    \<not> reads_truly b (Stored None) (new_events w2 v2 @ new_events w1 v1)"
proof -
  let ?get = "\<lambda>err. S3 (GetBucketTagging b (Inl err))"
  let ?put = "\<lambda>w. S3 (PutBucketTagging b (owner_tags (w_app w)) (Inr ()))"
  have put1: "put_bucket_tagging (e_s3 env1) h (m_bucket m1) ts = Inr ()"
    and put2: "put_bucket_tagging (e_s3 env2) h (m_bucket m2) ts = Inr ()" for h ts
    using assms(1,2,9,10) by simp_all
  obtain ms1 where one: "r1 = Inr ()" "list_all (\<lambda>e. \<exists>x. e = Metric x) ms1"
      "new_events w1 v1 = ?get err1 # ms1 @ [?put w1]"
    using adopting_claim_run [OF assms(3,4,7) put1] assms(1,11) by auto
  obtain ms2 where two: "r2 = Inr ()" "list_all (\<lambda>e. \<exists>x. e = Metric x) ms2"
      "new_events w2 v2 = ?get err2 # ms2 @ [?put w2]"
    using adopting_claim_run [OF assms(5,6,8) put2] assms(2,12) by auto
  note quiet = metrics_quiet [OF one(2)] metrics_quiet [OF two(2)]
  let ?es = "?get err1 # ?get err2 # (ms1 @ [?put w1]) @ ms2 @ [?put w2]"
  have "?es \<in> shuffles (new_events w1 v1) (new_events w2 v2)"
    unfolding one(3) two(3)
    using shuffle_after [of "ms2 @ [?put w2]" "[]" "ms2 @ [?put w2]" "ms1 @ [?put w1]"]
    by (intro Cons_in_shuffles_leftI Cons_in_shuffles_rightI) simp
  moreover have "true_read b (Stored None) (?get err1)" "true_read b (Stored None) (?get err2)"
    using assms(4,6) by (simp_all add: true_read_def noSuchTagSetErrorCode_def noSuchBucketErrorCode_def)
  ultimately show ?thesis
    using one two quiet assms(4,6) by (auto simp: reads_truly_append true_read_def [of b "Stored (Some ts)" for ts] intro!: bexI [of _ ?es])
qed

definition untagged_env :: env where
  "untagged_env = with_tags (Inl (SdkErr (sdk_failure noSuchTagSetErrorCode)))"

definition second_world :: world where
  "second_world = sample_world\<lparr>w_app := annotated [(AdoptBucketAnnotation, AdoptBucketAnnotationValue)]
     (sample_app\<lparr>app_meta := sample_meta\<lparr>md_uid := ''uid-2''\<rparr>\<rparr>)\<rparr>"

theorem racing_claims_both_succeed_witness:
  "\<exists>es. after_run ''bkt'' es (Stored None) =
       Stored (Some [(ownerTagKey, ''uid-2''), (ownerNamespaceTagKey, ''ns'')]) \<and>
     es \<in> shuffles (new_events adopting_world (snd (claimOrVerifyOwnership untagged_env aws_manager adopting_world)))
       (new_events second_world (snd (claimOrVerifyOwnership untagged_env aws_manager second_world))) \<and>
     fst (claimOrVerifyOwnership untagged_env aws_manager adopting_world) = Inr () \<and>
     fst (claimOrVerifyOwnership untagged_env aws_manager second_world) = Inr ()"
proof -
  let ?err = "SdkErr (sdk_failure noSuchTagSetErrorCode)"
  obtain r1 v1 where one: "claimOrVerifyOwnership untagged_env aws_manager adopting_world = (r1, v1)" by fastforce
  obtain r2 v2 where two: "claimOrVerifyOwnership untagged_env aws_manager second_world = (r2, v2)" by fastforce
  have reads: "tags_answer untagged_env aws_manager w = Inl ?err" for w
    by (simp add: tags_answer_def untagged_env_def with_tags_def)
  have code: "api_error_code ?err = Some noSuchTagSetErrorCode" by (simp add: api_error_code_def sdk_failure_def)
  have adopt: "adoptBucketRequested (w_app adopting_world)" "adoptBucketRequested (w_app second_world)"
    by (simp_all add: adopting_world_def second_world_def adoptBucketRequested_def annotated_def smap_get_def
        sample_defs)
  have puts: "put_bucket_tagging (e_s3 untagged_env) h ''bkt'' ts = Inr ()" for h ts
    by (simp add: untagged_env_def with_tags_def sample_s3_def)
  have bucket: "m_bucket aws_manager = ''bkt''" by (simp add: aws_manager_def)
  have tags: "owner_tags (w_app second_world) = [(ownerTagKey, ''uid-2''), (ownerNamespaceTagKey, ''ns'')]"
    by (simp add: second_world_def owner_tags_def annotated_def sample_defs smap_get_def
        StorageOwnershipIDAnnotation_def AdoptBucketAnnotation_def)
  from racing_claims_both_succeed [OF bucket bucket reads code reads code adopt puts puts one two]
  show ?thesis using one two unfolding tags by auto
qed

section \<open>Access to a lost bucket\<close>

definition iam_calls :: "event list \<Rightarrow> iam_event list" where
  "iam_calls es = concat (map (\<lambda>e. case e of Iam i \<Rightarrow> [i] | _ \<Rightarrow> []) es)"

lemma iam_calls_none: "list_all (\<lambda>e. \<forall>i. e \<noteq> Iam i) es \<Longrightarrow> iam_calls es = []"
  by (auto simp: iam_calls_def list_all_iff split: event.splits)

lemma claim_without_iam: "emits (\<lambda>e. \<forall>i. e \<noteq> Iam i) (claimOrVerifyOwnership env m)"
proof -
  have tag: "emits (\<lambda>e. \<forall>i. e \<noteq> Iam i) (tagAsOwned env m ts)" for ts
    unfolding tagAsOwned_def s3_put_bucket_tagging_def by (intro emits_intros) simp
  have kube: "is_kube_read e \<Longrightarrow> \<forall>i. e \<noteq> Iam i" for e by (auto simp: is_kube_read_def)
  show ?thesis
    unfolding claimOrVerifyOwnership_def claimUntagged_def s3_get_bucket_tagging_def record_adopted_def
      record_reclaimed_def ask_previously_created_def
    by (intro emits_intros tag) (auto intro!: emits_intros tag dest: kube simp: emits_def)
qed

text \<open>A provisioning run that succeeds ends in granting the role access to the bucket.\<close>

lemma provisioned_run_grants:
  assumes "s3_ReconcileBucket env m w = (Inr arn, w')"
  shows "\<exists>h role. w_trace w' =
    h @ [Iam (PutRolePolicy role s3BucketAccessPolicyName (bucket_policy (m_bucket m)) (Inr ()))] \<and>
    role = irsaRoleName (w_app w')"
proof -
  obtain w1 where irsa: "ReconcileAppIRSA env m w1 = (Inr arn, w')"
    using assms unfolding s3_ReconcileBucket_def bindIO_Inr_iff wrapIO_Inr_iff by blast
  have keep: "w_app w' = w_app w1"
    using irsa by (auto simp: ReconcileAppIRSA_def iam_get_role_def iam_create_role_def iam_update_trust_def
        iam_put_role_policy_def io_simps Let_def split: sum.splits prod.splits if_splits)
  obtain x w2 where "bindIO (wrapIO (''failed to attach S3 bucket access policy to role '' @ irsaRoleName (w_app w1) @ '': '')
      (iam_put_role_policy env (irsaRoleName (w_app w1)) s3BucketAccessPolicyName (bucket_policy (m_bucket m))))
      (\<lambda>_. ret x) w2 = (Inr arn, w')"
    using irsa by (auto simp: ReconcileAppIRSA_def Let_def getApp_def bindIO_step [of getApp w1 "w_app w1" w1] bindIO_Inr_iff)
  then have "w_trace w' = w_trace w2 @
      [Iam (PutRolePolicy (irsaRoleName (w_app w1)) s3BucketAccessPolicyName (bucket_policy (m_bucket m)) (Inr ()))]"
    by (auto simp: iam_put_role_policy_def io_simps Let_def split: sum.splits)
  with keep show ?thesis by auto
qed

text \<open>
  C38: an Application that lost its bucket keeps the access to it. After a run of \<open>ReconcileBucket\<close>
  that succeeded, the last call granted its IAM role the bucket. A later run that finds the
  bucket tagged for another owner, whom it may not follow, is refused with \<open>ErrBucketNotOwned\<close>
  and writes to no bucket, but it makes no IAM call either, so the grant stays; at Akamai the same
  refusal deletes the access key.
\<close>

theorem lost_bucket_keeps_role:
  assumes "s3_ReconcileBucket env m w = (Inr arn, w1)"
    and "head_bucket (e_s3 env') (w_trace w2) (m_bucket m) = Inr ()"
    and "\<And>h. get_bucket_tagging (e_s3 env') h (m_bucket m) = Inr tagSet"
    and "scan_tag ownerTagKey tagSet = Some uid" and "uid \<noteq> app_uid (w_app w2)"
    and "ownership_id (w_app w2) = [] \<or> tag_or_empty ownershipIDTagKey tagSet \<noteq> ownership_id (w_app w2)"
    and "\<And>h. \<not> adoption_permitted env' h uid (tag_or_empty ownerNamespaceTagKey tagSet) (app_namespace (w_app w2))"
    and "s3_ReconcileBucket env' m w2 = (res, w3)"
  shows "(\<exists>h. w_trace w1 = h @ [Iam (PutRolePolicy (irsaRoleName (w_app w1)) s3BucketAccessPolicyName
       (bucket_policy (m_bucket m)) (Inr ()))]) \<and>
    (\<exists>err. res = Inl err \<and> errors_is err S3ErrBucketNotOwned) \<and>
    list_all (\<lambda>e. \<not> bucket_write e) (new_events w2 w3) \<and> iam_calls (new_events w2 w3) = []"
proof -
  let ?head = "S3 (HeadBucket (m_bucket m) (Inr ()))"
  let ?w = "w2\<lparr>w_trace := w_trace w2 @ [?head]\<rparr>"
  obtain r v where run: "claimOrVerifyOwnership env' m ?w = (r, v)" by fastforce
  have "tags_answer env' m ?w = Inr tagSet" by (simp add: tags_answer_def assms(3))
  from unpermitted_adoption_refused [OF this assms(4) _ _ _ run] assms(5-7)
  obtain e where e: "r = Inl e" "errors_is e S3ErrBucketNotOwned" and quiet: "list_all (\<lambda>e. \<not> bucket_write e) (new_events ?w v)"
    by auto
  have "s3_ReconcileBucket env' m w2 = (Inl (Errorf ''failed to ensure bucket exists: '' e []), v)"
    using run e assms(2)
    by (simp add: s3_ReconcileBucket_def ensureBucketExists_def s3_head_bucket_def call_def bindIO_def handleIO_def
        wrapIO_def fail_def ret_def Let_def)
  with assms(8) e have res: "res = Inl (Errorf ''failed to ensure bucket exists: '' e [])" "w3 = v" by simp_all
  have "new_events w2 w3 = ?head # new_events ?w v"
    using emits_trace [OF claim_without_iam run] res by (intro new_events_eq) simp
  with res e quiet iam_calls_none [OF emits_new_events [OF claim_without_iam run]] provisioned_run_grants [OF assms(1)]
  show ?thesis by (auto simp: iam_calls_def)
qed

lemma bucket_of_sample: "m_bucket aws_manager = ''bkt''"
  by (simp add: aws_manager_def)

theorem lost_bucket_keeps_role_witness:
  "\<exists>w1 w3 err h. s3_ReconcileBucket (with_tags (Inr own_tags)) aws_manager sample_world = (Inr ''arn'', w1) \<and>
     w_trace w1 = h @ [Iam (PutRolePolicy (irsaRoleName (w_app w1)) s3BucketAccessPolicyName (bucket_policy ''bkt'') (Inr ()))] \<and>
     s3_ReconcileBucket (with_tags (Inr foreign_tags)) aws_manager sample_world = (Inl err, w3) \<and>
     errors_is err S3ErrBucketNotOwned \<and> iam_calls (new_events sample_world w3) = []"
proof -
  let ?first = "s3_ReconcileBucket (with_tags (Inr own_tags)) aws_manager sample_world"
  have "fst ?first = Inr ''arn''" by code_simp
  then obtain w1 where one: "?first = (Inr ''arn'', w1)" using prod.collapse [of ?first] by metis
  obtain res w3 where two: "s3_ReconcileBucket (with_tags (Inr foreign_tags)) aws_manager sample_world = (res, w3)" by fastforce
  have "(\<exists>h. w_trace w1 = h @ [Iam (PutRolePolicy (irsaRoleName (w_app w1)) s3BucketAccessPolicyName
       (bucket_policy (m_bucket aws_manager)) (Inr ()))]) \<and>
    (\<exists>err. res = Inl err \<and> errors_is err S3ErrBucketNotOwned) \<and>
    list_all (\<lambda>e. \<not> bucket_write e) (new_events sample_world w3) \<and> iam_calls (new_events sample_world w3) = []"
    by (rule lost_bucket_keeps_role [OF one _ _ _ _ _ _ two, of foreign_tags "''uid-2''"])
       (simp_all add: with_tags_def s3_sample_defs scan_tag_Cons adoption_permitted_def tag_or_empty_def
         grant_allows_def Let_def smap_get_def)
  with two one bucket_of_sample show ?thesis by auto
qed

end
