(* ===== verification/Spec2Isabelle.thy ===== *)
theory Spec2Isabelle
  imports Json_Codec Naming_Properties S3_Properties Akamai_Properties Tenancy Children_Properties Webhook_Properties
    Finalizer_Properties Status_Properties Storage_Properties Controller_Properties Pass_Properties
    Trigger_Properties Metric_Properties Manager_Properties Deep_Copy_Properties Object_Client Scheme_Setup
    Desired_State Claim_Race
begin

text \<open>
  A model of Forge Operator, a Kubernetes operator in Go that turns one \<open>Application\<close> resource
  into a Deployment with its Service, ConfigMap, ServiceAccount, Ingress, disruption budget and
  autoscaler, and into a bucket at AWS S3 or Akamai Object Storage with the credentials for it.

  \<^bold>\<open>The program and its parts.\<close> A pass of the controller (\<open>Reconcile\<close>) reads the Application,
  writes its progress to the status, adds the finalizer or runs it, brings every owned object and
  the bucket to the desired state and reports the readiness of the result. The bucket is claimed
  through an owner record, which is a set of tags at AWS and a marker object at Akamai; the
  packages \<open>s3\<close> and \<open>akamaiobjstr\<close> hold the same protocol for the two. The webhook defaults and
  validates the resource before the API server stores it. \<open>cmd/main.go\<close> reads flags and environment,
  configures the manager, the rate limiters of the outgoing calls and tracing, and registers the
  controller with the watches that wake it. Go source is under
  \<open>src/internal/controller\<close> unless another place is named.

  \<^bold>\<open>State and effects.\<close> \<open>Forge_World\<close> and \<open>Forge_IO\<close>: a \<open>world\<close> is the in-memory object that
  the Go functions share by pointer and the history of all calls made so far with their answers.
  A Go function is a function from a world to a result (\<open>Inl\<close> an error, \<open>Inr\<close> a value) and a world;
  \<open>bindIO\<close>, \<open>handleIO\<close> and \<open>wrapIO\<close> are \<open>if err != nil\<close> with its three usual bodies. Every service
  (the API server with its reader and its cache, S3, IAM, the Linode API and its object endpoint)
  and every library function is a parameter in the record \<open>env\<close>, and a service may answer
  differently at each point of the history, so a property that holds of every \<open>env\<close> holds under
  all failures, all conflicts and all changes that others make between two calls.

  \<^bold>\<open>Theories and code.\<close>
  \<^item> \<open>Go_Prelude\<close>, \<open>Go_Sha256\<close>, \<open>Go_Error\<close>: strings, durations, maps; SHA-256 on 32-bit words with
    \<open>hex.EncodeToString\<close>; error values with \<open>errors.Is\<close> and \<open>errors.As\<close> along the \<open>%w\<close> chain.
    \<open>Go_Float\<close>: \<open>float64\<close> as exact rationals, every operation rounded to the nearest with ties to
    even, subnormals included. \<open>Go_Strconv\<close>: \<open>strconv.Atoi\<close>, \<open>strconv.ParseFloat\<close> and
    \<open>time.ParseDuration\<close> on it.
  \<^item> \<open>Crd_Types\<close>: \<open>api/v1alpha1/application_types.go\<close>. \<open>Kube_Objects\<close>: the owned objects as far
    as the builders fill them. \<open>Go_Heap\<close>, \<open>Deep_Copy\<close>: \<open>api/v1alpha1/zz_generated.deepcopy.go\<close> on a
    store of cells, with pointers, slices and maps as addresses; the other theories take a deep
    copy for the value itself, which is what the property of \<open>Deep_Copy_Properties\<close> justifies.
    \<open>Scheme_Setup\<close>: \<open>api/v1alpha1/groupversion_info.go\<close> and the two \<open>init\<close> functions.
  \<^item> \<open>Naming\<close>: \<open>naming/naming.go\<close>. \<open>Error_Class\<close>: \<open>errorclass.go\<close>. \<open>Conditions\<close>:
    \<open>storagestatus/storagestatus.go\<close> and the status retry of \<open>storage.go\<close>.
  \<^item> \<open>Ownership\<close>: the abstract ownership protocol and the contracts of its two implementations as
    locales. \<open>S3_Manager\<close> and \<open>S3_Cleanup\<close>: \<open>s3/client.go\<close>, \<open>s3/desireds3.go\<close>, \<open>s3/cleanup.go\<close>.
    \<open>Json_Codec\<close>, \<open>Akamai_Manager\<close> and \<open>Akamai_Cleanup\<close>: the JSON document of the marker,
    \<open>akamaiobjstr/client.go\<close>, \<open>akamaiobjstr/obj_storage.go\<close>, \<open>akamaiobjstr/cleanup.go\<close>;
    \<open>Object_Client\<close>: the S3 client for the cluster of a bucket.
  \<^item> \<open>Children\<close> and \<open>Deployment\<close>: \<open>serviceaccount.go\<close>, \<open>configmap.go\<close>, \<open>service.go\<close>, \<open>secret.go\<close>,
    \<open>ingress.go\<close>, \<open>pdb.go\<close>, \<open>hpa.go\<close>, \<open>deployment.go\<close>, under one locale for what each reconciler
    of an owned object promises.
  \<^item> \<open>Status_Manager\<close>: the package \<open>status\<close>. \<open>Finalizer\<close>: \<open>finalizer.go\<close>. \<open>Storage_Reconcile\<close>:
    \<open>storage.go\<close>. \<open>Controller\<close>: \<open>desiredstate.go\<close>, \<open>application_controller.go\<close>. \<open>Predicates\<close>:
    \<open>predicates.go\<close>. \<open>Webhook\<close>: \<open>internal/webhook/v1alpha1/application_webhook.go\<close>. \<open>Rate_Limit\<close>:
    the package \<open>ratelimit\<close>. \<open>Observability\<close>: the package \<open>observability\<close>. \<open>Watches\<close>:
    \<open>SetupWithManager\<close>. \<open>Manager\<close>: \<open>cmd/main.go\<close>.
  \<^item> \<open>Sample_Env\<close>: a concrete environment at which the properties are applied.

  \<^bold>\<open>What the properties show.\<close>
  \<^item> Ownership (\<open>S3_Properties\<close>, \<open>Akamai_Properties\<close>, \<open>Naming_Properties\<close>): the two claims are one
    protocol; a bucket is claimed only by an entitled Application and a takeover needs exactly the
    documented permission; what is written is what a later check accepts, byte for byte through
    JSON; foreign buckets are refused, foreign tags are kept, nothing is deleted before the owner
    record was read and allowed it. \<open>Tenancy\<close> composes these runs: a step relation over what S3
    stores of one bucket, in whose reachable states the bucket stays with its tenant. Its steps
    are whole runs. \<open>Claim_Race\<close> interleaves the calls of two runs, by what S3 stored at each
    point, and shows what the unconditional write does not exclude.
  \<^item> Deletion (\<open>Finalizer_Properties\<close>, \<open>Pass_Properties\<close>): the finalizer is released only after the
    cleanup succeeded, \<open>Retain\<close> is honoured and cannot block, a foreign bucket blocks.
  \<^item> Passes (\<open>Controller_Properties\<close>, \<open>Desired_State\<close>, \<open>Pass_Properties\<close>, \<open>Storage_Properties\<close>,
    \<open>Status_Properties\<close>): a pass without error applied exactly the desired objects, in order,
    and removed those that are switched off;
    no bucket is written before the finalizer is on the server, no pass that succeeds leaves an
    unready Application unwatched, readiness is reported exactly when it is there, status writes
    end, creation time and ownership ID are recorded once.
  \<^item> Wake-up (\<open>Trigger_Properties\<close>, \<open>Watches\<close>): no write of a pass to its own Application passes the
    watch predicate, so the controller does not wake itself; drift of any object it applies does.
  \<^item> Operation (\<open>Manager_Properties\<close>, \<open>Rate_Limit\<close>, \<open>Metric_Properties\<close>): every environment gives
    settings in bounds; the process runs the manager exactly when all steps before it succeeded; a
    ramp-up climbs to its target and never overshoots, through every rounding; an Application that
    is released leaves no ready series in the registry.
  \<^item> Copies (\<open>Deep_Copy_Properties\<close>): a deep copy stands for the same value and shares no cell
    with the original, so writes through one do not show in the other.
  \<^item> Objects and admission (\<open>Children_Properties\<close>, \<open>Webhook_Properties\<close>): the owned objects fit
    together and are valid, stale ones are deleted only when owned, an update is rejected for
    exactly the documented reasons, defaulting is transparent.
  \<^item> Some properties state what the code does although it seems unintended: a second cleanup of
    an emptied Akamai bucket is refused, the record of a creation loses the deletion policy,
    writing down the default region cleans up the bucket, renaming the ConfigMap deletes the one
    in use, names of different Applications can coincide, tags can be sent twice, disabled objects
    are deleted by name, every pass withdraws \<open>Ready\<close>, a refused wait is not labelled a timeout,
    a limit of \<open>NaN\<close> passes the floor, events of a user's Secret never arrive, the storage gauge of
    an Application whose storage was never provisioned outlives it, two Applications that claim
    an untagged bucket at once both go on as its owner, an Application keeps the IAM access to an
    AWS bucket it has lost.

  \<^bold>\<open>Proof technique.\<close> Calculi with one rule per combinator carry most proofs: \<open>emits\<close> (every event
  satisfies a predicate), \<open>emits_as\<close> (relative to the in-memory object), \<open>keeps_app\<close>,
  \<open>never_fails\<close>, \<open>always_fails\<close>, \<open>guarded_io\<close> (no destructive event before an event that is evidence),
  \<open>writes_at_most\<close>, \<open>learns\<close> and \<open>echoes\<close> (the in-memory object and its copies agree with an object
  the server showed).

  \<^bold>\<open>Hypotheses.\<close> \<open>retry_contract\<close> (and \<open>retry_attempts\<close>): \<open>retry.RetryOnConflict\<close> repeats its
  function while that returns a conflict and gives up after some number of attempts.
  \<open>condition_contract\<close>: \<open>meta.SetStatusCondition\<close> and \<open>meta.RemoveStatusCondition\<close>. Both are
  documented behaviour, and \<open>sample_lib\<close> satisfies them. \<open>kube_copies\<close>: \<open>DeepCopyInto\<close> of the structs
  of the Kubernetes libraries, satisfied by \<open>plain_lib\<close>. \<open>builder_contract\<close> and
  \<open>known_types_contract\<close>: schemes and their builders, satisfied by \<open>listed_scheme\<close>.

  \<^bold>\<open>Bounds and fuel.\<close> A listing has as many pages as the service has at that moment, a number the
  environment gives, and the loops over pages recurse on it. The retries recurse on the number of
  attempts of the contract. The loop of \<open>RampUp\<close> recurses on its steps. The JSON parser recurses
  on fuel of the length of its input, of which every step of the parser consumes a character, so
  it never runs out. All other recursion is structural.

  \<^bold>\<open>Not modelled.\<close> Logging and spans, and the times that histograms observe: an observation is an
  event without its value. Contexts and their deadlines, which show only as errors of the calls.
  The construction of HTTP clients, \<open>flag.Parse\<close>, and the registration of the webhook with the
  manager beyond its being a step of the start-up. What lies outside the repository is a
  parameter: the token bucket behind a limiter, the Prometheus registry, the OpenTelemetry SDK
  and controller-runtime's manager, cache and queue. Validation by CEL rules and defaults in the
  CRD, which the API server applies. The conversion of a \<open>float64\<close> that is out of range to
  \<open>int\<close>, which Go leaves open, is a parameter of \<open>RampUp\<close>.
\<close>

end
